(* ===== verification/Prelude.thy ===== *)
theory Prelude
  imports Main "HOL-Library.Word" "HOL-Library.Sublist"
begin

text \<open>
  Shared vocabulary of the development.

  \<^item> \<open>bytes\<close> (\<open>Vec<u8>\<close>, \<open>&[u8]\<close>, \<open>[u8; N]\<close>) are lists of 8-bit words; a Rust \<open>String\<close> is an
    Isabelle \<open>string\<close> whose characters are the UTF-8 bytes of the Rust string.
  \<^item> A \<open>DateTime<Utc>\<close> is an \<open>instant\<close> and a \<open>chrono::Duration\<close> a \<open>duration\<close>, both counted in
    nanoseconds.
  \<^item> \<open>Result<T, E>\<close> is \<open>'e + 'a\<close> (\<open>Inl\<close> is \<open>Err\<close>); \<open>rbind\<close> is the \<open>?\<close> operator and \<open>ensure\<close>
    the guard \<open>if !cond { return Err(e) }\<close>.
  \<^item> A method with effects on a state \<open>'s\<close> is a function \<open>'s \<Rightarrow> ('e + 'a) \<times> 's\<close>: an error keeps the
    effects performed before it, as an early return in the source does.  \<open>sbind\<close> is \<open>?\<close> there.
\<close>

named_theorems result_simps "inversion and evaluation rules of the result combinators"
named_theorems effect_simps "inversion and evaluation rules of the stateful combinators"
named_theorems wire_simps "length and slicing rules of the binary wire formats"

type_synonym byte = "8 word"
type_synonym bytes = "byte list"
type_synonym uuid = bytes
type_synonym instant = int
type_synonym duration = int
type_synonym ('s, 'e, 'a) effect = "'s \<Rightarrow> ('e + 'a) \<times> 's"

section \<open>Results\<close>

fun rbind :: "'e + 'a \<Rightarrow> ('a \<Rightarrow> 'e + 'b) \<Rightarrow> 'e + 'b" where
  "rbind (Inl e) f = Inl e"
| "rbind (Inr x) f = f x"

definition ensure :: "bool \<Rightarrow> 'e \<Rightarrow> 'e + unit" where
  "ensure b e = (if b then Inr () else Inl e)"

fun ok_or :: "'e \<Rightarrow> 'a option \<Rightarrow> 'e + 'a" where
  "ok_or e None = Inl e"
| "ok_or e (Some x) = Inr x"

fun map_err :: "('e \<Rightarrow> 'f) \<Rightarrow> 'e + 'a \<Rightarrow> 'f + 'a" where
  "map_err g (Inl e) = Inl (g e)"
| "map_err g (Inr x) = Inr x"

fun is_ok :: "'e + 'a \<Rightarrow> bool" where
  "is_ok (Inl e) = False"
| "is_ok (Inr x) = True"

fun collect_results :: "('e + 'a) list \<Rightarrow> 'e + 'a list" where
  "collect_results [] = Inr []"
| "collect_results (r # rs) =
     rbind r (\<lambda>x. rbind (collect_results rs) (\<lambda>xs. Inr (x # xs)))"

section \<open>Effects\<close>

definition sret :: "'a \<Rightarrow> ('s, 'e, 'a) effect" where
  "sret x s = (Inr x, s)"

definition sfail :: "'e \<Rightarrow> ('s, 'e, 'a) effect" where
  "sfail e s = (Inl e, s)"

definition sbind :: "('s, 'e, 'a) effect \<Rightarrow> ('a \<Rightarrow> ('s, 'e, 'b) effect) \<Rightarrow> ('s, 'e, 'b) effect" where
  "sbind m f s = (case m s of (Inl e, t) \<Rightarrow> (Inl e, t) | (Inr x, t) \<Rightarrow> f x t)"

definition slift :: "'e + 'a \<Rightarrow> ('s, 'e, 'a) effect" where
  "slift r s = (r, s)"

definition sget :: "('s \<Rightarrow> 'a) \<Rightarrow> ('s, 'e, 'a) effect" where
  "sget f s = (Inr (f s), s)"

definition smap_err :: "('e \<Rightarrow> 'f) \<Rightarrow> ('s, 'e, 'a) effect \<Rightarrow> ('s, 'f, 'a) effect" where
  "smap_err g m s = (case m s of (r, t) \<Rightarrow> (map_err g r, t))"

text \<open>\<open>szoom\<close> runs an effect of a component on the part of a larger state that holds the component.
  \<open>stop\<close> is the error type where a call can also end by a panic or wait forever.\<close>

definition szoom :: "('b \<Rightarrow> 's) \<Rightarrow> ('s \<Rightarrow> 'b \<Rightarrow> 'b) \<Rightarrow> ('s, 'e, 'a) effect \<Rightarrow> ('b, 'e, 'a) effect" where
  "szoom get put m b = (case m (get b) of (r, s) \<Rightarrow> (r, put s b))"

datatype 'e stop = Fail 'e | Panic | Hang

section \<open>Rules of the result combinators\<close>

lemma rbind_Inr_iff [result_simps]: "rbind r f = Inr y \<longleftrightarrow> (\<exists>x. r = Inr x \<and> f x = Inr y)"
  by (cases r) auto

lemma rbind_Inl_iff: "rbind r f = Inl e \<longleftrightarrow> r = Inl e \<or> (\<exists>x. r = Inr x \<and> f x = Inl e)"
  by (cases r) auto

lemma rbind_assoc: "rbind (rbind r f) g = rbind r (\<lambda>x. rbind (f x) g)"
  by (cases r) auto

lemma rbind_Inr [simp]: "rbind r Inr = r"
  by (cases r) auto

lemma ensure_simps [simp]: "ensure True e = Inr ()" "ensure False e = Inl e"
  by (simp_all add: ensure_def)

lemma ensure_Inr_iff [result_simps]: "ensure b e = Inr u \<longleftrightarrow> b"
  by (simp add: ensure_def)

lemma ensure_Inl_iff [result_simps]: "ensure b e = Inl f \<longleftrightarrow> \<not> b \<and> f = e"
  by (auto simp: ensure_def)

lemma ok_or_Inr_iff [result_simps]: "ok_or e v = Inr x \<longleftrightarrow> v = Some x"
  by (cases v) auto

lemma ok_or_Inl_iff [result_simps]: "ok_or e v = Inl f \<longleftrightarrow> v = None \<and> f = e"
  by (cases v) auto

lemma map_err_Inr_iff [result_simps]: "map_err g r = Inr x \<longleftrightarrow> r = Inr x"
  by (cases r) auto

lemma map_err_Inl_iff [result_simps]: "map_err g r = Inl f \<longleftrightarrow> (\<exists>e. r = Inl e \<and> f = g e)"
  by (cases r) auto

lemma is_ok_iff [result_simps]: "is_ok r \<longleftrightarrow> (\<exists>x. r = Inr x)"
  by (cases r) auto

lemma collect_results_Inr_iff [result_simps]:
  "collect_results rs = Inr xs \<longleftrightarrow> list_all2 (\<lambda>r x. r = Inr x) rs xs"
  by (induction rs arbitrary: xs) (auto simp: rbind_Inr_iff list_all2_Cons1)

lemma collect_results_map_Inr [simp]: "collect_results (map (\<lambda>x. Inr (f x)) xs) = Inr (map f xs)"
  by (induction xs) auto

section \<open>Rules of the effect combinators\<close>

lemma sbind_Inr_iff [effect_simps]:
  "sbind m f s = (Inr y, u) \<longleftrightarrow> (\<exists>x t. m s = (Inr x, t) \<and> f x t = (Inr y, u))"
  by (cases "m s"; cases "fst (m s)") (auto simp: sbind_def)

lemma sbind_Inl_iff:
  "sbind m f s = (Inl e, u) \<longleftrightarrow>
     m s = (Inl e, u) \<or> (\<exists>x t. m s = (Inr x, t) \<and> f x t = (Inl e, u))"
  by (cases "m s"; cases "fst (m s)") (auto simp: sbind_def)

lemma sbind_step:
  "m s = (Inr x, t) \<Longrightarrow> sbind m f s = f x t"
  "m s = (Inl e, t) \<Longrightarrow> sbind m f s = (Inl e, t)"
  by (simp_all add: sbind_def)

lemma slift_iff [effect_simps]: "slift r s = (q, t) \<longleftrightarrow> r = q \<and> s = t"
  by (simp add: slift_def)

lemma sret_iff [effect_simps]: "sret x s = (q, t) \<longleftrightarrow> q = Inr x \<and> s = t"
  by (auto simp: sret_def)

lemma sfail_iff [effect_simps]: "sfail e s = (q, t) \<longleftrightarrow> q = Inl e \<and> s = t"
  by (auto simp: sfail_def)

lemma sget_iff [effect_simps]: "sget f s = (q, t) \<longleftrightarrow> q = Inr (f s) \<and> s = t"
  by (auto simp: sget_def)

lemma smap_err_Inr_iff [effect_simps]: "smap_err g m s = (Inr x, t) \<longleftrightarrow> m s = (Inr x, t)"
  by (auto simp: smap_err_def result_simps split: prod.splits)

lemma smap_err_Inl_iff [effect_simps]:
  "smap_err g m s = (Inl f, t) \<longleftrightarrow> (\<exists>e. m s = (Inl e, t) \<and> f = g e)"
  by (auto simp: smap_err_def result_simps split: prod.splits)

lemma szoom_iff [effect_simps]:
  "szoom get put m b = (q, c) \<longleftrightarrow> (\<exists>s. m (get b) = (q, s) \<and> c = put s b)"
  by (auto simp: szoom_def split: prod.splits)

lemma sbind_slift [simp]: "sbind (slift (Inr x)) f = f x" "sbind (slift (Inl e)) f = sfail e"
  by (simp_all add: fun_eq_iff sbind_def slift_def sfail_def)

lemma sbind_sret [simp]: "sbind (sret x) f = f x"
  by (simp add: fun_eq_iff sbind_def sret_def)

lemma sbind_sget [simp]: "sbind (sget g) f s = f (g s) s"
  by (simp add: sbind_def sget_def)

text \<open>An effect that keeps a state predicate, whatever it returns; the rule composes along \<open>?\<close>.\<close>

definition keeps :: "('s \<Rightarrow> bool) \<Rightarrow> ('s, 'e, 'a) effect \<Rightarrow> bool" where
  "keeps P m \<longleftrightarrow> (\<forall>s r t. P s \<longrightarrow> m s = (r, t) \<longrightarrow> P t)"

lemma keepsD: "keeps P m \<Longrightarrow> P s \<Longrightarrow> m s = (r, t) \<Longrightarrow> P t"
  by (auto simp: keeps_def)

lemma keeps_snd: "keeps P m \<Longrightarrow> P s \<Longrightarrow> P (snd (m s))"
  by (cases "m s") (auto dest: keepsD)

lemma keeps_sret [simp, intro]: "keeps P (sret x)"
  by (auto simp: keeps_def sret_def)

lemma keeps_sfail [simp, intro]: "keeps P (sfail e)"
  by (auto simp: keeps_def sfail_def)

lemma keeps_slift [simp, intro]: "keeps P (slift r)"
  by (auto simp: keeps_def slift_def)

lemma keeps_sget [simp, intro]: "keeps P (sget f)"
  by (auto simp: keeps_def sget_def)

lemma keeps_sbind [intro]:
  assumes "keeps P m" and "\<And>x. keeps P (f x)"
  shows "keeps P (sbind m f)"
proof (unfold keeps_def, intro allI impI)
  fix s r t assume "P s" and run: "sbind m f s = (r, t)"
  obtain q u where mu: "m s = (q, u)" by fastforce
  with assms(1) \<open>P s\<close> have "P u" by (auto dest: keepsD)
  with mu run assms(2) show "P t" by (cases q) (auto simp: sbind_def dest: keepsD)
qed

lemma keeps_smap_err [intro]: "keeps P m \<Longrightarrow> keeps P (smap_err g m)"
  unfolding keeps_def smap_err_def by (auto split: prod.splits)

section \<open>Lists and options\<close>

lemma find_SomeD: "find P xs = Some x \<Longrightarrow> x \<in> set xs \<and> P x"
  by (auto simp: find_Some_iff)

lemma take_drop_append_mid [wire_simps]:
  "length xs = n \<Longrightarrow> length ys = m \<Longrightarrow> take m (drop n (xs @ ys @ zs)) = ys"
  by simp

end
