(* ===== verification/Rust_Std.thy ===== *)
theory Rust_Std
  imports Prelude
begin

text \<open>
  The parts of the Rust standard library the broker relies on, as executable functions:
  \<open>String\<close>/\<open>&str\<close> (bytes, UTF-8 validation, \<open>split_once\<close>, \<open>strip_prefix\<close>, \<open>trim\<close>, integer
  parsing and printing) and the little-endian integer encodings \<open>to_le_bytes\<close>/\<open>from_le_bytes\<close>.
\<close>

section \<open>Strings as UTF-8 bytes\<close>

definition char_byte :: "char \<Rightarrow> byte" where
  "char_byte c = word_of_nat (of_char c)"

definition byte_char :: "byte \<Rightarrow> char" where
  "byte_char b = char_of (unat b)"

definition as_bytes :: "string \<Rightarrow> bytes" where
  "as_bytes s = map char_byte s"

definition utf8_cont :: "nat \<Rightarrow> bool" where
  "utf8_cont b \<longleftrightarrow> 128 \<le> b \<and> b \<le> 191"

text \<open>\<open>utf8_len2 a\<close>, \<open>utf8_second a b\<close> and \<open>utf8_more a\<close> are the rows of the table of well-formed
  byte sequences of the Unicode standard: the lead bytes of two-byte sequences, the admissible
  second byte after a lead byte of a longer sequence, and the number of further bytes.\<close>

definition utf8_len2 :: "nat \<Rightarrow> bool" where
  "utf8_len2 a \<longleftrightarrow> 194 \<le> a \<and> a \<le> 223"

definition utf8_second3 :: "nat \<Rightarrow> nat \<Rightarrow> bool" where
  "utf8_second3 a b \<longleftrightarrow>
     (a = 224 \<and> 160 \<le> b \<and> b \<le> 191) \<or>
     (a = 237 \<and> 128 \<le> b \<and> b \<le> 159) \<or>
     (225 \<le> a \<and> a \<le> 239 \<and> a \<noteq> 237 \<and> utf8_cont b)"

definition utf8_second4 :: "nat \<Rightarrow> nat \<Rightarrow> bool" where
  "utf8_second4 a b \<longleftrightarrow>
     (a = 240 \<and> 144 \<le> b \<and> b \<le> 191) \<or>
     (a = 244 \<and> 128 \<le> b \<and> b \<le> 143) \<or>
     (241 \<le> a \<and> a \<le> 243 \<and> utf8_cont b)"

fun utf8_valid :: "nat list \<Rightarrow> bool" where
  "utf8_valid [] = True"
| "utf8_valid (a # r) =
    (if a < 128 then utf8_valid r
     else if utf8_len2 a then
       (case r of b # r2 \<Rightarrow> utf8_cont b \<and> utf8_valid r2 | [] \<Rightarrow> False)
     else if a < 240 then
       (case r of b # c # r3 \<Rightarrow> utf8_second3 a b \<and> utf8_cont c \<and> utf8_valid r3 | _ \<Rightarrow> False)
     else
       (case r of b # c # d # r4 \<Rightarrow> utf8_second4 a b \<and> utf8_cont c \<and> utf8_cont d \<and> utf8_valid r4
        | _ \<Rightarrow> False))"

definition from_utf8 :: "bytes \<Rightarrow> string option" where
  "from_utf8 bs = (if utf8_valid (map unat bs) then Some (map byte_char bs) else None)"

definition wf_str :: "string \<Rightarrow> bool" where
  "wf_str s \<longleftrightarrow> utf8_valid (map of_char s)"

section \<open>Scanning\<close>

fun split_once :: "string \<Rightarrow> string \<Rightarrow> (string \<times> string) option" where
  "split_once pat [] = (if pat = [] then Some ([], []) else None)"
| "split_once pat (c # cs) =
    (if prefix pat (c # cs) then Some ([], drop (length pat) (c # cs))
     else map_option (\<lambda>(a, b). (c # a, b)) (split_once pat cs))"

definition strip_prefix :: "string \<Rightarrow> string \<Rightarrow> string option" where
  "strip_prefix pat s = (if prefix pat s then Some (drop (length pat) s) else None)"

definition ascii_lower :: "char \<Rightarrow> char" where
  "ascii_lower c = (if 65 \<le> (of_char c :: nat) \<and> (of_char c :: nat) \<le> 90 then char_of (of_char c + 32 :: nat) else c)"

definition to_ascii_lowercase :: "string \<Rightarrow> string" where
  "to_ascii_lowercase s = map ascii_lower s"

text \<open>Length in bytes of the whitespace character (Unicode \<open>White_Space\<close>) at the front of a
  string, and of the one at the end when the string is reversed; 0 when there is none.\<close>

definition ascii_ws :: "nat \<Rightarrow> bool" where
  "ascii_ws a \<longleftrightarrow> (9 \<le> a \<and> a \<le> 13) \<or> a = 32"

definition ws3 :: "nat \<Rightarrow> nat \<Rightarrow> nat \<Rightarrow> bool" where
  "ws3 a b c \<longleftrightarrow>
     (a = 225 \<and> b = 154 \<and> c = 128) \<or>
     (a = 226 \<and> b = 128 \<and> (128 \<le> c \<and> c \<le> 138 \<or> c = 168 \<or> c = 169 \<or> c = 175)) \<or>
     (a = 226 \<and> b = 129 \<and> c = 159) \<or>
     (a = 227 \<and> b = 128 \<and> c = 128)"

fun ws_len :: "nat list \<Rightarrow> nat" where
  "ws_len [] = 0"
| "ws_len (a # r) =
    (if ascii_ws a then 1
     else case r of
       [] \<Rightarrow> 0
     | b # r2 \<Rightarrow>
         if a = 194 \<and> (b = 133 \<or> b = 160) then 2
         else (case r2 of [] \<Rightarrow> 0 | c # _ \<Rightarrow> if ws3 a b c then 3 else 0))"

fun ws_len_rev :: "nat list \<Rightarrow> nat" where
  "ws_len_rev [] = 0"
| "ws_len_rev (a # r) =
    (if ascii_ws a then 1
     else case r of
       [] \<Rightarrow> 0
     | b # r2 \<Rightarrow>
         if b = 194 \<and> (a = 133 \<or> a = 160) then 2
         else (case r2 of [] \<Rightarrow> 0 | c # _ \<Rightarrow> if ws3 c b a then 3 else 0))"

function strip_ws :: "(nat list \<Rightarrow> nat) \<Rightarrow> string \<Rightarrow> string" where
  "strip_ws w s =
    (if s = [] \<or> w (map of_char s) = 0 then s else strip_ws w (drop (w (map of_char s)) s))"
  by pat_completeness auto
termination
  by (relation "measure (\<lambda>(w, s). length s)") auto

declare strip_ws.simps [simp del]

definition trim :: "string \<Rightarrow> string" where
  "trim s = rev (strip_ws ws_len_rev (rev (strip_ws ws_len s)))"

section \<open>Integers in text\<close>

definition digit_char :: "nat \<Rightarrow> char" where
  "digit_char d = char_of (48 + d)"

fun show_nat :: "nat \<Rightarrow> string" where
  "show_nat n = (if n < 10 then [digit_char n] else show_nat (n div 10) @ [digit_char (n mod 10)])"

declare show_nat.simps [simp del]

fun show_int :: "int \<Rightarrow> string" where
  "show_int i = (if i < 0 then CHR ''-'' # show_nat (nat (- i)) else show_nat (nat i))"

definition char_digit :: "char \<Rightarrow> nat option" where
  "char_digit c =
    (if 48 \<le> (of_char c :: nat) \<and> (of_char c :: nat) \<le> 57 then Some (of_char c - 48) else None)"

fun parse_digits :: "nat \<Rightarrow> string \<Rightarrow> nat option" where
  "parse_digits acc [] = Some acc"
| "parse_digits acc (c # cs) =
    (case char_digit c of None \<Rightarrow> None | Some d \<Rightarrow> parse_digits (10 * acc + d) cs)"

text \<open>\<open>str::parse::<uN>\<close> with \<open>uN::MAX = m\<close>: an optional sign \<open>+\<close>, at least one decimal digit, and
  an error on overflow.\<close>

definition parse_uint :: "nat \<Rightarrow> string \<Rightarrow> nat option" where
  "parse_uint m s =
    (let ds = (case s of [] \<Rightarrow> [] | c # cs \<Rightarrow> if c = CHR ''+'' then cs else s)
     in if ds = [] then None
        else case parse_digits 0 ds of None \<Rightarrow> None | Some n \<Rightarrow> if n \<le> m then Some n else None)"

section \<open>Little-endian integers\<close>

primrec nat_le :: "nat \<Rightarrow> nat \<Rightarrow> bytes" where
  "nat_le 0 n = []"
| "nat_le (Suc k) n = word_of_nat (n mod 256) # nat_le k (n div 256)"

fun le_nat :: "bytes \<Rightarrow> nat" where
  "le_nat [] = 0"
| "le_nat (b # bs) = unat b + 256 * le_nat bs"

definition u16_to_le_bytes :: "16 word \<Rightarrow> bytes" where
  "u16_to_le_bytes w = nat_le 2 (unat w)"

definition u16_from_le_bytes :: "byte \<Rightarrow> byte \<Rightarrow> 16 word" where
  "u16_from_le_bytes a b = word_of_nat (le_nat [a, b])"

definition i64_to_le_bytes :: "64 word \<Rightarrow> bytes" where
  "i64_to_le_bytes w = nat_le 8 (unat w)"

definition i64_from_le_bytes :: "bytes \<Rightarrow> 64 word" where
  "i64_from_le_bytes bs = word_of_nat (le_nat bs)"

section \<open>Facts about strings\<close>

lemma unat_bounded: "unat (w :: 'a :: len word) < 2 ^ LENGTH('a)"
  by (fact unsigned_less)

lemma byte_char_char_byte [simp]: "byte_char (char_byte c) = c"
  by (simp add: byte_char_def char_byte_def unat_of_nat)

lemma char_byte_byte_char [simp]: "char_byte (byte_char b) = b"
proof -
  have "unat b < 256" using unat_bounded [of b] by simp
  then show ?thesis by (simp add: byte_char_def char_byte_def)
qed

lemma unat_char_byte [simp]: "unat (char_byte c) = of_char c"
  by (simp add: char_byte_def unat_of_nat)

lemma of_char_byte_char [simp]: "of_char (byte_char b) = unat b"
  using unat_char_byte [of "byte_char b"] by simp

lemma length_as_bytes [simp]: "length (as_bytes s) = length s"
  by (simp add: as_bytes_def)

lemma as_bytes_append [simp]: "as_bytes (s @ t) = as_bytes s @ as_bytes t"
  by (simp add: as_bytes_def)

lemma as_bytes_inject [simp]: "as_bytes s = as_bytes t \<longleftrightarrow> s = t"
proof
  assume "as_bytes s = as_bytes t"
  then have "map byte_char (as_bytes s) = map byte_char (as_bytes t)" by simp
  then show "s = t" by (simp add: as_bytes_def comp_def)
qed simp

lemma from_utf8_as_bytes [simp]: "from_utf8 (as_bytes s) = (if wf_str s then Some s else None)"
  by (simp add: from_utf8_def wf_str_def as_bytes_def comp_def)

lemma from_utf8_Some: "from_utf8 bs = Some s \<Longrightarrow> bs = as_bytes s \<and> wf_str s"
  by (auto simp: from_utf8_def wf_str_def as_bytes_def comp_def split: if_splits)

lemma utf8_valid_append: "utf8_valid xs \<Longrightarrow> utf8_valid (xs @ ys) = utf8_valid ys"
  by (induction xs rule: utf8_valid.induct) (auto split: if_splits list.splits)

lemma wf_str_append [simp]: "wf_str s \<Longrightarrow> wf_str (s @ t) = wf_str t"
  by (simp add: wf_str_def utf8_valid_append)

lemma wf_str_Nil [simp]: "wf_str []"
  by (simp add: wf_str_def)

lemma wf_str_ascii: "list_all (\<lambda>c. (of_char c :: nat) < 128) s \<Longrightarrow> wf_str s"
  by (induction s) (auto simp: wf_str_def)

section \<open>Facts about scanning\<close>

lemma split_once_Some:
  "split_once pat s = Some (a, b) \<Longrightarrow> s = a @ pat @ b"
  by (induction pat s arbitrary: a rule: split_once.induct)
     (auto simp: prefix_def split: if_splits)

lemma split_once_first:
  assumes "split_once pat (s @ pat) = Some (s, [])" and "pat \<noteq> []"
  shows "split_once pat (s @ pat @ b) = Some (s, b)"
  using assms
proof (induction s)
  case Nil
  then show ?case by (cases pat) auto
next
  case (Cons c s)
  have "\<not> prefix pat (c # s @ pat @ b)"
  proof
    assume "prefix pat (c # s @ pat @ b)"
    moreover have "prefix (c # s @ pat) (c # s @ pat @ b)" by simp
    ultimately have "prefix pat (c # s @ pat)"
      by (rule prefix_length_prefix) simp
    then show False using Cons.prems by auto
  qed
  moreover have "split_once pat (s @ pat) = Some (s, [])"
    using Cons.prems by (auto split: if_splits)
  ultimately show ?case using Cons by simp
qed

lemma split_once_char:
  "c \<notin> set a \<Longrightarrow> split_once [c] (a @ c # b) = Some (a, b)"
  by (induction a) auto

lemma split_once_char_None: "c \<notin> set s \<Longrightarrow> split_once [c] s = None"
  by (induction s) auto

lemma split_once_char_fresh: "split_once [c] s = Some (a, b) \<Longrightarrow> c \<notin> set a"
  by (induction s arbitrary: a) (auto split: if_splits)

lemma strip_prefix_append [simp]: "strip_prefix pat (pat @ s) = Some s"
  by (simp add: strip_prefix_def)

lemma strip_prefix_Some: "strip_prefix pat s = Some t \<longleftrightarrow> s = pat @ t"
  by (auto simp: strip_prefix_def prefix_def)

lemma length_strip_ws: "length (strip_ws w s) \<le> length s"
proof (induction w s rule: strip_ws.induct)
  case (1 w s)
  then show ?case
    by (subst strip_ws.simps) (force simp: not_le)
qed

lemma length_trim: "length (trim s) \<le> length s"
  unfolding trim_def using length_strip_ws [of ws_len s]
    length_strip_ws [of ws_len_rev "rev (strip_ws ws_len s)"] by simp

lemma strip_ws_stop: "w (map of_char s) = 0 \<Longrightarrow> strip_ws w s = s"
  by (subst strip_ws.simps) simp

lemma strip_ws_idem: "strip_ws w (strip_ws w s) = strip_ws w s"
proof (induction w s rule: strip_ws.induct)
  case (1 w s)
  show ?case
  proof (cases "s = [] \<or> w (map of_char s) = 0")
    case True
    then have "strip_ws w s = s" by (simp add: strip_ws.simps [of w s])
    then show ?thesis by simp
  next
    case False
    then have "strip_ws w s = strip_ws w (drop (w (map of_char s)) s)"
      by (subst strip_ws.simps) simp
    with 1 False show ?thesis by simp
  qed
qed

lemma ws_len_prefix: "ws_len (xs @ ys) = 0 \<Longrightarrow> ws_len xs = 0"
  by (cases xs; cases "tl xs"; cases "tl (tl xs)") (auto split: if_splits list.splits)

lemma strip_ws_suffix: "suffix (strip_ws w s) s"
proof (induction w s rule: strip_ws.induct)
  case (1 w s)
  then show ?case
    by (subst strip_ws.simps) (auto intro: suffix_order.trans suffix_drop)
qed

lemma strip_ws_done: "strip_ws w s = [] \<or> w (map of_char (strip_ws w s)) = 0"
proof (induction w s rule: strip_ws.induct)
  case (1 w s)
  then show ?case by (cases "s = [] \<or> w (map of_char s) = 0") (auto simp: strip_ws.simps [of w s])
qed

lemma trim_idem: "trim (trim s) = trim s"
proof -
  let ?a = "strip_ws ws_len s" and ?b = "strip_ws ws_len_rev (rev (strip_ws ws_len s))"
  obtain p where p: "rev ?a = p @ ?b" using strip_ws_suffix [of ws_len_rev "rev ?a"] by (auto simp: suffix_def)
  then have "?a = rev ?b @ rev p" by (metis rev_append rev_rev_ident)
  moreover have "ws_len (map of_char ?a) = 0" using strip_ws_done [of ws_len s] by auto
  ultimately have "ws_len (map of_char (rev ?b)) = 0" by (metis map_append ws_len_prefix)
  then show ?thesis by (simp add: trim_def strip_ws_stop strip_ws_idem)
qed

section \<open>Facts about little-endian integers\<close>

lemma length_nat_le [simp]: "length (nat_le k n) = k"
  by (induction k arbitrary: n) auto

lemma le_nat_nat_le: "le_nat (nat_le k n) = n mod 256 ^ k"
proof (induction k arbitrary: n)
  case (Suc k)
  have "unat (word_of_nat (n mod 256) :: byte) = n mod 256"
    by (simp add: unat_of_nat)
  then show ?case
    using Suc by (simp add: mod_mult2_eq)
qed simp

lemma length_u16_to_le_bytes [simp, wire_simps]: "length (u16_to_le_bytes w) = 2"
  by (simp add: u16_to_le_bytes_def)

lemma length_i64_to_le_bytes [simp, wire_simps]: "length (i64_to_le_bytes w) = 8"
  by (simp add: i64_to_le_bytes_def)

lemma u16_le_roundtrip:
  assumes "u16_to_le_bytes w = [a, b]"
  shows "u16_from_le_bytes a b = w"
proof -
  have "le_nat [a, b] = unat w mod 256 ^ 2"
    using assms le_nat_nat_le [of 2 "unat w"] by (simp add: u16_to_le_bytes_def)
  also have "\<dots> = unat w" using unat_bounded [of w] by simp
  finally show ?thesis by (simp add: u16_from_le_bytes_def)
qed

lemma i64_le_roundtrip [simp]: "i64_from_le_bytes (i64_to_le_bytes w) = w"
proof -
  have "le_nat (nat_le 8 (unat w)) = unat w"
    using unat_bounded [of w] by (simp add: le_nat_nat_le)
  then show ?thesis by (simp add: i64_from_le_bytes_def i64_to_le_bytes_def)
qed

end
