(* ===== verification/Externals.thy ===== *)
theory Externals
  imports Rust_Std
begin

text \<open>
  The third-party crates the broker calls, as the fields of a record \<open>ext\<close> that every definition
  using them takes as its first argument.  Nothing is assumed of a field here; what a property
  relies on is one of the named predicates below, each a documented behaviour of the crate:
  HMAC-SHA256 tags have 32 bytes (\<open>hmac\<close>, \<open>sha2\<close>), base64 decoding inverts encoding and the URL-safe
  alphabet has no separator character (\<open>base64\<close>), UUIDs print and parse (\<open>uuid\<close>), chrono's
  conversions and checked arithmetic on the instants it can represent (\<open>chrono\<close>).
  \<open>sample_ext\<close> is a concrete instance that satisfies all of them, used to evaluate the model.
\<close>

text \<open>\<open>serde_json::Value\<close>; a floating-point number is kept as its text.\<close>

datatype json =
  JNull
| JBool bool
| JInt int
| JFloat string
| JString string
| JArray "json list"
| JObject "(string \<times> json) list"

record ext =
  hmac_sha256 :: "bytes \<Rightarrow> bytes \<Rightarrow> bytes"
  sha256 :: "bytes \<Rightarrow> bytes"
  b64_encode :: "bytes \<Rightarrow> string"
  b64_decode :: "string \<Rightarrow> bytes option"
  b64url_encode :: "bytes \<Rightarrow> string"
  b64url_decode :: "string \<Rightarrow> bytes option"
  to_rfc3339 :: "instant \<Rightarrow> string"
  parse_rfc3339 :: "string \<Rightarrow> instant option"
  timestamp :: "instant \<Rightarrow> int"
  from_timestamp :: "int \<Rightarrow> instant option"
  checked_add :: "instant \<Rightarrow> duration \<Rightarrow> instant option"
  try_seconds :: "int \<Rightarrow> duration option"
  num_seconds :: "duration \<Rightarrow> int"
  uuid_to_string :: "uuid \<Rightarrow> string"
  uuid_parse :: "string \<Rightarrow> uuid option"

abbreviation nanos_per_sec :: int where
  "nanos_per_sec \<equiv> 1000000000"

definition hmac_32 :: "'z ext_scheme \<Rightarrow> bool" where
  "hmac_32 E \<longleftrightarrow> (\<forall>k d. length (hmac_sha256 E k d) = 32)"

definition b64_lossless :: "'z ext_scheme \<Rightarrow> bool" where
  "b64_lossless E \<longleftrightarrow> (\<forall>b. b64_decode E (b64_encode E b) = Some b)"

definition b64url_lossless :: "'z ext_scheme \<Rightarrow> bool" where
  "b64url_lossless E \<longleftrightarrow> (\<forall>b. b64url_decode E (b64url_encode E b) = Some b)"

definition url_safe_char :: "char \<Rightarrow> bool" where
  "url_safe_char c \<longleftrightarrow>
    (let n = (of_char c :: nat) in
       (65 \<le> n \<and> n \<le> 90) \<or> (97 \<le> n \<and> n \<le> 122) \<or> (48 \<le> n \<and> n \<le> 57) \<or> n = 45 \<or> n = 95)"

definition b64url_alphabet :: "'z ext_scheme \<Rightarrow> bool" where
  "b64url_alphabet E \<longleftrightarrow> (\<forall>b. list_all url_safe_char (b64url_encode E b))"

definition rfc3339_exact :: "'z ext_scheme \<Rightarrow> instant \<Rightarrow> bool" where
  "rfc3339_exact E t \<longleftrightarrow> parse_rfc3339 E (to_rfc3339 E t) = Some t"

definition uuid_lossless :: "'z ext_scheme \<Rightarrow> bool" where
  "uuid_lossless E \<longleftrightarrow> (\<forall>u. length u = 16 \<longrightarrow> uuid_parse E (uuid_to_string E u) = Some u)"

text \<open>chrono represents the seconds from \<open>chrono_min_secs\<close> (year -262143) to \<open>chrono_max_secs\<close>
  (year 262142); \<open>timestamp\<close> drops the sub-second part, \<open>from_timestamp\<close> and \<open>checked_add\<close> are
  \<open>None\<close> outside that range, and \<open>Duration::seconds\<close> is defined up to \<open>i64::MAX / 1000\<close> seconds.\<close>

definition chrono_min_secs :: int where "chrono_min_secs = - 8334601228800"
definition chrono_max_secs :: int where "chrono_max_secs = 8210266876799"
definition max_duration_secs :: int where "max_duration_secs = 9223372036854775"

definition representable :: "instant \<Rightarrow> bool" where
  "representable t \<longleftrightarrow>
     chrono_min_secs \<le> t div nanos_per_sec \<and> t div nanos_per_sec \<le> chrono_max_secs"

definition chrono_seconds :: "'z ext_scheme \<Rightarrow> bool" where
  "chrono_seconds E \<longleftrightarrow>
     (\<forall>t. timestamp E t = t div nanos_per_sec) \<and>
     (\<forall>s. from_timestamp E s =
        (if chrono_min_secs \<le> s \<and> s \<le> chrono_max_secs then Some (s * nanos_per_sec) else None))"

definition chrono_arith :: "'z ext_scheme \<Rightarrow> bool" where
  "chrono_arith E \<longleftrightarrow>
     (\<forall>n. try_seconds E n = (if \<bar>n\<bar> \<le> max_duration_secs then Some (n * nanos_per_sec) else None)) \<and>
     (\<forall>t d. checked_add E t d = (if representable (t + d) then Some (t + d) else None)) \<and>
     (\<forall>n. num_seconds E (n * nanos_per_sec) = n)"

section \<open>A concrete instance\<close>

definition nibble_char :: "nat \<Rightarrow> char" where
  "nibble_char n = char_of (97 + n)"

definition char_nibble :: "char \<Rightarrow> nat" where
  "char_nibble c = of_char c - 97"

definition hex_encode :: "bytes \<Rightarrow> string" where
  "hex_encode bs = concat (map (\<lambda>b. [nibble_char (unat b div 16), nibble_char (unat b mod 16)]) bs)"

fun hex_decode :: "string \<Rightarrow> bytes option" where
  "hex_decode [] = Some []"
| "hex_decode [c] = None"
| "hex_decode (c # d # r) =
     map_option (\<lambda>bs. word_of_nat (16 * char_nibble c + char_nibble d) # bs) (hex_decode r)"

definition mix :: "bytes \<Rightarrow> nat" where
  "mix bs = foldl (\<lambda>a b. (257 * a + unat b + 1) mod 65521) 7 bs"

definition sample_ext :: ext where
  "sample_ext = \<lparr>
     hmac_sha256 = (\<lambda>k d. nat_le 32 (mix (k @ d))),
     sha256 = (\<lambda>d. nat_le 32 (mix d)),
     b64_encode = hex_encode, b64_decode = hex_decode,
     b64url_encode = hex_encode, b64url_decode = hex_decode,
     to_rfc3339 = (\<lambda>t. show_int t),
     parse_rfc3339 = (\<lambda>s. map_option int (parse_digits 0 s)),
     timestamp = (\<lambda>t. t div nanos_per_sec),
     from_timestamp = (\<lambda>s. if chrono_min_secs \<le> s \<and> s \<le> chrono_max_secs
                            then Some (s * nanos_per_sec) else None),
     checked_add = (\<lambda>t d. if representable (t + d) then Some (t + d) else None),
     try_seconds = (\<lambda>n. if \<bar>n\<bar> \<le> max_duration_secs then Some (n * nanos_per_sec) else None),
     num_seconds = (\<lambda>d. d div nanos_per_sec),
     uuid_to_string = hex_encode, uuid_parse = hex_decode \<rparr>"

section \<open>Facts\<close>

lemma length_hmac [simp]: "hmac_32 E \<Longrightarrow> length (hmac_sha256 E k d) = 32"
  by (simp add: hmac_32_def)

lemma b64_decode_encode [simp]: "b64_lossless E \<Longrightarrow> b64_decode E (b64_encode E b) = Some b"
  by (simp add: b64_lossless_def)

lemma b64url_decode_encode [simp]:
  "b64url_lossless E \<Longrightarrow> b64url_decode E (b64url_encode E b) = Some b"
  by (simp add: b64url_lossless_def)

lemma url_safe_not_colon: "b64url_alphabet E \<Longrightarrow> CHR '':'' \<notin> set (b64url_encode E b)"
proof
  assume "b64url_alphabet E" and "CHR '':'' \<in> set (b64url_encode E b)"
  then have "url_safe_char (CHR '':'')" by (auto simp: b64url_alphabet_def list_all_iff)
  then show False by (simp add: url_safe_char_def)
qed

lemma hex_decode_encode: "hex_decode (hex_encode bs) = Some bs"
proof (induction bs)
  case (Cons b bs)
  have "unat b < 256" using unat_bounded [of b] by simp
  then have "char_nibble (nibble_char (unat b div 16)) = unat b div 16"
    and "char_nibble (nibble_char (unat b mod 16)) = unat b mod 16"
    by (simp_all add: char_nibble_def nibble_char_def div_less_iff_less_mult)
  with Cons show ?case by (simp add: hex_encode_def)
qed (simp add: hex_encode_def)

lemma nibble_url_safe: "n < 16 \<Longrightarrow> url_safe_char (nibble_char n)"
  by (simp add: url_safe_char_def nibble_char_def)

lemma hex_encode_url_safe: "list_all url_safe_char (hex_encode bs)"
proof (induction bs)
  case (Cons b bs)
  have "unat b < 256" using unat_bounded [of b] by simp
  then have "unat b div 16 < 16" by (simp add: div_less_iff_less_mult)
  with Cons show ?case by (simp add: hex_encode_def nibble_url_safe)
qed (simp add: hex_encode_def)

lemma sample_ext_laws:
  "hmac_32 sample_ext" "b64_lossless sample_ext" "b64url_lossless sample_ext"
  "b64url_alphabet sample_ext" "uuid_lossless sample_ext"
  "chrono_seconds sample_ext" "chrono_arith sample_ext"
  by (simp_all add: sample_ext_def hmac_32_def b64_lossless_def b64url_lossless_def
      b64url_alphabet_def uuid_lossless_def chrono_seconds_def chrono_arith_def
      hex_decode_encode hex_encode_url_safe)

end
