(* ===== verification/Macaroon.thy ===== *)
theory Macaroon
  imports Externals
begin

text \<open>
  Chained-HMAC macaroons: \<open>secret_broker_impl/macaroon_caveats.rs\<close>.

  The caveat language (\<open>caveat_encode\<close>, \<open>caveat_parse\<close>), the macaroon itself (\<open>mint\<close>,
  \<open>add_caveat\<close>, \<open>verify_signature\<close>, \<open>verify\<close>, the binding signature of a third-party caveat and the
  binary format), discharge macaroons, and the caveat verifier.  The chain is the interface
  \<open>capability\<close> that the handlers rely on: attenuation never invalidates a capability and only ever
  appends restrictions.
\<close>

section \<open>Caveats\<close>

datatype MacaroonError =
  InvalidFormat
| SignatureInvalid
| CaveatFailed string
| Expired
| UnknownCaveat string

datatype Caveat =
  TenantId string
| Provider string
| Expires instant
| CircuitId string
| NodeId string
| Action string
| MaxUses
| ThirdParty string string

fun caveat_encode :: "'z ext_scheme \<Rightarrow> Caveat \<Rightarrow> string" where
  "caveat_encode E (TenantId v) = ''tenant_id = '' @ v"
| "caveat_encode E (Provider v) = ''provider = '' @ v"
| "caveat_encode E (Expires v) = ''expires = '' @ to_rfc3339 E v"
| "caveat_encode E (CircuitId v) = ''circuit_id = '' @ v"
| "caveat_encode E (NodeId v) = ''node_id = '' @ v"
| "caveat_encode E (Action v) = ''action = '' @ v"
| "caveat_encode E MaxUses = ''max_uses = 1''"
| "caveat_encode E (ThirdParty location key_id) =
     ''3p = v3:'' @ b64url_encode E (as_bytes location) @ '':'' @
     b64url_encode E (as_bytes key_id)"

definition parse_expires :: "'z ext_scheme \<Rightarrow> string \<Rightarrow> MacaroonError + Caveat" where
  "parse_expires E v =
     rbind (ok_or InvalidFormat (parse_rfc3339 E v)) (\<lambda>dt. Inr (Expires dt))"

definition parse_max_uses :: "string \<Rightarrow> MacaroonError + Caveat" where
  "parse_max_uses v =
     rbind (ok_or InvalidFormat (parse_uint (2 ^ 32 - 1) v)) (\<lambda>n.
     if n \<noteq> 1 then Inl (CaveatFailed (''max_uses only supports value 1, got '' @ show_nat n))
     else Inr MaxUses)"

definition parse_b64_text :: "'z ext_scheme \<Rightarrow> string \<Rightarrow> MacaroonError + string" where
  "parse_b64_text E v =
     rbind (ok_or InvalidFormat (b64url_decode E v)) (\<lambda>raw.
     ok_or InvalidFormat (from_utf8 raw))"

definition parse_third_party :: "'z ext_scheme \<Rightarrow> string \<Rightarrow> MacaroonError + Caveat" where
  "parse_third_party E v =
     rbind (ok_or InvalidFormat (strip_prefix ''v3:'' v)) (\<lambda>encoded.
     rbind (ok_or InvalidFormat (split_once '':'' encoded)) (\<lambda>(location, key_id).
     rbind (ensure (CHR '':'' \<notin> set key_id) InvalidFormat) (\<lambda>_.
     rbind (parse_b64_text E location) (\<lambda>location.
     rbind (parse_b64_text E key_id) (\<lambda>key_id.
     if location = [] \<or> key_id = [] then Inl InvalidFormat
     else Inr (ThirdParty location key_id))))))"

definition caveat_parse :: "'z ext_scheme \<Rightarrow> string \<Rightarrow> MacaroonError + Caveat" where
  "caveat_parse E s =
     rbind (ok_or InvalidFormat (split_once '' = '' s)) (\<lambda>(key, v).
     if key = ''tenant_id'' then Inr (TenantId v)
     else if key = ''provider'' then Inr (Provider v)
     else if key = ''expires'' then parse_expires E v
     else if key = ''circuit_id'' then Inr (CircuitId v)
     else if key = ''node_id'' then Inr (NodeId v)
     else if key = ''action'' then Inr (Action v)
     else if key = ''max_uses'' then parse_max_uses v
     else if key = ''3p'' then parse_third_party E v
     else Inl (UnknownCaveat key))"

section \<open>Discharge macaroons\<close>

record DischargeMacaroon =
  dis_location :: string
  dis_condition :: string
  dis_expires_at :: "instant option"
  discharge_signature :: bytes
  dis_binding :: bytes

definition mint_with_expiry ::
  "'z ext_scheme \<Rightarrow> string \<Rightarrow> string \<Rightarrow> bytes \<Rightarrow> bytes \<Rightarrow> instant option \<Rightarrow> DischargeMacaroon" where
  "mint_with_expiry E location condition discharge_key primary_signature expires_at =
     (let dsig = hmac_sha256 E discharge_key (as_bytes condition);
          bnd = hmac_sha256 E primary_signature dsig
      in \<lparr> dis_location = location, dis_condition = condition, dis_expires_at = expires_at,
           discharge_signature = dsig, dis_binding = bnd \<rparr>)"

definition discharge_bind :: "'z ext_scheme \<Rightarrow> DischargeMacaroon \<Rightarrow> bytes \<Rightarrow> bytes" where
  "discharge_bind E d primary_signature = hmac_sha256 E primary_signature (discharge_signature d)"

definition discharge_verify ::
  "'z ext_scheme \<Rightarrow> DischargeMacaroon \<Rightarrow> string \<Rightarrow> bytes \<Rightarrow> bytes \<Rightarrow> instant
    \<Rightarrow> MacaroonError + unit" where
  "discharge_verify E d condition discharge_key primary_signature now =
     (if (case dis_expires_at d of None \<Rightarrow> False | Some deadline \<Rightarrow> now > deadline)
      then Inl Expired
      else if hmac_sha256 E discharge_key (as_bytes condition) \<noteq> discharge_signature d
      then Inl (CaveatFailed ''discharge signature invalid'')
      else if discharge_bind E d primary_signature \<noteq> dis_binding d
      then Inl (CaveatFailed ''discharge binding invalid'')
      else Inr ())"

definition discharge_serialize :: "'z ext_scheme \<Rightarrow> DischargeMacaroon \<Rightarrow> string" where
  "discharge_serialize E d = b64_encode E (
     u16_to_le_bytes (word_of_nat (length (dis_location d))) @ as_bytes (dis_location d) @
     u16_to_le_bytes (word_of_nat (length (dis_condition d))) @ as_bytes (dis_condition d) @
     (case dis_expires_at d of
        None \<Rightarrow> []
      | Some t \<Rightarrow> i64_to_le_bytes (word_of_int (timestamp E t))) @
     discharge_signature d @ dis_binding d)"

definition discharge_deserialize :: "'z ext_scheme \<Rightarrow> string \<Rightarrow> MacaroonError + DischargeMacaroon" where
  "discharge_deserialize E s =
     rbind (ok_or InvalidFormat (b64_decode E s)) (\<lambda>buf.
     if length buf < 4 + 64 then Inl InvalidFormat else
     let loc_len = unat (u16_from_le_bytes (buf ! 0) (buf ! 1)); pos = 2 in
     if pos + loc_len + 2 + 64 > length buf then Inl InvalidFormat else
     rbind (ok_or InvalidFormat (from_utf8 (take loc_len (drop pos buf)))) (\<lambda>location.
     let pos = pos + loc_len;
         cond_len = unat (u16_from_le_bytes (buf ! pos) (buf ! (pos + 1)));
         pos = pos + 2;
         remaining = length buf - (pos + cond_len) in
     if remaining \<noteq> 64 \<and> remaining \<noteq> 72 then Inl InvalidFormat else
     rbind (ok_or InvalidFormat (from_utf8 (take cond_len (drop pos buf)))) (\<lambda>condition.
     let pos = pos + cond_len;
         (expires_at, pos) =
           (if remaining = 72
            then (from_timestamp E (sint (i64_from_le_bytes (take 8 (drop pos buf)))), pos + 8)
            else (None, pos)) in
     Inr \<lparr> dis_location = location, dis_condition = condition, dis_expires_at = expires_at,
           discharge_signature = take 32 (drop pos buf),
           dis_binding = take 32 (drop (pos + 32) buf) \<rparr>)))"

section \<open>The caveat verifier\<close>

record DischargeKeyRef =
  key_location :: string
  key_key_id :: string
  key_condition :: string
  key_key :: bytes

record CaveatVerifier =
  ver_tenant_id :: "string option"
  ver_provider :: "string option"
  ver_circuit_id :: "string option"
  ver_node_id :: "string option"
  ver_action :: "string option"
  ver_use_count :: "32 word"
  ver_now :: instant
  ver_discharges :: "DischargeMacaroon list"
  ver_discharge_keys :: "DischargeKeyRef list"

definition check_text :: "string \<Rightarrow> string option \<Rightarrow> string \<Rightarrow> MacaroonError + unit" where
  "check_text name actual expected =
     (case actual of
        Some a \<Rightarrow>
          if a = expected then Inr ()
          else Inl (CaveatFailed (name @ '': expected '' @ expected @ '', got '' @ a))
      | None \<Rightarrow> Inl (CaveatFailed (name @ '' required but not provided'')))"

definition check_third_party ::
  "'z ext_scheme \<Rightarrow> CaveatVerifier \<Rightarrow> string \<Rightarrow> string \<Rightarrow> bytes option \<Rightarrow> MacaroonError + unit" where
  "check_third_party E v location key_id primary =
     rbind (ok_or (CaveatFailed ''missing primary binding signature for third-party caveat'')
       primary) (\<lambda>primary_signature.
     rbind (ok_or (CaveatFailed (''no discharge key configured for location '' @ location))
       (find (\<lambda>e. key_location e = location \<and> key_key_id e = key_id) (ver_discharge_keys v)))
       (\<lambda>key.
     let candidates = filter (\<lambda>d. dis_location d = location \<and> dis_condition d = key_condition key)
           (ver_discharges v) in
     if list_ex (\<lambda>d. is_ok (discharge_verify E d (key_condition key) (key_key key)
           primary_signature (ver_now v))) candidates
     then Inr ()
     else if candidates = []
     then Inl (CaveatFailed (''no discharge macaroon for third-party caveat at '' @ location))
     else Inl (CaveatFailed (''no valid discharge macaroon for third-party caveat at '' @ location))))"

fun check ::
  "'z ext_scheme \<Rightarrow> CaveatVerifier \<Rightarrow> Caveat \<Rightarrow> bytes option \<Rightarrow> MacaroonError + unit" where
  "check E v (TenantId expected) p = check_text ''tenant_id'' (ver_tenant_id v) expected"
| "check E v (Provider expected) p = check_text ''provider'' (ver_provider v) expected"
| "check E v (Expires deadline) p = (if ver_now v > deadline then Inl Expired else Inr ())"
| "check E v (CircuitId expected) p = check_text ''circuit_id'' (ver_circuit_id v) expected"
| "check E v (NodeId expected) p = check_text ''node_id'' (ver_node_id v) expected"
| "check E v (Action expected) p = check_text ''action'' (ver_action v) expected"
| "check E v MaxUses p =
     (if ver_use_count v \<le> 1 then Inr ()
      else Inl (CaveatFailed (''max_uses: attempted use '' @ show_nat (unat (ver_use_count v)) @
             '' exceeds single-use limit'')))"
| "check E v (ThirdParty location key_id) p = check_third_party E v location key_id p"

section \<open>Macaroons\<close>

record Macaroon =
  mac_identifier :: uuid
  mac_caveats :: "string list"
  mac_signature :: bytes

definition extend_sig :: "'z ext_scheme \<Rightarrow> bytes \<Rightarrow> string \<Rightarrow> bytes" where
  "extend_sig E sig c = hmac_sha256 E sig (as_bytes c)"

definition mint :: "'z ext_scheme \<Rightarrow> bytes \<Rightarrow> uuid \<Rightarrow> Caveat list \<Rightarrow> Macaroon" where
  "mint E root_key ident cs =
     (let sig = hmac_sha256 E root_key ident;
          caveat_strings = map (caveat_encode E) cs
      in \<lparr> mac_identifier = ident, mac_caveats = caveat_strings,
           mac_signature = foldl (extend_sig E) sig caveat_strings \<rparr>)"

definition add_caveat :: "'z ext_scheme \<Rightarrow> Macaroon \<Rightarrow> Caveat \<Rightarrow> Macaroon" where
  "add_caveat E m c =
     (let encoded = caveat_encode E c
      in m\<lparr> mac_signature := extend_sig E (mac_signature m) encoded,
            mac_caveats := mac_caveats m @ [encoded] \<rparr>)"

definition verify_signature :: "'z ext_scheme \<Rightarrow> bytes \<Rightarrow> Macaroon \<Rightarrow> MacaroonError + unit" where
  "verify_signature E root_key m =
     (let sig = foldl (extend_sig E) (hmac_sha256 E root_key (mac_identifier m)) (mac_caveats m)
      in if sig \<noteq> mac_signature m then Inl SignatureInvalid else Inr ())"

text \<open>\<open>caveat_signatures\<close> are the values \<open>sig\<close> takes in the first loop of \<open>verify\<close>;
  \<open>check_caveats\<close> is the second loop.\<close>

fun caveat_signatures :: "'z ext_scheme \<Rightarrow> bytes \<Rightarrow> string list \<Rightarrow> bytes list" where
  "caveat_signatures E sig [] = []"
| "caveat_signatures E sig (c # cs) =
     (let s = extend_sig E sig c in s # caveat_signatures E s cs)"

fun check_caveats ::
  "'z ext_scheme \<Rightarrow> CaveatVerifier \<Rightarrow> (string \<times> bytes) list \<Rightarrow> MacaroonError + unit" where
  "check_caveats E v [] = Inr ()"
| "check_caveats E v ((raw, sig) # r) =
     rbind (caveat_parse E raw) (\<lambda>c.
     rbind (check E v c (Some sig)) (\<lambda>_. check_caveats E v r))"

definition verify ::
  "'z ext_scheme \<Rightarrow> bytes \<Rightarrow> CaveatVerifier \<Rightarrow> Macaroon \<Rightarrow> MacaroonError + unit" where
  "verify E root_key v m =
     (let sig0 = hmac_sha256 E root_key (mac_identifier m);
          sigs = caveat_signatures E sig0 (mac_caveats m)
      in if last (sig0 # sigs) \<noteq> mac_signature m then Inl SignatureInvalid
         else check_caveats E v (zip (mac_caveats m) sigs))"

fun binding_loop ::
  "'z ext_scheme \<Rightarrow> string \<Rightarrow> string \<Rightarrow> bytes \<Rightarrow> bytes option \<Rightarrow> string list
    \<Rightarrow> MacaroonError + bytes option" where
  "binding_loop E location key_id sig matched [] = Inr matched"
| "binding_loop E location key_id sig matched (raw # r) =
     (let sig = extend_sig E sig raw in
      rbind (caveat_parse E raw) (\<lambda>c.
      if c = ThirdParty location key_id then
        (if matched \<noteq> None
         then Inl (CaveatFailed (''multiple third-party caveats match '' @ location @
                '' with opaque key''))
         else binding_loop E location key_id sig (Some sig) r)
      else binding_loop E location key_id sig matched r))"

definition third_party_binding_info_by_key_id ::
  "'z ext_scheme \<Rightarrow> Macaroon \<Rightarrow> bytes \<Rightarrow> string \<Rightarrow> string \<Rightarrow> MacaroonError + bytes" where
  "third_party_binding_info_by_key_id E m root_key location key_id =
     rbind (binding_loop E location key_id (hmac_sha256 E root_key (mac_identifier m)) None (mac_caveats m))
       (\<lambda>matched. ok_or (CaveatFailed (''no third-party caveat for '' @ location @
          '' with requested opaque key'')) matched)"

section \<open>Wire format\<close>

definition caveat_frame :: "string \<Rightarrow> bytes" where
  "caveat_frame c = u16_to_le_bytes (word_of_nat (length c)) @ as_bytes c"

definition mac_serialize :: "'z ext_scheme \<Rightarrow> Macaroon \<Rightarrow> string" where
  "mac_serialize E m = b64_encode E (
     mac_identifier m @ u16_to_le_bytes (word_of_nat (length (mac_caveats m))) @
     concat (map caveat_frame (mac_caveats m)) @ mac_signature m)"

fun read_caveats :: "bytes \<Rightarrow> nat \<Rightarrow> nat \<Rightarrow> MacaroonError + (string list \<times> nat)" where
  "read_caveats buf pos 0 = Inr ([], pos)"
| "read_caveats buf pos (Suc n) =
     (if pos + 2 > length buf then Inl InvalidFormat else
      let len = unat (u16_from_le_bytes (buf ! pos) (buf ! (pos + 1))); pos = pos + 2 in
      if pos + len > length buf then Inl InvalidFormat else
      rbind (ok_or InvalidFormat (from_utf8 (take len (drop pos buf)))) (\<lambda>s.
      rbind (read_caveats buf (pos + len) n) (\<lambda>(cs, fin). Inr (s # cs, fin))))"

definition mac_deserialize :: "'z ext_scheme \<Rightarrow> string \<Rightarrow> MacaroonError + Macaroon" where
  "mac_deserialize E s =
     rbind (ok_or InvalidFormat (b64_decode E s)) (\<lambda>buf.
     if length buf < 16 + 2 + 32 then Inl InvalidFormat else
     let num_caveats = unat (u16_from_le_bytes (buf ! 16) (buf ! 17)) in
     rbind (read_caveats buf 18 num_caveats) (\<lambda>(cs, pos).
     if pos + 32 \<noteq> length buf then Inl InvalidFormat
     else Inr \<lparr> mac_identifier = take 16 buf, mac_caveats = cs, mac_signature = take 32 (drop pos buf) \<rparr>))"

section \<open>What is encodable\<close>

text \<open>The values a caveat text can carry: a deadline chrono prints exactly, and non-empty
  well-formed strings in a third-party caveat.\<close>

fun encodable :: "'z ext_scheme \<Rightarrow> Caveat \<Rightarrow> bool" where
  "encodable E (Expires t) = rfc3339_exact E t"
| "encodable E (ThirdParty l k) = (l \<noteq> [] \<and> k \<noteq> [] \<and> wf_str l \<and> wf_str k)"
| "encodable E _ = True"

section \<open>Caveat language\<close>

lemma caveat_parse_key:
  assumes "split_once '' = '' (key @ '' = '') = Some (key, [])"
  shows "split_once '' = '' (key @ '' = '' @ v) = Some (key, v)"
  using split_once_first [OF assms, of v] by simp

lemma parse_b64_text_encode:
  "b64url_lossless E \<Longrightarrow> wf_str s \<Longrightarrow> parse_b64_text E (b64url_encode E (as_bytes s)) = Inr s"
  by (simp add: parse_b64_text_def)

lemma parse_third_party_encode:
  assumes "b64url_lossless E" "b64url_alphabet E" "encodable E (ThirdParty l k)"
  shows "parse_third_party E (''v3:'' @ b64url_encode E (as_bytes l) @ '':'' @
           b64url_encode E (as_bytes k)) = Inr (ThirdParty l k)"
proof -
  let ?l = "b64url_encode E (as_bytes l)" and ?k = "b64url_encode E (as_bytes k)"
  have "strip_prefix ''v3:'' (''v3:'' @ ?l @ '':'' @ ?k) = Some (?l @ '':'' @ ?k)"
    by (rule strip_prefix_append)
  moreover have "split_once '':'' (?l @ '':'' @ ?k) = Some (?l, ?k)"
    using split_once_char [OF url_safe_not_colon [OF assms(2)]] by simp
  ultimately show ?thesis
    using assms by (simp add: parse_third_party_def parse_b64_text_encode url_safe_not_colon)
qed

lemma caveat_parse_encode:
  assumes "b64url_lossless E" "b64url_alphabet E" "encodable E c"
  shows "caveat_parse E (caveat_encode E c) = Inr c"
proof (cases c)
  case (TenantId v) then show ?thesis
    using caveat_parse_key [of "''tenant_id''" v] by (simp add: caveat_parse_def)
next
  case (Provider v) then show ?thesis
    using caveat_parse_key [of "''provider''" v] by (simp add: caveat_parse_def)
next
  case (Expires v) then show ?thesis
    using caveat_parse_key [of "''expires''" "to_rfc3339 E v"] assms(3)
    by (simp add: caveat_parse_def parse_expires_def rfc3339_exact_def)
next
  case (CircuitId v) then show ?thesis
    using caveat_parse_key [of "''circuit_id''" v] by (simp add: caveat_parse_def)
next
  case (NodeId v) then show ?thesis
    using caveat_parse_key [of "''node_id''" v] by (simp add: caveat_parse_def)
next
  case (Action v) then show ?thesis
    using caveat_parse_key [of "''action''" v] by (simp add: caveat_parse_def)
next
  case MaxUses then show ?thesis
    by (simp add: caveat_parse_def parse_max_uses_def parse_uint_def char_digit_def)
next
  case (ThirdParty l k) then show ?thesis
    using caveat_parse_key [of "''3p''"] parse_third_party_encode [of E l k] assms
    by (simp add: caveat_parse_def)
qed

section \<open>The signature chain\<close>

lemma last_caveat_signatures [simp]:
  "last (s # caveat_signatures E s cs) = foldl (extend_sig E) s cs"
  by (induction cs arbitrary: s) (auto simp: Let_def)

lemma length_caveat_signatures [simp]: "length (caveat_signatures E s cs) = length cs"
  by (induction cs arbitrary: s) (auto simp: Let_def)

lemma caveat_signatures_append:
  "caveat_signatures E s (xs @ ys) =
     caveat_signatures E s xs @ caveat_signatures E (foldl (extend_sig E) s xs) ys"
  by (induction xs arbitrary: s) (auto simp: Let_def)

lemma caveat_signatures_nth:
  "i < length cs \<Longrightarrow> caveat_signatures E s cs ! i = foldl (extend_sig E) s (take (Suc i) cs)"
proof (induction cs arbitrary: s i)
  case (Cons c cs)
  then show ?case by (cases i) (auto simp: Let_def)
qed simp

lemma check_caveats_append:
  "check_caveats E v (xs @ ys) = rbind (check_caveats E v xs) (\<lambda>_. check_caveats E v ys)"
  by (induction xs rule: check_caveats.induct) (auto simp: rbind_assoc)

lemma check_caveats_Inr_iff:
  "check_caveats E v xs = Inr () \<longleftrightarrow>
     (\<forall>(raw, sig) \<in> set xs. \<exists>c. caveat_parse E raw = Inr c \<and> check E v c (Some sig) = Inr ())"
  by (induction xs rule: check_caveats.induct) (auto simp: result_simps)

lemma verify_signature_Inr_iff:
  "verify_signature E k m = Inr () \<longleftrightarrow>
     mac_signature m = foldl (extend_sig E) (hmac_sha256 E k (mac_identifier m)) (mac_caveats m)"
  by (auto simp: verify_signature_def Let_def)

lemma verify_split:
  "verify E k v m = rbind (verify_signature E k m) (\<lambda>_. check_caveats E v
     (zip (mac_caveats m) (caveat_signatures E (hmac_sha256 E k (mac_identifier m)) (mac_caveats m))))"
  unfolding verify_def verify_signature_def Let_def by (simp del: last.simps)

lemma mint_verifies: "verify_signature E k (mint E k i cs) = Inr ()"
  by (simp add: verify_signature_Inr_iff mint_def Let_def)

lemma mint_fields [simp]:
  "mac_identifier (mint E k i cs) = i"
  "mac_caveats (mint E k i cs) = map (caveat_encode E) cs"
  by (simp_all add: mint_def Let_def)

lemma add_caveat_verifies:
  "verify_signature E k m = Inr () \<Longrightarrow> verify_signature E k (add_caveat E m c) = Inr ()"
  by (simp add: verify_signature_Inr_iff add_caveat_def Let_def)

lemma add_caveat_fields [simp]:
  "mac_identifier (add_caveat E m c) = mac_identifier m"
  "mac_caveats (add_caveat E m c) = mac_caveats m @ [caveat_encode E c]"
  "mac_signature (add_caveat E m c) = extend_sig E (mac_signature m) (caveat_encode E c)"
  by (simp_all add: add_caveat_def Let_def)

lemma verify_add_caveat:
  assumes "verify_signature E k m = Inr ()"
  shows "verify E k v (add_caveat E m c) =
    rbind (verify E k v m) (\<lambda>_.
    rbind (caveat_parse E (caveat_encode E c)) (\<lambda>c'.
    check E v c' (Some (mac_signature (add_caveat E m c)))))"
proof -
  have sig: "foldl (extend_sig E) (hmac_sha256 E k (mac_identifier m)) (mac_caveats m) = mac_signature m"
    using assms by (simp add: verify_signature_Inr_iff)
  show ?thesis
    using assms add_caveat_verifies [OF assms, of c]
    by (simp add: verify_split caveat_signatures_append sig check_caveats_append Let_def)
qed

section \<open>The capability interface\<close>

text \<open>What the handlers rely on.\<close>

locale capability =
  fixes mint :: "'e \<Rightarrow> 'k \<Rightarrow> 'i \<Rightarrow> 'c list \<Rightarrow> 'm"
    and attenuate :: "'e \<Rightarrow> 'm \<Rightarrow> 'c \<Rightarrow> 'm"
    and authentic :: "'e \<Rightarrow> 'k \<Rightarrow> 'm \<Rightarrow> bool"
    and permits :: "'e \<Rightarrow> 'k \<Rightarrow> 'v \<Rightarrow> 'm \<Rightarrow> bool"
    and restrictions :: "'m \<Rightarrow> 's list"
    and enc :: "'e \<Rightarrow> 'c \<Rightarrow> 's"
    and ident :: "'m \<Rightarrow> 'i"
  assumes mint_authentic: "authentic e k (mint e k i cs)"
    and mint_restrictions: "restrictions (mint e k i cs) = map (enc e) cs"
    and mint_ident: "ident (mint e k i cs) = i"
    and attenuate_authentic: "authentic e k m \<Longrightarrow> authentic e k (attenuate e m c)"
    and attenuate_restrictions: "restrictions (attenuate e m c) = restrictions m @ [enc e c]"
    and attenuate_ident: "ident (attenuate e m c) = ident m"
    and attenuate_permits: "authentic e k m \<Longrightarrow> permits e k v (attenuate e m c) \<Longrightarrow> permits e k v m"
begin

lemma fold_authentic: "authentic e k m \<Longrightarrow> authentic e k (foldl (attenuate e) m cs)"
  by (induction cs arbitrary: m) (auto intro: attenuate_authentic)

lemma fold_restrictions: "restrictions (foldl (attenuate e) m cs) = restrictions m @ map (enc e) cs"
  by (induction cs arbitrary: m) (auto simp: attenuate_restrictions)

lemma fold_ident: "ident (foldl (attenuate e) m cs) = ident m"
  by (induction cs arbitrary: m) (auto simp: attenuate_ident)

lemma fold_permits:
  "authentic e k m \<Longrightarrow> permits e k v (foldl (attenuate e) m cs) \<Longrightarrow> permits e k v m"
proof (induction cs arbitrary: m)
  case (Cons c cs)
  then have "permits e k v (attenuate e m c)" by (auto intro: attenuate_authentic)
  with Cons.prems show ?case by (blast intro: attenuate_permits)
qed simp

end

interpretation mac: capability mint add_caveat "\<lambda>E k m. verify_signature E k m = Inr ()"
  "\<lambda>E k v m. verify E k v m = Inr ()" mac_caveats caveat_encode mac_identifier
  by unfold_locales
    (auto simp: mint_verifies add_caveat_verifies verify_add_caveat result_simps)

section \<open>Wire format\<close>

definition fits_u16 :: "Macaroon \<Rightarrow> bool" where
  "fits_u16 m \<longleftrightarrow> length (mac_caveats m) < 65536 \<and> (\<forall>c \<in> set (mac_caveats m). length c < 65536)"

definition mac_typed :: "Macaroon \<Rightarrow> bool" where
  "mac_typed m \<longleftrightarrow> length (mac_identifier m) = 16 \<and> length (mac_signature m) = 32 \<and>
     list_all wf_str (mac_caveats m)"

lemma u16_frame:
  assumes "n < 65536"
  shows "unat (u16_from_le_bytes ((xs @ u16_to_le_bytes (word_of_nat n) @ ys) ! length xs)
    ((xs @ u16_to_le_bytes (word_of_nat n) @ ys) ! (Suc (length xs)))) = n"
proof -
  obtain a b where ab: "u16_to_le_bytes (word_of_nat n) = [a, b]"
    by (simp add: u16_to_le_bytes_def numeral_2_eq_2)
  with u16_le_roundtrip [OF this] assms show ?thesis
    by (simp add: nth_append unat_of_nat)
qed

lemma read_caveats_frames:
  assumes "\<forall>c \<in> set cs. wf_str c \<and> length c < 65536"
  shows "read_caveats (pre @ concat (map caveat_frame cs) @ post) (length pre) (length cs) =
    Inr (cs, length pre + length (concat (map caveat_frame cs)))"
  using assms
proof (induction cs arbitrary: pre)
  case (Cons c cs)
  let ?buf = "pre @ concat (map caveat_frame (c # cs)) @ post"
  let ?pre = "pre @ caveat_frame c"
  have IH: "read_caveats ?buf (length ?pre) (length cs) =
      Inr (cs, length ?pre + length (concat (map caveat_frame cs)))"
    using Cons.IH [of ?pre] Cons.prems by simp
  have len: "unat (u16_from_le_bytes (?buf ! length pre) (?buf ! Suc (length pre))) = length c"
    using u16_frame [of "length c" pre] Cons.prems by (simp add: caveat_frame_def)
  show ?case
    using IH len Cons.prems by (simp add: caveat_frame_def [of c] Let_def)
qed simp

lemma from_utf8_length: "from_utf8 bs = Some s \<Longrightarrow> length s = length bs"
  by (auto simp: from_utf8_def split: if_splits)

lemma read_caveats_bounds:
  "read_caveats buf pos n = Inr (cs, fin) \<Longrightarrow> length cs = n \<and> (\<forall>c \<in> set cs. length c < 65536)"
proof (induction buf pos n arbitrary: cs fin rule: read_caveats.induct)
  case (2 buf pos n)
  let ?len = "unat (u16_from_le_bytes (buf ! pos) (buf ! (pos + 1)))"
  obtain s cs' where s: "from_utf8 (take ?len (drop (pos + 2) buf)) = Some s"
    and rest: "read_caveats buf (pos + 2 + ?len) n = Inr (cs', fin)" and cs: "cs = s # cs'"
    using "2.prems" by (auto simp: Let_def result_simps split: if_splits)
  have "length s \<le> ?len" using from_utf8_length [OF s] by simp
  also have "?len < 65536"
    using unat_bounded [of "u16_from_le_bytes (buf ! pos) (buf ! (pos + 1))"] by simp
  finally show ?case using "2.IH" "2.prems" s rest cs
    by (auto simp: Let_def result_simps split: if_splits)
qed auto

lemma mac_deserialize_serialize:
  assumes "b64_lossless E" "mac_typed m" "fits_u16 m"
  shows "mac_deserialize E (mac_serialize E m) = Inr m"
proof -
  let ?n = "u16_to_le_bytes (word_of_nat (length (mac_caveats m)))"
  let ?fs = "concat (map caveat_frame (mac_caveats m))"
  let ?buf = "mac_identifier m @ ?n @ ?fs @ mac_signature m"
  have idl: "length (mac_identifier m) = 16" and sl: "length (mac_signature m) = 32"
    using assms by (simp_all add: mac_typed_def)
  have num: "unat (u16_from_le_bytes (?buf ! 16) (?buf ! 17)) = length (mac_caveats m)"
    using u16_frame [of "length (mac_caveats m)" "mac_identifier m" "?fs @ mac_signature m"] assms idl
    by (simp add: fits_u16_def)
  have "read_caveats ((mac_identifier m @ ?n) @ ?fs @ mac_signature m) (length (mac_identifier m @ ?n))
      (length (mac_caveats m)) = Inr (mac_caveats m, length (mac_identifier m @ ?n) + length ?fs)"
    using assms by (intro read_caveats_frames) (auto simp: fits_u16_def mac_typed_def list_all_iff)
  then have "read_caveats ?buf 18 (length (mac_caveats m)) = Inr (mac_caveats m, 18 + length ?fs)"
    using idl by simp
  with num idl sl assms(1) show ?thesis
    by (simp add: mac_deserialize_def mac_serialize_def Let_def)
qed

lemma mac_deserialize_fits: "mac_deserialize E s = Inr m \<Longrightarrow> fits_u16 m"
proof -
  assume "mac_deserialize E s = Inr m"
  then obtain buf cs pos where
    r: "read_caveats buf 18 (unat (u16_from_le_bytes (buf ! 16) (buf ! 17))) = Inr (cs, pos)"
    and m: "mac_caveats m = cs"
    by (auto simp: mac_deserialize_def Let_def result_simps split: if_splits)
  have "unat (u16_from_le_bytes (buf ! 16) (buf ! 17)) < 65536"
    using unat_bounded [of "u16_from_le_bytes (buf ! 16) (buf ! 17)"] by simp
  with read_caveats_bounds [OF r] m show ?thesis by (simp add: fits_u16_def)
qed

section \<open>Third-party caveats\<close>

lemma binding_loop_matched:
  "binding_loop E l k sig (Some x) cs = Inr r \<Longrightarrow>
     r = Some x \<and> (\<forall>raw \<in> set cs. caveat_parse E raw \<noteq> Inr (ThirdParty l k))"
  by (induction cs arbitrary: sig)
     (auto simp: Let_def result_simps split: if_splits)

lemma binding_loop_Some:
  assumes "binding_loop E l k sig None cs = Inr (Some x)"
  shows "\<exists>i < length cs. caveat_parse E (cs ! i) = Inr (ThirdParty l k) \<and>
    x = foldl (extend_sig E) sig (take (Suc i) cs) \<and>
    (\<forall>j < length cs. caveat_parse E (cs ! j) = Inr (ThirdParty l k) \<longrightarrow> j = i)"
  using assms
proof (induction cs arbitrary: sig)
  case (Cons raw cs)
  let ?sig = "extend_sig E sig raw"
  obtain c where c: "caveat_parse E raw = Inr c"
    using Cons.prems by (auto simp: Let_def result_simps)
  show ?case
  proof (cases "c = ThirdParty l k")
    case True
    then have "binding_loop E l k ?sig (Some ?sig) cs = Inr (Some x)"
      using Cons.prems c by (simp add: Let_def)
    then have "x = ?sig" and "\<forall>raw \<in> set cs. caveat_parse E raw \<noteq> Inr (ThirdParty l k)"
      by (auto dest: binding_loop_matched)
    then show ?thesis
      using c True by (intro exI [of _ 0]) (auto simp: less_Suc_eq_0_disj)
  next
    case False
    then have "binding_loop E l k ?sig None cs = Inr (Some x)"
      using Cons.prems c by (simp add: Let_def)
    from Cons.IH [OF this] obtain i where i: "i < length cs"
      "caveat_parse E (cs ! i) = Inr (ThirdParty l k)"
      "x = foldl (extend_sig E) ?sig (take (Suc i) cs)"
      and uniq: "\<And>j. j < length cs \<Longrightarrow> caveat_parse E (cs ! j) = Inr (ThirdParty l k) \<Longrightarrow> j = i"
      by blast
    have "j = Suc i" if "j < length (raw # cs)"
      and "caveat_parse E ((raw # cs) ! j) = Inr (ThirdParty l k)" for j
      using that c False uniq [of "j - 1"] by (cases j) simp_all
    with i show ?thesis by (intro exI [of _ "Suc i"]) (metis Suc_less_eq length_Cons
      foldl_Cons nth_Cons_Suc take_Suc_Cons)
  qed
qed simp

lemma discharge_verify_mint:
  "discharge_verify E (mint_with_expiry E l c dk p exp) c dk p now =
     (if (\<exists>t. exp = Some t \<and> now > t) then Inl Expired else Inr ())"
  by (auto simp: discharge_verify_def mint_with_expiry_def discharge_bind_def Let_def
      split: option.splits)

lemma discharge_verify_Inr_iff:
  "discharge_verify E d c dk p now = Inr () \<longleftrightarrow>
     (\<forall>t. dis_expires_at d = Some t \<longrightarrow> now \<le> t) \<and>
     discharge_signature d = hmac_sha256 E dk (as_bytes c) \<and>
     dis_binding d = hmac_sha256 E p (discharge_signature d)"
  by (auto simp: discharge_verify_def discharge_bind_def split: option.splits)

lemma check_third_party_Inr_iff:
  "check_third_party E v l k p = Inr () \<longleftrightarrow>
     (\<exists>sig key d. p = Some sig \<and>
        find (\<lambda>e. key_location e = l \<and> key_key_id e = k) (ver_discharge_keys v) = Some key \<and>
        d \<in> set (ver_discharges v) \<and> dis_location d = l \<and> dis_condition d = key_condition key \<and>
        discharge_verify E d (key_condition key) (key_key key) sig (ver_now v) = Inr ())"
  by (cases p; cases "find (\<lambda>e. key_location e = l \<and> key_key_id e = k) (ver_discharge_keys v)")
     (auto simp: check_third_party_def Let_def list_ex_iff result_simps split: if_splits)

section \<open>Discharge wire format\<close>

definition discharge_typed :: "DischargeMacaroon \<Rightarrow> bool" where
  "discharge_typed d \<longleftrightarrow> wf_str (dis_location d) \<and> wf_str (dis_condition d) \<and>
     length (discharge_signature d) = 32 \<and> length (dis_binding d) = 32 \<and>
     length (dis_location d) < 65536 \<and> length (dis_condition d) < 65536"

definition truncate_to_seconds :: "instant \<Rightarrow> instant" where
  "truncate_to_seconds t = t div nanos_per_sec * nanos_per_sec"

lemma sint_word_of_int_i64:
  "- (2 ^ 63) \<le> x \<Longrightarrow> x < 2 ^ 63 \<Longrightarrow> sint (word_of_int x :: 64 word) = x"
  by (simp add: signed_of_int signed_take_bit_int_eq_self)

lemma expiry_bytes_roundtrip:
  assumes "chrono_seconds E" "representable t"
  shows "from_timestamp E (sint (i64_from_le_bytes (i64_to_le_bytes (word_of_int (timestamp E t)))))
    = Some (truncate_to_seconds t)"
proof -
  have ts: "timestamp E t = t div nanos_per_sec" using assms(1) by (simp add: chrono_seconds_def)
  have "sint (word_of_int (timestamp E t) :: 64 word) = timestamp E t"
    using assms(2) unfolding ts representable_def chrono_min_secs_def chrono_max_secs_def
    by (intro sint_word_of_int_i64) auto
  then show ?thesis
    using assms unfolding i64_le_roundtrip
    by (simp add: ts chrono_seconds_def representable_def truncate_to_seconds_def)
qed

lemma discharge_deserialize_serialize:
  assumes "b64_lossless E" "chrono_seconds E" "discharge_typed d"
    and "\<forall>t. dis_expires_at d = Some t \<longrightarrow> representable t"
  shows "discharge_deserialize E (discharge_serialize E d) =
    Inr (d\<lparr> dis_expires_at := map_option truncate_to_seconds (dis_expires_at d) \<rparr>)"
proof -
  let ?l = "dis_location d" and ?c = "dis_condition d"
  let ?lb = "u16_to_le_bytes (word_of_nat (length ?l))"
  let ?cb = "u16_to_le_bytes (word_of_nat (length ?c))"
  let ?tail = "discharge_signature d @ dis_binding d"
  define ex where "ex = (case dis_expires_at d of None \<Rightarrow> []
      | Some t \<Rightarrow> i64_to_le_bytes (word_of_int (timestamp E t)))"
  let ?buf = "?lb @ as_bytes ?l @ ?cb @ as_bytes ?c @ ex @ ?tail"
  have l: "unat (u16_from_le_bytes (?buf ! 0) (?buf ! 1)) = length ?l"
    using u16_frame [of "length ?l" "[]" "as_bytes ?l @ ?cb @ as_bytes ?c @ ex @ ?tail"] assms(3)
    by (simp add: discharge_typed_def)
  have c: "unat (u16_from_le_bytes (?buf ! (2 + length ?l)) (?buf ! (2 + length ?l + 1))) = length ?c"
    using u16_frame [of "length ?c" "?lb @ as_bytes ?l" "as_bytes ?c @ ex @ ?tail"] assms(3)
    by (simp add: discharge_typed_def)
  have ser: "discharge_serialize E d = b64_encode E ?buf"
    by (simp add: discharge_serialize_def ex_def)
  show ?thesis
  proof (cases "dis_expires_at d")
    case None
    then have "ex = []" by (simp add: ex_def)
    with l c assms None show ?thesis
      unfolding ser discharge_deserialize_def by (simp add: discharge_typed_def Let_def)
  next
    case (Some t)
    then have ex: "ex = i64_to_le_bytes (word_of_int (timestamp E t))" by (simp add: ex_def)
    then have "length ex = 8" by simp
    with l c assms Some ex expiry_bytes_roundtrip [OF assms(2), of t] show ?thesis
      unfolding ser discharge_deserialize_def by (simp add: discharge_typed_def Let_def)
  qed
qed

section \<open>Unforgeability in the symbolic model\<close>

text \<open>What a holder of the byte strings \<open>K\<close> can compute with the HMAC, and the symbolic reading of
  collision resistance: a tag determines its key and its message.\<close>

inductive_set computable :: "'z ext_scheme \<Rightarrow> bytes set \<Rightarrow> bytes set"
  for E :: "'z ext_scheme" and K :: "bytes set" where
  known: "k \<in> K \<Longrightarrow> k \<in> computable E K"
| tag: "k \<in> computable E K \<Longrightarrow> hmac_sha256 E k d \<in> computable E K"

definition hmac_collision_free :: "'z ext_scheme \<Rightarrow> bool" where
  "hmac_collision_free E \<longleftrightarrow>
     (\<forall>k d k' d'. hmac_sha256 E k d = hmac_sha256 E k' d' \<longrightarrow> k = k' \<and> d = d')"

definition chain_sig :: "'z ext_scheme \<Rightarrow> bytes \<Rightarrow> uuid \<Rightarrow> string list \<Rightarrow> bytes" where
  "chain_sig E root i cs = foldl (extend_sig E) (hmac_sha256 E root i) cs"

lemma chain_sig_simps:
  "chain_sig E root i [] = hmac_sha256 E root i"
  "chain_sig E root i (cs @ [c]) = hmac_sha256 E (chain_sig E root i cs) (as_bytes c)"
  by (simp_all add: chain_sig_def extend_sig_def)

lemma hmac_collision_free_iff:
  "hmac_collision_free E \<Longrightarrow> hmac_sha256 E k d = hmac_sha256 E k' d' \<longleftrightarrow> k = k' \<and> d = d'"
  unfolding hmac_collision_free_def by blast

lemma chain_sig_inj:
  assumes "hmac_collision_free E" and acyclic: "\<And>i cs. chain_sig E root i cs \<noteq> root"
    and "chain_sig E root i cs = chain_sig E root j ds"
  shows "i = j \<and> cs = ds"
  using assms(3)
proof (induction cs arbitrary: ds rule: rev_induct)
  case Nil
  then show ?case
    using acyclic [symmetric] by (cases ds rule: rev_cases)
      (simp_all add: chain_sig_simps hmac_collision_free_iff [OF assms(1)])
next
  case (snoc c cs)
  show ?case
  proof (cases ds rule: rev_cases)
    case Nil
    with snoc.prems acyclic show ?thesis
      by (simp add: chain_sig_simps hmac_collision_free_iff [OF assms(1)])
  next
    case (snoc ds' d)
    with snoc.prems have "chain_sig E root i cs = chain_sig E root j ds'" "c = d"
      by (simp_all add: chain_sig_simps hmac_collision_free_iff [OF assms(1)])
    with snoc.IH snoc show ?thesis by blast
  qed
qed

lemma computable_chain:
  assumes "x \<in> computable E (insert (chain_sig E root i cs) A)"
    and "hmac_collision_free E" and acyclic: "\<And>i cs. chain_sig E root i cs \<noteq> root"
    and "root \<notin> computable E (insert (chain_sig E root i cs) A)"
    and "\<forall>j ds. chain_sig E root j ds \<notin> A"
    and "x = chain_sig E root j ds"
  shows "j = i \<and> prefix cs ds"
  using assms(1,6)
proof (induction arbitrary: ds rule: computable.induct)
  case (known x)
  with assms(5) have "chain_sig E root i cs = chain_sig E root j ds" by auto
  from chain_sig_inj [OF assms(2) acyclic this] show ?case by simp
next
  case (tag k d)
  show ?case
  proof (cases ds rule: rev_cases)
    case Nil
    with tag assms(2) have "k = root" by (simp add: chain_sig_simps hmac_collision_free_iff)
    with tag(1) assms(4) show ?thesis by simp
  next
    case (snoc ds' c)
    with tag assms(2) have "k = chain_sig E root j ds'"
      by (simp add: chain_sig_simps hmac_collision_free_iff)
    with tag.IH snoc show ?thesis by auto
  qed
qed

text \<open>A collision-free instance: the tag is the key's length in unary, the key and the message.\<close>

definition framed_ext :: ext where
  "framed_ext = sample_ext\<lparr> hmac_sha256 := (\<lambda>k d. replicate (length k) 1 @ 0 # k @ d) \<rparr>"

lemma framed_split:
  "replicate n (1 :: byte) @ 0 # xs = replicate m 1 @ 0 # ys \<Longrightarrow> n = m \<and> xs = ys"
proof (induction n arbitrary: m)
  case 0
  then show ?case by (cases m) auto
next
  case (Suc n)
  then show ?case by (cases m) auto
qed

lemma framed_collision_free: "hmac_collision_free framed_ext"
  by (auto simp: hmac_collision_free_def framed_ext_def dest!: framed_split)

lemma framed_chain_length: "length root < length (chain_sig framed_ext root i cs)"
  by (induction cs rule: rev_induct) (auto simp: chain_sig_simps framed_ext_def)

lemma framed_acyclic: "chain_sig framed_ext root i cs \<noteq> root"
  using framed_chain_length [of root i cs] by auto

lemma framed_computable_length:
  "x \<in> computable framed_ext K \<Longrightarrow> (\<forall>k \<in> K. n \<le> length k) \<Longrightarrow> n \<le> length x"
  by (induction rule: computable.induct) (auto simp: framed_ext_def)

lemma verify_fold_add_caveat:
  assumes "verify_signature E k m = Inr ()"
    and "b64url_lossless E" "b64url_alphabet E" "\<forall>c \<in> set cs. encodable E c"
  shows "verify E k v (foldl (add_caveat E) m cs) = Inr () \<longleftrightarrow>
    verify E k v m = Inr () \<and>
    (\<forall>i < length cs. check E v (cs ! i)
       (Some (mac_signature (foldl (add_caveat E) m (take (Suc i) cs)))) = Inr ())"
  using assms(1,4)
proof (induction cs arbitrary: m)
  case (Cons c cs)
  have "verify E k v (add_caveat E m c) = Inr () \<longleftrightarrow> verify E k v m = Inr () \<and>
      check E v c (Some (mac_signature (add_caveat E m c))) = Inr ()"
    using Cons.prems caveat_parse_encode [OF assms(2,3), of c]
    by (auto simp: verify_add_caveat result_simps)
  with Cons.IH [of "add_caveat E m c"] Cons.prems add_caveat_verifies show ?case
    by (simp add: All_less_Suc2) blast
qed simp

section \<open>Properties\<close>

text \<open>Caveat round trip.  Parsing the text of any caveat gives the caveat back: first-party
  values of any content, deadlines that chrono prints exactly, and third-party caveats with
  non-empty location and key identifier.\<close>

lemma caveat_roundtrip:
  assumes "b64url_lossless E" "b64url_alphabet E" "encodable E c"
  shows "caveat_parse E (caveat_encode E c) = Inr c"
  using assms by (rule caveat_parse_encode)

lemma caveat_roundtrip_witness:
  "caveat_parse sample_ext (caveat_encode sample_ext (ThirdParty ''idp'' ''k1'')) =
     Inr (ThirdParty ''idp'' ''k1'')"
  by (rule caveat_roundtrip) (simp_all add: sample_ext_laws wf_str_def)

text \<open>C28 (wire format of handles).  A macaroon survives serialisation and deserialisation exactly
  when its caveat count and every caveat length fit the 16-bit length fields of the format.\<close>

theorem mac_wire_roundtrip:
  assumes "b64_lossless E" "mac_typed m"
  shows "mac_deserialize E (mac_serialize E m) = Inr m \<longleftrightarrow> fits_u16 m"
  using assms mac_deserialize_serialize mac_deserialize_fits by blast

theorem mac_wire_roundtrip_witness:
  "mac_deserialize sample_ext (mac_serialize sample_ext (mint sample_ext [1] (replicate 16 7) [MaxUses]))
     = Inr (mint sample_ext [1] (replicate 16 7) [MaxUses])"
proof -
  let ?m = "mint sample_ext [1] (replicate 16 7) [MaxUses]"
  have "mac_typed ?m" by (simp add: mac_typed_def mint_def wf_str_def extend_sig_def sample_ext_laws)
  moreover have "fits_u16 ?m" by (simp add: fits_u16_def)
  ultimately show ?thesis using mac_wire_roundtrip [of sample_ext ?m] sample_ext_laws(2) by simp
qed

text \<open>C9 (attenuation only narrows).  Adding any list of caveats to an authentic macaroon keeps it
  authentic and bound to the same secret, and the result verifies in a context exactly if the
  original does and every added caveat holds there.\<close>

theorem attenuation_narrows:
  assumes "verify_signature E k m = Inr ()"
    and "b64url_lossless E" "b64url_alphabet E" "\<forall>c \<in> set cs. encodable E c"
  shows "verify_signature E k (foldl (add_caveat E) m cs) = Inr () \<and>
    mac_identifier (foldl (add_caveat E) m cs) = mac_identifier m \<and>
    (verify E k v (foldl (add_caveat E) m cs) = Inr () \<longleftrightarrow>
       verify E k v m = Inr () \<and>
       (\<forall>i < length cs. check E v (cs ! i)
          (Some (mac_signature (foldl (add_caveat E) m (take (Suc i) cs)))) = Inr ()))"
  using mac.fold_authentic [OF assms(1)] mac.fold_ident verify_fold_add_caveat [OF assms] by blast

definition sample_verifier :: CaveatVerifier where
  "sample_verifier = \<lparr> ver_tenant_id = Some ''acme'', ver_provider = None, ver_circuit_id = None,
     ver_node_id = None, ver_action = Some ''read'', ver_use_count = 1, ver_now = 5,
     ver_discharges = [], ver_discharge_keys = [] \<rparr>"

theorem attenuation_narrows_witness:
  "verify sample_ext [1] sample_verifier (foldl (add_caveat sample_ext)
     (mint sample_ext [1] [2] [TenantId ''acme'']) [MaxUses, Action ''write'']) \<noteq> Inr ()"
  using attenuation_narrows [of sample_ext "[1]" "mint sample_ext [1] [2] [TenantId ''acme'']"
      "[MaxUses, Action ''write'']" sample_verifier]
  by (simp add: mint_verifies sample_ext_laws sample_verifier_def check_text_def All_less_Suc)



text \<open>C27 (a discharge satisfies the caveat it was minted for).  The signature that
  \<open>third_party_binding_info_by_key_id\<close> returns is the one \<open>verify\<close> uses at the unique position of
  that caveat, and a discharge minted over it with the sealed key and condition is accepted there
  until it expires.\<close>

theorem minted_discharge_accepted:
  assumes "third_party_binding_info_by_key_id E m root l kid = Inr psig"
    and "find (\<lambda>e. key_location e = l \<and> key_key_id e = kid) (ver_discharge_keys v) = Some key"
    and "mint_with_expiry E l (key_condition key) (key_key key) psig deadline \<in> set (ver_discharges v)"
    and "\<forall>t. deadline = Some t \<longrightarrow> ver_now v \<le> t"
  shows "\<exists>i < length (mac_caveats m).
    caveat_parse E (mac_caveats m ! i) = Inr (ThirdParty l kid) \<and>
    (\<forall>j < length (mac_caveats m). caveat_parse E (mac_caveats m ! j) = Inr (ThirdParty l kid) \<longrightarrow> j = i) \<and>
    check E v (ThirdParty l kid)
      (Some (caveat_signatures E (hmac_sha256 E root (mac_identifier m)) (mac_caveats m) ! i)) = Inr ()"
proof -
  have "binding_loop E l kid (hmac_sha256 E root (mac_identifier m)) None (mac_caveats m) = Inr (Some psig)"
    using assms(1) by (auto simp: third_party_binding_info_by_key_id_def result_simps)
  from binding_loop_Some [OF this] obtain i where i: "i < length (mac_caveats m)"
    and p: "caveat_parse E (mac_caveats m ! i) = Inr (ThirdParty l kid)"
    and psig: "psig = foldl (extend_sig E) (hmac_sha256 E root (mac_identifier m)) (take (Suc i) (mac_caveats m))"
    and u: "\<forall>j < length (mac_caveats m). caveat_parse E (mac_caveats m ! j) = Inr (ThirdParty l kid) \<longrightarrow> j = i"
    by blast
  have "dis_location (mint_with_expiry E l (key_condition key) (key_key key) psig deadline) = l"
    and "dis_condition (mint_with_expiry E l (key_condition key) (key_key key) psig deadline) = key_condition key"
    by (simp_all add: mint_with_expiry_def Let_def)
  then have "check E v (ThirdParty l kid) (Some psig) = Inr ()"
    using assms(2-4) discharge_verify_mint [of E l "key_condition key" "key_key key" psig deadline]
    by (auto simp: check_third_party_Inr_iff not_less)
  then have "check E v (ThirdParty l kid)
      (Some (caveat_signatures E (hmac_sha256 E root (mac_identifier m)) (mac_caveats m) ! i)) = Inr ()"
    using caveat_signatures_nth [OF i] psig by metis
  with i p u show ?thesis by blast
qed

definition sample_key_ref :: DischargeKeyRef where
  "sample_key_ref = \<lparr> key_location = ''idp'', key_key_id = ''k1'', key_condition = ''mfa'', key_key = [9] \<rparr>"

definition sample_bound :: bytes where
  "sample_bound = extend_sig sample_ext (hmac_sha256 sample_ext [1] [2])
     (caveat_encode sample_ext (ThirdParty ''idp'' ''k1''))"

theorem minted_discharge_accepted_witness:
  "\<exists>i < 1. check sample_ext (sample_verifier\<lparr> ver_discharge_keys := [sample_key_ref],
        ver_discharges := [mint_with_expiry sample_ext ''idp'' ''mfa'' [9] sample_bound (Some 8)] \<rparr>)
     (ThirdParty ''idp'' ''k1'')
     (Some (caveat_signatures sample_ext (hmac_sha256 sample_ext [1] [2])
        [caveat_encode sample_ext (ThirdParty ''idp'' ''k1'')] ! i)) = Inr ()"
proof -
  let ?m = "mint sample_ext [1] [2] [ThirdParty ''idp'' ''k1'']"
  let ?v = "sample_verifier\<lparr> ver_discharge_keys := [sample_key_ref],
        ver_discharges := [mint_with_expiry sample_ext ''idp'' ''mfa'' [9] sample_bound (Some 8)] \<rparr>"
  have "third_party_binding_info_by_key_id sample_ext ?m [1] ''idp'' ''k1'' = Inr sample_bound"
    using caveat_parse_encode [of sample_ext "ThirdParty ''idp'' ''k1''"]
    by (simp add: third_party_binding_info_by_key_id_def sample_bound_def Let_def sample_ext_laws
        wf_str_def del: caveat_encode.simps)
  from minted_discharge_accepted [OF this, of ?v sample_key_ref "Some 8"]
  show ?thesis by (simp add: sample_key_ref_def sample_verifier_def del: caveat_encode.simps check.simps)
qed

text \<open>C26 (third-party caveats are enforced).  If a handle verifies, every third-party caveat in it has a
  discharge for the sealed condition, authenticated with the sealed key and bound to the signature
  of the handle at the position of the caveat.\<close>

theorem verified_handle_discharged:
  assumes "verify E root v m = Inr ()"
    and "i < length (mac_caveats m)" "caveat_parse E (mac_caveats m ! i) = Inr (ThirdParty l kid)"
  shows "\<exists>key \<in> set (ver_discharge_keys v). \<exists>d \<in> set (ver_discharges v).
    key_location key = l \<and> key_key_id key = kid \<and>
    dis_location d = l \<and> dis_condition d = key_condition key \<and>
    (\<forall>t. dis_expires_at d = Some t \<longrightarrow> ver_now v \<le> t) \<and>
    discharge_signature d = hmac_sha256 E (key_key key) (as_bytes (key_condition key)) \<and>
    dis_binding d = hmac_sha256 E (chain_sig E root (mac_identifier m) (take (Suc i) (mac_caveats m)))
      (discharge_signature d)"
proof -
  let ?sigs = "caveat_signatures E (hmac_sha256 E root (mac_identifier m)) (mac_caveats m)"
  have "check_caveats E v (zip (mac_caveats m) ?sigs) = Inr ()"
    using assms(1) by (auto simp: verify_split result_simps)
  moreover have "(mac_caveats m ! i, ?sigs ! i) \<in> set (zip (mac_caveats m) ?sigs)"
    using assms(2) by (auto simp: set_zip)
  ultimately have "check_third_party E v l kid (Some (?sigs ! i)) = Inr ()"
    using assms(3) by (fastforce simp: check_caveats_Inr_iff)
  then obtain key d where "find (\<lambda>e. key_location e = l \<and> key_key_id e = kid) (ver_discharge_keys v) = Some key"
    and "d \<in> set (ver_discharges v)" "dis_location d = l" "dis_condition d = key_condition key"
    and "discharge_verify E d (key_condition key) (key_key key) (?sigs ! i) (ver_now v) = Inr ()"
    unfolding check_third_party_Inr_iff by blast
  moreover have "?sigs ! i = chain_sig E root (mac_identifier m) (take (Suc i) (mac_caveats m))"
    using caveat_signatures_nth [OF assms(2)] by (simp add: chain_sig_def)
  ultimately show ?thesis
    by (intro bexI [of _ key] bexI [of _ d]) (auto simp: discharge_verify_Inr_iff dest: find_SomeD)
qed

theorem verified_handle_discharged_witness:
  "\<exists>d \<in> {mint_with_expiry sample_ext ''idp'' ''mfa'' [9] sample_bound (Some 8)}.
     discharge_signature d = hmac_sha256 sample_ext [9] (as_bytes ''mfa'')"
proof -
  let ?m = "mint sample_ext [1] [2] [ThirdParty ''idp'' ''k1'']"
  let ?v = "sample_verifier\<lparr> ver_discharge_keys := [sample_key_ref],
        ver_discharges := [mint_with_expiry sample_ext ''idp'' ''mfa'' [9] sample_bound (Some 8)] \<rparr>"
  have p: "caveat_parse sample_ext (caveat_encode sample_ext (ThirdParty ''idp'' ''k1'')) =
      Inr (ThirdParty ''idp'' ''k1'')"
    by (rule caveat_parse_encode) (simp_all add: sample_ext_laws wf_str_def)
  have "check_third_party sample_ext ?v ''idp'' ''k1'' (Some sample_bound) = Inr ()"
    unfolding check_third_party_Inr_iff
    by (simp add: sample_key_ref_def sample_verifier_def discharge_verify_Inr_iff
        mint_with_expiry_def Let_def)
  then have "verify sample_ext [1] ?v ?m = Inr ()"
    using p by (simp add: verify_split mint_verifies sample_bound_def Let_def del: caveat_encode.simps)
  from verified_handle_discharged [OF this, of 0 "''idp''" "''k1''"] p show ?thesis
    by (simp add: sample_key_ref_def sample_verifier_def del: caveat_encode.simps)
qed

text \<open>Wire format of discharges.  A discharge survives serialisation and deserialisation, its
  expiry rounded down to whole seconds.\<close>

lemma discharge_wire_roundtrip:
  assumes "b64_lossless E" "chrono_seconds E" "discharge_typed d"
    and "\<forall>t. dis_expires_at d = Some t \<longrightarrow> representable t"
  shows "discharge_deserialize E (discharge_serialize E d) =
    Inr (d\<lparr> dis_expires_at := map_option truncate_to_seconds (dis_expires_at d) \<rparr>)"
  using assms by (rule discharge_deserialize_serialize)

lemma discharge_wire_roundtrip_witness:
  "discharge_deserialize sample_ext (discharge_serialize sample_ext
      (mint_with_expiry sample_ext ''idp'' ''mfa'' [9] [4] (Some 1700000000500000000))) =
    Inr (mint_with_expiry sample_ext ''idp'' ''mfa'' [9] [4] (Some 1700000000000000000))"
  by (subst discharge_wire_roundtrip)
     (simp_all add: sample_ext_laws discharge_typed_def mint_with_expiry_def Let_def wf_str_def
       representable_def chrono_min_secs_def chrono_max_secs_def truncate_to_seconds_def)

text \<open>C29 (the expiry of a discharge is not authenticated).  The two HMACs of a discharge cover its
  condition only: the holder of a valid discharge can drop or extend its deadline and the altered
  discharge is accepted at any later time.\<close>

theorem discharge_expiry_unauthenticated:
  assumes "discharge_verify E d c dk psig now = Inr ()"
    and "\<forall>t. deadline = Some t \<longrightarrow> later \<le> t"
  shows "discharge_verify E (d\<lparr> dis_expires_at := deadline \<rparr>) c dk psig later = Inr ()"
  using assms by (simp add: discharge_verify_Inr_iff)

theorem discharge_expiry_unauthenticated_witness:
  "discharge_verify sample_ext
     ((mint_with_expiry sample_ext ''idp'' ''mfa'' [9] [4] (Some 10))\<lparr> dis_expires_at := None \<rparr>)
     ''mfa'' [9] [4] 1000000 = Inr ()"
  by (rule discharge_expiry_unauthenticated [where now = 3]) (simp_all add: discharge_verify_mint)

end
