(* ===== verification/Codec.thy ===== *)
theory Codec
  imports Externals
begin

text \<open>
  Prefix codecs for byte strings, used to give the serialisation parameters of the model a concrete
  instance.  A codec is a pair of a printer and a parser; it is faithful if parsing a printed value
  followed by anything returns the value and the rest.
\<close>

type_synonym 'a codec = "('a \<Rightarrow> bytes) \<times> (bytes \<Rightarrow> ('a \<times> bytes) option)"

definition faithful :: "'a codec \<Rightarrow> bool" where
  "faithful c \<longleftrightarrow> (\<forall>x rest. snd c (fst c x @ rest) = Some (x, rest))"

definition c_byte :: "byte codec" where
  "c_byte = (\<lambda>b. [b], \<lambda>bs. case bs of [] \<Rightarrow> None | b # r \<Rightarrow> Some (b, r))"

definition c_pair :: "'a codec \<Rightarrow> 'b codec \<Rightarrow> ('a \<times> 'b) codec" where
  "c_pair c d = (\<lambda>(x, y). fst c x @ fst d y,
     \<lambda>bs. case snd c bs of None \<Rightarrow> None
        | Some (x, r) \<Rightarrow> (case snd d r of None \<Rightarrow> None | Some (y, r') \<Rightarrow> Some ((x, y), r')))"

definition c_iso :: "('b \<Rightarrow> 'a) \<Rightarrow> ('a \<Rightarrow> 'b) \<Rightarrow> 'a codec \<Rightarrow> 'b codec" where
  "c_iso f g c = (\<lambda>y. fst c (f y), \<lambda>bs. map_option (\<lambda>(x, r). (g x, r)) (snd c bs))"

definition c_bool :: "bool codec" where
  "c_bool = c_iso (\<lambda>b. if b then 1 else 0) (\<lambda>w. w = 1) c_byte"

definition c_option :: "'a codec \<Rightarrow> 'a option codec" where
  "c_option c = (\<lambda>v. case v of None \<Rightarrow> [0] | Some x \<Rightarrow> 1 # fst c x,
     \<lambda>bs. case bs of [] \<Rightarrow> None
        | b # r \<Rightarrow> if b = 0 then Some (None, r) else map_option (\<lambda>(x, r'). (Some x, r')) (snd c r))"

primrec put_list :: "('a \<Rightarrow> bytes) \<Rightarrow> 'a list \<Rightarrow> bytes" where
  "put_list p [] = [0]"
| "put_list p (x # xs) = 1 # p x @ put_list p xs"

fun get_list :: "(bytes \<Rightarrow> ('a \<times> bytes) option) \<Rightarrow> nat \<Rightarrow> bytes \<Rightarrow> ('a list \<times> bytes) option" where
  "get_list g 0 bs = None"
| "get_list g (Suc n) [] = None"
| "get_list g (Suc n) (b # r) =
     (if b = 0 then Some ([], r)
      else case g r of None \<Rightarrow> None
        | Some (x, r') \<Rightarrow> map_option (\<lambda>(xs, r''). (x # xs, r'')) (get_list g n r'))"

definition c_list :: "'a codec \<Rightarrow> 'a list codec" where
  "c_list c = (put_list (fst c), \<lambda>bs. get_list (snd c) (length bs) bs)"

function put_nat :: "nat \<Rightarrow> byte list" where
  "put_nat n = (if n = 0 then [] else word_of_nat (n mod 256) # put_nat (n div 256))"
  by pat_completeness auto
termination by (relation "measure id") auto

declare put_nat.simps [simp del]

definition c_nat :: "nat codec" where
  "c_nat = c_iso put_nat le_nat (c_list c_byte)"

definition c_int :: "int codec" where
  "c_int = c_iso (\<lambda>i. (i < 0, nat \<bar>i\<bar>)) (\<lambda>(s, n). if s then - int n else int n) (c_pair c_bool c_nat)"

definition c_string :: "string codec" where
  "c_string = c_iso as_bytes (map byte_char) (c_list c_byte)"

definition c_u32 :: "32 word codec" where
  "c_u32 = c_iso unat word_of_nat c_nat"

lemma faithfulD: "faithful c \<Longrightarrow> snd c (fst c x @ rest) = Some (x, rest)"
  by (simp add: faithful_def)

lemma faithful_byte: "faithful c_byte"
  by (simp add: faithful_def c_byte_def)

lemma faithful_pair: "faithful c \<Longrightarrow> faithful d \<Longrightarrow> faithful (c_pair c d)"
  by (simp add: faithful_def c_pair_def)

lemma faithful_iso: "faithful c \<Longrightarrow> (\<And>y. g (f y) = y) \<Longrightarrow> faithful (c_iso f g c)"
  by (simp add: faithful_def c_iso_def)

lemma faithful_bool: "faithful c_bool"
  unfolding c_bool_def by (intro faithful_iso faithful_byte) simp

lemma faithful_option: "faithful c \<Longrightarrow> faithful (c_option c)"
  by (simp add: faithful_def c_option_def split: option.split)

lemma get_put_list:
  assumes "faithful c" "length xs < n"
  shows "get_list (snd c) n (put_list (fst c) xs @ rest) = Some (xs, rest)"
  using assms(2)
proof (induction xs arbitrary: n)
  case Nil
  then show ?case by (cases n) auto
next
  case (Cons x xs)
  then show ?case by (cases n) (auto simp: faithfulD [OF assms(1)])
qed

lemma length_put_list: "length xs < length (put_list p xs)"
  by (induction xs) auto

lemma faithful_list:
  assumes "faithful c"
  shows "faithful (c_list c)"
  unfolding faithful_def
proof (intro allI)
  fix xs rest
  have "length xs < length (put_list (fst c) xs @ rest)"
    using length_put_list [of xs "fst c"] by simp
  from get_put_list [OF assms this] show "snd (c_list c) (fst (c_list c) xs @ rest) = Some (xs, rest)"
    by (simp add: c_list_def)
qed

lemma le_nat_put_nat: "le_nat (put_nat n) = n"
proof (induction n rule: put_nat.induct)
  case (1 n)
  show ?case
  proof (cases "n = 0")
    case False
    have "unat (word_of_nat (n mod 256) :: byte) = n mod 256" by (simp add: unat_of_nat)
    with 1 False show ?thesis by (subst put_nat.simps) simp
  qed (simp add: put_nat.simps)
qed

lemma faithful_nat: "faithful c_nat"
  unfolding c_nat_def by (intro faithful_iso faithful_list faithful_byte le_nat_put_nat)

lemma faithful_int: "faithful c_int"
  unfolding c_int_def by (intro faithful_iso faithful_pair faithful_bool faithful_nat) simp

lemma faithful_string: "faithful c_string"
  unfolding c_string_def
  by (intro faithful_iso faithful_list faithful_byte) (simp add: as_bytes_def comp_def)

lemma faithful_u32: "faithful c_u32"
  unfolding c_u32_def by (intro faithful_iso faithful_nat) simp

section \<open>JSON\<close>

text \<open>JSON values are flattened to a list of tokens in prefix order with explicit ends, so that the
  codec of token lists applies.\<close>

datatype jtoken = TNull | TBool bool | TInt int | TFloat string | TString string | TKey string
  | TOpenArray | TOpenObject | TClose

fun flatten :: "json \<Rightarrow> jtoken list" and flatten_pairs :: "(string \<times> json) list \<Rightarrow> jtoken list"
  and flatten_list :: "json list \<Rightarrow> jtoken list" where
  "flatten JNull = [TNull]"
| "flatten (JBool b) = [TBool b]"
| "flatten (JInt i) = [TInt i]"
| "flatten (JFloat s) = [TFloat s]"
| "flatten (JString s) = [TString s]"
| "flatten (JArray xs) = TOpenArray # flatten_list xs"
| "flatten (JObject kvs) = TOpenObject # flatten_pairs kvs"
| "flatten_pairs [] = [TClose]"
| "flatten_pairs ((k, v) # r) = TKey k # flatten v @ flatten_pairs r"
| "flatten_list [] = [TClose]"
| "flatten_list (v # r) = flatten v @ flatten_list r"

fun build :: "nat \<Rightarrow> jtoken list \<Rightarrow> (json \<times> jtoken list) option"
  and build_pairs :: "nat \<Rightarrow> jtoken list \<Rightarrow> ((string \<times> json) list \<times> jtoken list) option"
  and build_list :: "nat \<Rightarrow> jtoken list \<Rightarrow> (json list \<times> jtoken list) option" where
  "build (Suc n) (TNull # r) = Some (JNull, r)"
| "build (Suc n) (TBool b # r) = Some (JBool b, r)"
| "build (Suc n) (TInt i # r) = Some (JInt i, r)"
| "build (Suc n) (TFloat s # r) = Some (JFloat s, r)"
| "build (Suc n) (TString s # r) = Some (JString s, r)"
| "build (Suc n) (TOpenArray # r) = map_option (\<lambda>(xs, r'). (JArray xs, r')) (build_list n r)"
| "build (Suc n) (TOpenObject # r) = map_option (\<lambda>(xs, r'). (JObject xs, r')) (build_pairs n r)"
| "build _ _ = None"
| "build_pairs (Suc n) (TClose # r) = Some ([], r)"
| "build_pairs (Suc n) (TKey k # r) =
     (case build n r of None \<Rightarrow> None
      | Some (v, r') \<Rightarrow> map_option (\<lambda>(kvs, r''). ((k, v) # kvs, r'')) (build_pairs n r'))"
| "build_pairs _ _ = None"
| "build_list (Suc n) (TClose # r) = Some ([], r)"
| "build_list (Suc n) ts =
     (case build n ts of None \<Rightarrow> None
      | Some (v, r') \<Rightarrow> map_option (\<lambda>(vs, r''). (v # vs, r'')) (build_list n r'))"
| "build_list _ _ = None"

lemma flatten_no_close: "\<exists>t ts. flatten v = t # ts \<and> t \<noteq> TClose"
  by (cases v) auto

lemma build_list_step:
  "build_list (Suc n) (flatten v @ r) =
     (case build n (flatten v @ r) of None \<Rightarrow> None
      | Some (w, r') \<Rightarrow> map_option (\<lambda>(vs, r''). (w # vs, r'')) (build_list n r'))"
proof -
  obtain t ts where "flatten v = t # ts" "t \<noteq> TClose" using flatten_no_close by blast
  then show ?thesis by (cases t) auto
qed

lemma build_flatten:
  "length (flatten v) \<le> n \<Longrightarrow> build n (flatten v @ r) = Some (v, r)"
  "length (flatten_pairs kvs) \<le> n \<Longrightarrow> build_pairs n (flatten_pairs kvs @ r) = Some (kvs, r)"
  "length (flatten_list vs) \<le> n \<Longrightarrow> build_list n (flatten_list vs @ r) = Some (vs, r)"
proof (induction v and kvs and vs arbitrary: n r and n r and n r
    rule: flatten_flatten_pairs_flatten_list.induct)
  case (6 xs)
  then show ?case by (cases n) auto
next
  case (7 kvs)
  then show ?case by (cases n) auto
next
  case (9 k v kvs)
  then show ?case by (cases n) auto
next
  case (11 v vs)
  have "0 < length (flatten v)" using flatten_no_close [of v] by auto
  moreover have "0 < length (flatten_list vs)" using flatten_no_close [of "hd vs"] by (cases vs) auto
  moreover have "length (flatten v) + length (flatten_list vs) \<le> n" using 11 by simp
  ultimately obtain m where "n = Suc m" "length (flatten v) \<le> m" "length (flatten_list vs) \<le> m"
    by (cases n) auto
  with 11 show ?case by (simp add: build_list_step)
qed (auto split: nat.splits, (case_tac n, auto)+)

definition c_token :: "jtoken codec" where
  "c_token = c_iso
     (\<lambda>t. case t of TNull \<Rightarrow> (0, []) | TBool b \<Rightarrow> (1, [if b then CHR ''t'' else CHR ''f''])
        | TInt i \<Rightarrow> (2, map byte_char (fst c_int i)) | TFloat s \<Rightarrow> (3, s) | TString s \<Rightarrow> (4, s)
        | TKey s \<Rightarrow> (5, s) | TOpenArray \<Rightarrow> (6, []) | TOpenObject \<Rightarrow> (7, []) | TClose \<Rightarrow> (8, []))
     (\<lambda>(w, s). if w = 0 then TNull else if w = 1 then TBool (s = ''t'')
        else if w = 2 then TInt (fst (the (snd c_int (as_bytes s))))
        else if w = 3 then TFloat s else if w = 4 then TString s else if w = 5 then TKey s
        else if w = 6 then TOpenArray else if w = 7 then TOpenObject else TClose)
     (c_pair c_byte c_string)"

definition c_json :: "json codec" where
  "c_json = c_iso flatten (\<lambda>ts. fst (the (build (length ts) ts))) (c_list c_token)"

lemma faithful_token: "faithful c_token"
proof -
  have "snd c_int (as_bytes (map byte_char (fst c_int i))) = Some (i, [])" for i
    using faithfulD [OF faithful_int, of i "[]"] by (simp add: as_bytes_def comp_def)
  then show ?thesis
    unfolding c_token_def by (intro faithful_iso faithful_pair faithful_byte faithful_string)
      (simp split: jtoken.split)
qed

lemma faithful_json: "faithful c_json"
  unfolding c_json_def using build_flatten(1) [of _ _ "[]"]
  by (intro faithful_iso faithful_list faithful_token) simp

lemmas faithful_intros = faithful_byte faithful_pair faithful_bool faithful_option faithful_list
  faithful_nat faithful_int faithful_string faithful_u32 faithful_json

end
