(* ===== verification/Sealed_Store.thy ===== *)
theory Sealed_Store
  imports Codec
begin

text \<open>
  The sealed store: \<open>secret_broker_impl/sealed_store.rs\<close>.

  Records are serialised, encrypted with AES-256-GCM under the master key and kept in a sled tree.
  Every operation is a read-modify-write of one entry: \<open>fetch_record\<close> is the read half (get, decode,
  decrypt, deserialise) and \<open>put_record\<close> the write half (serialise, encrypt, insert, flush) that the
  methods of \<open>SealedStore\<close> spell out.  A fresh nonce and the clock are arguments.  sled, the AEAD and
  serde are parameters (\<open>store_ext\<close>); a panic inside \<open>spawn_blocking\<close> surfaces as a join error.
  \<open>view\<close> is the abstract store, a map from handles to records, which the operations refine.
\<close>

section \<open>Data\<close>

record SecretEnvelope =
  env_envelope_key_id :: string
  env_algorithm :: string
  env_ciphertext :: string
  env_kyber_ciphertext :: string
  env_customer_id :: string
  env_exporter_binding :: "string option"
  env_metadata :: "json option"
  env_created_at :: instant

datatype SecretLifecycle = SingleUseUnwrap | RenewableLease | ServiceBootstrap

definition from_proto_i32 :: "32 word \<Rightarrow> SecretLifecycle" where
  "from_proto_i32 v =
     (if v = 1 then RenewableLease else if v = 2 then ServiceBootstrap else SingleUseUnwrap)"

record ShareAssignment =
  asg_custodian_id :: string
  asg_share_index :: byte
  asg_claimed :: bool

record HeldShare =
  held_x :: byte
  held_y_b64 :: string

record ThirdPartyCaveatKey =
  tpk_location :: string
  tpk_key_id :: string
  tpk_condition :: "string option"
  tpk_secret_b64 :: string
  tpk_created_at :: instant

record StoredEnvelopeRecord =
  rec_envelope :: SecretEnvelope
  rec_signature :: string
  rec_signing_key_id :: string
  rec_signing_public_key :: string
  rec_signing_key_expires_at :: "instant option"
  rec_expires_at :: "instant option"
  rec_last_accessed :: "instant option"
  rec_redeem_nonce :: "string option"
  rec_redeem_binding :: "string option"
  rec_unwrap_principal_id :: "string option"
  rec_issued_with_authenticated_transport :: bool
  rec_issued_by_principal_id :: "string option"
  rec_issued_by_peer_cert_sha256 :: "string option"
  rec_issued_by_attestation_digest :: "string option"
  rec_third_party_caveat_keys :: "ThirdPartyCaveatKey list option"
  rec_redeem_expires_at :: "instant option"
  rec_redeem_used :: bool
  rec_threshold :: "byte option"
  rec_threshold_commitments :: "string list option"
  rec_lifecycle :: SecretLifecycle
  rec_lease_expires_at :: "instant option"
  rec_lease_renewal_count :: "32 word"
  rec_revoked :: bool
  rec_revoked_at :: "instant option"
  rec_revocation_reason :: "string option"
  rec_share_assignments :: "ShareAssignment list option"
  rec_held_shares :: "HeldShare list option"

record ClaimResult =
  claim_x :: byte
  claim_y :: bytes
  claim_commitments :: "bytes list"
  claim_previously_claimed :: bool

record EncryptedRecord =
  er_nonce :: string
  er_ciphertext :: string

section \<open>Parameters\<close>

type_synonym tree = "bytes \<rightharpoonup> bytes"
type_synonym anyhow = string

record store_ext = ext +
  tree_get :: "tree \<Rightarrow> bytes \<Rightarrow> anyhow + bytes option"
  tree_insert :: "tree \<Rightarrow> bytes \<Rightarrow> bytes \<Rightarrow> anyhow + tree"
  tree_remove :: "tree \<Rightarrow> bytes \<Rightarrow> anyhow + (bytes option \<times> tree)"
  tree_flush :: "tree \<Rightarrow> anyhow + unit"
  record_to_json :: "StoredEnvelopeRecord \<Rightarrow> anyhow + bytes"
  record_from_json :: "bytes \<Rightarrow> anyhow + StoredEnvelopeRecord"
  encrypted_to_json :: "EncryptedRecord \<Rightarrow> anyhow + bytes"
  encrypted_from_json :: "bytes \<Rightarrow> anyhow + EncryptedRecord"
  envelope_to_json :: "SecretEnvelope \<Rightarrow> anyhow + bytes"
  aes_gcm_encrypt :: "bytes \<Rightarrow> bytes \<Rightarrow> bytes \<Rightarrow> bytes option"
  aes_gcm_decrypt :: "bytes \<Rightarrow> bytes \<Rightarrow> bytes \<Rightarrow> bytes option"

text \<open>What the store relies on: sled behaves as a map when an operation succeeds, serde reads back
  what it wrote, the AEAD opens what it sealed.  \<open>store_available\<close> says that no operation fails.\<close>

definition store_laws :: "'z store_ext_scheme \<Rightarrow> bool" where
  "store_laws E \<longleftrightarrow>
     (\<forall>t k v. tree_get E t k = Inr v \<longrightarrow> v = t k) \<and>
     (\<forall>t k v u. tree_insert E t k v = Inr u \<longrightarrow> u = t(k \<mapsto> v)) \<and>
     (\<forall>t k v u. tree_remove E t k = Inr (v, u) \<longrightarrow> v = t k \<and> u = t(k := None)) \<and>
     (\<forall>r b. record_to_json E r = Inr b \<longrightarrow> record_from_json E b = Inr r) \<and>
     (\<forall>r b. encrypted_to_json E r = Inr b \<longrightarrow> encrypted_from_json E b = Inr r) \<and>
     (\<forall>k n p c. aes_gcm_encrypt E k n p = Some c \<longrightarrow> aes_gcm_decrypt E k n c = Some p) \<and>
     b64_lossless E"

definition store_available :: "'z store_ext_scheme \<Rightarrow> bool" where
  "store_available E \<longleftrightarrow>
     (\<forall>t k. is_ok (tree_get E t k)) \<and> (\<forall>t k v. is_ok (tree_insert E t k v)) \<and>
     (\<forall>t k. is_ok (tree_remove E t k)) \<and> (\<forall>t. is_ok (tree_flush E t)) \<and>
     (\<forall>r. is_ok (record_to_json E r)) \<and> (\<forall>r. is_ok (encrypted_to_json E r)) \<and>
     (\<forall>k n p. aes_gcm_encrypt E k n p \<noteq> None)"

section \<open>Record accessors\<close>

definition is_expired :: "StoredEnvelopeRecord \<Rightarrow> instant \<Rightarrow> bool" where
  "is_expired r now = (case rec_expires_at r of Some expiry \<Rightarrow> now > expiry | None \<Rightarrow> False)"

definition envelope_bytes :: "'z store_ext_scheme \<Rightarrow> StoredEnvelopeRecord \<Rightarrow> anyhow + bytes" where
  "envelope_bytes E r = envelope_to_json E (rec_envelope r)"

definition ciphertext_bytes :: "'z ext_scheme \<Rightarrow> StoredEnvelopeRecord \<Rightarrow> anyhow + bytes" where
  "ciphertext_bytes E r =
     ok_or ''failed to decode ciphertext from base64'' (b64_decode E (env_ciphertext (rec_envelope r)))"

definition kem_ciphertext_bytes :: "'z ext_scheme \<Rightarrow> StoredEnvelopeRecord \<Rightarrow> anyhow + bytes" where
  "kem_ciphertext_bytes E r =
     ok_or ''failed to decode Kyber ciphertext from base64''
       (b64_decode E (env_kyber_ciphertext (rec_envelope r)))"

definition signature_bytes :: "'z ext_scheme \<Rightarrow> StoredEnvelopeRecord \<Rightarrow> anyhow + bytes" where
  "signature_bytes E r =
     ok_or ''failed to decode signature from base64'' (b64_decode E (rec_signature r))"

definition exporter_binding_bytes ::
  "'z ext_scheme \<Rightarrow> StoredEnvelopeRecord \<Rightarrow> anyhow + bytes option" where
  "exporter_binding_bytes E r =
     (case env_exporter_binding (rec_envelope r) of
        Some binding \<Rightarrow>
          rbind (ok_or ''failed to decode exporter binding from base64'' (b64_decode E binding))
            (\<lambda>b. Inr (Some b))
      | None \<Rightarrow> Inr None)"

section \<open>Encryption\<close>

definition encrypt_payload ::
  "'z store_ext_scheme \<Rightarrow> bytes \<Rightarrow> bytes \<Rightarrow> bytes \<Rightarrow> anyhow + (bytes \<times> bytes)" where
  "encrypt_payload E key nonce plaintext =
     rbind (ok_or ''failed to encrypt sealed envelope payload'' (aes_gcm_encrypt E key nonce plaintext))
       (\<lambda>ciphertext. Inr (nonce, ciphertext))"

text \<open>\<open>Nonce::from_slice\<close> panics unless the slice has 12 bytes.\<close>

definition decrypt_payload ::
  "'z store_ext_scheme \<Rightarrow> bytes \<Rightarrow> bytes \<Rightarrow> bytes \<Rightarrow> anyhow + bytes" where
  "decrypt_payload E key nonce ciphertext =
     (if length nonce \<noteq> 12 then Inl ''task panicked''
      else ok_or ''failed to decrypt sealed envelope payload'' (aes_gcm_decrypt E key nonce ciphertext))"

definition unseal_record ::
  "'z store_ext_scheme \<Rightarrow> bytes \<Rightarrow> bytes \<Rightarrow> anyhow + StoredEnvelopeRecord" where
  "unseal_record E key v =
     rbind (map_err (\<lambda>_. ''deserializing encrypted envelope'') (encrypted_from_json E v)) (\<lambda>encrypted.
     rbind (ok_or ''decoding envelope nonce'' (b64_decode E (er_nonce encrypted))) (\<lambda>nonce.
     rbind (ok_or ''decoding envelope ciphertext'' (b64_decode E (er_ciphertext encrypted))) (\<lambda>ciphertext.
     rbind (decrypt_payload E key nonce ciphertext) (\<lambda>plaintext.
     map_err (\<lambda>_. ''deserializing sealed envelope'') (record_from_json E plaintext)))))"

text \<open>The context of the serialisation errors is \<open>serializing sealed envelope\<close> on insertion and
  \<open>serializing updated sealed envelope\<close> in the update methods; \<open>which\<close> is the difference.\<close>

definition seal_record ::
  "'z store_ext_scheme \<Rightarrow> string \<Rightarrow> bytes \<Rightarrow> bytes \<Rightarrow> StoredEnvelopeRecord \<Rightarrow> anyhow + bytes" where
  "seal_record E which key nonce r =
     rbind (map_err (\<lambda>_. ''serializing '' @ which @ ''sealed envelope'') (record_to_json E r)) (\<lambda>plaintext.
     rbind (encrypt_payload E key nonce plaintext) (\<lambda>(nonce, ciphertext).
     map_err (\<lambda>_. ''serializing '' @ which @ ''encrypted envelope'')
       (encrypted_to_json E \<lparr> er_nonce = b64_encode E nonce, er_ciphertext = b64_encode E ciphertext \<rparr>)))"

section \<open>Operations\<close>

record SealedStore =
  store_tree :: tree
  store_key :: bytes

definition fetch_record ::
  "'z store_ext_scheme \<Rightarrow> uuid \<Rightarrow> (SealedStore, anyhow, StoredEnvelopeRecord option) effect" where
  "fetch_record E handle s =
     (rbind (tree_get E (store_tree s) handle) (\<lambda>v.
      case v of
        None \<Rightarrow> Inr None
      | Some data \<Rightarrow> rbind (unseal_record E (store_key s) data) (\<lambda>r. Inr (Some r))), s)"

definition put_record ::
  "'z store_ext_scheme \<Rightarrow> string \<Rightarrow> bytes \<Rightarrow> uuid \<Rightarrow> StoredEnvelopeRecord \<Rightarrow> (SealedStore, anyhow, unit) effect" where
  "put_record E which nonce handle r s =
     (case rbind (seal_record E which (store_key s) nonce r) (tree_insert E (store_tree s) handle) of
        Inl e \<Rightarrow> (Inl e, s)
      | Inr t \<Rightarrow> (tree_flush E t, s\<lparr> store_tree := t \<rparr>))"

text \<open>The read-modify-write shared by the update methods; a missing handle is an error.\<close>

definition modify_record ::
  "'z store_ext_scheme \<Rightarrow> bytes \<Rightarrow> uuid \<Rightarrow> (StoredEnvelopeRecord \<Rightarrow> anyhow + ('a \<times> StoredEnvelopeRecord))
    \<Rightarrow> (SealedStore, anyhow, 'a) effect" where
  "modify_record E nonce handle f =
     sbind (fetch_record E handle) (\<lambda>found.
     case found of
       None \<Rightarrow> sfail ''sealed secret handle not found''
     | Some r \<Rightarrow>
         sbind (slift (f r)) (\<lambda>(x, r').
         sbind (put_record E ''updated '' nonce handle r') (\<lambda>_. sret x)))"

definition insert_with_id ::
  "'z store_ext_scheme \<Rightarrow> bytes \<Rightarrow> uuid \<Rightarrow> StoredEnvelopeRecord \<Rightarrow> (SealedStore, anyhow, uuid) effect" where
  "insert_with_id E nonce handle r = sbind (put_record E [] nonce handle r) (\<lambda>_. sret handle)"

definition load ::
  "'z store_ext_scheme \<Rightarrow> bytes \<Rightarrow> instant \<Rightarrow> uuid
    \<Rightarrow> (SealedStore, anyhow, StoredEnvelopeRecord option) effect" where
  "load E nonce accessed_at handle =
     sbind (fetch_record E handle) (\<lambda>found.
     case found of
       None \<Rightarrow> sret None
     | Some r \<Rightarrow>
         let r' = r\<lparr> rec_last_accessed := Some accessed_at \<rparr> in
         sbind (put_record E ''updated '' nonce handle r') (\<lambda>_. sret (Some r')))"

definition delete_op :: "'z store_ext_scheme \<Rightarrow> uuid \<Rightarrow> (SealedStore, anyhow, bool) effect" where
  "delete_op E handle s =
     (case tree_remove E (store_tree s) handle of
        Inl e \<Rightarrow> (Inl e, s)
      | Inr (old, t) \<Rightarrow>
          (rbind (tree_flush E t) (\<lambda>_. Inr (old \<noteq> None)), s\<lparr> store_tree := t \<rparr>))"

definition set_threshold :: "byte \<Rightarrow> string list \<Rightarrow> StoredEnvelopeRecord \<Rightarrow> StoredEnvelopeRecord" where
  "set_threshold threshold commitments r =
     r\<lparr> rec_threshold := Some threshold, rec_threshold_commitments := Some commitments \<rparr>"

definition update_threshold_config ::
  "'z store_ext_scheme \<Rightarrow> bytes \<Rightarrow> uuid \<Rightarrow> byte \<Rightarrow> string list \<Rightarrow> (SealedStore, anyhow, unit) effect" where
  "update_threshold_config E nonce handle threshold commitments =
     modify_record E nonce handle (\<lambda>r. Inr ((), set_threshold threshold commitments r))"

definition add_caveat_key :: "ThirdPartyCaveatKey \<Rightarrow> StoredEnvelopeRecord \<Rightarrow> StoredEnvelopeRecord" where
  "add_caveat_key entry r =
     (let entries = (case rec_third_party_caveat_keys r of None \<Rightarrow> [] | Some es \<Rightarrow> es) in
      r\<lparr> rec_third_party_caveat_keys := Some
          (if list_ex (\<lambda>e. tpk_key_id e = tpk_key_id entry) entries then entries
           else entries @ [entry]) \<rparr>)"

definition append_third_party_caveat_key ::
  "'z store_ext_scheme \<Rightarrow> bytes \<Rightarrow> uuid \<Rightarrow> ThirdPartyCaveatKey \<Rightarrow> (SealedStore, anyhow, unit) effect" where
  "append_third_party_caveat_key E nonce handle entry =
     modify_record E nonce handle (\<lambda>r. Inr ((), add_caveat_key entry r))"

definition set_shares ::
  "ShareAssignment list \<Rightarrow> HeldShare list \<Rightarrow> StoredEnvelopeRecord \<Rightarrow> StoredEnvelopeRecord" where
  "set_shares assignments held r =
     r\<lparr> rec_share_assignments := Some assignments, rec_held_shares := Some held \<rparr>"

definition update_share_assignments ::
  "'z store_ext_scheme \<Rightarrow> bytes \<Rightarrow> uuid \<Rightarrow> ShareAssignment list \<Rightarrow> HeldShare list
    \<Rightarrow> (SealedStore, anyhow, unit) effect" where
  "update_share_assignments E nonce handle assignments held =
     modify_record E nonce handle (\<lambda>r. Inr ((), set_shares assignments held r))"

text \<open>\<open>mark_first\<close> sets the \<open>claimed\<close> flag of the first assignment of a custodian, the one
  \<open>iter_mut().find\<close> returns.\<close>

fun mark_first :: "string \<Rightarrow> ShareAssignment list \<Rightarrow> ShareAssignment list" where
  "mark_first cid [] = []"
| "mark_first cid (a # r) =
     (if asg_custodian_id a = cid then a\<lparr> asg_claimed := True \<rparr> # r else a # mark_first cid r)"

definition claim_record ::
  "'z ext_scheme \<Rightarrow> string \<Rightarrow> StoredEnvelopeRecord \<Rightarrow> anyhow + (ClaimResult \<times> StoredEnvelopeRecord)" where
  "claim_record E cid r =
     rbind (ok_or ''no share assignments for this handle'' (rec_share_assignments r)) (\<lambda>assignments.
     rbind (ok_or ''no held shares for this handle'' (rec_held_shares r)) (\<lambda>held.
     rbind (ok_or ''no threshold commitments for this handle'' (rec_threshold_commitments r)) (\<lambda>commitments.
     rbind (ok_or (''custodian_id '' @ CHR 39 # cid @ CHR 39 # '' not assigned to this handle'')
       (find (\<lambda>a. asg_custodian_id a = cid) assignments)) (\<lambda>assignment.
     rbind (ok_or (''share index '' @ show_nat (unat (asg_share_index assignment)) @
         '' not found in held shares'')
       (find (\<lambda>h. held_x h = asg_share_index assignment) held)) (\<lambda>share.
     rbind (ok_or ''decoding held share y-value'' (b64_decode E (held_y_b64 share))) (\<lambda>y.
     Inr (\<lparr> claim_x = held_x share, claim_y = y,
            claim_commitments =
              map (\<lambda>c. case b64_decode E c of Some b \<Rightarrow> b | None \<Rightarrow> []) commitments,
            claim_previously_claimed = asg_claimed assignment \<rparr>,
          r\<lparr> rec_share_assignments := Some (mark_first cid assignments) \<rparr>)))))))"

definition claim_custodian_share ::
  "'z store_ext_scheme \<Rightarrow> bytes \<Rightarrow> uuid \<Rightarrow> string \<Rightarrow> (SealedStore, anyhow, ClaimResult) effect" where
  "claim_custodian_share E nonce handle cid = modify_record E nonce handle (claim_record E cid)"

definition consume_redeem :: "StoredEnvelopeRecord \<Rightarrow> StoredEnvelopeRecord" where
  "consume_redeem r =
     r\<lparr> rec_redeem_used := True, rec_redeem_nonce := None, rec_redeem_binding := None \<rparr>"

definition mark_redeem_used ::
  "'z store_ext_scheme \<Rightarrow> bytes \<Rightarrow> uuid \<Rightarrow> (SealedStore, anyhow, unit) effect" where
  "mark_redeem_used E nonce handle =
     modify_record E nonce handle (\<lambda>r. Inr ((), consume_redeem r))"

definition saturating_inc :: "32 word \<Rightarrow> 32 word" where
  "saturating_inc n = (if n = - 1 then n else n + 1)"

definition extend_lease :: "instant \<Rightarrow> instant \<Rightarrow> StoredEnvelopeRecord \<Rightarrow> StoredEnvelopeRecord" where
  "extend_lease new_lease_expires_at now r =
     r\<lparr> rec_lease_expires_at := Some new_lease_expires_at,
        rec_lease_renewal_count := saturating_inc (rec_lease_renewal_count r),
        rec_last_accessed := Some now \<rparr>"

definition renew_lease ::
  "'z store_ext_scheme \<Rightarrow> bytes \<Rightarrow> instant \<Rightarrow> uuid \<Rightarrow> instant
    \<Rightarrow> (SealedStore, anyhow, StoredEnvelopeRecord) effect" where
  "renew_lease E nonce now handle new_lease_expires_at =
     modify_record E nonce handle
       (\<lambda>r. let r' = extend_lease new_lease_expires_at now r in Inr (r', r'))"

definition revoke_record :: "string option \<Rightarrow> instant \<Rightarrow> StoredEnvelopeRecord \<Rightarrow> StoredEnvelopeRecord" where
  "revoke_record reason now r =
     r\<lparr> rec_revoked := True, rec_revoked_at := Some now, rec_revocation_reason := reason,
        rec_redeem_used := True, rec_redeem_nonce := None, rec_redeem_binding := None \<rparr>"

definition revoke ::
  "'z store_ext_scheme \<Rightarrow> bytes \<Rightarrow> instant \<Rightarrow> uuid \<Rightarrow> string option
    \<Rightarrow> (SealedStore, anyhow, bool) effect" where
  "revoke E nonce now handle reason =
     sbind (fetch_record E handle) (\<lambda>found.
     case found of
       None \<Rightarrow> sret False
     | Some r \<Rightarrow>
         sbind (put_record E ''updated '' nonce handle (revoke_record reason now r)) (\<lambda>_. sret True))"

section \<open>The abstract store\<close>

fun ok_value :: "'e + 'a \<Rightarrow> 'a option" where
  "ok_value (Inl e) = None"
| "ok_value (Inr x) = Some x"

definition view :: "'z store_ext_scheme \<Rightarrow> SealedStore \<Rightarrow> uuid \<rightharpoonup> StoredEnvelopeRecord" where
  "view E s h = Option.bind (store_tree s h) (\<lambda>d. ok_value (unseal_record E (store_key s) d))"

abbreviation nonce_ok :: "bytes \<Rightarrow> bool" where
  "nonce_ok n \<equiv> length n = 12"

lemma unseal_seal:
  assumes "store_laws E" "nonce_ok n" "seal_record E w k n r = Inr d"
  shows "unseal_record E k d = Inr r"
proof -
  from assms(3) obtain p c where p: "record_to_json E r = Inr p"
    and c: "aes_gcm_encrypt E k n p = Some c"
    and d: "encrypted_to_json E \<lparr> er_nonce = b64_encode E n, er_ciphertext = b64_encode E c \<rparr> = Inr d"
    by (auto simp: seal_record_def encrypt_payload_def result_simps)
  have "encrypted_from_json E d = Inr \<lparr> er_nonce = b64_encode E n, er_ciphertext = b64_encode E c \<rparr>"
    and "record_from_json E p = Inr r" and "aes_gcm_decrypt E k n c = Some p" and "b64_lossless E"
    using assms(1) p c d unfolding store_laws_def by blast+
  with assms(2) show ?thesis by (simp add: unseal_record_def decrypt_payload_def)
qed

lemma store_lawsD:
  assumes "store_laws E"
  shows "tree_get E t k = Inr v \<Longrightarrow> v = t k"
    and "tree_insert E t k d = Inr u \<Longrightarrow> u = t(k \<mapsto> d)"
    and "tree_remove E t k = Inr (v, u) \<Longrightarrow> v = t k \<and> u = t(k := None)"
  using assms unfolding store_laws_def by blast+

lemma fetch_record_view:
  assumes "store_laws E" "fetch_record E h s = (q, s')"
  shows "s' = s" and "q = Inr found \<Longrightarrow> found = view E s h"
proof -
  from assms(2) show "s' = s" by (simp add: fetch_record_def)
  assume "q = Inr found"
  with assms(2) obtain v where v: "tree_get E (store_tree s) h = Inr v"
    and found: "(case v of None \<Rightarrow> Inr None
      | Some d \<Rightarrow> rbind (unseal_record E (store_key s) d) (\<lambda>r. Inr (Some r))) = Inr found"
    by (auto simp: fetch_record_def result_simps)
  from store_lawsD(1) [OF assms(1) v] found show "found = view E s h"
    by (cases "store_tree s h") (auto simp: view_def result_simps)
qed

lemma put_record_cases:
  assumes "store_laws E" "nonce_ok n" "put_record E w n h r s = (q, s')"
  shows "(\<exists>e. q = Inl e) \<and> s' = s \<or> store_key s' = store_key s \<and> view E s' = (view E s)(h \<mapsto> r)"
proof (cases "rbind (seal_record E w (store_key s) n r) (tree_insert E (store_tree s) h)")
  case (Inl e)
  with assms(3) show ?thesis by (auto simp: put_record_def)
next
  case (Inr t)
  then obtain d where d: "seal_record E w (store_key s) n r = Inr d"
    and "tree_insert E (store_tree s) h d = Inr t" by (auto simp: result_simps)
  with store_lawsD(2) [OF assms(1)] have "t = (store_tree s)(h \<mapsto> d)" by blast
  moreover from Inr assms(3) have "s' = s\<lparr> store_tree := t \<rparr>" by (simp add: put_record_def)
  ultimately show ?thesis
    using unseal_seal [OF assms(1,2) d] by (simp add: view_def fun_eq_iff)
qed

lemma delete_op_cases:
  assumes "store_laws E" "delete_op E h s = (q, s')"
  shows "(\<exists>e. q = Inl e) \<and> s' = s \<or>
    store_key s' = store_key s \<and> view E s' = (view E s)(h := None) \<and>
    (\<forall>b. q = Inr b \<longrightarrow> b = (store_tree s h \<noteq> None))"
proof (cases "tree_remove E (store_tree s) h")
  case (Inl e)
  with assms(2) show ?thesis by (auto simp: delete_op_def)
next
  case (Inr p)
  obtain old t where p: "p = (old, t)" by (cases p)
  with Inr store_lawsD(3) [OF assms(1)] have "old = store_tree s h" "t = (store_tree s)(h := None)"
    by blast+
  moreover have "q = rbind (tree_flush E t) (\<lambda>_. Inr (old \<noteq> None))" "s' = s\<lparr> store_tree := t \<rparr>"
    using Inr p assms(2) by (simp_all add: delete_op_def)
  ultimately show ?thesis by (auto simp: view_def fun_upd_def result_simps)
qed

section \<open>The record-store interface\<close>

text \<open>A keyed store read and written one record at a time; a failed write has happened or not.
  The read-modify-write of the update methods is verified once, inside.\<close>

locale record_store =
  fixes lawful :: "'e \<Rightarrow> bool" and fresh :: "'n \<Rightarrow> bool"
    and contents :: "'e \<Rightarrow> 's \<Rightarrow> 'h \<rightharpoonup> 'r"
    and fetch :: "'e \<Rightarrow> 'h \<Rightarrow> ('s, 'x, 'r option) effect"
    and put :: "'e \<Rightarrow> 'w \<Rightarrow> 'n \<Rightarrow> 'h \<Rightarrow> 'r \<Rightarrow> ('s, 'x, unit) effect"
  assumes fetch_state: "lawful e \<Longrightarrow> fetch e h s = (q, s') \<Longrightarrow> s' = s"
    and fetch_contents: "lawful e \<Longrightarrow> fetch e h s = (Inr f, s') \<Longrightarrow> f = contents e s h"
    and put_ok: "lawful e \<Longrightarrow> fresh n \<Longrightarrow> put e w n h r s = (Inr u, s') \<Longrightarrow>
      contents e s' = (contents e s)(h \<mapsto> r)"
    and put_err: "lawful e \<Longrightarrow> fresh n \<Longrightarrow> put e w n h r s = (Inl x, s') \<Longrightarrow>
      contents e s' = contents e s \<or> contents e s' = (contents e s)(h \<mapsto> r)"
begin

lemma rmw_ok:
  assumes "lawful e" "fresh n"
    and "sbind (fetch e h) (\<lambda>found. case found of None \<Rightarrow> missing
      | Some r \<Rightarrow> sbind (slift (f r)) (\<lambda>(x, r'). sbind (put e w n h r') (\<lambda>_. sret x))) s = (Inr y, s')"
    and "contents e s h = Some r"
  shows "\<exists>r'. f r = Inr (y, r') \<and> contents e s' = (contents e s)(h \<mapsto> r')"
proof -
  obtain found t where "fetch e h s = (Inr found, t)"
    using assms(3) by (auto simp: effect_simps)
  moreover from this have "t = s" "found = Some r"
    using fetch_state fetch_contents assms(1,4) by metis+
  ultimately have "sbind (slift (f r)) (\<lambda>(x, r'). sbind (put e w n h r') (\<lambda>_. sret x)) s = (Inr y, s')"
    using assms(3) by (simp add: sbind_step)
  then obtain r' where "f r = Inr (y, r')" "put e w n h r' s = (Inr (), s')"
    by (auto simp: effect_simps)
  then show ?thesis using put_ok assms(1,2) by blast
qed

lemma rmw_any:
  assumes "lawful e" "fresh n"
    and "sbind (fetch e h) (\<lambda>found. case found of None \<Rightarrow> missing
      | Some r \<Rightarrow> sbind (slift (f r)) (\<lambda>(x, r'). sbind (put e w n h r') (\<lambda>_. sret x))) s = (q, s')"
    and "snd (missing s) = s"
  shows "contents e s' = contents e s \<or>
    (\<exists>r x r'. contents e s h = Some r \<and> f r = Inr (x, r') \<and> contents e s' = (contents e s)(h \<mapsto> r'))"
proof -
  obtain p t where ft: "fetch e h s = (p, t)" by fastforce
  with fetch_state assms(1) have t: "t = s" by blast
  show ?thesis
  proof (cases p)
    case (Inl x)
    with ft t assms(3) show ?thesis by (simp add: sbind_step)
  next
    case (Inr found)
    then have found: "found = contents e s h" using ft fetch_contents assms(1) by blast
    show ?thesis
    proof (cases found)
      case None
      with ft Inr t assms(3,4) show ?thesis by (cases "missing s") (simp add: sbind_step)
    next
      case (Some r)
      then have run: "sbind (slift (f r)) (\<lambda>(x, r'). sbind (put e w n h r') (\<lambda>_. sret x)) s = (q, s')"
        using ft Inr t assms(3) by (simp add: sbind_step)
      show ?thesis
      proof (cases "f r")
        case (Inl x)
        with run show ?thesis by (simp add: sfail_def)
      next
        case (Inr z)
        obtain x r' where z: "z = (x, r')" by (cases z)
        obtain u v where pv: "put e w n h r' s = (u, v)" by fastforce
        with run Inr z have "s' = v" by (cases u) (auto simp: sbind_def sret_def)
        moreover from pv have "contents e v = contents e s \<or> contents e v = (contents e s)(h \<mapsto> r')"
          using put_ok put_err assms(1,2) by (cases u) blast+
        ultimately show ?thesis using Inr z Some found by metis
      qed
    qed
  qed
qed

end

interpretation sealed: record_store store_laws "\<lambda>n :: bytes. nonce_ok n" view fetch_record put_record
proof (unfold_locales, goal_cases)
  case 1 then show ?case by (rule fetch_record_view)
next
  case (2 e h s f s') then show ?case using fetch_record_view(2) by blast
next
  case (3 e n w h r s u s') then show ?case using put_record_cases [of e n w h r s "Inr u" s'] by auto
next
  case (4 e n w h r s x s') then show ?case using put_record_cases [of e n w h r s "Inl x" s'] by auto
qed

section \<open>Refinement of the operations\<close>

lemma modify_ok:
  assumes "store_laws E" "nonce_ok n" "modify_record E n h f s = (Inr x, s')"
  shows "\<exists>r r'. view E s h = Some r \<and> f r = Inr (x, r') \<and> view E s' = (view E s)(h \<mapsto> r')"
proof (cases "view E s h")
  case None
  obtain found t where ft: "fetch_record E h s = (Inr found, t)"
    using assms(3) by (auto simp: modify_record_def effect_simps)
  then have "found = None" using None sealed.fetch_contents [OF assms(1) ft] by simp
  with ft assms(3) show ?thesis by (simp add: modify_record_def sbind_step sfail_def)
next
  case (Some r)
  from sealed.rmw_ok [OF assms(1,2) assms(3) [unfolded modify_record_def] Some] Some
  show ?thesis by blast
qed

lemma modify_any:
  assumes "store_laws E" "nonce_ok n" "modify_record E n h f s = (q, s')"
  shows "view E s' = view E s \<or>
    (\<exists>r x r'. view E s h = Some r \<and> f r = Inr (x, r') \<and> view E s' = (view E s)(h \<mapsto> r'))"
  using sealed.rmw_any [OF assms(1,2) assms(3) [unfolded modify_record_def]] by (simp add: sfail_def)

lemma fetch_available:
  assumes "store_laws E" "store_available E" "view E s h = Some r"
  shows "fetch_record E h s = (Inr (Some r), s)"
proof -
  obtain v where v: "tree_get E (store_tree s) h = Inr v"
    using assms(2) unfolding store_available_def is_ok_iff by blast
  from store_lawsD(1) [OF assms(1) v] assms(3) v show ?thesis
    by (cases "store_tree s h"; cases "unseal_record E (store_key s) (the (store_tree s h))")
       (auto simp: fetch_record_def view_def)
qed

lemma put_available:
  assumes "store_available E"
  obtains s' where "put_record E w n h r s = (Inr (), s')"
proof -
  obtain p where p: "record_to_json E r = Inr p"
    using assms unfolding store_available_def is_ok_iff by blast
  obtain c where c: "aes_gcm_encrypt E (store_key s) n p = Some c" using assms unfolding store_available_def by blast
  obtain d where d: "encrypted_to_json E \<lparr> er_nonce = b64_encode E n, er_ciphertext = b64_encode E c \<rparr> = Inr d"
    using assms unfolding store_available_def is_ok_iff by blast
  obtain t where t: "tree_insert E (store_tree s) h d = Inr t" using assms unfolding store_available_def is_ok_iff by blast
  have "tree_flush E t = Inr ()" using assms by (simp add: store_available_def is_ok_iff)
  with p c d t that show ?thesis by (simp add: put_record_def seal_record_def encrypt_payload_def)
qed

lemma modify_available:
  assumes "store_laws E" "store_available E" "view E s h = Some r" "f r = Inr (x, r')"
  obtains s' where "modify_record E n h f s = (Inr x, s')"
proof -
  obtain s' where "put_record E ''updated '' n h r' s = (Inr (), s')" by (rule put_available [OF assms(2)])
  with fetch_available [OF assms(1-3)] assms(4) that show ?thesis
    by (simp add: modify_record_def sbind_step sret_def)
qed

text \<open>\<open>load\<close> and \<open>revoke\<close> have the read-modify-write shape too, with a different answer for a
  missing handle.\<close>

lemma load_unfold:
  "load E n now h = sbind (fetch_record E h) (\<lambda>found. case found of None \<Rightarrow> sret None
     | Some r \<Rightarrow> sbind (slift (Inr (Some (r\<lparr> rec_last_accessed := Some now \<rparr>), r\<lparr> rec_last_accessed := Some now \<rparr>)))
         (\<lambda>(x, r'). sbind (put_record E ''updated '' n h r') (\<lambda>_. sret x)))"
  by (simp add: load_def Let_def cong: option.case_cong)

lemma revoke_unfold:
  "revoke E n now h reason = sbind (fetch_record E h) (\<lambda>found. case found of None \<Rightarrow> sret False
     | Some r \<Rightarrow> sbind (slift (Inr (True, revoke_record reason now r)))
         (\<lambda>(x, r'). sbind (put_record E ''updated '' n h r') (\<lambda>_. sret x)))"
  by (simp add: revoke_def cong: option.case_cong)

lemma load_ok:
  assumes "store_laws E" "nonce_ok n" "load E n now h s = (Inr found, s')"
  shows "case view E s h of
      None \<Rightarrow> found = None \<and> s' = s
    | Some r \<Rightarrow> found = Some (r\<lparr> rec_last_accessed := Some now \<rparr>) \<and>
        view E s' = (view E s)(h \<mapsto> r\<lparr> rec_last_accessed := Some now \<rparr>)"
proof (cases "view E s h")
  case None
  obtain g t where ft: "fetch_record E h s = (Inr g, t)"
    using assms(3) by (auto simp: load_def effect_simps)
  then have "g = None" "t = s" using None sealed.fetch_contents [OF assms(1) ft] sealed.fetch_state [OF assms(1) ft] by simp_all
  with ft assms(3) None show ?thesis by (simp add: load_def sbind_step sret_def)
next
  case (Some r)
  from sealed.rmw_ok [OF assms(1,2) assms(3) [unfolded load_unfold] Some] Some show ?thesis by auto
qed

lemma load_any:
  assumes "store_laws E" "nonce_ok n" "load E n now h s = (q, s')"
  shows "view E s' = view E s \<or>
    (\<exists>r. view E s h = Some r \<and> view E s' = (view E s)(h \<mapsto> r\<lparr> rec_last_accessed := Some now \<rparr>))"
  using sealed.rmw_any [OF assms(1,2) assms(3) [unfolded load_unfold]] by (auto simp: sret_def)

lemma revoke_ok:
  assumes "store_laws E" "nonce_ok n" "revoke E n now h reason s = (Inr b, s')"
  shows "case view E s h of
      None \<Rightarrow> \<not> b \<and> s' = s
    | Some r \<Rightarrow> b \<and> view E s' = (view E s)(h \<mapsto> revoke_record reason now r)"
proof (cases "view E s h")
  case None
  obtain g t where ft: "fetch_record E h s = (Inr g, t)"
    using assms(3) by (auto simp: revoke_def effect_simps)
  then have "g = None" "t = s" using None sealed.fetch_contents [OF assms(1) ft] sealed.fetch_state [OF assms(1) ft] by simp_all
  with ft assms(3) None show ?thesis by (simp add: revoke_def sbind_step sret_def)
next
  case (Some r)
  from sealed.rmw_ok [OF assms(1,2) assms(3) [unfolded revoke_unfold] Some] Some show ?thesis by auto
qed

lemma revoke_any:
  assumes "store_laws E" "nonce_ok n" "revoke E n now h reason s = (q, s')"
  shows "view E s' = view E s \<or>
    (\<exists>r. view E s h = Some r \<and> view E s' = (view E s)(h \<mapsto> revoke_record reason now r))"
  using sealed.rmw_any [OF assms(1,2) assms(3) [unfolded revoke_unfold]] by (auto simp: sret_def)

lemma insert_ok:
  assumes "store_laws E" "nonce_ok n" "insert_with_id E n h r s = (Inr h', s')"
  shows "h' = h \<and> view E s' = (view E s)(h \<mapsto> r)"
  using assms sealed.put_ok [OF assms(1,2)] by (auto simp: insert_with_id_def effect_simps)

lemma insert_any:
  assumes "store_laws E" "nonce_ok n" "insert_with_id E n h r s = (q, s')"
  shows "view E s' = view E s \<or> view E s' = (view E s)(h \<mapsto> r)"
proof -
  obtain p t where pt: "put_record E [] n h r s = (p, t)" by fastforce
  then have "t = s'" using assms(3) by (cases p) (auto simp: insert_with_id_def sbind_def sret_def)
  with put_record_cases [OF assms(1,2) pt] show ?thesis by blast
qed

section \<open>Evolution of a record\<close>

text \<open>What no store operation changes in a record, and what it only moves in one direction.\<close>

definition caveat_keys_of :: "StoredEnvelopeRecord \<Rightarrow> ThirdPartyCaveatKey list" where
  "caveat_keys_of r = (case rec_third_party_caveat_keys r of None \<Rightarrow> [] | Some ks \<Rightarrow> ks)"

definition same_identity :: "StoredEnvelopeRecord \<Rightarrow> StoredEnvelopeRecord \<Rightarrow> bool" where
  "same_identity r r' \<longleftrightarrow>
     rec_envelope r' = rec_envelope r \<and> rec_signature r' = rec_signature r \<and>
     rec_signing_key_id r' = rec_signing_key_id r \<and>
     rec_signing_public_key r' = rec_signing_public_key r \<and>
     rec_signing_key_expires_at r' = rec_signing_key_expires_at r \<and>
     rec_expires_at r' = rec_expires_at r \<and>
     rec_unwrap_principal_id r' = rec_unwrap_principal_id r \<and>
     rec_issued_with_authenticated_transport r' = rec_issued_with_authenticated_transport r \<and>
     rec_issued_by_principal_id r' = rec_issued_by_principal_id r \<and>
     rec_issued_by_peer_cert_sha256 r' = rec_issued_by_peer_cert_sha256 r \<and>
     rec_issued_by_attestation_digest r' = rec_issued_by_attestation_digest r \<and>
     rec_redeem_expires_at r' = rec_redeem_expires_at r \<and> rec_lifecycle r' = rec_lifecycle r"

definition evolves :: "StoredEnvelopeRecord \<Rightarrow> StoredEnvelopeRecord \<Rightarrow> bool" where
  "evolves r r' \<longleftrightarrow> same_identity r r' \<and>
     (rec_revoked r \<longrightarrow> rec_revoked r') \<and> (rec_redeem_used r \<longrightarrow> rec_redeem_used r') \<and>
     (rec_redeem_nonce r' = rec_redeem_nonce r \<or> rec_redeem_nonce r' = None \<and> rec_redeem_used r') \<and>
     (rec_redeem_binding r' = rec_redeem_binding r \<or> rec_redeem_binding r' = None \<and> rec_redeem_used r') \<and>
     rec_lease_renewal_count r \<le> rec_lease_renewal_count r' \<and>
     prefix (caveat_keys_of r) (caveat_keys_of r')"

lemma evolves_refl [simp, intro]: "evolves r r"
  by (simp add: evolves_def same_identity_def)

lemma evolves_trans:
  assumes "evolves r r'" "evolves r' r''"
  shows "evolves r r''"
proof -
  have "rec_lease_renewal_count r \<le> rec_lease_renewal_count r''"
    using assms order_trans unfolding evolves_def by blast
  moreover have "prefix (caveat_keys_of r) (caveat_keys_of r'')"
    using assms prefix_order.trans unfolding evolves_def by blast
  moreover have "same_identity r r''" using assms by (simp add: evolves_def same_identity_def)
  ultimately show ?thesis using assms unfolding evolves_def by metis
qed

lemma saturating_inc_ge: "n \<le> saturating_inc n"
proof (cases "n = - 1")
  case False
  then have "\<not> n + 1 \<le> n" by (simp add: inc_less_eq_self_iff_eq)
  then show ?thesis using False by (simp add: saturating_inc_def)
qed (simp add: saturating_inc_def)

lemma evolves_updates [intro]:
  "evolves r (r\<lparr> rec_last_accessed := t \<rparr>)"
  "evolves r (set_threshold k cs r)"
  "evolves r (add_caveat_key e r)"
  "evolves r (set_shares as hs r)"
  "evolves r (consume_redeem r)"
  "evolves r (extend_lease u now r)"
  "evolves r (revoke_record reason now r)"
  by (auto simp: evolves_def same_identity_def set_threshold_def add_caveat_key_def set_shares_def
      consume_redeem_def extend_lease_def revoke_record_def caveat_keys_of_def Let_def saturating_inc_ge
      split: option.splits)

lemma evolves_claim: "claim_record E cid r = Inr (x, r') \<Longrightarrow> evolves r r'"
  by (auto simp: claim_record_def result_simps evolves_def same_identity_def caveat_keys_of_def)

lemma find_mark_first:
  "find (\<lambda>a. asg_custodian_id a = cid) (mark_first cid as) =
     map_option (\<lambda>a. a\<lparr> asg_claimed := True \<rparr>) (find (\<lambda>a. asg_custodian_id a = cid) as)"
  by (induction "as") auto

lemma claim_record_again:
  assumes "claim_record E cid r = Inr (c, r')"
  shows "\<exists>r''. claim_record E cid r' = Inr (c\<lparr> claim_previously_claimed := True \<rparr>, r'')"
proof -
  from assms obtain as hs cms a h y where
    "rec_share_assignments r = Some as" "rec_held_shares r = Some hs"
    "rec_threshold_commitments r = Some cms" "find (\<lambda>a. asg_custodian_id a = cid) as = Some a"
    "find (\<lambda>h. held_x h = asg_share_index a) hs = Some h" "b64_decode E (held_y_b64 h) = Some y"
    "c = \<lparr> claim_x = held_x h, claim_y = y, claim_commitments =
       map (\<lambda>c. case b64_decode E c of Some b \<Rightarrow> b | None \<Rightarrow> []) cms, claim_previously_claimed = asg_claimed a \<rparr>"
    "r' = r\<lparr> rec_share_assignments := Some (mark_first cid as) \<rparr>"
    by (auto simp: claim_record_def result_simps)
  then show ?thesis by (simp add: claim_record_def find_mark_first)
qed

section \<open>The store as a transition system\<close>

text \<open>One step is one complete store operation, whether it succeeds or fails, for any arguments.
  The second component records the handles ever used: a new record gets a fresh handle.\<close>

inductive store_step ::
  "'z store_ext_scheme \<Rightarrow> SealedStore \<times> uuid set \<Rightarrow> SealedStore \<times> uuid set \<Rightarrow> bool"
  for E :: "'z store_ext_scheme" where
  insert_step: "\<lbrakk> h \<notin> used; nonce_ok n; insert_with_id E n h r s = (q, s') \<rbrakk> \<Longrightarrow>
    store_step E (s, used) (s', insert h used)"
| load_step: "\<lbrakk> nonce_ok n; load E n now h s = (q, s') \<rbrakk> \<Longrightarrow> store_step E (s, used) (s', used)"
| delete_step: "delete_op E h s = (q, s') \<Longrightarrow> store_step E (s, used) (s', used)"
| threshold_step: "\<lbrakk> nonce_ok n; update_threshold_config E n h k cs s = (q, s') \<rbrakk> \<Longrightarrow>
    store_step E (s, used) (s', used)"
| caveat_key_step: "\<lbrakk> nonce_ok n; append_third_party_caveat_key E n h e s = (q, s') \<rbrakk> \<Longrightarrow>
    store_step E (s, used) (s', used)"
| shares_step: "\<lbrakk> nonce_ok n; update_share_assignments E n h as hs s = (q, s') \<rbrakk> \<Longrightarrow>
    store_step E (s, used) (s', used)"
| claim_step: "\<lbrakk> nonce_ok n; claim_custodian_share E n h cid s = (c, s') \<rbrakk> \<Longrightarrow>
    store_step E (s, used) (s', used)"
| redeem_step: "\<lbrakk> nonce_ok n; mark_redeem_used E n h s = (q, s') \<rbrakk> \<Longrightarrow>
    store_step E (s, used) (s', used)"
| renew_step: "\<lbrakk> nonce_ok n; renew_lease E n now h t s = (p, s') \<rbrakk> \<Longrightarrow>
    store_step E (s, used) (s', used)"
| revoke_step: "\<lbrakk> nonce_ok n; revoke E n now h reason s = (q, s') \<rbrakk> \<Longrightarrow>
    store_step E (s, used) (s', used)"

lemmas modify_defs = update_threshold_config_def append_third_party_caveat_key_def
  update_share_assignments_def claim_custodian_share_def mark_redeem_used_def renew_lease_def

lemma modify_evolves:
  assumes "store_laws E" "nonce_ok n" "modify_record E n h f s = (q, s')"
    and "\<And>r x r'. f r = Inr (x, r') \<Longrightarrow> evolves r r'"
  shows "(view E s' k = None \<longleftrightarrow> view E s k = None) \<and>
    (\<forall>r r'. view E s k = Some r \<longrightarrow> view E s' k = Some r' \<longrightarrow> evolves r r')"
  using modify_any [OF assms(1-3)] assms(4) by (auto split: if_splits)

lemma store_step_evolves:
  assumes "store_laws E" "store_step E (s, used) (s', used')" "k \<in> used"
  shows "k \<in> used' \<and> (view E s k = None \<longrightarrow> view E s' k = None) \<and>
    (\<forall>r r'. view E s k = Some r \<longrightarrow> view E s' k = Some r' \<longrightarrow> evolves r r')"
  using assms(2)
proof cases
  case (insert_step h n r q)
  then have "view E s' k = view E s k" using insert_any [OF assms(1) insert_step(3,4)] assms(3) by auto
  with insert_step assms(3) show ?thesis by auto
next
  case (load_step n now h q)
  from load_any [OF assms(1) load_step(2,3)] load_step(1) assms(3) show ?thesis by (auto split: if_splits)
next
  case (delete_step h q)
  from delete_op_cases [OF assms(1) delete_step(2)] delete_step(1) assms(3) show ?thesis
    by (auto split: if_splits)
next
  case (threshold_step n h k' cs q)
  from modify_evolves [OF assms(1) threshold_step(2) threshold_step(3) [unfolded modify_defs]]
    threshold_step(1) assms(3) show ?thesis by auto
next
  case (caveat_key_step n h e q)
  from modify_evolves [OF assms(1) caveat_key_step(2) caveat_key_step(3) [unfolded modify_defs]]
    caveat_key_step(1) assms(3) show ?thesis by auto
next
  case (shares_step n h as hs q)
  from modify_evolves [OF assms(1) shares_step(2) shares_step(3) [unfolded modify_defs]]
    shares_step(1) assms(3) show ?thesis by auto
next
  case (claim_step n h cid c)
  from modify_evolves [OF assms(1) claim_step(2) claim_step(3) [unfolded modify_defs]] evolves_claim
    claim_step(1) assms(3) show ?thesis by blast
next
  case (redeem_step n h q)
  from modify_evolves [OF assms(1) redeem_step(2) redeem_step(3) [unfolded modify_defs]]
    redeem_step(1) assms(3) show ?thesis by auto
next
  case (renew_step n now h t p)
  from modify_evolves [OF assms(1) renew_step(2) renew_step(3) [unfolded modify_defs Let_def]]
    renew_step(1) assms(3) show ?thesis by auto
next
  case (revoke_step n now h reason q)
  from revoke_any [OF assms(1) revoke_step(2,3)] revoke_step(1) assms(3) show ?thesis
    by (auto split: if_splits)
qed

lemma store_run_evolves:
  assumes "store_laws E" "(store_step E)\<^sup>*\<^sup>* c c'" "k \<in> snd c"
  shows "k \<in> snd c' \<and> (view E (fst c) k = None \<longrightarrow> view E (fst c') k = None) \<and>
    (\<forall>r r'. view E (fst c) k = Some r \<longrightarrow> view E (fst c') k = Some r' \<longrightarrow> evolves r r')"
  using assms(2)
proof (induction rule: rtranclp_induct)
  case base
  then show ?case using assms(3) by simp
next
  case (step y z)
  obtain s u s' u' where yz: "y = (s, u)" "z = (s', u')" by (cases y; cases z)
  from store_step_evolves [OF assms(1) step(2) [unfolded yz]] step.IH yz show ?case
    by (cases "view E s k") (auto intro: evolves_trans)
qed

section \<open>A concrete instance\<close>

definition c_envelope :: "SecretEnvelope codec" where
  "c_envelope = c_iso
     (\<lambda>e. (env_envelope_key_id e, env_algorithm e, env_ciphertext e, env_kyber_ciphertext e,
        env_customer_id e, env_exporter_binding e, env_metadata e, env_created_at e))
     (\<lambda>(a, b, c, d, e, f, g, h). \<lparr> env_envelope_key_id = a, env_algorithm = b, env_ciphertext = c,
        env_kyber_ciphertext = d, env_customer_id = e, env_exporter_binding = f, env_metadata = g,
        env_created_at = h \<rparr>)
     (c_pair c_string (c_pair c_string (c_pair c_string (c_pair c_string (c_pair c_string
       (c_pair (c_option c_string) (c_pair (c_option c_json) c_int)))))))"

definition c_lifecycle :: "SecretLifecycle codec" where
  "c_lifecycle = c_iso
     (\<lambda>l. case l of SingleUseUnwrap \<Rightarrow> 0 | RenewableLease \<Rightarrow> 1 | ServiceBootstrap \<Rightarrow> 2)
     (\<lambda>w. if w = 0 then SingleUseUnwrap else if w = 1 then RenewableLease else ServiceBootstrap) c_byte"

definition c_assignment :: "ShareAssignment codec" where
  "c_assignment = c_iso (\<lambda>a. (asg_custodian_id a, asg_share_index a, asg_claimed a))
     (\<lambda>(a, b, c). \<lparr> asg_custodian_id = a, asg_share_index = b, asg_claimed = c \<rparr>)
     (c_pair c_string (c_pair c_byte c_bool))"

definition c_held :: "HeldShare codec" where
  "c_held = c_iso (\<lambda>a. (held_x a, held_y_b64 a)) (\<lambda>(a, b). \<lparr> held_x = a, held_y_b64 = b \<rparr>)
     (c_pair c_byte c_string)"

definition c_caveat_key :: "ThirdPartyCaveatKey codec" where
  "c_caveat_key = c_iso
     (\<lambda>k. (tpk_location k, tpk_key_id k, tpk_condition k, tpk_secret_b64 k, tpk_created_at k))
     (\<lambda>(a, b, c, d, e). \<lparr> tpk_location = a, tpk_key_id = b, tpk_condition = c, tpk_secret_b64 = d,
        tpk_created_at = e \<rparr>)
     (c_pair c_string (c_pair c_string (c_pair (c_option c_string) (c_pair c_string c_int))))"

definition c_record :: "StoredEnvelopeRecord codec" where
  "c_record = c_iso
     (\<lambda>r. ((rec_envelope r, rec_signature r, rec_signing_key_id r, rec_signing_public_key r,
         rec_signing_key_expires_at r, rec_expires_at r, rec_last_accessed r),
        (rec_redeem_nonce r, rec_redeem_binding r, rec_unwrap_principal_id r,
         rec_issued_with_authenticated_transport r, rec_issued_by_principal_id r,
         rec_issued_by_peer_cert_sha256 r, rec_issued_by_attestation_digest r),
        (rec_third_party_caveat_keys r, rec_redeem_expires_at r, rec_redeem_used r, rec_threshold r,
         rec_threshold_commitments r, rec_lifecycle r, rec_lease_expires_at r),
        (rec_lease_renewal_count r, rec_revoked r, rec_revoked_at r, rec_revocation_reason r,
         rec_share_assignments r, rec_held_shares r)))
     (\<lambda>((a1, a2, a3, a4, a5, a6, a7), (b1, b2, b3, b4, b5, b6, b7), (d1, d2, d3, d4, d5, d6, d7),
        (e1, e2, e3, e4, e5, e6)).
        \<lparr> rec_envelope = a1, rec_signature = a2, rec_signing_key_id = a3, rec_signing_public_key = a4,
          rec_signing_key_expires_at = a5, rec_expires_at = a6, rec_last_accessed = a7,
          rec_redeem_nonce = b1, rec_redeem_binding = b2, rec_unwrap_principal_id = b3,
          rec_issued_with_authenticated_transport = b4, rec_issued_by_principal_id = b5,
          rec_issued_by_peer_cert_sha256 = b6, rec_issued_by_attestation_digest = b7,
          rec_third_party_caveat_keys = d1, rec_redeem_expires_at = d2, rec_redeem_used = d3,
          rec_threshold = d4, rec_threshold_commitments = d5, rec_lifecycle = d6,
          rec_lease_expires_at = d7, rec_lease_renewal_count = e1, rec_revoked = e2,
          rec_revoked_at = e3, rec_revocation_reason = e4, rec_share_assignments = e5,
          rec_held_shares = e6 \<rparr>)
     (c_pair (c_pair c_envelope (c_pair c_string (c_pair c_string (c_pair c_string
         (c_pair (c_option c_int) (c_pair (c_option c_int) (c_option c_int)))))))
     (c_pair (c_pair (c_option c_string) (c_pair (c_option c_string) (c_pair (c_option c_string)
         (c_pair c_bool (c_pair (c_option c_string) (c_pair (c_option c_string) (c_option c_string)))))))
     (c_pair (c_pair (c_option (c_list c_caveat_key)) (c_pair (c_option c_int) (c_pair c_bool
         (c_pair (c_option c_byte) (c_pair (c_option (c_list c_string)) (c_pair c_lifecycle (c_option c_int)))))))
       (c_pair c_u32 (c_pair c_bool (c_pair (c_option c_int) (c_pair (c_option c_string)
         (c_pair (c_option (c_list c_assignment)) (c_option (c_list c_held))))))))))"

definition c_encrypted :: "EncryptedRecord codec" where
  "c_encrypted = c_iso (\<lambda>a. (er_nonce a, er_ciphertext a)) (\<lambda>(a, b). \<lparr> er_nonce = a, er_ciphertext = b \<rparr>)
     (c_pair c_string c_string)"

lemma faithful_envelope: "faithful c_envelope"
  unfolding c_envelope_def by (intro faithful_iso faithful_intros) simp

lemma faithful_lifecycle: "faithful c_lifecycle"
  unfolding c_lifecycle_def by (intro faithful_iso faithful_intros) (simp split: SecretLifecycle.split)

lemma faithful_assignment: "faithful c_assignment"
  unfolding c_assignment_def by (intro faithful_iso faithful_intros) simp

lemma faithful_held: "faithful c_held"
  unfolding c_held_def by (intro faithful_iso faithful_intros) simp

lemma faithful_caveat_key: "faithful c_caveat_key"
  unfolding c_caveat_key_def by (intro faithful_iso faithful_intros) simp

lemma faithful_encrypted: "faithful c_encrypted"
  unfolding c_encrypted_def by (intro faithful_iso faithful_intros) simp

lemma faithful_record: "faithful c_record"
  unfolding c_record_def
  by (intro faithful_iso faithful_intros faithful_envelope faithful_lifecycle faithful_assignment
      faithful_held faithful_caveat_key) simp

definition codec_parse :: "'a codec \<Rightarrow> bytes \<Rightarrow> anyhow + 'a" where
  "codec_parse c bs = (case snd c bs of Some (x, []) \<Rightarrow> Inr x | _ \<Rightarrow> Inl ''malformed'')"

lemma codec_parse_print: "faithful c \<Longrightarrow> codec_parse c (fst c x) = Inr x"
  using faithfulD [of c x "[]"] by (simp add: codec_parse_def)

definition sample_store_fields where
  "sample_store_fields = store_ext.fields
     (\<lambda>t k. Inr (t k)) (\<lambda>t k v. Inr (t(k \<mapsto> v))) (\<lambda>t k. Inr (t k, t(k := None))) (\<lambda>t. Inr ())
     (\<lambda>r. Inr (fst c_record r)) (codec_parse c_record)
     (\<lambda>r. Inr (fst c_encrypted r)) (codec_parse c_encrypted)
     (\<lambda>e. Inr (fst c_envelope e))
     (\<lambda>k n p. Some (k @ p)) (\<lambda>k n c. if prefix k c then Some (drop (length k) c) else None)"

definition sample_store :: store_ext where
  "sample_store = ext.extend sample_ext sample_store_fields"

lemma sample_store_laws: "store_laws sample_store" "store_available sample_store"
  by (auto simp: store_laws_def store_available_def sample_store_def sample_store_fields_def
      ext.extend_def store_ext.fields_def codec_parse_print faithful_record faithful_encrypted
      b64_lossless_def sample_ext_def hex_decode_encode)

lemma sample_store_base:
  "hmac_sha256 sample_store = hmac_sha256 sample_ext" "sha256 sample_store = sha256 sample_ext"
  "b64_encode sample_store = hex_encode" "b64_decode sample_store = hex_decode"
  by (simp_all add: sample_store_def sample_store_fields_def ext.extend_def store_ext.fields_def sample_ext_def)

lemma load_available:
  assumes "store_laws E" "store_available E" "view E s h = Some r"
  obtains s' where "load E n now h s = (Inr (Some (r\<lparr> rec_last_accessed := Some now \<rparr>)), s')"
proof -
  obtain s' where "put_record E ''updated '' n h (r\<lparr> rec_last_accessed := Some now \<rparr>) s = (Inr (), s')"
    by (rule put_available [OF assms(2)])
  with fetch_available [OF assms] that show ?thesis
    by (simp add: load_def Let_def sbind_step sret_def)
qed

lemma revoke_available:
  assumes "store_laws E" "store_available E" "view E s h = Some r"
  obtains s' where "revoke E n now h reason s = (Inr True, s')"
proof -
  obtain s' where "put_record E ''updated '' n h (revoke_record reason now r) s = (Inr (), s')"
    by (rule put_available [OF assms(2)])
  with fetch_available [OF assms] that show ?thesis by (simp add: revoke_def sbind_step sret_def)
qed

lemma insert_available:
  assumes "store_available E"
  obtains s' where "insert_with_id E n h r s = (Inr h, s')"
proof -
  obtain s' where "put_record E [] n h r s = (Inr (), s')" by (rule put_available [OF assms])
  with that show ?thesis by (simp add: insert_with_id_def sbind_step sret_def)
qed

definition sample_envelope :: SecretEnvelope where
  "sample_envelope = \<lparr> env_envelope_key_id = ''ek'', env_algorithm = ''kyber768'', env_ciphertext = [],
     env_kyber_ciphertext = [], env_customer_id = ''cust'', env_exporter_binding = None,
     env_metadata = None, env_created_at = 0 \<rparr>"

definition sample_record :: StoredEnvelopeRecord where
  "sample_record = \<lparr> rec_envelope = sample_envelope, rec_signature = [], rec_signing_key_id = ''sk'',
     rec_signing_public_key = ''pk'', rec_signing_key_expires_at = None, rec_expires_at = Some 1000,
     rec_last_accessed = None, rec_redeem_nonce = Some ''n'', rec_redeem_binding = Some ''b'',
     rec_unwrap_principal_id = Some ''spiffe://a'', rec_issued_with_authenticated_transport = True,
     rec_issued_by_principal_id = None, rec_issued_by_peer_cert_sha256 = None,
     rec_issued_by_attestation_digest = None, rec_third_party_caveat_keys = None,
     rec_redeem_expires_at = Some 500, rec_redeem_used = False, rec_threshold = Some 1,
     rec_threshold_commitments = Some [''ab''], rec_lifecycle = RenewableLease,
     rec_lease_expires_at = Some 100, rec_lease_renewal_count = 0, rec_revoked = False,
     rec_revoked_at = None, rec_revocation_reason = None,
     rec_share_assignments = Some [\<lparr> asg_custodian_id = ''alice'', asg_share_index = 1, asg_claimed = False \<rparr>],
     rec_held_shares = Some [\<lparr> held_x = 1, held_y_b64 = ''bc'' \<rparr>] \<rparr>"

abbreviation sample_nonce :: bytes where "sample_nonce \<equiv> replicate 12 3"
abbreviation sample_handle :: uuid where "sample_handle \<equiv> replicate 16 5"

definition sample_sealed :: SealedStore where
  "sample_sealed = snd (insert_with_id sample_store sample_nonce sample_handle sample_record
     \<lparr> store_tree = Map.empty, store_key = [7] \<rparr>)"

lemma view_sample_sealed: "view sample_store sample_sealed sample_handle = Some sample_record"
proof -
  obtain s' where s': "insert_with_id sample_store sample_nonce sample_handle sample_record
      \<lparr> store_tree = Map.empty, store_key = [7] \<rparr> = (Inr sample_handle, s')"
    by (rule insert_available [OF sample_store_laws(2)])
  from insert_ok [OF sample_store_laws(1) _ this] s' show ?thesis by (simp add: sample_sealed_def)
qed

section \<open>Properties\<close>

text \<open>Insert then load.  After a record is inserted, loading its handle returns that record with
  the access time updated, and loading any other handle returns what it returned before.\<close>

lemma load_after_insert:
  assumes "store_laws E" "nonce_ok n" "nonce_ok n'"
    and "insert_with_id E n h r s = (Inr h', s')" "load E n' now k s' = (Inr found, s'')"
  shows "h' = h \<and> found = map_option (rec_last_accessed_update (\<lambda>_. Some now))
    (if k = h then Some r else view E s k)"
proof -
  from insert_ok [OF assms(1,2,4)] have "h' = h" "view E s' = (view E s)(h \<mapsto> r)" by auto
  with load_ok [OF assms(1,3,5)] show ?thesis by (auto split: option.splits)
qed

lemma load_after_insert_witness:
  "\<exists>s' s''. insert_with_id sample_store sample_nonce sample_handle sample_record sample_sealed = (Inr sample_handle, s') \<and>
     load sample_store sample_nonce 9 sample_handle s' =
       (Inr (Some (sample_record\<lparr> rec_last_accessed := Some 9 \<rparr>)), s'')"
proof -
  obtain s' where s': "insert_with_id sample_store sample_nonce sample_handle sample_record sample_sealed = (Inr sample_handle, s')"
    by (rule insert_available [OF sample_store_laws(2)])
  from insert_ok [OF sample_store_laws(1) _ this] have v: "view sample_store s' sample_handle = Some sample_record"
    by simp
  obtain s'' where s'': "load sample_store sample_nonce 9 sample_handle s' =
      (Inr (Some (sample_record\<lparr> rec_last_accessed := Some 9 \<rparr>)), s'')"
    by (rule load_available [OF sample_store_laws v])
  from load_after_insert [OF sample_store_laws(1) _ _ s' s''] s' s'' show ?thesis by auto
qed

text \<open>C23 (records only evolve forward).  Along any sequence of store operations, successful or failed,
  a handle that was used and is absent stays absent, and a record that is present keeps its envelope,
  signature, principal binding, issuer, expiries and lifecycle; it is never un-revoked, its redeem
  token is never restored once consumed, its lease counter never decreases and its caveat keys are
  never dropped or altered.\<close>

theorem store_runs_evolve:
  assumes "store_laws E" "(store_step E)\<^sup>*\<^sup>* (s, used) (s', used')" "h \<in> used"
  shows "(view E s h = None \<longrightarrow> view E s' h = None) \<and>
    (\<forall>r r'. view E s h = Some r \<longrightarrow> view E s' h = Some r' \<longrightarrow> evolves r r')"
  using store_run_evolves [OF assms(1,2), of h] assms(3) by simp

theorem store_runs_evolve_witness:
  "\<exists>s' r'. mark_redeem_used sample_store sample_nonce sample_handle sample_sealed = (Inr (), s') \<and>
     view sample_store s' sample_handle = Some r' \<and> evolves sample_record r'"
proof -
  obtain s' where s': "mark_redeem_used sample_store sample_nonce sample_handle sample_sealed = (Inr (), s')"
    unfolding mark_redeem_used_def
    by (rule modify_available [where f = "\<lambda>r. Inr ((), consume_redeem r)",
          OF sample_store_laws view_sample_sealed refl])
  have "store_step sample_store (sample_sealed, {sample_handle}) (s', {sample_handle})"
    by (rule store_step.redeem_step [OF _ s']) simp
  moreover have "view sample_store s' sample_handle = Some (consume_redeem sample_record)"
    using modify_ok [OF sample_store_laws(1) _ s' [unfolded mark_redeem_used_def]] view_sample_sealed by auto
  ultimately show ?thesis
    using store_runs_evolve [OF sample_store_laws(1), of sample_sealed "{sample_handle}" s' "{sample_handle}" sample_handle]
      view_sample_sealed s' by auto
qed

text \<open>Revocation is permanent.  Once \<open>revoke\<close> has answered \<open>true\<close> for a handle, whatever store
  operations follow, loading the handle gives nothing or a record that is revoked and whose redeem
  token is consumed and erased.\<close>

lemma revocation_permanent:
  assumes "store_laws E" "nonce_ok n" "nonce_ok n'"
    and "revoke E n now h reason s = (Inr True, s1)" "h \<in> used"
    and "(store_step E)\<^sup>*\<^sup>* (s1, used) (s2, used')" "load E n' now' h s2 = (Inr (Some r), s3)"
  shows "rec_revoked r \<and> rec_redeem_used r \<and> rec_redeem_nonce r = None \<and> rec_redeem_binding r = None"
proof -
  from revoke_ok [OF assms(1,2,4)] obtain r0 where "view E s1 h = Some (revoke_record reason now r0)"
    by (auto split: option.splits)
  moreover from load_ok [OF assms(1,3,7)] obtain r2 where "view E s2 h = Some r2"
    "r = r2\<lparr> rec_last_accessed := Some now' \<rparr>" by (auto split: option.splits)
  ultimately have "evolves (revoke_record reason now r0) r2"
    using store_run_evolves [OF assms(1,6), of h] assms(5) by simp
  then show ?thesis
    using \<open>r = r2\<lparr> rec_last_accessed := Some now' \<rparr>\<close> by (auto simp: evolves_def revoke_record_def)
qed

lemma revocation_permanent_witness:
  "\<exists>s1 s3 r. revoke sample_store sample_nonce 8 sample_handle None sample_sealed = (Inr True, s1) \<and>
     load sample_store sample_nonce 9 sample_handle s1 = (Inr (Some r), s3) \<and> rec_revoked r"
proof -
  obtain s1 where s1: "revoke sample_store sample_nonce 8 sample_handle None sample_sealed = (Inr True, s1)"
    by (rule revoke_available [OF sample_store_laws view_sample_sealed])
  then have "view sample_store s1 sample_handle = Some (revoke_record None 8 sample_record)"
    using revoke_ok [OF sample_store_laws(1) _ s1] view_sample_sealed by simp
  then obtain s3 where s3: "load sample_store sample_nonce 9 sample_handle s1 =
      (Inr (Some ((revoke_record None 8 sample_record)\<lparr> rec_last_accessed := Some 9 \<rparr>)), s3)"
    by (rule load_available [OF sample_store_laws])
  have "rec_revoked ((revoke_record None 8 sample_record)\<lparr> rec_last_accessed := Some 9 \<rparr>)"
    using revocation_permanent [OF sample_store_laws(1) _ _ s1 insertI1 rtranclp.rtrancl_refl s3] by simp
  with s1 s3 show ?thesis by blast
qed

text \<open>Claiming a share twice.  The first claim of a custodian returns the held share at the
  assigned position and marks the assignment; claiming again succeeds on an available store and
  returns the same share and commitments, reported as previously claimed.\<close>

lemma claim_idempotent:
  assumes "store_laws E" "store_available E" "nonce_ok n" "nonce_ok n'"
    and "claim_custodian_share E n h cid s = (Inr c, s')"
  shows "\<exists>s''. claim_custodian_share E n' h cid s' = (Inr (c\<lparr> claim_previously_claimed := True \<rparr>), s'')"
proof -
  from modify_ok [OF assms(1,3) assms(5) [unfolded claim_custodian_share_def]] obtain r r'
    where c: "claim_record E cid r = Inr (c, r')" and v: "view E s' h = Some r'" by auto
  from claim_record_again [OF c] obtain r'' where "claim_record E cid r' =
      Inr (c\<lparr> claim_previously_claimed := True \<rparr>, r'')" by blast
  from modify_available [where f = "claim_record E cid", OF assms(1,2) v this] show ?thesis
    unfolding claim_custodian_share_def by blast
qed

lemma claim_idempotent_witness:
  "\<exists>s' s''. claim_custodian_share sample_store sample_nonce sample_handle ''alice'' s' =
     (Inr \<lparr> claim_x = 1, claim_y = the (hex_decode ''bc''), claim_commitments = [the (hex_decode ''ab'')],
            claim_previously_claimed = True \<rparr>, s'')"
proof -
  have "claim_record sample_store ''alice'' sample_record =
      Inr (\<lparr> claim_x = 1, claim_y = the (hex_decode ''bc''), claim_commitments = [the (hex_decode ''ab'')],
             claim_previously_claimed = False \<rparr>,
           sample_record\<lparr> rec_share_assignments := Some (mark_first ''alice''
             [\<lparr> asg_custodian_id = ''alice'', asg_share_index = 1, asg_claimed = False \<rparr>]) \<rparr>)"
    by (simp add: claim_record_def sample_record_def sample_store_base)
  from modify_available [where f = "claim_record sample_store ''alice''", OF sample_store_laws view_sample_sealed this] obtain s'
    where "claim_custodian_share sample_store sample_nonce sample_handle ''alice'' sample_sealed =
      (Inr \<lparr> claim_x = 1, claim_y = the (hex_decode ''bc''), claim_commitments = [the (hex_decode ''ab'')],
             claim_previously_claimed = False \<rparr>, s')"
    unfolding claim_custodian_share_def by blast
  from claim_idempotent [OF sample_store_laws _ _ this, of sample_nonce] show ?thesis by auto
qed



end
