(* ===== verification/Transparency.thy ===== *)
theory Transparency
  imports Sealed_Store "HOL-Library.AList"
begin

text \<open>
  The transparency log: \<open>secret_broker_impl/transparency.rs\<close>.

  The logger keeps a sequence number and the hash of the last line; every event is written as one
  JSON line that carries the hash of the line before it.  The state is the logger together with the
  contents of its file.  \<open>record_begin\<close>, \<open>record_publish\<close> and \<open>record_append\<close> are the three critical
  sections of \<open>record\<close>, which holds no lock across them; an \<open>append_outcome\<close> says how the file-system
  calls of the last one end.  \<open>hex\<close> and \<open>serde_json\<close> are parameters (\<open>log_ext\<close>).
\<close>

section \<open>Data\<close>

record TransparencyEvent =
  ev_sequence :: "64 word"
  ev_prev_hash :: string
  ev_event :: string
  ev_handle_fingerprint :: "string option"
  ev_envelope_key_id :: "string option"
  ev_customer_id :: "string option"
  ev_status :: string
  ev_timestamp :: instant
  ev_metadata :: "json option"
  ev_caller_identity :: "string option"
  ev_parent_handle_fingerprint :: "string option"
  ev_lease_sequence :: "32 word option"
  ev_previous_expires_at :: "instant option"

record TransparencyLogger =
  log_file :: string
  log_sequence :: "64 word"
  log_prev_hash :: string

record VerifyResult =
  vr_entries :: nat
  vr_head_hash :: string

datatype append_outcome = Appended | Open_failed | Line_failed nat | Newline_failed | Sync_failed

section \<open>Parameters\<close>

record log_ext = store_ext +
  hex_lower :: "bytes \<Rightarrow> string"
  json_from_str :: "string \<Rightarrow> anyhow + json"
  event_to_json :: "TransparencyEvent \<Rightarrow> anyhow + string"

type_synonym json_map = "(string \<times> json) list"

definition json_insert :: "string \<Rightarrow> json \<Rightarrow> json_map \<Rightarrow> json_map" where
  "json_insert k v m = AList.update k v m"

fun json_get :: "string \<Rightarrow> json \<Rightarrow> json option" where
  "json_get k (JObject m) = map_of m k"
| "json_get k _ = None"

fun as_u64 :: "json \<Rightarrow> 64 word option" where
  "as_u64 (JInt n) = (if 0 \<le> n \<and> n < 2 ^ 64 then Some (word_of_int n) else None)"
| "as_u64 _ = None"

fun as_str :: "json \<Rightarrow> string option" where
  "as_str (JString s) = Some s"
| "as_str _ = None"

abbreviation newline :: char where "newline \<equiv> CHR 0x0A"
abbreviation carriage_return :: char where "carriage_return \<equiv> CHR 0x0D"

text \<open>serde prints an event as one JSON object on one line, with its sequence number and previous
  hash among the members, and reads such a line back; \<open>hex\<close> is injective.\<close>

definition log_laws :: "'z log_ext_scheme \<Rightarrow> bool" where
  "log_laws E \<longleftrightarrow> inj (hex_lower E) \<and>
     (\<forall>ev line. event_to_json E ev = Inr line \<longrightarrow>
        wf_str line \<and> newline \<notin> set line \<and> carriage_return \<notin> set line \<and>
        line \<noteq> [] \<and> hd line = CHR ''{'' \<and> last line = CHR ''}'' \<and>
        (\<exists>v. json_from_str E line = Inr v \<and>
           json_get ''sequence'' v = Some (JInt (uint (ev_sequence ev))) \<and>
           json_get ''prev_hash'' v = Some (JString (ev_prev_hash ev))))"

definition events_serialise :: "'z log_ext_scheme \<Rightarrow> bool" where
  "events_serialise E \<longleftrightarrow> (\<forall>ev. is_ok (event_to_json E ev))"

section \<open>Reading the log\<close>

definition GENESIS_HASH :: string where
  "GENESIS_HASH = replicate 64 (CHR ''0'')"

definition line_hash :: "'z log_ext_scheme \<Rightarrow> string \<Rightarrow> string" where
  "line_hash E line = hex_lower E (sha256 E (as_bytes line))"

definition handle_fingerprint :: "'z log_ext_scheme \<Rightarrow> string \<Rightarrow> string" where
  "handle_fingerprint E handle = ''sha256:'' @ hex_lower E (sha256 E (as_bytes (trim handle)))"

text \<open>\<open>BufRead::lines\<close>: a line ends at a newline, which is dropped with a carriage return before it;
  a last line without newline is kept as it is.\<close>

definition strip_cr :: "string \<Rightarrow> string" where
  "strip_cr s = (if s \<noteq> [] \<and> last s = carriage_return then butlast s else s)"

function lines_of :: "string \<Rightarrow> string list" where
  "lines_of s =
     (case split_once [newline] s of
        None \<Rightarrow> if s = [] then [] else [s]
      | Some (a, b) \<Rightarrow> strip_cr a # lines_of b)"
  by pat_completeness auto
termination
  by (relation "measure length") (auto dest!: split_once_Some)

declare lines_of.simps [simp del]

text \<open>The sequence number of a line, when it parses and has one.\<close>

definition line_sequence :: "'z log_ext_scheme \<Rightarrow> string \<Rightarrow> 64 word option" where
  "line_sequence E line =
     (case json_from_str E line of
        Inl e \<Rightarrow> None
      | Inr v \<Rightarrow> Option.bind (json_get ''sequence'' v) as_u64)"

fun recover_loop ::
  "'z log_ext_scheme \<Rightarrow> string list \<Rightarrow> 64 word \<Rightarrow> string option \<Rightarrow> anyhow + (64 word \<times> string option)" where
  "recover_loop E [] last_seq last_line = Inr (last_seq, last_line)"
| "recover_loop E (line # lines) last_seq last_line =
     rbind (ensure (wf_str line) ''reading transparency log line'') (\<lambda>_.
     if trim line = [] then recover_loop E lines last_seq last_line
     else recover_loop E lines
       (case line_sequence E line of Some seq \<Rightarrow> seq | None \<Rightarrow> last_seq) (Some line))"

text \<open>A file that cannot be opened is \<open>None\<close>.  \<open>last_seq + 1\<close> wraps as a release build does.\<close>

definition recover_chain_state ::
  "'z log_ext_scheme \<Rightarrow> string option \<Rightarrow> anyhow + (64 word \<times> string)" where
  "recover_chain_state E file =
     (case file of
        None \<Rightarrow> Inr (0, GENESIS_HASH)
      | Some contents \<Rightarrow>
          rbind (recover_loop E (lines_of contents) 0 None) (\<lambda>(last_seq, last_line).
          let hash = (case last_line of Some line \<Rightarrow> line_hash E line | None \<Rightarrow> GENESIS_HASH);
              next_seq = (if 0 < last_seq \<or> last_line \<noteq> None then last_seq + 1 else 0)
          in Inr (next_seq, hash)))"

text \<open>\<open>opened\<close> is the result of creating the directory and opening the file for appending, with the
  contents it has then.\<close>

definition new_logger :: "'z log_ext_scheme \<Rightarrow> anyhow + string \<Rightarrow> anyhow + TransparencyLogger" where
  "new_logger E opened =
     rbind opened (\<lambda>contents.
     rbind (recover_chain_state E (Some contents)) (\<lambda>(seq, hash).
     Inr \<lparr> log_file = contents, log_sequence = seq, log_prev_hash = hash \<rparr>))"

definition line_prev_hash :: "json \<Rightarrow> string option" where
  "line_prev_hash v = Option.bind (json_get ''prev_hash'' v) as_str"

fun verify_loop ::
  "'z log_ext_scheme \<Rightarrow> nat \<Rightarrow> string list \<Rightarrow> string \<Rightarrow> nat \<Rightarrow> string \<Rightarrow> anyhow + VerifyResult" where
  "verify_loop E lineno [] expected_prev count last_hash =
     Inr \<lparr> vr_entries = count, vr_head_hash = last_hash \<rparr>"
| "verify_loop E lineno (line # lines) expected_prev count last_hash =
     rbind (ensure (wf_str line) (''reading line '' @ show_nat lineno)) (\<lambda>_.
     if trim line = [] then verify_loop E (Suc lineno) lines expected_prev count last_hash
     else
       rbind (map_err (\<lambda>_. ''parsing JSON at line '' @ show_nat lineno) (json_from_str E line)) (\<lambda>v.
       rbind (ok_or (''line '' @ show_nat lineno @ '': missing prev_hash field'') (line_prev_hash v)) (\<lambda>prev.
       rbind (ensure (prev = expected_prev) (''chain broken at line '' @ show_nat lineno)) (\<lambda>_.
       verify_loop E (Suc lineno) lines (line_hash E line) (Suc count) (line_hash E line)))))"

definition verify_chain :: "'z log_ext_scheme \<Rightarrow> string option \<Rightarrow> anyhow + VerifyResult" where
  "verify_chain E file =
     rbind (ok_or ''opening transparency log'' file)
       (\<lambda>contents. verify_loop E 0 (lines_of contents) GENESIS_HASH 0 GENESIS_HASH)"

section \<open>Writing the log\<close>

definition record_begin ::
  "'z log_ext_scheme \<Rightarrow> TransparencyEvent \<Rightarrow> (TransparencyLogger, anyhow, string \<times> string) effect" where
  "record_begin E entry s =
     (let seq = log_sequence s; prev = log_prev_hash s;
          s' = s\<lparr> log_sequence := seq + 1 \<rparr>;
          entry' = entry\<lparr> ev_sequence := seq, ev_prev_hash := prev \<rparr>
      in (rbind (map_err (\<lambda>_. ''serializing transparency event'') (event_to_json E entry'))
            (\<lambda>line. Inr (line, line_hash E line)), s'))"

definition record_publish :: "string \<Rightarrow> (TransparencyLogger, anyhow, unit) effect" where
  "record_publish new_hash s = (Inr (), s\<lparr> log_prev_hash := new_hash \<rparr>)"

fun append_line :: "append_outcome \<Rightarrow> string \<Rightarrow> string \<Rightarrow> (anyhow + unit) \<times> string" where
  "append_line Appended line f = (Inr (), f @ line @ [newline])"
| "append_line Open_failed line f = (Inl ''failed to open transparency log'', f)"
| "append_line (Line_failed k) line f = (Inl ''writing transparency event'', f @ take k line)"
| "append_line Newline_failed line f = (Inl ''writing transparency newline'', f @ line)"
| "append_line Sync_failed line f = (Inl ''syncing transparency log to disk'', f @ line @ [newline])"

definition record_append :: "append_outcome \<Rightarrow> string \<Rightarrow> (TransparencyLogger, anyhow, unit) effect" where
  "record_append io line s =
     (case append_line io line (log_file s) of (r, f) \<Rightarrow> (r, s\<lparr> log_file := f \<rparr>))"

definition record_event ::
  "'z log_ext_scheme \<Rightarrow> append_outcome \<Rightarrow> TransparencyEvent \<Rightarrow> (TransparencyLogger, anyhow, unit) effect" where
  "record_event E io entry =
     sbind (record_begin E entry) (\<lambda>(line, new_hash).
     sbind (record_publish new_hash) (\<lambda>_. record_append io line))"

section \<open>Events\<close>

definition base_event :: "instant \<Rightarrow> TransparencyEvent" where
  "base_event now = \<lparr> ev_sequence = 0, ev_prev_hash = [], ev_event = ''wrap'',
     ev_handle_fingerprint = None, ev_envelope_key_id = None, ev_customer_id = None,
     ev_status = ''issued'', ev_timestamp = now, ev_metadata = None, ev_caller_identity = None,
     ev_parent_handle_fingerprint = None, ev_lease_sequence = None, ev_previous_expires_at = None \<rparr>"

definition with_caller :: "string \<Rightarrow> TransparencyEvent \<Rightarrow> TransparencyEvent" where
  "with_caller caller ev = ev\<lparr> ev_caller_identity := Some caller \<rparr>"

definition with_parent_handle :: "'z log_ext_scheme \<Rightarrow> string \<Rightarrow> TransparencyEvent \<Rightarrow> TransparencyEvent" where
  "with_parent_handle E parent ev =
     ev\<lparr> ev_parent_handle_fingerprint := Some (handle_fingerprint E parent) \<rparr>"

definition with_lease_renewal :: "32 word \<Rightarrow> instant \<Rightarrow> TransparencyEvent \<Rightarrow> TransparencyEvent" where
  "with_lease_renewal seq previous_expires ev =
     ev\<lparr> ev_lease_sequence := Some seq, ev_previous_expires_at := Some previous_expires \<rparr>"

definition wrap_event ::
  "'z log_ext_scheme \<Rightarrow> instant \<Rightarrow> string \<Rightarrow> string \<Rightarrow> string \<Rightarrow> json option \<Rightarrow> TransparencyEvent" where
  "wrap_event E now handle envelope customer_id metadata =
     (base_event now)\<lparr> ev_event := ''wrap'', ev_handle_fingerprint := Some (handle_fingerprint E handle),
       ev_envelope_key_id := Some envelope, ev_customer_id := Some customer_id,
       ev_status := ''issued'', ev_metadata := metadata \<rparr>"

definition unwrap_event ::
  "'z log_ext_scheme \<Rightarrow> instant \<Rightarrow> string \<Rightarrow> string option \<Rightarrow> string \<Rightarrow> json option \<Rightarrow> TransparencyEvent" where
  "unwrap_event E now handle envelope customer_id metadata =
     (base_event now)\<lparr> ev_event := ''unwrap'', ev_handle_fingerprint := Some (handle_fingerprint E handle),
       ev_envelope_key_id := envelope, ev_customer_id := Some customer_id,
       ev_status := ''unwrapped'', ev_metadata := metadata \<rparr>"

definition delete_event ::
  "'z log_ext_scheme \<Rightarrow> instant \<Rightarrow> string \<Rightarrow> bool \<Rightarrow> json option \<Rightarrow> TransparencyEvent" where
  "delete_event E now handle found metadata =
     (base_event now)\<lparr> ev_event := ''delete'', ev_handle_fingerprint := Some (handle_fingerprint E handle),
       ev_status := (if found then ''removed'' else ''not_found''), ev_metadata := metadata \<rparr>"

definition revoke_event ::
  "'z log_ext_scheme \<Rightarrow> instant \<Rightarrow> string \<Rightarrow> string \<Rightarrow> json option \<Rightarrow> TransparencyEvent" where
  "revoke_event E now handle customer_id metadata =
     (base_event now)\<lparr> ev_event := ''revoke'', ev_handle_fingerprint := Some (handle_fingerprint E handle),
       ev_customer_id := Some customer_id, ev_status := ''revoked'', ev_metadata := metadata \<rparr>"

definition renew_lease_event ::
  "'z log_ext_scheme \<Rightarrow> instant \<Rightarrow> string \<Rightarrow> string \<Rightarrow> json option \<Rightarrow> TransparencyEvent" where
  "renew_lease_event E now handle customer_id metadata =
     (base_event now)\<lparr> ev_event := ''renew_lease'', ev_handle_fingerprint := Some (handle_fingerprint E handle),
       ev_customer_id := Some customer_id, ev_status := ''renewed'', ev_metadata := metadata \<rparr>"

definition attenuate_event ::
  "'z log_ext_scheme \<Rightarrow> instant \<Rightarrow> string \<Rightarrow> string \<Rightarrow> json option \<Rightarrow> TransparencyEvent" where
  "attenuate_event E now handle customer_id metadata =
     (base_event now)\<lparr> ev_event := ''attenuate'', ev_handle_fingerprint := Some (handle_fingerprint E handle),
       ev_customer_id := Some customer_id, ev_status := ''attenuated'', ev_metadata := metadata \<rparr>"

fun object_members :: "json option \<Rightarrow> json_map" where
  "object_members (Some (JObject m)) = m"
| "object_members _ = []"

definition rotate_event ::
  "'z log_ext_scheme \<Rightarrow> instant \<Rightarrow> string \<Rightarrow> string \<Rightarrow> string \<Rightarrow> string \<Rightarrow> json option \<Rightarrow> TransparencyEvent" where
  "rotate_event E now old_handle new_handle envelope_key_id customer_id metadata =
     (let meta = json_insert ''new_handle_fingerprint'' (JString (handle_fingerprint E new_handle))
           (json_insert ''old_handle_fingerprint'' (JString (handle_fingerprint E old_handle))
             (object_members metadata))
      in (base_event now)\<lparr> ev_event := ''rotate'',
           ev_handle_fingerprint := Some (handle_fingerprint E new_handle),
           ev_envelope_key_id := Some envelope_key_id, ev_customer_id := Some customer_id,
           ev_status := ''rotated'', ev_metadata := Some (JObject meta) \<rparr>)"

section \<open>Hash chains\<close>

text \<open>A list of lines in which every line names the hash of the one before it.  What follows from the
  shape alone is proved once, for any hash.\<close>

locale hash_chain =
  fixes hash :: "'e \<Rightarrow> 'l \<Rightarrow> 'h" and link :: "'e \<Rightarrow> 'l \<Rightarrow> 'h option"
    and linked :: "'e \<Rightarrow> 'h \<Rightarrow> 'l list \<Rightarrow> bool" and head :: "'e \<Rightarrow> 'h \<Rightarrow> 'l list \<Rightarrow> 'h"
  assumes linked_Nil: "linked e h []"
    and linked_snoc: "linked e h (ls @ [l]) \<longleftrightarrow> linked e h ls \<and> link e l = Some (head e h ls)"
    and head_Nil: "head e h [] = h"
    and head_snoc: "head e h (ls @ [l]) = hash e l"
begin

lemma same_head_same_lines:
  assumes "linked e h xs" "linked e h ys" "length xs = length ys" "head e h xs = head e h ys"
  shows "xs = ys \<or> (\<exists>x \<in> set xs. \<exists>y \<in> set ys. x \<noteq> y \<and> hash e x = hash e y)"
  using assms
proof (induction xs arbitrary: ys rule: rev_induct)
  case (snoc x xs)
  from snoc.prems(3) obtain zs y where ys: "ys = zs @ [y]" by (cases ys rule: rev_cases) auto
  with snoc.prems have eq: "hash e x = hash e y" by (simp add: head_snoc)
  show ?case
  proof (cases "x = y")
    case False
    with eq ys show ?thesis by auto
  next
    case True
    with snoc.prems ys have "linked e h xs" "linked e h zs" "length xs = length zs"
      "head e h xs = head e h zs" by (simp_all add: linked_snoc)
    from snoc.IH [OF this] True ys show ?thesis by auto
  qed
qed simp

lemma forked:
  assumes "linked e h (ls @ [a, b])" "link e a = link e b"
  shows "hash e a = head e h ls"
proof -
  from assms(1) linked_snoc [of e h "ls @ [a]" b] linked_snoc [of e h ls a] head_snoc [of e h ls a]
  have "link e b = Some (hash e a)" "link e a = Some (head e h ls)" by simp_all
  with assms(2) show ?thesis by simp
qed

end

definition entries :: "string list \<Rightarrow> string list" where
  "entries ls = filter (\<lambda>l. trim l \<noteq> []) ls"

definition line_link :: "'z log_ext_scheme \<Rightarrow> string \<Rightarrow> string option" where
  "line_link E line = (case json_from_str E line of Inl e \<Rightarrow> None | Inr v \<Rightarrow> line_prev_hash v)"

fun chained :: "'z log_ext_scheme \<Rightarrow> string \<Rightarrow> string list \<Rightarrow> bool" where
  "chained E prev [] = True"
| "chained E prev (l # ls) = (line_link E l = Some prev \<and> chained E (line_hash E l) ls)"

definition chain_head :: "'z log_ext_scheme \<Rightarrow> string \<Rightarrow> string list \<Rightarrow> string" where
  "chain_head E h ls = foldl (\<lambda>_. line_hash E) h ls"

lemma chained_snoc:
  "chained E h (ls @ [l]) \<longleftrightarrow> chained E h ls \<and> line_link E l = Some (chain_head E h ls)"
  by (induction ls arbitrary: h) (auto simp: chain_head_def)

interpretation chain: hash_chain line_hash line_link chained chain_head
  by unfold_locales (simp_all add: chained_snoc chain_head_def)

lemma line_link_Some:
  "line_link E l = Some p \<longleftrightarrow> (\<exists>v. json_from_str E l = Inr v \<and> line_prev_hash v = Some p)"
  by (cases "json_from_str E l") (auto simp: line_link_def)

lemma verify_loop_Inr_iff:
  "verify_loop E n ls p c h = Inr v \<longleftrightarrow>
     (\<forall>l \<in> set ls. wf_str l) \<and> chained E p (entries ls) \<and>
     v = \<lparr> vr_entries = c + length (entries ls), vr_head_hash = chain_head E h (entries ls) \<rparr>"
proof (induction ls arbitrary: n p c h)
  case (Cons l ls)
  show ?case
    by (cases "trim l = []"; cases "wf_str l"; cases "json_from_str E l")
       (auto simp: result_simps Cons.IH entries_def line_link_def chain_head_def ensure_def)
qed (auto simp: entries_def chain_head_def)

lemma verify_chain_Inr_iff:
  "verify_chain E (Some f) = Inr v \<longleftrightarrow>
     (\<forall>l \<in> set (lines_of f). wf_str l) \<and> chained E GENESIS_HASH (entries (lines_of f)) \<and>
     v = \<lparr> vr_entries = length (entries (lines_of f)),
           vr_head_hash = chain_head E GENESIS_HASH (entries (lines_of f)) \<rparr>"
  by (simp add: verify_chain_def verify_loop_Inr_iff)

section \<open>Appending a line\<close>

definition complete :: "string \<Rightarrow> bool" where
  "complete f \<longleftrightarrow> f = [] \<or> last f = newline"

lemma lines_of_step: "split_once [newline] s = Some (a, b) \<Longrightarrow> lines_of s = strip_cr a # lines_of b"
  by (subst lines_of.simps) simp

lemma lines_of_append:
  assumes "complete f" "newline \<notin> set line" "carriage_return \<notin> set line"
  shows "lines_of (f @ line @ [newline]) = lines_of f @ [line]"
  using assms(1)
proof (induction f rule: lines_of.induct)
  case (1 f)
  have strip: "strip_cr line = line" using assms(3) by (metis last_in_set strip_cr_def)
  have one: "lines_of (line @ [newline]) = [line]"
    using assms(2) lines_of_step [OF split_once_char [of newline line "[]"]] strip
    by (simp add: lines_of.simps [of "[]"])
  show ?case
  proof (cases "split_once [newline] f")
    case None
    have "newline \<notin> set f"
    proof
      assume "newline \<in> set f"
      then obtain a b where "f = a @ newline # b" "newline \<notin> set a" by (meson split_list_first)
      with None split_once_char [of newline a b] show False by simp
    qed
    with 1(2) have "f = []" by (metis complete_def last_in_set)
    with one show ?thesis by (simp add: lines_of.simps [of "[]"])
  next
    case (Some ab)
    obtain a b where ab: "ab = (a, b)" by (cases ab)
    with Some have f: "f = a @ newline # b" using split_once_Some by fastforce
    have "complete b" using 1(2) f by (auto simp: complete_def split: if_splits)
    have "split_once [newline] (f @ line @ [newline]) = Some (a, b @ line @ [newline])"
      using split_once_char [of newline a] split_once_char_fresh [of newline f a b] f Some ab by simp
    from lines_of_step [OF this] lines_of_step [OF Some [unfolded ab]]
    show ?thesis using 1(1) [OF Some ab [symmetric] \<open>complete b\<close>] by simp
  qed
qed

lemma trim_braces:
  assumes "line \<noteq> []" "hd line = CHR ''{''" "last line = CHR ''}''"
  shows "trim line = line"
proof -
  have "strip_ws ws_len line = line"
    using assms(1,2) by (cases line) (auto intro!: strip_ws_stop simp: ascii_ws_def ws3_def split: list.split)
  moreover have "strip_ws ws_len_rev (rev line) = rev line"
    using assms(1,3) by (cases line rule: rev_cases)
      (auto intro!: strip_ws_stop simp: ascii_ws_def ws3_def split: list.split)
  ultimately show ?thesis by (simp add: trim_def)
qed

lemma event_line:
  assumes "log_laws E" "event_to_json E ev = Inr line"
  shows "wf_str line" "newline \<notin> set line" "carriage_return \<notin> set line" "trim line \<noteq> []"
    "line_link E line = Some (ev_prev_hash ev)" "line_sequence E line = Some (ev_sequence ev)"
proof -
  from assms obtain v where v: "json_from_str E line = Inr v"
    "json_get ''sequence'' v = Some (JInt (uint (ev_sequence ev)))"
    "json_get ''prev_hash'' v = Some (JString (ev_prev_hash ev))"
    unfolding log_laws_def by blast
  have ends: "line \<noteq> []" "hd line = CHR ''{''" "last line = CHR ''}''"
    and ok: "wf_str line" "newline \<notin> set line" "carriage_return \<notin> set line"
    using assms unfolding log_laws_def by blast+
  from ok show "wf_str line" "newline \<notin> set line" "carriage_return \<notin> set line" .
  from trim_braces [OF ends] ends(1) show "trim line \<noteq> []" by simp
  show "line_link E line = Some (ev_prev_hash ev)" using v by (simp add: line_link_def line_prev_hash_def)
  show "line_sequence E line = Some (ev_sequence ev)"
    using v uint_lt2p [of "ev_sequence ev"] by (simp add: line_sequence_def)
qed

lemma recover_loop_append:
  "recover_loop E (ls @ ks) q l = rbind (recover_loop E ls q l) (\<lambda>(q', l'). recover_loop E ks q' l')"
  by (induction ls arbitrary: q l) (simp_all add: ensure_def)

lemma recover_loop_last:
  assumes "\<forall>l \<in> set ls. wf_str l"
  shows "\<exists>q. recover_loop E ls q0 l0 = Inr (q, if entries ls = [] then l0 else Some (last (entries ls)))"
  using assms by (induction ls arbitrary: q0 l0) (auto simp: entries_def)

lemma chain_head_last: "chain_head E h ls = (if ls = [] then h else line_hash E (last ls))"
  by (cases ls rule: rev_cases) (simp_all add: chain_head_def)

text \<open>The invariant of a logger: its file is a complete valid chain and reopening it would restore the
  logger's sequence number and head.\<close>

definition log_inv :: "'z log_ext_scheme \<Rightarrow> nat \<Rightarrow> TransparencyLogger \<Rightarrow> bool" where
  "log_inv E n s \<longleftrightarrow> complete (log_file s) \<and>
     verify_chain E (Some (log_file s)) = Inr \<lparr> vr_entries = n, vr_head_hash = log_prev_hash s \<rparr> \<and>
     recover_chain_state E (Some (log_file s)) = Inr (log_sequence s, log_prev_hash s)"

lemma log_inv_new:
  assumes "complete f" "verify_chain E (Some f) = Inr v" "new_logger E (Inr f) = Inr s"
  shows "log_inv E (vr_entries v) s" "log_file s = f"
proof -
  from assms(3) have f: "log_file s = f"
    and r: "recover_chain_state E (Some f) = Inr (log_sequence s, log_prev_hash s)"
    by (auto simp: new_logger_def result_simps)
  from assms(2) have wf: "\<forall>l \<in> set (lines_of f). wf_str l"
    and v: "v = \<lparr> vr_entries = length (entries (lines_of f)),
           vr_head_hash = chain_head E GENESIS_HASH (entries (lines_of f)) \<rparr>"
    by (auto simp: verify_chain_Inr_iff)
  from recover_loop_last [OF wf, of E 0 None] r have "log_prev_hash s = vr_head_hash v"
    by (auto simp: recover_chain_state_def v chain_head_last Let_def split: if_splits)
  with assms f r show "log_inv E (vr_entries v) s" "log_file s = f"
    by (auto simp: log_inv_def)
qed

lemma log_inv_record:
  assumes "log_laws E" "log_inv E n s" "record_event E Appended ev s = (Inr u, s')"
  shows "log_inv E (Suc n) s'"
proof -
  from assms(3) obtain line where
    line: "event_to_json E (ev\<lparr> ev_sequence := log_sequence s, ev_prev_hash := log_prev_hash s \<rparr>) = Inr line"
    and s': "s' = s\<lparr> log_sequence := log_sequence s + 1, log_prev_hash := line_hash E line,
                  log_file := log_file s @ line @ [newline] \<rparr>"
    by (auto simp: record_event_def record_begin_def record_publish_def record_append_def Let_def
        effect_simps result_simps)
  note el = event_line [OF assms(1) line, simplified]
  have c: "complete (log_file s)" using assms(2) by (simp add: log_inv_def)
  have ls: "lines_of (log_file s') = lines_of (log_file s) @ [line]"
    using lines_of_append [OF c el(2,3)] s' by simp
  then have es: "entries (lines_of (log_file s')) = entries (lines_of (log_file s)) @ [line]"
    using el(4) by (simp add: entries_def)
  have v: "verify_chain E (Some (log_file s)) = Inr \<lparr> vr_entries = n, vr_head_hash = log_prev_hash s \<rparr>"
    using assms(2) by (simp add: log_inv_def)
  have "verify_chain E (Some (log_file s')) = Inr \<lparr> vr_entries = Suc n, vr_head_hash = log_prev_hash s' \<rparr>"
    using v el(1,5) ls es s' by (auto simp: verify_chain_Inr_iff chained_snoc chain_head_def)
  moreover have "recover_chain_state E (Some (log_file s')) = Inr (log_sequence s', log_prev_hash s')"
  proof -
    have wf: "\<forall>l \<in> set (lines_of (log_file s)). wf_str l" using v by (simp add: verify_chain_Inr_iff)
    from recover_loop_last [OF wf, of E 0 None] obtain q l
      where "recover_loop E (lines_of (log_file s)) 0 None = Inr (q, l)" by blast
    then have "recover_loop E (lines_of (log_file s')) 0 None = Inr (log_sequence s, Some line)"
      using ls el(1,4,6) by (simp add: recover_loop_append)
    then show ?thesis using s' by (simp add: recover_chain_state_def Let_def)
  qed
  moreover have "complete (log_file s')" using s' by (simp add: complete_def)
  ultimately show ?thesis by (simp add: log_inv_def)
qed

lemma record_available:
  assumes "events_serialise E"
  obtains s' where "record_event E Appended ev s = (Inr (), s')"
proof -
  obtain line where
    "event_to_json E (ev\<lparr> ev_sequence := log_sequence s, ev_prev_hash := log_prev_hash s \<rparr>) = Inr line"
    using assms unfolding events_serialise_def is_ok_iff by blast
  with that show ?thesis
    by (simp add: record_event_def record_begin_def record_publish_def record_append_def Let_def sbind_def)
qed

text \<open>A failed call has appended at most one line, and no call removes anything from the file.\<close>

lemma record_appends:
  assumes "record_event E io ev s = (q, s')"
  shows "prefix (log_file s) (log_file s')"
proof (cases "fst (record_begin E ev s)")
  case (Inl e)
  with assms show ?thesis by (auto simp: record_event_def sbind_def record_begin_def Let_def split: prod.splits sum.splits)
next
  case (Inr p)
  obtain line h where p: "p = (line, h)" by (cases p)
  obtain s1 where b: "record_begin E ev s = (Inr (line, h), s1)" using Inr p by (cases "record_begin E ev s") auto
  then have "log_file s1 = log_file s" by (auto simp: record_begin_def Let_def)
  moreover have "record_append io line (s1\<lparr> log_prev_hash := h \<rparr>) = (q, s')"
    using assms b by (simp add: record_event_def sbind_step record_publish_def)
  then have "prefix (log_file s1) (log_file s')" by (cases io) (auto simp: record_append_def)
  ultimately show ?thesis by simp
qed

primrec record_all :: "'z log_ext_scheme \<Rightarrow> TransparencyEvent list \<Rightarrow> (TransparencyLogger, anyhow, unit) effect" where
  "record_all E [] = sret ()"
| "record_all E (ev # evs) = sbind (record_event E Appended ev) (\<lambda>_. record_all E evs)"

lemma record_all_inv:
  assumes "log_laws E" "events_serialise E" "log_inv E n s"
  shows "\<exists>s'. record_all E evs s = (Inr (), s') \<and> log_inv E (n + length evs) s'"
  using assms(3)
proof (induction evs arbitrary: n s)
  case Nil
  then show ?case by (simp add: sret_def)
next
  case (Cons ev evs)
  obtain s1 where s1: "record_event E Appended ev s = (Inr (), s1)" by (rule record_available [OF assms(2)])
  from Cons.IH [OF log_inv_record [OF assms(1) Cons.prems s1]] s1 show ?case by (simp add: sbind_step)
qed

lemma record_begin_line:
  assumes "log_laws E" "record_begin E ev s = (Inr (line, h), s')"
  shows "h = line_hash E line" "line_link E line = Some (log_prev_hash s)" "log_file s' = log_file s"
    "log_prev_hash s' = log_prev_hash s" "newline \<notin> set line" "carriage_return \<notin> set line" "trim line \<noteq> []"
proof -
  from assms(2) have line: "event_to_json E (ev\<lparr> ev_sequence := log_sequence s, ev_prev_hash := log_prev_hash s \<rparr>) = Inr line"
    and "h = line_hash E line" "s' = s\<lparr> log_sequence := log_sequence s + 1 \<rparr>"
    by (auto simp: record_begin_def Let_def result_simps)
  with event_line [OF assms(1) line] show "h = line_hash E line" "line_link E line = Some (log_prev_hash s)"
    "log_file s' = log_file s" "log_prev_hash s' = log_prev_hash s"
    "newline \<notin> set line" "carriage_return \<notin> set line" "trim line \<noteq> []" by simp_all
qed

lemma entries_append_line:
  assumes "complete f" "newline \<notin> set line" "carriage_return \<notin> set line" "trim line \<noteq> []"
  shows "entries (lines_of (f @ line @ [newline])) = entries (lines_of f) @ [line]"
    "complete (f @ line @ [newline])"
  using lines_of_append [OF assms(1-3)] assms(4) by (simp_all add: entries_def complete_def)

section \<open>A concrete instance\<close>

definition sample_event_line :: "TransparencyEvent \<Rightarrow> string" where
  "sample_event_line ev =
     CHR ''{'' # hex_encode (nat_le 8 (unat (ev_sequence ev))) @ CHR '':'' #
       hex_encode (as_bytes (ev_prev_hash ev)) @ ''}''"

definition sample_parse_line :: "string \<Rightarrow> anyhow + json" where
  "sample_parse_line s =
     (case split_once '':'' (tl (butlast s)) of
        None \<Rightarrow> Inl ''malformed''
      | Some (a, b) \<Rightarrow>
          (case (hex_decode a, hex_decode b) of
             (Some n, Some h) \<Rightarrow>
               Inr (JObject [(''sequence'', JInt (int (le_nat n))), (''prev_hash'', JString (map byte_char h))])
           | _ \<Rightarrow> Inl ''malformed''))"

definition sample_log_fields where
  "sample_log_fields = log_ext.fields hex_encode sample_parse_line (\<lambda>ev. Inr (sample_event_line ev))"

definition sample_log :: log_ext where
  "sample_log = store_ext.extend sample_store sample_log_fields"

lemma hex_encode_chars: "c \<in> set (hex_encode bs) \<Longrightarrow> url_safe_char c"
  using hex_encode_url_safe [of bs] by (auto simp: list_all_iff)

lemma sample_line_parse:
  "\<exists>v. sample_parse_line (sample_event_line ev) = Inr v \<and>
     json_get ''sequence'' v = Some (JInt (uint (ev_sequence ev))) \<and>
     json_get ''prev_hash'' v = Some (JString (ev_prev_hash ev))"
proof -
  have "CHR '':'' \<notin> set (hex_encode (nat_le 8 (unat (ev_sequence ev))))"
    using hex_encode_chars [of "CHR '':''"] by (auto simp: url_safe_char_def)
  moreover have "le_nat (nat_le 8 (unat (ev_sequence ev))) = unat (ev_sequence ev)"
    using unat_bounded [of "ev_sequence ev"] by (simp add: le_nat_nat_le)
  ultimately show ?thesis
    by (simp add: sample_parse_line_def sample_event_line_def split_once_char hex_decode_encode
        butlast_append as_bytes_def comp_def)
qed

lemma sample_line_shape:
  "wf_str (sample_event_line ev)" "newline \<notin> set (sample_event_line ev)"
  "carriage_return \<notin> set (sample_event_line ev)"
  "sample_event_line ev \<noteq> []" "hd (sample_event_line ev) = CHR ''{''" "last (sample_event_line ev) = CHR ''}''"
proof -
  show "wf_str (sample_event_line ev)"
    by (rule wf_str_ascii)
       (auto simp: sample_event_line_def list_all_iff url_safe_char_def Let_def dest!: hex_encode_chars)
  show "newline \<notin> set (sample_event_line ev)" "carriage_return \<notin> set (sample_event_line ev)"
    using hex_encode_chars [of newline] hex_encode_chars [of carriage_return]
    by (auto simp: sample_event_line_def url_safe_char_def)
  show "sample_event_line ev \<noteq> []" "hd (sample_event_line ev) = CHR ''{''" "last (sample_event_line ev) = CHR ''}''"
    by (simp_all add: sample_event_line_def)
qed

lemma hex_encode_inj: "inj hex_encode"
  by (metis hex_decode_encode injI option.inject)

lemma sample_log_laws: "log_laws sample_log" "events_serialise sample_log"
  using sample_line_parse sample_line_shape hex_encode_inj
  by (auto simp: log_laws_def events_serialise_def sample_log_def sample_log_fields_def
      store_ext.extend_def log_ext.fields_def)

definition sample_logger :: TransparencyLogger where
  "sample_logger = \<lparr> log_file = [], log_sequence = 0, log_prev_hash = GENESIS_HASH \<rparr>"

lemma sample_logger_inv:
  "verify_chain E (Some []) = Inr \<lparr> vr_entries = 0, vr_head_hash = GENESIS_HASH \<rparr>"
  "new_logger E (Inr []) = Inr sample_logger" "complete []"
  by (simp_all add: verify_chain_def new_logger_def recover_chain_state_def lines_of.simps [of "[]"]
      sample_logger_def complete_def)

lemma hex_encode_not_genesis: "hex_encode (b # bs) \<noteq> GENESIS_HASH"
proof
  assume "hex_encode (b # bs) = GENESIS_HASH"
  then have "hd (hex_encode (b # bs)) = hd GENESIS_HASH" by simp
  then have "nibble_char (unat b div 16) = CHR ''0''" by (simp add: hex_encode_def GENESIS_HASH_def)
  then have "of_char (nibble_char (unat b div 16)) = (48 :: nat)" by simp
  moreover have "unat b div 16 < 16" using unat_bounded [of b] by (simp add: div_less_iff_less_mult)
  ultimately show False by (simp add: nibble_char_def)
qed

lemma sample_hash_not_genesis: "line_hash sample_log line \<noteq> GENESIS_HASH"
proof -
  have "line_hash sample_log line = hex_encode (sha256 sample_ext (as_bytes line))"
    by (simp add: line_hash_def sample_log_def sample_log_fields_def store_ext.extend_def
        log_ext.fields_def sample_store_def sample_store_fields_def ext.extend_def store_ext.fields_def)
  moreover have "length (sha256 sample_ext (as_bytes line)) = 32" by (simp add: sample_ext_def)
  then have "sha256 sample_ext (as_bytes line) \<noteq> []" by force
  then obtain b bs where "sha256 sample_ext (as_bytes line) = b # bs" by (meson list.exhaust)
  ultimately show ?thesis using hex_encode_not_genesis [of b bs] by simp
qed

section \<open>Properties\<close>

text \<open>C30 (the log stays a recoverable chain).  A logger opened on a complete log that verifies records
  any list of events; the file then verifies with as many more entries and the logger's head hash,
  and reopening the file gives exactly the logger's state.\<close>

theorem recorded_log_verifies:
  assumes "log_laws E" "events_serialise E" "complete f"
    and "verify_chain E (Some f) = Inr v" "new_logger E (Inr f) = Inr s"
  shows "\<exists>s'. record_all E evs s = (Inr (), s') \<and>
    verify_chain E (Some (log_file s')) =
      Inr \<lparr> vr_entries = vr_entries v + length evs, vr_head_hash = log_prev_hash s' \<rparr> \<and>
    new_logger E (Inr (log_file s')) = Inr s'"
proof -
  from record_all_inv [OF assms(1,2) log_inv_new(1) [OF assms(3-5)]] obtain s'
    where "record_all E evs s = (Inr (), s')" "log_inv E (vr_entries v + length evs) s'" by blast
  then show ?thesis by (simp add: log_inv_def new_logger_def)
qed

theorem recorded_log_verifies_witness:
  "\<exists>s'. record_all sample_log [base_event 1, base_event 2] sample_logger = (Inr (), s') \<and>
     new_logger sample_log (Inr (log_file s')) = Inr s' \<and>
     (\<exists>h. verify_chain sample_log (Some (log_file s')) = Inr \<lparr> vr_entries = 2, vr_head_hash = h \<rparr>)"
  using recorded_log_verifies [OF sample_log_laws sample_logger_inv(3,1,2), of "[base_event 1, base_event 2]"]
  by auto

text \<open>C31 (tamper evidence).  Two log files that verify with the same number of entries and the same
  head hash have the same entries, unless two different lines with the same SHA-256 digest are among
  them.\<close>

theorem same_head_same_log:
  assumes "log_laws E" "verify_chain E (Some f) = Inr v" "verify_chain E (Some g) = Inr v"
  shows "entries (lines_of f) = entries (lines_of g) \<or>
    (\<exists>x y. x \<in> set (lines_of f) \<and> y \<in> set (lines_of g) \<and> x \<noteq> y \<and>
       sha256 E (as_bytes x) = sha256 E (as_bytes y))"
proof -
  from assms(2,3) have
    "chained E GENESIS_HASH (entries (lines_of f))" "chained E GENESIS_HASH (entries (lines_of g))"
    "length (entries (lines_of f)) = length (entries (lines_of g))"
    "chain_head E GENESIS_HASH (entries (lines_of f)) = chain_head E GENESIS_HASH (entries (lines_of g))"
    by (auto simp: verify_chain_Inr_iff)
  note same = chain.same_head_same_lines [OF this]
  have "sha256 E (as_bytes x) = sha256 E (as_bytes y)" if "line_hash E x = line_hash E y" for x y
    using assms(1) that by (auto simp: log_laws_def line_hash_def dest: injD)
  moreover have "set (entries ls) \<subseteq> set ls" for ls by (auto simp: entries_def)
  ultimately show ?thesis using same by blast
qed

theorem same_head_same_log_witness:
  "\<exists>s v. record_event sample_log Appended (base_event 1) sample_logger = (Inr (), s) \<and>
     verify_chain sample_log (Some (log_file s)) = Inr v \<and>
     verify_chain sample_log (Some (newline # log_file s)) = Inr v \<and>
     (entries (lines_of (log_file s)) = entries (lines_of (newline # log_file s)) \<or>
      (\<exists>x y. x \<in> set (lines_of (log_file s)) \<and> y \<in> set (lines_of (newline # log_file s)) \<and> x \<noteq> y \<and>
         sha256 sample_log (as_bytes x) = sha256 sample_log (as_bytes y)))"
proof -
  obtain s where s: "record_event sample_log Appended (base_event 1) sample_logger = (Inr (), s)"
    by (rule record_available [OF sample_log_laws(2)])
  have "log_inv sample_log 0 sample_logger"
    using log_inv_new(1) [OF sample_logger_inv(3,1,2)] by simp
  from log_inv_record [OF sample_log_laws(1) this s] have
    v: "verify_chain sample_log (Some (log_file s)) = Inr \<lparr> vr_entries = 1, vr_head_hash = log_prev_hash s \<rparr>"
    by (simp add: log_inv_def)
  have ls: "lines_of (newline # log_file s) = [] # lines_of (log_file s)"
    using lines_of_step [of "newline # log_file s" "[]" "log_file s"] by (simp add: strip_cr_def)
  moreover have "trim [] = []" by (simp add: trim_def strip_ws.simps)
  ultimately have es: "entries (lines_of (newline # log_file s)) = entries (lines_of (log_file s))"
    by (simp add: entries_def)
  with v ls have w: "verify_chain sample_log (Some (newline # log_file s)) =
      Inr \<lparr> vr_entries = 1, vr_head_hash = log_prev_hash s \<rparr>"
    by (simp add: verify_chain_Inr_iff)
  show ?thesis by (intro exI conjI) (rule s, rule v, rule w, rule same_head_same_log [OF sample_log_laws(1) v w])
qed

text \<open>C32 (concurrent recording forks the chain).  \<open>record\<close> releases the hash between reading it and
  storing the new one.  When two calls read it before either has stored its own, both lines name the
  same predecessor, and the log that both calls reported as written no longer verifies (the side
  condition says that the first line does not hash to the old head).\<close>

theorem concurrent_records_fork:
  assumes "log_laws E" "log_inv E n s"
    and "record_begin E ev s = (Inr (line, h), s1)" "record_begin E ev' s1 = (Inr (line', h'), s2)"
    and "record_publish h s2 = (Inr u, s3)" "record_publish h' s3 = (Inr u', s4)"
    and "record_append Appended line s4 = (Inr w, s5)" "record_append Appended line' s5 = (Inr w', s6)"
    and "h \<noteq> log_prev_hash s"
  shows "\<exists>e. verify_chain E (Some (log_file s6)) = Inl e"
proof (rule ccontr)
  assume "\<nexists>e. verify_chain E (Some (log_file s6)) = Inl e"
  then obtain v where v: "verify_chain E (Some (log_file s6)) = Inr v"
    by (cases "verify_chain E (Some (log_file s6))") auto
  note b = record_begin_line [OF assms(1,3)] and b' = record_begin_line [OF assms(1,4)]
  have c: "complete (log_file s)"
    and head: "chain_head E GENESIS_HASH (entries (lines_of (log_file s))) = log_prev_hash s"
    using assms(2) by (auto simp: log_inv_def verify_chain_Inr_iff)
  have contents: "log_file s6 = (log_file s @ line @ [newline]) @ line' @ [newline]"
    using assms(5-8) b(3) b'(3) by (auto simp: record_publish_def record_append_def)
  have e1: "entries (lines_of (log_file s @ line @ [newline])) = entries (lines_of (log_file s)) @ [line]"
    and c1: "complete (log_file s @ line @ [newline])"
    using entries_append_line [OF c b(5-7)] by simp_all
  have "entries (lines_of (log_file s6)) = entries (lines_of (log_file s)) @ [line, line']"
    using entries_append_line(1) [OF c1 b'(5-7)] e1 by (simp only: contents) simp
  then have "chained E GENESIS_HASH (entries (lines_of (log_file s)) @ [line, line'])"
    using v by (simp add: verify_chain_Inr_iff)
  from chain.forked [OF this] b(2,4) b'(2) head have "line_hash E line = log_prev_hash s" by simp
  with b(1) assms(9) show False by simp
qed

theorem concurrent_records_fork_witness:
  "\<exists>l h s1 l' h' s2. record_begin sample_log (base_event 1) sample_logger = (Inr (l, h), s1) \<and>
     record_begin sample_log (base_event 2) s1 = (Inr (l', h'), s2) \<and>
     (\<exists>e. verify_chain sample_log (Some (log_file (snd (record_append Appended l'
        (snd (record_append Appended l (snd (record_publish h' (snd (record_publish h s2)))))))))) = Inl e)"
proof -
  have "is_ok (fst (record_begin sample_log ev s))" for ev s
    using sample_log_laws(2) by (auto simp: record_begin_def Let_def events_serialise_def result_simps)
  then obtain l h s1 l' h' s2 where
    b: "record_begin sample_log (base_event 1) sample_logger = (Inr (l, h), s1)" and
    b': "record_begin sample_log (base_event 2) s1 = (Inr (l', h'), s2)"
    by (metis is_ok_iff prod.exhaust_sel)
  have "log_inv sample_log 0 sample_logger" using log_inv_new(1) [OF sample_logger_inv(3,1,2)] by simp
  moreover have "h \<noteq> log_prev_hash sample_logger"
    using record_begin_line(1) [OF sample_log_laws(1) b] sample_hash_not_genesis by (simp add: sample_logger_def)
  ultimately have "\<exists>e. verify_chain sample_log (Some (log_file (snd (record_append Appended l'
        (snd (record_append Appended l (snd (record_publish h' (snd (record_publish h s2)))))))))) = Inl e"
    by (intro concurrent_records_fork [OF sample_log_laws(1) _ b b'])
       (auto simp: record_publish_def record_append_def)
  with b b' show ?thesis by blast
qed

text \<open>A lost write breaks the chain.  \<open>record\<close> stores the hash of the new line before writing
  it.  When the file cannot be opened the error is returned but the hash stays, so the next event that
  is written names a line that is not in the file and the log does not verify from then on.\<close>

lemma failed_append_breaks_chain:
  assumes "log_laws E" "log_inv E n s" "record_event E Open_failed ev s = (Inl e, s1)"
    and "record_event E Appended ev' s1 = (Inr u, s2)" "log_prev_hash s1 \<noteq> log_prev_hash s"
  shows "\<exists>x. verify_chain E (Some (log_file s2)) = Inl x"
proof (rule ccontr)
  assume "\<nexists>x. verify_chain E (Some (log_file s2)) = Inl x"
  then obtain v where v: "verify_chain E (Some (log_file s2)) = Inr v"
    by (cases "verify_chain E (Some (log_file s2))") auto
  have c: "complete (log_file s)"
    and head: "chain_head E GENESIS_HASH (entries (lines_of (log_file s))) = log_prev_hash s"
    using assms(2) by (auto simp: log_inv_def verify_chain_Inr_iff)
  from assms(4) obtain line h t where b: "record_begin E ev' s1 = (Inr (line, h), t)"
    and "log_file s2 = log_file t @ line @ [newline]"
    by (auto simp: record_event_def record_publish_def record_append_def effect_simps)
  moreover have "log_file s1 = log_file s"
    using assms(3) by (auto simp: record_event_def record_begin_def record_publish_def
        record_append_def Let_def sbind_Inl_iff)
  moreover note bl = record_begin_line [OF assms(1) b]
  ultimately have "log_file s2 = log_file s @ line @ [newline]" by simp
  with entries_append_line(1) [OF c bl(5-7)] v
  have "chained E GENESIS_HASH (entries (lines_of (log_file s)) @ [line])"
    by (simp add: verify_chain_Inr_iff)
  then have "line_link E line = Some (log_prev_hash s)" using head by (simp add: chained_snoc)
  with bl(2) assms(5) show False by simp
qed

lemma failed_append_breaks_chain_witness:
  "\<exists>e s1 s2 x. record_event sample_log Open_failed (base_event 1) sample_logger = (Inl e, s1) \<and>
     record_event sample_log Appended (base_event 2) s1 = (Inr (), s2) \<and>
     verify_chain sample_log (Some (log_file s2)) = Inl x"
proof -
  obtain line where "event_to_json sample_log ((base_event 1)\<lparr> ev_sequence := log_sequence sample_logger,
      ev_prev_hash := log_prev_hash sample_logger \<rparr>) = Inr line"
    using sample_log_laws(2) unfolding events_serialise_def is_ok_iff by blast
  then obtain e s1 where r: "record_event sample_log Open_failed (base_event 1) sample_logger = (Inl e, s1)"
    and "log_prev_hash s1 = line_hash sample_log line"
    by (simp add: record_event_def record_begin_def record_publish_def record_append_def Let_def sbind_def)
  then have "log_prev_hash s1 \<noteq> log_prev_hash sample_logger"
    using sample_hash_not_genesis by (auto simp: sample_logger_def)
  moreover have "log_inv sample_log 0 sample_logger" using log_inv_new(1) [OF sample_logger_inv(3,1,2)] by simp
  moreover obtain s2 where s2: "record_event sample_log Appended (base_event 2) s1 = (Inr (), s2)"
    by (rule record_available [OF sample_log_laws(2)])
  ultimately obtain x where "verify_chain sample_log (Some (log_file s2)) = Inl x"
    using failed_append_breaks_chain [OF sample_log_laws(1) _ r s2] by blast
  with r s2 show ?thesis by blast
qed

end
