(* ===== verification/Policy.thy ===== *)
theory Policy
  imports Macaroon Transparency
begin

text \<open>
  Who may do what: the caller's context (\<open>secret_broker_impl/mod.rs\<close>) and the checks the handlers share
  (\<open>secret_broker_impl/handlers.rs\<close>), that is the error type, handle parsing, lifetimes, the identity
  requirements of a record and the metadata written to the transparency log.

  Arithmetic on \<open>DateTime\<close> and \<open>Duration\<close> panics out of range, which is the outcome \<open>Panic\<close>.
\<close>

section \<open>Context and errors\<close>

record BrokerClientContext =
  ctx_exporter :: bytes
  ctx_session_id :: "uuid option"
  ctx_principal_id :: "string option"
  ctx_authenticated_transport :: bool
  ctx_peer_cert_sha256 :: "bytes option"
  ctx_attestation_digest :: "bytes option"

text \<open>\<open>.map(trim).filter(|v| !v.is_empty())\<close>, the normalisation the code applies to optional texts.\<close>

definition trimmed :: "string option \<Rightarrow> string option" where
  "trimmed v = (case map_option trim v of Some s \<Rightarrow> if s = [] then None else Some s | None \<Rightarrow> None)"

definition from_tls_exporter ::
  "bytes \<Rightarrow> uuid option \<Rightarrow> string option \<Rightarrow> bytes option \<Rightarrow> bytes option \<Rightarrow> BrokerClientContext" where
  "from_tls_exporter exporter session_id principal_id peer_cert_sha256 attestation_digest =
     \<lparr> ctx_exporter = exporter, ctx_session_id = session_id, ctx_principal_id = trimmed principal_id,
       ctx_authenticated_transport = True,
       ctx_peer_cert_sha256 = (if peer_cert_sha256 = Some [] then None else peer_cert_sha256),
       ctx_attestation_digest = attestation_digest \<rparr>"

datatype ServiceError =
  InvalidBase64
| Serialization anyhow
| SignatureInvalid
| Crypto anyhow
| HandleNotFound
| InvalidHandle
| ExpiredHandle
| Storage anyhow
| InvalidTtl
| ExporterBindingMismatch
| Database anyhow
| Unavailable string
| RedeemTokenInvalid
| RedeemTokenExpired
| RedeemTokenUsed
| RevokedHandle
| InvalidAttenuation string
| UnauthenticatedTransport
| AuthenticatedPrincipalRequired
| PrincipalMismatch
| PeerCertMismatch
| AttestationMismatch
| MissingLineage string
| UnauthorizedDischargePrincipal

section \<open>Lifetimes\<close>

text \<open>\<open>created_at + Duration::seconds(secs as i64)\<close>: the cast reinterprets the bits.\<close>

definition add_seconds :: "'z ext_scheme \<Rightarrow> instant \<Rightarrow> 64 word \<Rightarrow> 'e stop + instant" where
  "add_seconds E t secs =
     rbind (ok_or Panic (try_seconds E (sint secs))) (\<lambda>d. ok_or Panic (checked_add E t d))"

definition enforce_ttl ::
  "'z ext_scheme \<Rightarrow> duration \<Rightarrow> 64 word option \<Rightarrow> instant \<Rightarrow> ServiceError stop + (instant option \<times> 64 word option)" where
  "enforce_ttl E max_handle_ttl ttl_seconds created_at =
     (case ttl_seconds of
        Some secs \<Rightarrow>
          rbind (ensure (secs \<noteq> 0) (Fail InvalidTtl)) (\<lambda>_.
          rbind (ensure (\<not> sint secs > num_seconds E max_handle_ttl) (Fail InvalidTtl)) (\<lambda>_.
          rbind (add_seconds E created_at secs) (\<lambda>t. Inr (Some t, Some secs))))
      | None \<Rightarrow> Inr (None, None))"

section \<open>Handles\<close>

definition HANDLE_V2_PREFIX :: string where "HANDLE_V2_PREFIX = ''broker:v2:''"

definition parse_handle_v2 :: "'z ext_scheme \<Rightarrow> string \<Rightarrow> ServiceError + Macaroon" where
  "parse_handle_v2 E raw =
     rbind (ok_or InvalidHandle (strip_prefix HANDLE_V2_PREFIX (trim raw))) (\<lambda>b64.
     map_err (\<lambda>_. InvalidHandle) (mac_deserialize E b64))"

text \<open>The two keys derived from the broker's HMAC key (\<open>state.rs\<close>); HMAC takes keys of any length.\<close>

definition compute_redeem_token :: "'z ext_scheme \<Rightarrow> bytes \<Rightarrow> uuid \<Rightarrow> bytes \<Rightarrow> bytes \<Rightarrow> bytes" where
  "compute_redeem_token E handle_hmac_key handle binding_hash nonce =
     hmac_sha256 E handle_hmac_key (handle @ binding_hash @ nonce)"

definition macaroon_root_key :: "'z ext_scheme \<Rightarrow> bytes \<Rightarrow> uuid \<Rightarrow> bytes" where
  "macaroon_root_key E handle_hmac_key handle_id =
     hmac_sha256 E handle_hmac_key (as_bytes ''macaroon-root-v1:'' @ handle_id)"

definition parse_handle_identifier :: "'z ext_scheme \<Rightarrow> bytes \<Rightarrow> string \<Rightarrow> ServiceError + uuid" where
  "parse_handle_identifier E handle_hmac_key raw =
     rbind (parse_handle_v2 E raw) (\<lambda>macaroon.
     let root_key = macaroon_root_key E handle_hmac_key (mac_identifier macaroon) in
     rbind (map_err (\<lambda>_. InvalidHandle) (verify_signature E root_key macaroon)) (\<lambda>_.
     Inr (mac_identifier macaroon)))"

section \<open>Transparency metadata\<close>

definition normalized_context_principal :: "BrokerClientContext \<Rightarrow> string option" where
  "normalized_context_principal context = trimmed (ctx_principal_id context)"

text \<open>\<open>if let Some(v) = x { map.insert(key, f(v)) }\<close>.\<close>

definition insert_some :: "string \<Rightarrow> ('a \<Rightarrow> json) \<Rightarrow> 'a option \<Rightarrow> json_map \<Rightarrow> json_map" where
  "insert_some key f x m = (case x of Some v \<Rightarrow> json_insert key (f v) m | None \<Rightarrow> m)"

definition append_context_transparency_meta :: "'z ext_scheme \<Rightarrow> BrokerClientContext \<Rightarrow> json_map \<Rightarrow> json_map" where
  "append_context_transparency_meta E context m =
     insert_some ''attestation_digest'' (\<lambda>d. JString (b64_encode E d)) (ctx_attestation_digest context)
    (insert_some ''peer_cert_sha256'' (\<lambda>d. JString (b64_encode E d)) (ctx_peer_cert_sha256 context)
    (insert_some ''authenticated_principal_id'' JString (normalized_context_principal context)
    (json_insert ''authenticated_transport'' (JBool (ctx_authenticated_transport context)) m)))"

fun secret_lifecycle_label :: "SecretLifecycle \<Rightarrow> string" where
  "secret_lifecycle_label SingleUseUnwrap = ''single_use_unwrap''"
| "secret_lifecycle_label RenewableLease = ''renewable_lease''"
| "secret_lifecycle_label ServiceBootstrap = ''service_bootstrap''"

definition append_record_transparency_meta :: "'z ext_scheme \<Rightarrow> StoredEnvelopeRecord \<Rightarrow> json_map \<Rightarrow> json_map" where
  "append_record_transparency_meta E r m =
    (let time = (\<lambda>t. JString (to_rfc3339 E t)) in
     insert_some ''secret_metadata'' id (env_metadata (rec_envelope r))
    (insert_some ''lease_renewal_count'' (\<lambda>n. JInt (uint n))
      (if rec_lease_renewal_count r > 0 then Some (rec_lease_renewal_count r) else None)
    (insert_some ''lease_expires_at'' time (rec_lease_expires_at r)
    (insert_some ''redeem_expires_at'' time (rec_redeem_expires_at r)
    (insert_some ''expires_at'' time (rec_expires_at r)
    (insert_some ''unwrap_principal_id'' JString (rec_unwrap_principal_id r)
    (insert_some ''issued_by_attestation_digest'' JString (rec_issued_by_attestation_digest r)
    (insert_some ''issued_by_peer_cert_sha256'' JString (rec_issued_by_peer_cert_sha256 r)
    (insert_some ''issued_by_principal_id'' JString (rec_issued_by_principal_id r)
    (json_insert ''issued_with_authenticated_transport'' (JBool (rec_issued_with_authenticated_transport r))
    (json_insert ''lifecycle'' (JString (secret_lifecycle_label (rec_lifecycle r))) m)))))))))))"

section \<open>Discharge keys\<close>

definition discharge_key_of :: "'z ext_scheme \<Rightarrow> ThirdPartyCaveatKey \<Rightarrow> ServiceError + DischargeKeyRef" where
  "discharge_key_of E entry =
     rbind (ok_or (Storage ''invalid stored third-party caveat secret'') (b64_decode E (tpk_secret_b64 entry))) (\<lambda>key.
     rbind (ensure (length key = 32) (Storage ''stored third-party caveat secret must be 32 bytes'')) (\<lambda>_.
     rbind (ok_or (Storage ''stored third-party caveat is missing its predicate'') (tpk_condition entry)) (\<lambda>condition.
     Inr \<lparr> key_location = tpk_location entry, key_key_id = tpk_key_id entry, key_condition = condition,
           key_key = key \<rparr>)))"

definition discharge_keys_for_record :: "'z ext_scheme \<Rightarrow> StoredEnvelopeRecord \<Rightarrow> ServiceError + DischargeKeyRef list" where
  "discharge_keys_for_record E r =
     (case rec_third_party_caveat_keys r of
        Some keys \<Rightarrow> collect_results (map (discharge_key_of E) keys)
      | None \<Rightarrow> Inr [])"

definition normalize_spiffe_principal :: "string \<Rightarrow> string option" where
  "normalize_spiffe_principal v =
     (let t = trim v in if t = [] \<or> \<not> prefix ''spiffe://'' t then None else Some t)"

abbreviation peer_cert_lineage :: string where
  "peer_cert_lineage \<equiv> ''peer certificate lineage on the authenticated broker transport''"

abbreviation attestation_lineage :: string where
  "attestation_lineage \<equiv> ''attestation digest lineage on the authenticated broker transport''"

definition validate_discharge_mint_requirements ::
  "bool \<Rightarrow> string list \<Rightarrow> BrokerClientContext \<Rightarrow> string \<Rightarrow> ServiceError + unit" where
  "validate_discharge_mint_requirements require_attested allowed_principals context location =
     rbind (ensure (ctx_authenticated_transport context) UnauthenticatedTransport) (\<lambda>_.
     rbind (ok_or AuthenticatedPrincipalRequired (trimmed (ctx_principal_id context))) (\<lambda>principal.
     rbind (ok_or (MissingLineage peer_cert_lineage) (ctx_peer_cert_sha256 context)) (\<lambda>_.
     rbind (ensure (\<not> (require_attested \<and> ctx_attestation_digest context = None)) (MissingLineage attestation_lineage)) (\<lambda>_.
     rbind (ensure (case normalize_spiffe_principal location of Some l \<Rightarrow> principal = l | None \<Rightarrow> True)
       UnauthorizedDischargePrincipal) (\<lambda>_.
     ensure (allowed_principals = [] \<or> principal \<in> set allowed_principals) UnauthorizedDischargePrincipal)))))"

section \<open>Identity requirements\<close>

definition v2_unwrap_principal ::
  "BrokerClientContext \<Rightarrow> SecretLifecycle \<Rightarrow> string option \<Rightarrow> ServiceError + string option" where
  "v2_unwrap_principal context lifecycle requested =
     (let requested_principal = trimmed requested in
      rbind (ensure (ctx_authenticated_transport context) UnauthenticatedTransport) (\<lambda>_.
      rbind (ok_or AuthenticatedPrincipalRequired (normalized_context_principal context)) (\<lambda>current_principal.
      case lifecycle of
        SingleUseUnwrap \<Rightarrow>
          rbind (ensure (case requested_principal of Some p \<Rightarrow> p = current_principal | None \<Rightarrow> True) PrincipalMismatch)
            (\<lambda>_. Inr (Some current_principal))
      | _ \<Rightarrow>
          rbind (ensure (ctx_peer_cert_sha256 context \<noteq> None) (MissingLineage peer_cert_lineage)) (\<lambda>_.
          Inr (Some (case requested_principal of Some p \<Rightarrow> p | None \<Rightarrow> current_principal))))))"

text \<open>The last checks of both validators: an issuer must come back with the same certificate, and an attested
  record is only served to the same attestation digest.\<close>

definition validate_lineage ::
  "'z ext_scheme \<Rightarrow> StoredEnvelopeRecord \<Rightarrow> BrokerClientContext \<Rightarrow> string \<Rightarrow> bytes \<Rightarrow> string \<Rightarrow> ServiceError + unit" where
  "validate_lineage E r context actual_principal actual_peer_cert issued_by_principal_id =
     rbind (ok_or (MissingLineage ''issuing peer certificate lineage'') (trimmed (rec_issued_by_peer_cert_sha256 r)))
       (\<lambda>expected_peer_cert.
     rbind (ensure (actual_principal = issued_by_principal_id \<longrightarrow> b64_encode E actual_peer_cert = expected_peer_cert)
       PeerCertMismatch) (\<lambda>_.
     case trimmed (rec_issued_by_attestation_digest r) of
       Some expected_digest \<Rightarrow>
         rbind (ok_or (MissingLineage attestation_lineage) (ctx_attestation_digest context)) (\<lambda>actual_digest.
         ensure (b64_encode E actual_digest = expected_digest) AttestationMismatch)
     | None \<Rightarrow> Inr ()))"

definition validate_v2_record_identity_requirements_inner ::
  "'z ext_scheme \<Rightarrow> StoredEnvelopeRecord \<Rightarrow> BrokerClientContext \<Rightarrow> bool \<Rightarrow> ServiceError + unit" where
  "validate_v2_record_identity_requirements_inner E r context allow_issuing_principal =
     rbind (ok_or (MissingLineage ''principal binding'') (trimmed (rec_unwrap_principal_id r))) (\<lambda>expected_principal.
     rbind (ensure (ctx_authenticated_transport context) UnauthenticatedTransport) (\<lambda>_.
     rbind (ok_or AuthenticatedPrincipalRequired (trimmed (ctx_principal_id context))) (\<lambda>actual_principal.
     if rec_lifecycle r \<noteq> SingleUseUnwrap then
       rbind (ensure (rec_issued_with_authenticated_transport r) (MissingLineage ''authenticated issuance transport'')) (\<lambda>_.
       rbind (ok_or (MissingLineage ''issuing principal lineage'') (trimmed (rec_issued_by_principal_id r))) (\<lambda>issuer.
       rbind (ensure (actual_principal = expected_principal \<or> allow_issuing_principal \<and> actual_principal = issuer)
         PrincipalMismatch) (\<lambda>_.
       rbind (ok_or (MissingLineage peer_cert_lineage) (ctx_peer_cert_sha256 context)) (\<lambda>actual_peer_cert.
       validate_lineage E r context actual_principal actual_peer_cert issuer))))
     else ensure (actual_principal = expected_principal) PrincipalMismatch)))"

definition validate_v2_record_identity_requirements ::
  "'z ext_scheme \<Rightarrow> StoredEnvelopeRecord \<Rightarrow> BrokerClientContext \<Rightarrow> ServiceError + unit" where
  "validate_v2_record_identity_requirements E r context =
     validate_v2_record_identity_requirements_inner E r context False"

definition validate_v2_record_management_requirements ::
  "'z ext_scheme \<Rightarrow> StoredEnvelopeRecord \<Rightarrow> BrokerClientContext \<Rightarrow> ServiceError + unit" where
  "validate_v2_record_management_requirements E r context =
     validate_v2_record_identity_requirements_inner E r context True"

definition validate_threshold_custody_record_requirements ::
  "'z ext_scheme \<Rightarrow> StoredEnvelopeRecord \<Rightarrow> BrokerClientContext \<Rightarrow> ServiceError + unit" where
  "validate_threshold_custody_record_requirements E r context =
     rbind (ensure (ctx_authenticated_transport context) UnauthenticatedTransport) (\<lambda>_.
     rbind (ok_or AuthenticatedPrincipalRequired (trimmed (ctx_principal_id context))) (\<lambda>actual_principal.
     rbind (ok_or (MissingLineage peer_cert_lineage) (ctx_peer_cert_sha256 context)) (\<lambda>actual_peer_cert.
     rbind (ensure (rec_issued_with_authenticated_transport r) (MissingLineage ''authenticated issuance transport'')) (\<lambda>_.
     rbind (ok_or (MissingLineage ''issuing principal lineage'') (trimmed (rec_issued_by_principal_id r))) (\<lambda>issuer.
     validate_lineage E r context actual_principal actual_peer_cert issuer)))))"

section \<open>Facts\<close>

lemma sint_u64: "sint (w :: 64 word) = (if uint w < 2 ^ 63 then uint w else uint w - 2 ^ 64)"
proof -
  have "sint w = (uint w + 2 ^ 63) mod 2 ^ 64 - 2 ^ 63"
    by (simp add: sint_uint signed_take_bit_eq_take_bit_shift take_bit_eq_mod)
  moreover have "0 \<le> uint w" "uint w < 2 ^ 64" using uint_lt2p [of w] by simp_all
  moreover have "(uint w + 2 ^ 63) mod 2 ^ 64 = (uint w + 2 ^ 63 - 2 ^ 64) mod 2 ^ 64"
    by (rule minus_mod_self2 [symmetric])
  ultimately show ?thesis by (cases "uint w < 2 ^ 63") (simp_all add: mod_pos_pos_trivial)
qed

text \<open>The base64 alphabet is printable ASCII, so trimming an encoded text changes nothing.\<close>

definition printable :: "char \<Rightarrow> bool" where
  "printable c \<longleftrightarrow> 33 \<le> (of_char c :: nat) \<and> (of_char c :: nat) < 127"

definition b64_alphabet :: "'z ext_scheme \<Rightarrow> bool" where
  "b64_alphabet E \<longleftrightarrow> (\<forall>b. list_all printable (b64_encode E b))"

lemma ws_len_printable:
  "printable c \<Longrightarrow> ws_len (map of_char (c # s)) = 0" "printable c \<Longrightarrow> ws_len_rev (map of_char (c # s)) = 0"
  by (auto simp: printable_def ascii_ws_def ws3_def split: list.split)

lemma trim_printable:
  assumes "list_all printable s"
  shows "trim s = s"
proof -
  have "strip_ws ws_len s = s"
    using assms ws_len_printable(1) by (cases s) (auto intro!: strip_ws_stop simp del: ws_len.simps(2))
  moreover have "strip_ws ws_len_rev (rev s) = rev s"
    using assms ws_len_printable(2)
    by (cases s rule: rev_cases) (auto intro!: strip_ws_stop simp del: ws_len_rev.simps(2))
  ultimately show ?thesis by (simp add: trim_def)
qed

lemma issued_handle_parses:
  assumes "b64_lossless E" "b64_alphabet E" "mac_typed m" "fits_u16 m"
  shows "parse_handle_v2 E (HANDLE_V2_PREFIX @ mac_serialize E m) = Inr m"
proof -
  have "list_all printable (HANDLE_V2_PREFIX @ mac_serialize E m)"
    using assms(2) by (simp add: HANDLE_V2_PREFIX_def printable_def b64_alphabet_def mac_serialize_def)
  then show ?thesis
    using assms mac_deserialize_serialize [of E m] by (simp add: parse_handle_v2_def trim_printable)
qed

lemma issued_handle_identifier:
  assumes "b64_lossless E" "b64_alphabet E" "mac_typed m" "fits_u16 m"
    and "verify_signature E (macaroon_root_key E key (mac_identifier m)) m = Inr ()"
  shows "parse_handle_identifier E key (HANDLE_V2_PREFIX @ mac_serialize E m) = Inr (mac_identifier m)"
  using issued_handle_parses [OF assms(1-4)] assms(5) by (simp add: parse_handle_identifier_def)

section \<open>A concrete instance\<close>

lemma sample_b64_alphabet: "b64_alphabet sample_ext"
proof -
  have "list_all printable (hex_encode b)" for b
  proof (induction b)
    case (Cons x b)
    have "unat x div 16 < 16" using unat_bounded [of x] by simp
    moreover have "printable (nibble_char n)" if "n < 16" for n
      using that by (auto simp: printable_def nibble_char_def)
    ultimately show ?case using Cons by (simp add: hex_encode_def)
  qed (simp add: hex_encode_def)
  then show ?thesis by (simp add: b64_alphabet_def sample_ext_def)
qed

definition sample_context :: BrokerClientContext where
  "sample_context = from_tls_exporter [1, 2] None (Some ''spiffe://t/a'') (Some [7]) (Some [8])"

definition sample_leased :: "string \<Rightarrow> StoredEnvelopeRecord" where
  "sample_leased owner = sample_record\<lparr> rec_lifecycle := RenewableLease, rec_unwrap_principal_id := Some owner,
     rec_issued_with_authenticated_transport := True, rec_issued_by_principal_id := Some ''spiffe://t/a'',
     rec_issued_by_peer_cert_sha256 := Some (b64_encode sample_ext [7]),
     rec_issued_by_attestation_digest := Some (b64_encode sample_ext [8]) \<rparr>"

lemma sample_trimmed:
  "trimmed (Some ''spiffe://t/a'') = Some ''spiffe://t/a''" "trimmed (Some ''spiffe://t/b'') = Some ''spiffe://t/b''"
  "trimmed (Some (b64_encode sample_ext [7])) = Some (b64_encode sample_ext [7])"
  "trimmed (Some (b64_encode sample_ext [8])) = Some (b64_encode sample_ext [8])"
  by (simp_all add: trimmed_def trim_def strip_ws_stop ascii_ws_def ws3_def sample_ext_def hex_encode_def nibble_char_def)

lemma sample_context_facts:
  "ctx_authenticated_transport sample_context" "trimmed (ctx_principal_id sample_context) = Some ''spiffe://t/a''"
  "ctx_peer_cert_sha256 sample_context = Some [7]" "ctx_attestation_digest sample_context = Some [8]"
  by (simp_all add: sample_context_def from_tls_exporter_def sample_trimmed)

section \<open>Properties\<close>

text \<open>C22 (who may unwrap or manage a record).  The identity check accepts a caller exactly when the transport is
  authenticated and the caller is the principal the record is bound to or, for a management operation on
  a leased record, its issuer; a leased record also needs its issuance lineage and a client certificate,
  the issuer must present the certificate of issuance, and a record issued to an attested peer is only
  accessible with the same attestation digest.\<close>

theorem identity_requirements_iff:
  "validate_v2_record_identity_requirements_inner E r context manage = Inr () \<longleftrightarrow>
     ctx_authenticated_transport context \<and>
     (\<exists>p. trimmed (ctx_principal_id context) = Some p \<and>
       (if rec_lifecycle r = SingleUseUnwrap then trimmed (rec_unwrap_principal_id r) = Some p
        else \<exists>owner issuer cert issued_cert.
          trimmed (rec_unwrap_principal_id r) = Some owner \<and> trimmed (rec_issued_by_principal_id r) = Some issuer \<and>
          (p = owner \<or> manage \<and> p = issuer) \<and> rec_issued_with_authenticated_transport r \<and>
          ctx_peer_cert_sha256 context = Some cert \<and> trimmed (rec_issued_by_peer_cert_sha256 r) = Some issued_cert \<and>
          (p = issuer \<longrightarrow> b64_encode E cert = issued_cert) \<and>
          (\<forall>d. trimmed (rec_issued_by_attestation_digest r) = Some d \<longrightarrow>
             map_option (b64_encode E) (ctx_attestation_digest context) = Some d)))"
  by (cases "trimmed (rec_issued_by_attestation_digest r)")
     (auto simp: validate_v2_record_identity_requirements_inner_def validate_lineage_def result_simps)

theorem identity_requirements_iff_witness:
  "validate_v2_record_identity_requirements_inner sample_ext (sample_leased ''spiffe://t/b'') sample_context True = Inr () \<and>
   validate_v2_record_identity_requirements_inner sample_ext (sample_leased ''spiffe://t/b'') sample_context False \<noteq> Inr ()"
  unfolding identity_requirements_iff by (simp add: sample_context_facts sample_leased_def sample_trimmed)

text \<open>Lifetimes.  A lifetime is accepted in two cases only: it is positive and at most the maximum, and
  the expiry lies that many seconds after the creation; or it is \<open>2 ^ 63\<close> or more, which the cast to
  \<open>i64\<close> turns negative, and the expiry lies before the creation.\<close>

lemma enforce_ttl_bounds:
  assumes "chrono_arith E" "enforce_ttl E max_ttl (Some secs) created = Inr (expires, kept)"
  shows "kept = Some secs \<and> (\<exists>t. expires = Some t \<and>
    (if uint secs < 2 ^ 63
     then 0 < uint secs \<and> uint secs \<le> num_seconds E max_ttl \<and> t = created + uint secs * nanos_per_sec
     else t = created - (2 ^ 64 - uint secs) * nanos_per_sec \<and> t < created))"
proof -
  from assms have "secs \<noteq> 0" "sint secs \<le> num_seconds E max_ttl" "kept = Some secs"
      "expires = Some (created + sint secs * nanos_per_sec)"
    by (auto simp: enforce_ttl_def add_seconds_def chrono_arith_def result_simps split: if_splits)
  moreover from \<open>secs \<noteq> 0\<close> have "0 < uint secs" by (simp add: word_neq_0_conv word_less_def)
  moreover have "uint secs < 2 ^ 64" using uint_lt2p [of secs] by simp
  ultimately show ?thesis by (auto simp: sint_u64)
qed

lemma enforce_ttl_bounds_witness:
  "enforce_ttl sample_ext (86400 * nanos_per_sec) (Some (- 1)) 0 = Inr (Some (- nanos_per_sec), Some (- 1)) \<and>
   - nanos_per_sec < (0 :: instant)"
proof -
  have arith: "chrono_arith sample_ext" by (rule sample_ext_laws)
  then have run: "enforce_ttl sample_ext (86400 * nanos_per_sec) (Some (- 1)) 0 = Inr (Some (- nanos_per_sec), Some (- 1))"
    using arith [unfolded chrono_arith_def, THEN conjunct2, THEN conjunct2, rule_format, of 86400]
    by (simp add: chrono_arith_def enforce_ttl_def add_seconds_def max_duration_secs_def representable_def
        chrono_min_secs_def chrono_max_secs_def)
  from enforce_ttl_bounds [OF arith run] have "- nanos_per_sec < (0 :: instant)" by simp
  with run show ?thesis by simp
qed

end
