(* ===== verification/Interpolation.thy ===== *)
theory Interpolation
  imports Main
begin

text \<open>
  Polynomials over a field as coefficient lists, and Lagrange interpolation at zero: the algebra
  behind \<open>threshold.rs\<close>.  \<open>poly_below n f\<close> says that \<open>f\<close> is a polynomial function with at most \<open>n\<close>
  coefficients; a polynomial function below \<open>n\<close> with \<open>n\<close> distinct roots vanishes, so the Lagrange
  combination of the values at \<open>n\<close> distinct points is the value at every point.
\<close>

fun peval :: "'a :: comm_ring_1 list \<Rightarrow> 'a \<Rightarrow> 'a" where
  "peval [] z = 0"
| "peval (c # cs) z = c + z * peval cs z"

fun padd :: "'a :: comm_ring_1 list \<Rightarrow> 'a list \<Rightarrow> 'a list" where
  "padd [] ys = ys"
| "padd xs [] = xs"
| "padd (x # xs) (y # ys) = (x + y) # padd xs ys"

definition poly_below :: "nat \<Rightarrow> ('a :: comm_ring_1 \<Rightarrow> 'a) \<Rightarrow> bool" where
  "poly_below n f \<longleftrightarrow> (\<exists>cs. length cs \<le> n \<and> (\<forall>z. f z = peval cs z))"

lemma poly_belowI: "length cs \<le> n \<Longrightarrow> (\<And>z. f z = peval cs z) \<Longrightarrow> poly_below n f"
  by (auto simp: poly_below_def)

lemma peval_padd: "peval (padd xs ys) z = peval xs z + peval ys z"
  by (induction xs ys rule: padd.induct) (auto simp: algebra_simps)

lemma length_padd: "length (padd xs ys) = max (length xs) (length ys)"
  by (induction xs ys rule: padd.induct) auto

lemma peval_smult: "peval (map ((*) a) cs) z = a * peval cs z"
  by (induction cs) (auto simp: algebra_simps)

lemma poly_below_mono: "poly_below n f \<Longrightarrow> n \<le> m \<Longrightarrow> poly_below m f"
  unfolding poly_below_def by (meson le_trans)

lemma poly_below_add: "poly_below n f \<Longrightarrow> poly_below n g \<Longrightarrow> poly_below n (\<lambda>z. f z + g z)"
proof -
  assume "poly_below n f" and "poly_below n g"
  then obtain xs ys where "length xs \<le> n" "length ys \<le> n" "\<And>z. f z = peval xs z" "\<And>z. g z = peval ys z"
    by (auto simp: poly_below_def)
  then show ?thesis by (intro poly_belowI [of "padd xs ys"]) (simp_all add: peval_padd length_padd)
qed

lemma poly_below_smult: "poly_below n f \<Longrightarrow> poly_below n (\<lambda>z. a * f z)"
proof -
  assume "poly_below n f"
  then obtain xs where "length xs \<le> n" "\<And>z. f z = peval xs z" by (auto simp: poly_below_def)
  then show ?thesis by (intro poly_belowI [of "map ((*) a) xs"]) (simp_all add: peval_smult)
qed

lemma poly_below_shift: "poly_below n f \<Longrightarrow> poly_below (Suc n) (\<lambda>z. z * f z)"
proof -
  assume "poly_below n f"
  then obtain xs where "length xs \<le> n" "\<And>z. f z = peval xs z" by (auto simp: poly_below_def)
  then show ?thesis by (intro poly_belowI [of "0 # xs"]) simp_all
qed

lemma poly_below_linear: "poly_below n f \<Longrightarrow> poly_below (Suc n) (\<lambda>z. (a - z) * f z)"
proof -
  assume f: "poly_below n f"
  have "poly_below (Suc n) (\<lambda>z. a * f z + (- 1) * (z * f z))"
    using f by (intro poly_below_add poly_below_smult poly_below_shift) (auto intro: poly_below_mono)
  then show ?thesis by (simp add: algebra_simps)
qed

lemma poly_below_sum:
  "finite I \<Longrightarrow> (\<And>i. i \<in> I \<Longrightarrow> poly_below n (f i)) \<Longrightarrow> poly_below n (\<lambda>z. \<Sum>i\<in>I. f i z)"
proof (induction I rule: finite_induct)
  case empty
  show ?case by (rule poly_belowI [of "[]"]) auto
qed (auto intro: poly_below_add)

lemma poly_below_prod: "finite S \<Longrightarrow> poly_below (Suc (card S)) (\<lambda>z. \<Prod>j\<in>S. (x j - z))"
proof (induction S rule: finite_induct)
  case empty
  show ?case by (rule poly_belowI [of "[1]"]) auto
qed (auto intro: poly_below_linear)

lemma poly_below_factor:
  "poly_below (Suc n) f \<Longrightarrow> \<exists>g. poly_below n g \<and> (\<forall>z. f z = f a + (z - a) * g z)"
proof -
  have factor: "length cs \<le> Suc n \<Longrightarrow> \<exists>g. poly_below n g \<and> (\<forall>z. peval cs z = peval cs a + (z - a) * g z)" for cs
  proof (induction n arbitrary: cs)
    case 0
    then show ?case by (cases cs) (auto intro!: exI [of _ "\<lambda>_. 0"] poly_belowI [of "[]"])
  next
    case (Suc n)
    show ?case
    proof (cases cs)
      case Nil
      then show ?thesis by (auto intro!: exI [of _ "\<lambda>_. 0"] poly_belowI [of "[]"])
    next
      case (Cons c ds)
      with Suc.prems have "length ds \<le> Suc n" by simp
      from Suc.IH [OF this] obtain g where g: "poly_below n g"
        and geq: "\<And>z. peval ds z = peval ds a + (z - a) * g z" by blast
      have "poly_below (Suc n) (\<lambda>z. peval ds z + a * g z)"
        using Cons Suc.prems g by (intro poly_below_add poly_below_smult)
          (auto intro: poly_belowI [of ds] poly_below_mono)
      moreover have "peval cs z = peval cs a + (z - a) * (peval ds z + a * g z)" for z
      proof -
        have "z * peval ds z = a * peval ds a + (z - a) * (peval ds z + a * g z)"
          using arg_cong [OF geq [of z], of "(*) a"] by (simp add: algebra_simps)
        then show ?thesis using Cons by simp
      qed
      ultimately show ?thesis by blast
    qed
  qed
  assume "poly_below (Suc n) f"
  then obtain cs where cs: "length cs \<le> Suc n" and f: "\<And>z. f z = peval cs z"
    by (auto simp: poly_below_def)
  from factor [OF cs] show ?thesis by (simp only: f)
qed

lemma poly_below_roots:
  fixes f :: "'a :: idom \<Rightarrow> 'a"
  assumes "poly_below n f" "finite R" "card R = n" "\<And>r. r \<in> R \<Longrightarrow> f r = 0"
  shows "f z = 0"
  using assms
proof (induction n arbitrary: f R)
  case 0
  then show ?case by (auto simp: poly_below_def)
next
  case (Suc n)
  then obtain a R' where R: "R = insert a R'" "a \<notin> R'" "card R' = n" "finite R'"
    by (metis card_Suc_eq finite_insert)
  with Suc.prems(4) have "f a = 0" by simp
  with poly_below_factor [OF Suc.prems(1), of a] obtain g
    where g: "poly_below n g" "\<And>z. f z = (z - a) * g z" by auto
  have "g r = 0" if "r \<in> R'" for r
    using Suc.prems(4) [of r] that R g(2) [of r] by auto
  from Suc.IH [OF g(1) R(4,3) this] show ?case using g(2) by simp
qed

definition lagrange_at :: "nat \<Rightarrow> (nat \<Rightarrow> 'a :: field) \<Rightarrow> (nat \<Rightarrow> 'a) \<Rightarrow> 'a \<Rightarrow> 'a" where
  "lagrange_at n x y z =
     (\<Sum>i<n. y i * (\<Prod>j\<in>{..<n} - {i}. (x j - z)) * inverse (\<Prod>j\<in>{..<n} - {i}. (x j - x i)))"

lemma poly_below_lagrange: "poly_below n (lagrange_at n x y)"
proof -
  have "poly_below n (\<lambda>z. y i * (\<Prod>j\<in>{..<n} - {i}. (x j - z)) * inverse (\<Prod>j\<in>{..<n} - {i}. (x j - x i)))"
    if "i < n" for i
  proof -
    have "poly_below n (\<lambda>z. \<Prod>j\<in>{..<n} - {i}. (x j - z))"
      using poly_below_prod [of "{..<n} - {i}" x] that by simp
    from poly_below_smult [OF this, of "y i * inverse (\<Prod>j\<in>{..<n} - {i}. (x j - x i))"]
    show ?thesis by (simp add: ac_simps)
  qed
  then have "poly_below n (\<lambda>z. \<Sum>i<n. y i * (\<Prod>j\<in>{..<n} - {i}. (x j - z)) *
      inverse (\<Prod>j\<in>{..<n} - {i}. (x j - x i)))"
    by (intro poly_below_sum) auto
  then show ?thesis by (simp add: lagrange_at_def [abs_def])
qed

lemma lagrange_at_node:
  assumes "inj_on x {..<n}" "k < n"
  shows "lagrange_at n x y (x k) = y k"
proof -
  have "(\<Prod>j\<in>{..<n} - {i}. (x j - x k)) = 0" if "i < n" "i \<noteq> k" for i
    using that assms(2) by (intro prod_zero) auto
  then have "lagrange_at n x y (x k) = (\<Sum>i<n. if i = k then y k else 0)"
    unfolding lagrange_at_def
  proof (intro sum.cong refl)
    fix i assume "i \<in> {..<n}"
    moreover have "(\<Prod>j\<in>{..<n} - {k}. (x j - x k)) \<noteq> 0"
      using assms by (auto simp: inj_on_def)
    ultimately show "y i * (\<Prod>j\<in>{..<n} - {i}. (x j - x k)) * inverse (\<Prod>j\<in>{..<n} - {i}. (x j - x i)) =
      (if i = k then y k else 0)"
      using \<open>\<And>i. i < n \<Longrightarrow> i \<noteq> k \<Longrightarrow> (\<Prod>j\<in>{..<n} - {i}. (x j - x k)) = 0\<close> by auto
  qed
  then show ?thesis using assms(2) by simp
qed

lemma lagrange_interpolates:
  assumes "poly_below n f" "inj_on x {..<n}" "\<And>i. i < n \<Longrightarrow> y i = f (x i)"
  shows "lagrange_at n x y z = f z"
proof -
  let ?d = "\<lambda>z. lagrange_at n x y z + (- 1) * f z"
  have below: "poly_below n ?d"
    using assms(1) by (intro poly_below_add poly_below_smult poly_below_lagrange)
  have card: "card (x ` {..<n}) = n" using assms(2) by (simp add: card_image)
  have root: "?d r = 0" if "r \<in> x ` {..<n}" for r
  proof -
    from that obtain i where "i < n" "r = x i" by blast
    then show ?thesis using assms(2,3) by (simp add: lagrange_at_node)
  qed
  have "?d z = 0" by (rule poly_below_roots [OF below _ card root]) simp_all
  then show ?thesis by simp
qed

end
