(* ===== verification/Threshold.thy ===== *)
theory Threshold
  imports Interpolation Externals
begin

text \<open>
  Feldman verifiable secret sharing: \<open>secret_broker_impl/threshold.rs\<close>.

  The P-256 crate is the parameter \<open>curve\<close>: the scalar field is a type \<open>'f\<close> of class \<open>field\<close> (the
  operators on \<open>Scalar\<close> are its operations), the points are a type \<open>'g\<close> of class \<open>ab_group_add\<close>, and
  the record has the generator, scalar multiplication and the byte encodings.  \<open>p256_laws\<close> states the
  documented behaviour relied on.  \<open>OsRng\<close> is the argument \<open>rnd\<close>, the stream of scalars it returns.
\<close>

section \<open>Parameters\<close>

record ('f, 'g) curve =
  generator :: 'g
  smul :: "'g \<Rightarrow> 'f \<Rightarrow> 'g"
  reduce_bytes :: "bytes \<Rightarrow> 'f"
  scalar_bytes :: "'f \<Rightarrow> bytes"
  scalar_from_repr :: "bytes \<Rightarrow> 'f option"
  point_bytes :: "'g \<Rightarrow> bytes"
  point_from_bytes :: "bytes \<Rightarrow> 'g option"

definition p256_laws :: "('f :: field, 'g :: ab_group_add) curve \<Rightarrow> bool" where
  "p256_laws C \<longleftrightarrow>
     (\<forall>P a b. smul C P (a + b) = smul C P a + smul C P b) \<and>
     (\<forall>P a b. smul C P (a * b) = smul C (smul C P a) b) \<and>
     (\<forall>a b. smul C (generator C) a = smul C (generator C) b \<longrightarrow> a = b) \<and>
     (\<forall>s. length (scalar_bytes C s) = 32 \<and> scalar_from_repr C (scalar_bytes C s) = Some s) \<and>
     (\<forall>b s. scalar_from_repr C b = Some s \<longrightarrow> b = scalar_bytes C s) \<and>
     (\<forall>P. length (point_bytes C P) = 33 \<and> point_from_bytes C (point_bytes C P) = Some P) \<and>
     (\<forall>x < 256. \<forall>y < 256. (of_nat x :: 'f) = of_nat y \<longrightarrow> x = y)"

section \<open>Data\<close>

datatype ThresholdError =
  InvalidParams
| InsufficientShares byte nat
| DuplicateShares
| InvalidShareLength
| InvalidShareScalar
| MissingCommitments
| InvalidCommitmentCount nat nat
| InvalidCommitmentLength
| InvalidCommitmentEncoding
| CommitmentMismatch

record Share =
  share_x :: byte
  share_y :: bytes

record SplitResult =
  split_shares :: "Share list"
  split_commitments :: "bytes list"

definition SHARE_LENGTH :: nat where "SHARE_LENGTH = 32"
definition COMMITMENT_LENGTH :: nat where "COMMITMENT_LENGTH = 33"

section \<open>Conversions\<close>

definition scalar_from_x :: "byte \<Rightarrow> 'f :: field" where
  "scalar_from_x x = of_nat (unat x)"

definition secret_scalar_from_bytes :: "('f, 'g) curve \<Rightarrow> bytes \<Rightarrow> 'f" where
  "secret_scalar_from_bytes C secret = reduce_bytes C secret"

definition scalar_to_array :: "('f, 'g) curve \<Rightarrow> 'f \<Rightarrow> bytes" where
  "scalar_to_array C v = scalar_bytes C v"

definition canonical_secret_bytes :: "('f, 'g) curve \<Rightarrow> bytes \<Rightarrow> bytes" where
  "canonical_secret_bytes C secret = scalar_to_array C (secret_scalar_from_bytes C secret)"

definition commitment_for_scalar :: "('f, 'g) curve \<Rightarrow> 'f \<Rightarrow> bytes" where
  "commitment_for_scalar C coeff = point_bytes C (smul C (generator C) coeff)"

definition decode_commitment :: "('f, 'g) curve \<Rightarrow> bytes \<Rightarrow> ThresholdError + 'g" where
  "decode_commitment C b =
     (if length b \<noteq> COMMITMENT_LENGTH then Inl InvalidCommitmentLength
      else ok_or InvalidCommitmentEncoding (point_from_bytes C b))"

definition share_scalar :: "('f, 'g) curve \<Rightarrow> Share \<Rightarrow> ThresholdError + 'f" where
  "share_scalar C s =
     (if length (share_y s) \<noteq> SHARE_LENGTH then Inl InvalidShareLength
      else ok_or InvalidShareScalar (scalar_from_repr C (share_y s)))"

definition eval_poly :: "'f :: field list \<Rightarrow> 'f \<Rightarrow> 'f" where
  "eval_poly coeffs x = foldl (\<lambda>result coeff. result * x + coeff) 0 (rev coeffs)"

section \<open>Splitting\<close>

definition split_coeffs :: "('f, 'g) curve \<Rightarrow> (nat \<Rightarrow> 'f) \<Rightarrow> bytes \<Rightarrow> byte \<Rightarrow> 'f list" where
  "split_coeffs C rnd secret threshold =
     secret_scalar_from_bytes C secret # map rnd [1..<unat threshold]"

definition make_share :: "('f :: field, 'g) curve \<Rightarrow> 'f list \<Rightarrow> byte \<Rightarrow> Share" where
  "make_share C coeffs x =
     \<lparr> share_x = x, share_y = scalar_to_array C (eval_poly coeffs (scalar_from_x x)) \<rparr>"

definition split ::
  "('f :: field, 'g) curve \<Rightarrow> (nat \<Rightarrow> 'f) \<Rightarrow> bytes \<Rightarrow> byte \<Rightarrow> byte \<Rightarrow> ThresholdError + SplitResult" where
  "split C rnd secret threshold num_shares =
     (if threshold < 1 \<or> threshold > num_shares then Inl InvalidParams
      else if num_shares = 0 then Inl InvalidParams
      else let coeffs = split_coeffs C rnd secret threshold in
        Inr \<lparr> split_shares = map (make_share C coeffs) (map word_of_nat [1..<Suc (unat num_shares)]),
              split_commitments = map (commitment_for_scalar C) coeffs \<rparr>)"

section \<open>Reconstruction\<close>

definition validate_commitments :: "bytes list \<Rightarrow> byte \<Rightarrow> ThresholdError + unit" where
  "validate_commitments commitments threshold =
     (if commitments = [] then Inl MissingCommitments
      else if length commitments \<noteq> unat threshold
      then Inl (InvalidCommitmentCount (unat threshold) (length commitments))
      else Inr ())"

fun has_duplicate_x :: "Share list \<Rightarrow> bool" where
  "has_duplicate_x [] = False"
| "has_duplicate_x (s # r) = (list_ex (\<lambda>t. share_x s = share_x t) r \<or> has_duplicate_x r)"

definition verify_share_with_commitments ::
  "('f :: field, 'g :: ab_group_add) curve \<Rightarrow> Share \<Rightarrow> 'g list \<Rightarrow> ThresholdError + unit" where
  "verify_share_with_commitments C s commitments =
     rbind (share_scalar C s) (\<lambda>y.
     let x = scalar_from_x (share_x s);
         (rhs, x_power) = foldl (\<lambda>(rhs, xp) c. (rhs + smul C c xp, xp * x)) (0, 1) commitments
     in if smul C (generator C) y = rhs then Inr () else Inl CommitmentMismatch)"

definition basis_terms :: "Share list \<Rightarrow> nat \<Rightarrow> 'f :: field \<times> 'f" where
  "basis_terms shares i =
     foldl (\<lambda>(numerator, denominator) (j, other).
         if i = j then (numerator, denominator)
         else let xj = scalar_from_x (share_x other);
                  xi = scalar_from_x (share_x (shares ! i))
              in (numerator * xj, denominator * (xj - xi)))
       (1, 1) (List.enumerate 0 shares)"

fun lagrange_loop :: "Share list \<Rightarrow> 'f :: field list \<Rightarrow> nat list \<Rightarrow> 'f \<Rightarrow> ThresholdError + 'f" where
  "lagrange_loop shares ys [] secret = Inr secret"
| "lagrange_loop shares ys (i # is) secret =
     (let (numerator, denominator) = basis_terms shares i in
      rbind (ok_or DuplicateShares (if denominator = 0 then None else Some (inverse denominator)))
        (\<lambda>denominator_inv.
          lagrange_loop shares ys is (secret + ys ! i * numerator * denominator_inv)))"

definition reconstruct ::
  "('f :: field, 'g :: ab_group_add) curve \<Rightarrow> Share list \<Rightarrow> byte \<Rightarrow> bytes list
    \<Rightarrow> ThresholdError + bytes" where
  "reconstruct C shares threshold commitments =
     (if length shares < unat threshold then Inl (InsufficientShares threshold (length shares))
      else
      rbind (validate_commitments commitments threshold) (\<lambda>_.
      if has_duplicate_x shares then Inl DuplicateShares
      else
      rbind (collect_results (map (decode_commitment C) commitments)) (\<lambda>decoded.
      rbind (collect_results (map (\<lambda>s.
          rbind (verify_share_with_commitments C s decoded) (\<lambda>_. share_scalar C s)) shares))
        (\<lambda>share_scalars.
      rbind (lagrange_loop shares share_scalars [0..<length shares] 0) (\<lambda>secret.
      Inr (scalar_to_array C secret))))))"

section \<open>Polynomial evaluation and commitments\<close>

lemma eval_poly_peval: "eval_poly cs x = peval cs x"
proof -
  have "foldr (\<lambda>coeff result. result * x + coeff) cs 0 = peval cs x"
    by (induction cs) (auto simp: algebra_simps)
  then show ?thesis by (simp add: eval_poly_def foldl_conv_foldr)
qed

lemma p256D:
  fixes C :: "('f :: field, 'g :: ab_group_add) curve"
  assumes "p256_laws C"
  shows "smul C P (a + b) = smul C P a + smul C P b"
    and "smul C P (a * b) = smul C (smul C P a) b"
    and "smul C (generator C) a = smul C (generator C) b \<longleftrightarrow> a = b"
    and "length (scalar_bytes C s) = 32"
    and "scalar_from_repr C (scalar_bytes C s) = Some s"
    and "scalar_from_repr C y = Some s \<Longrightarrow> y = scalar_bytes C s"
    and "length (point_bytes C Q) = 33"
    and "point_from_bytes C (point_bytes C Q) = Some Q"
    and "x < 256 \<Longrightarrow> z < 256 \<Longrightarrow> (of_nat x :: 'f) = of_nat z \<Longrightarrow> x = z"
  using assms unfolding p256_laws_def by blast+

lemma smul_zero: "p256_laws C \<Longrightarrow> smul C P 0 = 0"
  using p256D(1) [of C P 0 0] by simp

lemma scalar_from_x_inj:
  assumes "p256_laws (C :: ('f :: field, 'g :: ab_group_add) curve)"
    and "(scalar_from_x x :: 'f) = scalar_from_x y"
  shows "x = y"
proof -
  have "unat x < 256" "unat y < 256" using unat_bounded [of x] unat_bounded [of y] by simp_all
  from p256D(9) [OF assms(1) this] assms(2) have "unat x = unat y"
    unfolding scalar_from_x_def by blast
  then show ?thesis by (simp add: word_unat_eq_iff)
qed

lemma commitment_fold:
  assumes "p256_laws C"
  shows "foldl (\<lambda>(rhs, xp) c. (rhs + smul C c xp, xp * x)) (smul C (generator C) a, xp)
      (map (smul C (generator C)) cs) =
    (smul C (generator C) (a + xp * peval cs x), xp * x ^ length cs)"
proof (induction cs arbitrary: a xp)
  case (Cons c cs)
  have "smul C (generator C) a + smul C (smul C (generator C) c) xp = smul C (generator C) (a + c * xp)"
    by (simp add: p256D [OF assms])
  then show ?case using Cons [of "a + c * xp" "xp * x"] by (simp add: algebra_simps)
qed simp

lemma verify_share_honest_iff:
  assumes "p256_laws C"
  shows "rbind (verify_share_with_commitments C s (map (smul C (generator C)) coeffs)) (\<lambda>_. share_scalar C s) = Inr y
    \<longleftrightarrow> s = make_share C coeffs (share_x s) \<and> y = eval_poly coeffs (scalar_from_x (share_x s))"
    (is "?l \<longleftrightarrow> ?r")
proof -
  have scalar: "share_scalar C s = Inr z \<longleftrightarrow> share_y s = scalar_bytes C z" for z
    using p256D(4-6) [OF assms] by (auto simp: share_scalar_def SHARE_LENGTH_def result_simps split: if_splits)
  have fold: "foldl (\<lambda>(rhs, xp) c. (rhs + smul C c xp, xp * x)) (0, 1) (map (smul C (generator C)) coeffs)
      = (smul C (generator C) (peval coeffs x), x ^ length coeffs)" for x
    using commitment_fold [OF assms, of x 0 1 coeffs] by (simp add: smul_zero [OF assms])
  have "?l \<longleftrightarrow> share_scalar C s = Inr y \<and> y = peval coeffs (scalar_from_x (share_x s))"
    using p256D(3) [OF assms]
    by (auto simp: verify_share_with_commitments_def fold rbind_Inr_iff split: if_splits)
  also have "\<dots> \<longleftrightarrow> ?r"
    unfolding scalar by (cases s) (auto simp: make_share_def scalar_to_array_def eval_poly_peval)
  finally show ?thesis .
qed

lemma decode_honest:
  "p256_laws C \<Longrightarrow> map (decode_commitment C) (map (commitment_for_scalar C) coeffs) =
     map (\<lambda>c. Inr (smul C (generator C) c)) coeffs"
  by (simp add: decode_commitment_def commitment_for_scalar_def COMMITMENT_LENGTH_def p256D)

lemma has_duplicate_x_iff: "has_duplicate_x ss \<longleftrightarrow> \<not> distinct (map share_x ss)"
  by (induction ss) (auto simp: list_ex_iff)

section \<open>The interpolation loop\<close>

lemma lessThan_Suc_minus: "{..<Suc n} - {i} = (if i = n then {..<n} - {i} else insert n ({..<n} - {i}))"
  by auto

lemma enumerate_fold_prod:
  fixes f :: "'s \<Rightarrow> 'f :: field"
  shows "foldl (\<lambda>(a, b) (j, other). if i = j then (a, b) else (a * f other, b * (f other - c)))
      (1, 1) (List.enumerate 0 xs) =
    (\<Prod>j\<in>{..<length xs} - {i}. f (xs ! j), \<Prod>j\<in>{..<length xs} - {i}. (f (xs ! j) - c))"
proof (induction xs rule: rev_induct)
  case (snoc x xs)
  have "(\<Prod>j\<in>{..<length xs} - {i}. f ((xs @ [x]) ! j)) = (\<Prod>j\<in>{..<length xs} - {i}. f (xs ! j))"
    and "(\<Prod>j\<in>{..<length xs} - {i}. (f ((xs @ [x]) ! j) - c)) = (\<Prod>j\<in>{..<length xs} - {i}. (f (xs ! j) - c))"
    by (rule prod.cong; simp add: nth_append)+
  with snoc show ?case
    by (auto simp: enumerate_append_eq lessThan_Suc_minus mult.commute)
qed simp

lemma basis_terms_prod:
  "basis_terms ss i =
    (\<Prod>j\<in>{..<length ss} - {i}. scalar_from_x (share_x (ss ! j)),
     \<Prod>j\<in>{..<length ss} - {i}. (scalar_from_x (share_x (ss ! j)) - scalar_from_x (share_x (ss ! i))))"
  unfolding basis_terms_def Let_def by (rule enumerate_fold_prod)

lemma lagrange_loop_cases:
  "lagrange_loop ss ys is (a :: 'f :: field) =
    (if \<forall>i \<in> set is. snd (basis_terms ss i :: 'f \<times> 'f) \<noteq> 0
     then Inr (a + (\<Sum>i\<leftarrow>is. ys ! i * fst (basis_terms ss i) * inverse (snd (basis_terms ss i))))
     else Inl DuplicateShares)"
  by (induction "is" arbitrary: a) (auto simp: split_beta algebra_simps)

text \<open>A denominator vanishes exactly when two shares have the same position.\<close>

lemma basis_denominators:
  fixes C :: "('f :: field, 'g :: ab_group_add) curve"
  assumes "p256_laws C"
  shows "(\<forall>i \<in> {0..<length ss}. snd (basis_terms ss i :: 'f \<times> 'f) \<noteq> 0) \<longleftrightarrow> distinct (map share_x ss)"
proof -
  have same: "(scalar_from_x x :: 'f) = scalar_from_x y \<longleftrightarrow> x = y" for x y using scalar_from_x_inj [OF assms] by blast
  show ?thesis by (auto simp: basis_terms_prod same distinct_conv_nth)
qed

lemma lagrange_loop_at:
  fixes C :: "('f :: field, 'g :: ab_group_add) curve" and ys :: "'f list"
  assumes "p256_laws C"
  shows "lagrange_loop ss ys [0..<length ss] 0 =
    (if distinct (map share_x ss)
     then Inr (lagrange_at (length ss) (\<lambda>i. scalar_from_x (share_x (ss ! i))) ((!) ys) 0) else Inl DuplicateShares)"
  unfolding lagrange_loop_cases set_upt basis_denominators [OF assms]
  by (simp add: lagrange_at_def basis_terms_prod interv_sum_list_conv_sum_set_nat atLeast0LessThan)

lemma lagrange_loop_value:
  fixes ys :: "'f :: field list" and C :: "('f, 'g :: ab_group_add) curve"
  assumes "p256_laws C" "distinct (map share_x ss)" "length coeffs \<le> length ss"
    and "\<And>i. i < length ss \<Longrightarrow> ys ! i = peval coeffs (scalar_from_x (share_x (ss ! i)))"
  shows "lagrange_loop ss ys [0..<length ss] 0 = Inr (peval coeffs 0)"
proof -
  let ?n = "length ss" and ?x = "\<lambda>i. scalar_from_x (share_x (ss ! i)) :: 'f"
  have "inj_on ?x {..<?n}"
    using assms(2) scalar_from_x_inj [OF assms(1)]
    by (intro inj_onI) (metis distinct_map inj_onD length_map lessThan_iff nth_eq_iff_index_eq nth_map)
  then have "lagrange_at ?n ?x ((!) ys) 0 = peval coeffs 0"
    using assms(3,4) by (intro lagrange_interpolates) (auto intro: poly_belowI)
  with lagrange_loop_at [OF assms(1)] assms(2) show ?thesis by simp
qed

lemma peval_zero: "coeffs \<noteq> [] \<Longrightarrow> peval coeffs 0 = hd coeffs"
  by (cases coeffs) auto

lemma reconstruct_honest_iff:
  assumes laws: "p256_laws C" and "length coeffs = unat t" "1 \<le> t"
  shows "reconstruct C ss t (map (commitment_for_scalar C) coeffs) = Inr out \<longleftrightarrow>
    unat t \<le> length ss \<and> distinct (map share_x ss) \<and>
    (\<forall>s \<in> set ss. s = make_share C coeffs (share_x s)) \<and> out = scalar_to_array C (hd coeffs)"
proof -
  have ne: "coeffs \<noteq> []"
    using assms(2,3) by (auto simp: word_le_nat_alt)
  have valid: "validate_commitments (map (commitment_for_scalar C) coeffs) t = Inr ()"
    using ne assms(2) by (simp add: validate_commitments_def)
  have collected: "collect_results (map (\<lambda>s. rbind (verify_share_with_commitments C s
        (map (smul C (generator C)) coeffs)) (\<lambda>_. share_scalar C s)) ss) = Inr ys \<longleftrightarrow>
      (\<forall>s \<in> set ss. s = make_share C coeffs (share_x s)) \<and>
      ys = map (\<lambda>s. eval_poly coeffs (scalar_from_x (share_x s))) ss" for ys
    unfolding collect_results_Inr_iff list_all2_map1 verify_share_honest_iff [OF laws]
    by (auto simp: list_all2_conv_all_nth list_eq_iff_nth_eq all_set_conv_all_nth)
  have loop: "lagrange_loop ss (map (\<lambda>s. eval_poly coeffs (scalar_from_x (share_x s))) ss) [0..<length ss] 0
      = Inr (hd coeffs)" if "unat t \<le> length ss" "distinct (map share_x ss)"
    using lagrange_loop_value [OF laws that(2), of coeffs] that(1) assms(2) ne
    by (simp add: eval_poly_peval peval_zero)
  show ?thesis
    unfolding reconstruct_def decode_honest [OF laws] collect_results_map_Inr valid
    by (auto simp: collected loop has_duplicate_x_iff rbind_Inr_iff not_less split: if_splits)
qed

section \<open>Splitting\<close>

lemma one_le_byte: "(1 :: byte) \<le> t \<longleftrightarrow> t \<noteq> 0"
  unfolding linorder_not_less [symmetric] by simp

lemma split_Inr_iff:
  "split C rnd secret t n = Inr r \<longleftrightarrow> 1 \<le> t \<and> t \<le> n \<and>
     r = \<lparr> split_shares = map (make_share C (split_coeffs C rnd secret t)) (map word_of_nat [1..<Suc (unat n)]),
           split_commitments = map (commitment_for_scalar C) (split_coeffs C rnd secret t) \<rparr>"
  by (auto simp: split_def Let_def one_le_byte simp del: upt_Suc)

lemma length_split_coeffs: "1 \<le> t \<Longrightarrow> length (split_coeffs C rnd secret t) = unat t"
  by (simp add: split_coeffs_def word_le_nat_alt)

lemma hd_split_coeffs: "hd (split_coeffs C rnd secret t) = secret_scalar_from_bytes C secret"
  by (simp add: split_coeffs_def)

lemma make_share_x [simp]: "share_x (make_share C coeffs x) = x"
  by (simp add: make_share_def)

lemma split_reconstruct_iff:
  assumes "p256_laws C" "split C rnd secret t n = Inr r"
  shows "reconstruct C ss t (split_commitments r) = Inr out \<longleftrightarrow>
    unat t \<le> length ss \<and> distinct (map share_x ss) \<and>
    (\<forall>s \<in> set ss. s = make_share C (split_coeffs C rnd secret t) (share_x s)) \<and>
    out = canonical_secret_bytes C secret"
proof -
  from assms(2) have t: "1 \<le> t"
    and r: "split_commitments r = map (commitment_for_scalar C) (split_coeffs C rnd secret t)"
    by (auto simp: split_Inr_iff)
  show ?thesis
    unfolding r reconstruct_honest_iff [OF assms(1) length_split_coeffs [OF t] t] hd_split_coeffs
    by (simp add: canonical_secret_bytes_def)
qed

lemma split_reconstruct:
  assumes "p256_laws C" "split C rnd secret t n = Inr r"
    and "set ss \<subseteq> set (split_shares r)" "distinct (map share_x ss)" "unat t \<le> length ss"
  shows "reconstruct C ss t (split_commitments r) = Inr (canonical_secret_bytes C secret)"
  using assms by (subst split_reconstruct_iff) (auto simp: split_Inr_iff)

section \<open>Secrecy of the share values\<close>

lemma peval_replicate_zero: "peval (cs @ replicate k 0) z = peval cs z"
proof (induction cs)
  case Nil
  show ?case by (induction k) auto
qed auto

lemma poly_below_exact:
  assumes "poly_below n f"
  shows "\<exists>cs. length cs = n \<and> (\<forall>z. f z = peval cs z)"
proof -
  from assms obtain ds where "length ds \<le> n" "\<And>z. f z = peval ds z" by (auto simp: poly_below_def)
  then have "length (ds @ replicate (n - length ds) 0) = n"
    "\<And>z. f z = peval (ds @ replicate (n - length ds) 0) z"
    by (simp_all add: peval_replicate_zero)
  then show ?thesis by blast
qed

lemma alternative_polynomial:
  fixes X :: "'f :: field set"
  assumes "finite X" "0 \<notin> X" "card X < length cs"
  obtains ds where "length ds = length cs" "hd ds = s" "\<And>x. x \<in> X \<Longrightarrow> peval ds x = peval cs x"
proof -
  let ?q = "\<lambda>z. ((s - hd cs) * inverse (\<Prod>x\<in>X. x)) * (\<Prod>x\<in>X. (x - z))"
  have "poly_below (length cs) (\<lambda>z. peval cs z + ?q z)"
    using assms(1,3) by (intro poly_below_add poly_below_smult)
      (auto intro: poly_belowI [of cs] poly_below_mono [OF poly_below_prod])
  then obtain ds where ds: "length ds = length cs" "\<And>z. peval cs z + ?q z = peval ds z"
    using poly_below_exact by blast
  have ne: "cs \<noteq> []" "ds \<noteq> []" using assms(3) ds(1) by auto
  have "(\<Prod>x\<in>X. x) \<noteq> 0" using assms(1,2) by auto
  moreover have "peval ds 0 = hd cs + (s - hd cs) * (inverse (\<Prod>x\<in>X. x) * (\<Prod>x\<in>X. x))"
    using ds(2) [of 0] peval_zero [OF ne(1)] by (simp add: mult.assoc)
  ultimately have "peval ds 0 = s" by simp
  then have "hd ds = s" using peval_zero [OF ne(2)] by simp
  moreover have "peval ds x = peval cs x" if "x \<in> X" for x
  proof -
    have "(\<Prod>y\<in>X. (y - x)) = 0" using assms(1) that by (intro prod_zero) auto
    then show ?thesis using ds(2) [of x] by simp
  qed
  ultimately show ?thesis using ds(1) that by blast
qed

lemma split_coeffs_surj:
  assumes "length cs = unat t" "1 \<le> t" "hd cs = secret_scalar_from_bytes C secret"
  shows "split_coeffs C ((!) cs) secret t = cs"
proof -
  obtain n where n: "unat t = Suc n" using assms(2) by (cases "unat t") (auto simp: word_le_nat_alt)
  with assms(1) obtain x xs where cs: "cs = x # xs" "length xs = n" by (cases cs) auto
  have "map ((!) cs) [1..<Suc n] = map ((!) xs) [0..<n]"
    using cs by (simp add: map_Suc_upt [symmetric] comp_def del: map_Suc_upt upt_Suc)
  also have "\<dots> = xs" using cs(2) map_nth [of xs] by simp
  finally show ?thesis using assms(3) n cs(1) by (simp add: split_coeffs_def del: upt_Suc)
qed

lemma unat_position:
  assumes "i \<in> set [1..<Suc (unat (n :: byte))]"
  shows "unat (word_of_nat i :: byte) = i" "(word_of_nat i :: byte) \<noteq> 0"
proof -
  have "1 \<le> i" "i < 256" using assms unat_bounded [of n] by (auto simp del: upt_Suc)
  then show "unat (word_of_nat i :: byte) = i" by (simp add: unat_of_nat)
  with \<open>1 \<le> i\<close> show "(word_of_nat i :: byte) \<noteq> 0" by auto
qed

lemma split_positions:
  assumes "split C rnd secret t n = Inr r"
  shows "map (unat \<circ> share_x) (split_shares r) = [1..<Suc (unat n)]"
  using assms unat_position(1) [of _ n]
  by (auto simp: split_Inr_iff comp_def simp del: upt_Suc intro!: map_idI)

lemma alternative_shares:
  fixes C :: "('f :: field, 'g :: ab_group_add) curve"
  assumes "p256_laws C" "card X < length cs"
  shows "\<exists>ds. length ds = length cs \<and> hd ds = s \<and>
    (\<forall>x \<in> X - {0}. make_share C ds x = make_share C cs x)"
proof -
  let ?Y = "scalar_from_x ` (X - {0}) :: 'f set"
  have "finite X" by (rule finite_subset [OF subset_UNIV]) simp
  have "card ?Y \<le> card X" using \<open>finite X\<close>
    by (meson card_image_le card_mono Diff_subset finite_Diff le_trans)
  moreover have "0 \<notin> ?Y"
  proof
    assume "0 \<in> ?Y"
    then obtain x where "x \<in> X - {0}" "0 = (scalar_from_x x :: 'f)" by (rule imageE)
    then have "x \<noteq> 0" by simp
    from \<open>0 = (scalar_from_x x :: 'f)\<close>
    have "(scalar_from_x x :: 'f) = scalar_from_x 0" by (simp add: scalar_from_x_def)
    with scalar_from_x_inj [OF assms(1)] \<open>x \<noteq> 0\<close> show False by blast
  qed
  ultimately obtain ds where "length ds = length cs" "hd ds = s" "\<And>y. y \<in> ?Y \<Longrightarrow> peval ds y = peval cs y"
    using alternative_polynomial [of ?Y cs s] \<open>finite X\<close> assms(2) by auto
  then show ?thesis by (intro exI [of _ ds]) (simp add: make_share_def eval_poly_peval)
qed

section \<open>A concrete curve\<close>

text \<open>The field of 257 elements as scalars and, additively, as points: it satisfies \<open>p256_laws\<close> and is
  small enough to compute with.\<close>

typedef gf257 = "{0..<257 :: int}"
  morphisms gf_int Abs_gf257
  by auto

setup_lifting type_definition_gf257

definition gf_units :: "int list" where "gf_units = [1..256]"

lemma set_gf_units: "set gf_units = {1..256}"
  by (simp only: gf_units_def set_upto)

definition gf_inv :: "int \<Rightarrow> int" where
  "gf_inv a = (case find (\<lambda>b. b * a mod 257 = 1) gf_units of Some b \<Rightarrow> b | None \<Rightarrow> 0)"

lemma no_small_divisor: "d dvd 257 \<Longrightarrow> 2 \<le> d \<Longrightarrow> d \<le> 16 \<Longrightarrow> False" for d :: int
proof -
  assume "d dvd 257" "2 \<le> d" "d \<le> 16"
  moreover from \<open>2 \<le> d\<close> \<open>d \<le> 16\<close> have "d = 2 \<or> d = 3 \<or> d = 4 \<or> d = 5 \<or> d = 6 \<or> d = 7 \<or> d = 8 \<or> d = 9 \<or>
    d = 10 \<or> d = 11 \<or> d = 12 \<or> d = 13 \<or> d = 14 \<or> d = 15 \<or> d = 16" by presburger
  ultimately show False by auto
qed

lemma gcd_257:
  assumes "0 < a" "a < 257"
  shows "gcd a (257 :: int) = 1"
proof (rule ccontr)
  let ?d = "gcd a (257 :: int)"
  assume "?d \<noteq> 1"
  moreover have "0 < ?d" by simp
  ultimately have d: "2 \<le> ?d" by linarith
  have "?d \<le> a" using assms(1) by (simp add: zdvd_imp_le)
  obtain e where e: "257 = ?d * e" by (metis dvdE gcd_dvd2)
  have "0 < e" using e d by (smt (verit) mult_le_0_iff)
  have "e \<noteq> 1" using e \<open>?d \<le> a\<close> assms(2) by auto
  have "?d \<le> 16 \<or> e \<le> 16"
  proof (rule ccontr)
    assume "\<not> (?d \<le> 16 \<or> e \<le> 16)"
    then have "17 * 17 \<le> ?d * e" by (intro mult_mono) auto
    then show False using e by linarith
  qed
  moreover have "e dvd 257" by (metis e dvd_triv_right)
  ultimately show False
    using no_small_divisor [of ?d] no_small_divisor [of e] d \<open>0 < e\<close> \<open>e \<noteq> 1\<close> by auto
qed

lemma gf_inv_works:
  assumes "0 < a" "a < 257"
  shows "gf_inv a * a mod 257 = 1"
proof -
  obtain u v where "u * a + v * 257 = 1" using bezout_int [of a 257] gcd_257 [OF assms] by auto
  then have "u * a = 1 + - v * 257" by simp
  then have "u * a mod 257 = (1 + - v * 257) mod 257" by (rule arg_cong)
  also have "\<dots> = 1" by (subst mod_mult_self1) simp
  finally have inv: "(u mod 257) * a mod 257 = 1" by (simp add: mod_mult_left_eq)
  then have "u mod 257 \<noteq> 0" by auto
  moreover have "0 \<le> u mod 257" "u mod 257 < 257" by simp_all
  ultimately have "1 \<le> u mod 257" "u mod 257 \<le> 256" by linarith+
  then have "u mod 257 \<in> set gf_units" by (simp add: set_gf_units)
  with inv have "find (\<lambda>b. b * a mod 257 = 1) gf_units \<noteq> None"
    by (auto simp: find_None_iff)
  then show ?thesis by (auto simp: gf_inv_def dest: find_SomeD)
qed

lemma gf_inv_range: "gf_inv a \<in> {0..<257}"
  by (auto simp: gf_inv_def set_gf_units split: option.splits dest: find_SomeD)

instantiation gf257 :: field
begin

lift_definition zero_gf257 :: gf257 is 0 by simp
lift_definition one_gf257 :: gf257 is 1 by simp
lift_definition plus_gf257 :: "gf257 \<Rightarrow> gf257 \<Rightarrow> gf257" is "\<lambda>a b. (a + b) mod 257" by simp
lift_definition minus_gf257 :: "gf257 \<Rightarrow> gf257 \<Rightarrow> gf257" is "\<lambda>a b. (a - b) mod 257" by simp
lift_definition uminus_gf257 :: "gf257 \<Rightarrow> gf257" is "\<lambda>a. (- a) mod 257" by simp
lift_definition times_gf257 :: "gf257 \<Rightarrow> gf257 \<Rightarrow> gf257" is "\<lambda>a b. (a * b) mod 257" by simp
lift_definition inverse_gf257 :: "gf257 \<Rightarrow> gf257" is gf_inv
  by (rule gf_inv_range)
definition divide_gf257 :: "gf257 \<Rightarrow> gf257 \<Rightarrow> gf257" where "divide_gf257 a b = a * inverse b"

instance
proof
  fix a b c :: gf257
  show "a * b * c = a * (b * c)" by transfer (simp add: mod_mult_left_eq mod_mult_right_eq mult.assoc)
  show "a * b = b * a" by transfer (simp add: mult.commute)
  show "1 * a = a" by transfer simp
  show "a + b + c = a + (b + c)" by transfer (simp add: mod_add_left_eq mod_add_right_eq add.assoc)
  show "a + b = b + a" by transfer (simp add: add.commute)
  show "0 + a = a" by transfer simp
  show "- a + a = 0" by transfer (simp add: mod_add_left_eq)
  show "a - b = a + - b" by transfer (simp add: mod_add_right_eq)
  show "(a + b) * c = a * c + b * c" by transfer (simp add: mod_simps distrib_right)
  show "(0 :: gf257) \<noteq> 1" by transfer simp
  show "a \<noteq> 0 \<Longrightarrow> inverse a * a = 1"
    by transfer (auto intro: gf_inv_works)
  show "a div b = a * inverse b" by (simp add: divide_gf257_def)
  show "inverse (0 :: gf257) = 0" by transfer (auto simp: gf_inv_def set_gf_units split: option.splits dest: find_SomeD)
qed

end

definition gf_of_bytes :: "nat \<Rightarrow> bytes \<Rightarrow> gf257 option" where
  "gf_of_bytes k b = (if length b = k \<and> le_nat b < 257 then Some (of_nat (le_nat b)) else None)"

definition gf_bytes :: "nat \<Rightarrow> gf257 \<Rightarrow> bytes" where
  "gf_bytes k s = nat_le k (nat (gf_int s))"

definition gf_curve :: "(gf257, gf257) curve" where
  "gf_curve = \<lparr> generator = 1, smul = (*), reduce_bytes = (\<lambda>b. of_nat (le_nat b)),
     scalar_bytes = gf_bytes 32, scalar_from_repr = gf_of_bytes 32,
     point_bytes = gf_bytes 33, point_from_bytes = gf_of_bytes 33 \<rparr>"

lemma nat_le_le_nat: "nat_le (length b) (le_nat b) = b"
proof (induction b)
  case (Cons x b)
  have "unat x < 256" using unat_bounded [of x] by simp
  with Cons show ?case by simp
qed simp

lemma gf_int_of_nat: "gf_int (of_nat n) = int n mod 257"
  by (induction n) (simp_all add: zero_gf257.rep_eq one_gf257.rep_eq plus_gf257.rep_eq mod_simps)

lemma gf_int_bounds: "0 \<le> gf_int s" "gf_int s < 257"
  using gf_int [of s] by simp_all

lemma of_nat_gf_int: "of_nat (nat (gf_int s)) = s"
proof -
  have "gf_int (of_nat (nat (gf_int s))) = gf_int s"
    using gf_int_bounds [of s] unfolding gf_int_of_nat by simp
  then show ?thesis by (simp only: gf_int_inject)
qed

lemma gf_bytes_decode:
  assumes "2 \<le> k"
  shows "gf_of_bytes k (gf_bytes k s) = Some s"
proof -
  have "nat (gf_int s) < 257" using gf_int_bounds [of s] by simp
  then have "nat (gf_int s) < 256 ^ 2" by simp
  also have "(256 :: nat) ^ 2 \<le> 256 ^ k" using assms by (intro power_increasing) simp_all
  finally have "nat (gf_int s) < 256 ^ k" .
  then have "le_nat (gf_bytes k s) = nat (gf_int s)"
    by (simp add: gf_bytes_def le_nat_nat_le)
  then show ?thesis
    using \<open>nat (gf_int s) < 257\<close> by (simp add: gf_of_bytes_def of_nat_gf_int) (simp add: gf_bytes_def)
qed

lemma gf_bytes_canonical: "gf_of_bytes k b = Some s \<Longrightarrow> b = gf_bytes k s"
  using nat_le_le_nat [of b]
  by (auto simp: gf_of_bytes_def gf_bytes_def gf_int_of_nat nat_mod_distrib split: if_splits)

lemma gf_curve_laws: "p256_laws gf_curve"
proof -
  have "(of_nat x :: gf257) = of_nat y \<Longrightarrow> x = y" if "x < 256" "y < 256" for x y :: nat
    using that by (simp add: gf_int_inject [symmetric] gf_int_of_nat flip: of_nat_mod) 
  then show ?thesis
    by (auto simp: p256_laws_def gf_curve_def distrib_left mult.assoc gf_bytes_decode
        dest: gf_bytes_canonical) (simp_all add: gf_bytes_def)
qed

section \<open>The sharing interface\<close>

text \<open>What the handlers that split and combine a redeem secret rely on: a quorum of issued shares
  gives the secret back, and nothing else is ever accepted.\<close>

locale verifiable_sharing =
  fixes lawful :: "'c \<Rightarrow> bool"
    and split_op :: "'c \<Rightarrow> 'r \<Rightarrow> 's \<Rightarrow> 't \<Rightarrow> 'n \<Rightarrow> 'e + 'res"
    and recon :: "'c \<Rightarrow> 'sh list \<Rightarrow> 't \<Rightarrow> 'cm \<Rightarrow> 'e + 's"
    and issued :: "'res \<Rightarrow> 'sh list" and commits :: "'res \<Rightarrow> 'cm"
    and canonical :: "'c \<Rightarrow> 's \<Rightarrow> 's" and pos :: "'sh \<Rightarrow> 'x" and need :: "'t \<Rightarrow> nat"
  assumes complete: "\<lbrakk> lawful c; split_op c rnd s t n = Inr r; set ss \<subseteq> set (issued r);
      distinct (map pos ss); need t \<le> length ss \<rbrakk> \<Longrightarrow> recon c ss t (commits r) = Inr (canonical c s)"
    and sound: "\<lbrakk> lawful c; split_op c rnd s t n = Inr r; recon c ss t (commits r) = Inr out \<rbrakk>
      \<Longrightarrow> out = canonical c s \<and> need t \<le> length ss \<and> distinct (map pos ss)"
begin

lemma quorum_value:
  "\<lbrakk> lawful c; split_op c rnd s t n = Inr r; set ss \<subseteq> set (issued r) \<rbrakk> \<Longrightarrow>
    recon c ss t (commits r) = Inr out \<longleftrightarrow>
      out = canonical c s \<and> need t \<le> length ss \<and> distinct (map pos ss)"
  using complete sound by metis

lemma below_quorum:
  "\<lbrakk> lawful c; split_op c rnd s t n = Inr r; length ss < need t \<rbrakk> \<Longrightarrow>
    recon c ss t (commits r) \<noteq> Inr out"
  using sound by (metis not_le)

end

interpretation feldman: verifiable_sharing p256_laws split reconstruct split_shares
  split_commitments canonical_secret_bytes share_x "unat :: byte \<Rightarrow> nat"
proof (unfold_locales, goal_cases)
  case (1 c rnd s t n r ss)
  then show ?case by (intro split_reconstruct)
next
  case (2 c rnd s t n r ss out)
  then show ?case by (simp add: split_reconstruct_iff)
qed

section \<open>Properties\<close>

text \<open>C13 (reconstruction is exact).  Against the commitments of a split, \<open>reconstruct\<close> succeeds
  exactly on at least \<open>threshold\<close> shares with distinct positions that all lie on the split's
  polynomial, and then returns the canonical form of the split secret: no quorum is refused, no
  tampered share is accepted and no other value is ever returned.\<close>

theorem reconstruction_exact:
  assumes "p256_laws C" "split C rnd secret t n = Inr r"
  shows "reconstruct C ss t (split_commitments r) = Inr out \<longleftrightarrow>
    unat t \<le> length ss \<and> distinct (map share_x ss) \<and>
    (\<forall>s \<in> set ss. s = make_share C (split_coeffs C rnd secret t) (share_x s)) \<and>
    out = canonical_secret_bytes C secret"
  using assms by (rule split_reconstruct_iff)

theorem reconstruction_exact_witness:
  "reconstruct gf_curve
     (map (make_share gf_curve (split_coeffs gf_curve (\<lambda>_. 5) (replicate 32 7) 2)) [3, 1]) 2
     (split_commitments (projr (split gf_curve (\<lambda>_. 5) (replicate 32 7) 2 3))) =
   Inr (canonical_secret_bytes gf_curve (replicate 32 7))"
proof -
  have "split gf_curve (\<lambda>_. 5) (replicate 32 7) 2 3 =
      Inr (projr (split gf_curve (\<lambda>_. 5) (replicate 32 7) 2 3))"
    by (simp add: split_def Let_def)
  from reconstruction_exact [OF gf_curve_laws this] show ?thesis by simp
qed

text \<open>Any quorum of issued shares.  A split issues one share at each position from 1 to
  \<open>num_shares\<close>; a selection of issued shares reconstructs exactly if it has \<open>threshold\<close> or more
  distinct positions, and every quorum gives the same value.\<close>

lemma issued_quorum:
  assumes "p256_laws C" "split C rnd secret t n = Inr r" "set ss \<subseteq> set (split_shares r)"
  shows "map (unat \<circ> share_x) (split_shares r) = [1..<Suc (unat n)] \<and>
    (reconstruct C ss t (split_commitments r) = Inr out \<longleftrightarrow>
       out = canonical_secret_bytes C secret \<and> unat t \<le> length ss \<and> distinct (map share_x ss))"
  using split_positions [OF assms(2)] feldman.quorum_value [OF assms] by simp

lemma issued_quorum_witness:
  "reconstruct gf_curve (drop 1 (split_shares (projr (split gf_curve (\<lambda>_. 5) (replicate 32 7) 2 3)))) 2
     (split_commitments (projr (split gf_curve (\<lambda>_. 5) (replicate 32 7) 2 3))) =
   Inr (canonical_secret_bytes gf_curve (replicate 32 7))"
proof -
  have "split gf_curve (\<lambda>_. 5) (replicate 32 7) 2 3 =
      Inr (projr (split gf_curve (\<lambda>_. 5) (replicate 32 7) 2 3))"
    by (simp add: split_def Let_def)
  from issued_quorum [OF gf_curve_laws this set_drop_subset, of 1] show ?thesis
    by (simp add: split_def Let_def upt_rec)
qed

text \<open>C15 (the interpolation loop computes Lagrange's formula).  The loop that accumulates numerators and denominators share by
  share and inverts each denominator equals the textbook formula for the value at zero of the polynomial through the
  shares; it reports duplicate shares exactly when two positions coincide, and no inversion fails otherwise.\<close>

theorem lagrange_loop_reference:
  fixes C :: "('f :: field, 'g :: ab_group_add) curve" and ys :: "'f list"
  assumes "p256_laws C"
  shows "lagrange_loop ss ys [0..<length ss] 0 =
    (if distinct (map share_x ss)
     then Inr (\<Sum>i<length ss. ys ! i * (\<Prod>j\<in>{..<length ss} - {i}. scalar_from_x (share_x (ss ! j)) /
       (scalar_from_x (share_x (ss ! j)) - scalar_from_x (share_x (ss ! i)))))
     else Inl DuplicateShares)"
  using lagrange_loop_at [OF assms, of ss ys]
  by (simp add: lagrange_at_def prod_dividef) (simp add: divide_inverse mult.assoc)

theorem lagrange_loop_reference_witness:
  "lagrange_loop [\<lparr> share_x = 3, share_y = [] \<rparr>, \<lparr> share_x = 1, share_y = [] \<rparr>] [22, 12 :: gf257] [0..<2] 0 =
     Inr (22 * (1 / (1 - 3)) + 12 * (3 / (3 - 1)))"
proof -
  let ?ss = "[\<lparr> share_x = 3, share_y = [] \<rparr>, \<lparr> share_x = 1, share_y = [] \<rparr>]"
  have "{..<2 :: nat} = {0, 1}" "{0, 1} - {0} = {1 :: nat}" "{0, 1} - {1} = {0 :: nat}" by auto
  moreover have "length ?ss = 2" by simp
  note lagrange_loop_reference [OF gf_curve_laws, of ?ss "[22, 12]", unfolded this]
  ultimately show ?thesis by (simp add: scalar_from_x_def del: lagrange_loop.simps)
qed

text \<open>C14 (fewer than threshold shares reveal nothing).  For every set of fewer than \<open>threshold\<close>
  positions and every other secret there is randomness for which splitting that other secret issues
  exactly the same shares at those positions.\<close>

theorem below_threshold_reveals_nothing:
  assumes "p256_laws C" "split C rnd secret t n = Inr r" "card X < unat t"
  shows "\<exists>rnd' r'. split C rnd' secret' t n = Inr r' \<and>
    filter (\<lambda>s. share_x s \<in> X) (split_shares r') = filter (\<lambda>s. share_x s \<in> X) (split_shares r)"
proof -
  let ?cs = "split_coeffs C rnd secret t"
  from assms(2) have t: "1 \<le> t" "t \<le> n" by (auto simp: split_Inr_iff)
  obtain ds where ds: "length ds = unat t" "hd ds = secret_scalar_from_bytes C secret'"
    and same: "\<And>x. x \<in> X - {0} \<Longrightarrow> make_share C ds x = make_share C ?cs x"
    using alternative_shares [OF assms(1), of X ?cs "secret_scalar_from_bytes C secret'"] assms(3)
      length_split_coeffs [OF t(1), of C rnd secret] by metis
  obtain r' where r': "split C ((!) ds) secret' t n = Inr r'"
    using t unfolding split_Inr_iff by blast
  have "split_coeffs C ((!) ds) secret' t = ds" using split_coeffs_surj ds t by blast
  then have "split_shares r' = map (make_share C ds) (map word_of_nat [1..<Suc (unat n)])"
    using r' by (simp add: split_Inr_iff del: upt_Suc)
  moreover have "split_shares r = map (make_share C ?cs) (map word_of_nat [1..<Suc (unat n)])"
    using assms(2) by (simp add: split_Inr_iff del: upt_Suc)
  ultimately have "filter (\<lambda>s. share_x s \<in> X) (split_shares r') = filter (\<lambda>s. share_x s \<in> X) (split_shares r)"
    using same unat_position(2) [of _ n]
    by (auto simp: filter_map comp_def simp del: upt_Suc intro!: map_cong)
  with r' show ?thesis by blast
qed

theorem below_threshold_reveals_nothing_witness:
  "\<exists>rnd' r'. split gf_curve rnd' (replicate 32 9) 2 3 = Inr r' \<and>
     filter (\<lambda>s. share_x s \<in> {2}) (split_shares r') =
     filter (\<lambda>s. share_x s \<in> {2}) (split_shares (projr (split gf_curve (\<lambda>_. 5) (replicate 32 7) 2 3)))"
proof -
  have "split gf_curve (\<lambda>_. 5) (replicate 32 7) 2 3 =
      Inr (projr (split gf_curve (\<lambda>_. 5) (replicate 32 7) 2 3))"
    by (simp add: split_def Let_def)
  from below_threshold_reveals_nothing [OF gf_curve_laws this, of "{2}"] show ?thesis by simp
qed

end
