(* ===== verification/Crypto_Config.thy ===== *)
theory Crypto_Config
  imports Transparency
begin

text \<open>
  Configuration of the crypto engine (\<open>secret_broker_impl/crypto_engine/config.rs\<close>) and the
  cryptographic crates the engine calls, as a further extension \<open>crypto_ext\<close> of the parameter record.
  The process environment is an argument of \<open>crypto_config_from_env\<close>.  Error values carry the fixed
  part of the message.
\<close>

section \<open>Configuration\<close>

record ServerConfig =
  srv_bind_address :: string
  srv_grpc_port :: "16 word"
  srv_http_port :: "16 word"
  srv_metrics_port :: "16 word"
  srv_max_connections :: "32 word"
  srv_connection_timeout_seconds :: "64 word"

record KeyManagementConfig =
  kmc_key_size_bits :: nat
  kmc_key_rotation_enabled :: bool
  kmc_rotation_interval_hours :: "64 word"
  kmc_key_backup_enabled :: bool
  kmc_max_keys_per_customer :: "32 word"
  kmc_key_encryption_algorithm :: string
  kmc_key_storage_backend :: string

record QuantumCryptoConfig =
  qcc_enabled :: bool
  qcc_default_algorithm :: string
  qcc_supported_algorithms :: "string list"
  qcc_key_exchange_enabled :: bool
  qcc_signature_enabled :: bool
  qcc_hybrid_mode_enabled :: bool
  qcc_sealed_store_path :: string

record HsmConfig =
  hsm_enabled :: bool
  hsm_type :: string

record PerformanceConfig =
  prf_max_concurrent_operations :: "32 word"
  prf_operation_timeout_seconds :: "64 word"
  prf_memory_limit_mb :: "64 word"
  prf_enable_parallel_processing :: bool
  prf_thread_pool_size :: "32 word"
  prf_cache_enabled :: bool
  prf_cache_size_mb :: "32 word"

record SecurityPoliciesConfig =
  sec_minimum_key_strength_bits :: nat
  sec_enforce_key_rotation :: bool
  sec_allowed_algorithms :: "string list"
  sec_max_data_size_mb :: "32 word"
  sec_rate_limiting_enabled :: bool
  sec_max_operations_per_minute :: "32 word"
  sec_audit_logging_enabled :: bool
  sec_fips_compliance_mode :: bool

record MonitoringConfig =
  mon_metrics_enabled :: bool
  mon_metrics_collection_interval_seconds :: "64 word"
  mon_health_check_enabled :: bool
  mon_health_check_interval_seconds :: "64 word"
  mon_log_level :: string
  mon_audit_logging_enabled :: bool
  mon_performance_monitoring_enabled :: bool

record CryptoConfig =
  cfg_service_name :: string
  cfg_service_version :: string
  cfg_server :: ServerConfig
  cfg_key_management :: KeyManagementConfig
  cfg_quantum_crypto :: QuantumCryptoConfig
  cfg_hsm :: HsmConfig
  cfg_performance :: PerformanceConfig
  cfg_security_policies :: SecurityPoliciesConfig
  cfg_monitoring :: MonitoringConfig

type_synonym environment = "string \<Rightarrow> string option"

definition env_or :: "environment \<Rightarrow> string \<Rightarrow> string \<Rightarrow> string" where
  "env_or env key dflt = (case env key of Some v \<Rightarrow> v | None \<Rightarrow> dflt)"

text \<open>\<open>env::var(k).ok().and_then(|v| v.parse().ok()).unwrap_or(d)\<close> at the unsigned types and at
  \<open>bool\<close>.\<close>

definition env_uint :: "environment \<Rightarrow> string \<Rightarrow> 'w :: len word \<Rightarrow> 'w word" where
  "env_uint env key dflt =
     (case Option.bind (env key) (parse_uint (2 ^ LENGTH('w) - 1)) of
        Some n \<Rightarrow> word_of_nat n
      | None \<Rightarrow> dflt)"

definition parse_bool :: "string \<Rightarrow> bool option" where
  "parse_bool s = (if s = ''true'' then Some True else if s = ''false'' then Some False else None)"

definition env_bool :: "environment \<Rightarrow> string \<Rightarrow> bool \<Rightarrow> bool" where
  "env_bool env key dflt =
     (case Option.bind (env key) parse_bool of Some b \<Rightarrow> b | None \<Rightarrow> dflt)"

text \<open>The version is the crate's version at build time.\<close>

definition crypto_config_from_env :: "string \<Rightarrow> environment \<Rightarrow> CryptoConfig" where
  "crypto_config_from_env version env =
    \<lparr> cfg_service_name = ''crypto-engine'', cfg_service_version = version,
      cfg_server =
        \<lparr> srv_bind_address = env_or env ''CRYPTO_ENGINE_BIND_ADDRESS'' ''0.0.0.0'',
          srv_grpc_port = env_uint env ''CRYPTO_ENGINE_GRPC_PORT'' 50052,
          srv_http_port = env_uint env ''CRYPTO_ENGINE_HTTP_PORT'' 8085,
          srv_metrics_port = 9095, srv_max_connections = 1000, srv_connection_timeout_seconds = 30 \<rparr>,
      cfg_key_management =
        \<lparr> kmc_key_size_bits = 256, kmc_key_rotation_enabled = True, kmc_rotation_interval_hours = 24,
          kmc_key_backup_enabled = True,
          kmc_max_keys_per_customer = env_uint env ''CRYPTO_ENGINE_MAX_KEYS_PER_CUSTOMER'' 10000,
          kmc_key_encryption_algorithm = ''aes-256-gcm'', kmc_key_storage_backend = ''software'' \<rparr>,
      cfg_quantum_crypto =
        \<lparr> qcc_enabled = True, qcc_default_algorithm = ''kyber768'',
          qcc_supported_algorithms =
            [''kyber512'', ''kyber768'', ''kyber1024'', ''dilithium2'', ''dilithium3'', ''dilithium5''],
          qcc_key_exchange_enabled = True, qcc_signature_enabled = True, qcc_hybrid_mode_enabled = True,
          qcc_sealed_store_path =
            env_or env ''CRYPTO_ENGINE_SEALED_STORE_PATH'' ''/var/lib/secret-broker/crypto-engine/pq_keys.db'' \<rparr>,
      cfg_hsm =
        \<lparr> hsm_enabled = env_bool env ''CRYPTO_ENGINE_HSM_ENABLED'' False,
          hsm_type = env_or env ''CRYPTO_ENGINE_HSM_TYPE'' ''software'' \<rparr>,
      cfg_performance =
        \<lparr> prf_max_concurrent_operations = 100, prf_operation_timeout_seconds = 30, prf_memory_limit_mb = 1024,
          prf_enable_parallel_processing = True, prf_thread_pool_size = 4, prf_cache_enabled = True,
          prf_cache_size_mb = 256 \<rparr>,
      cfg_security_policies =
        \<lparr> sec_minimum_key_strength_bits = 128, sec_enforce_key_rotation = True,
          sec_allowed_algorithms =
            [''aes-256-gcm'', ''chacha20-poly1305'', ''xchacha20-poly1305'', ''kyber512'', ''kyber768'',
             ''kyber1024'', ''dilithium2'', ''dilithium3'', ''dilithium5''],
          sec_max_data_size_mb = 100, sec_rate_limiting_enabled = True, sec_max_operations_per_minute = 1000,
          sec_audit_logging_enabled = True,
          sec_fips_compliance_mode = env_bool env ''CRYPTO_ENGINE_FIPS_MODE'' False \<rparr>,
      cfg_monitoring =
        \<lparr> mon_metrics_enabled = True, mon_metrics_collection_interval_seconds = 60,
          mon_health_check_enabled = True, mon_health_check_interval_seconds = 30,
          mon_log_level = env_or env ''RUST_LOG'' ''info'', mon_audit_logging_enabled = True,
          mon_performance_monitoring_enabled = True \<rparr> \<rparr>"

definition known_policy_algorithm :: "string \<Rightarrow> bool" where
  "known_policy_algorithm a \<longleftrightarrow>
     a \<in> set [''aes-256-gcm'', ''chacha20-poly1305'', ''xchacha20-poly1305'', ''kyber512'', ''kyber768'',
             ''kyber1024'', ''dilithium2'', ''dilithium3'', ''dilithium5'']"

definition crypto_config_validate :: "CryptoConfig \<Rightarrow> anyhow + unit" where
  "crypto_config_validate c =
     rbind (ensure (128 \<le> kmc_key_size_bits (cfg_key_management c)) ''Key size must be at least 128 bits'') (\<lambda>_.
     rbind (ensure (kmc_max_keys_per_customer (cfg_key_management c) \<noteq> 0)
       ''max_keys_per_customer must be greater than zero'') (\<lambda>_.
     rbind (ensure (\<not> (qcc_enabled (cfg_quantum_crypto c) \<and>
         qcc_default_algorithm (cfg_quantum_crypto c) \<notin> set (qcc_supported_algorithms (cfg_quantum_crypto c))))
       ''Default quantum algorithm not in supported algorithms list'') (\<lambda>_.
     rbind (ensure (\<not> (hsm_enabled (cfg_hsm c) \<and> hsm_type (cfg_hsm c) \<noteq> ''software''))
       ''Unsupported HSM type'') (\<lambda>_.
     ensure (list_all known_policy_algorithm (sec_allowed_algorithms (cfg_security_policies c)))
       ''Unsupported algorithm in security policies''))))"

definition is_algorithm_allowed :: "CryptoConfig \<Rightarrow> string \<Rightarrow> bool" where
  "is_algorithm_allowed c algorithm \<longleftrightarrow> algorithm \<in> set (sec_allowed_algorithms (cfg_security_policies c))"

definition get_default_algorithm :: "CryptoConfig \<Rightarrow> string" where
  "get_default_algorithm c =
     (if qcc_enabled (cfg_quantum_crypto c) \<and> qcc_hybrid_mode_enabled (cfg_quantum_crypto c) then ''aes-256-gcm''
      else if qcc_enabled (cfg_quantum_crypto c) then qcc_default_algorithm (cfg_quantum_crypto c)
      else ''aes-256-gcm'')"

definition get_max_data_size :: "CryptoConfig \<Rightarrow> 64 word" where
  "get_max_data_size c = ucast (sec_max_data_size_mb (cfg_security_policies c)) * 1024 * 1024"

section \<open>Randomness\<close>

text \<open>The operating system generator as the stream of bytes it will return: \<open>fill\<close> is a call of
  \<open>fill_bytes\<close> and \<open>skip\<close> the stream after \<open>n\<close> bytes were drawn.\<close>

type_synonym rng = "nat \<Rightarrow> byte"

definition fill :: "rng \<Rightarrow> nat \<Rightarrow> bytes" where
  "fill g n = map g [0..<n]"

definition skip :: "nat \<Rightarrow> rng \<Rightarrow> rng" where
  "skip n g = (\<lambda>i. g (n + i))"

lemma length_fill [simp]: "length (fill g n) = n"
  by (simp add: fill_def)

section \<open>Parameters\<close>

text \<open>The AEAD ciphers take key, nonce, associated data and message; a call without associated data is
  one with the empty string.  ML-KEM and ML-DSA draw their randomness as an argument.\<close>

record KyberKeyPair =
  kyb_public_key :: bytes
  kyb_private_key :: bytes
  kyb_algorithm :: string
  kyb_key_id :: string
  kyb_created_at :: instant

record DilithiumKeyPair =
  dil_public_key :: bytes
  dil_private_key :: bytes
  dil_algorithm :: string
  dil_key_id :: string
  dil_created_at :: instant

record KeyRecord =
  kr_key_id :: string
  kr_algorithm :: string
  kr_ciphertext :: string
  kr_nonce :: string
  kr_created_at :: instant

record crypto_ext = log_ext +
  aes_seal :: "bytes \<Rightarrow> bytes \<Rightarrow> bytes \<Rightarrow> bytes \<Rightarrow> bytes option"
  aes_open :: "bytes \<Rightarrow> bytes \<Rightarrow> bytes \<Rightarrow> bytes \<Rightarrow> bytes option"
  chacha_seal :: "bytes \<Rightarrow> bytes \<Rightarrow> bytes \<Rightarrow> bytes \<Rightarrow> bytes option"
  chacha_open :: "bytes \<Rightarrow> bytes \<Rightarrow> bytes \<Rightarrow> bytes \<Rightarrow> bytes option"
  xchacha_seal :: "bytes \<Rightarrow> bytes \<Rightarrow> bytes \<Rightarrow> bytes \<Rightarrow> bytes option"
  xchacha_open :: "bytes \<Rightarrow> bytes \<Rightarrow> bytes \<Rightarrow> bytes \<Rightarrow> bytes option"
  mlkem_keygen :: "bytes \<Rightarrow> (bytes \<times> bytes) option"
  mlkem_encaps_key :: "bytes \<Rightarrow> bool"
  mlkem_encaps :: "bytes \<Rightarrow> bytes \<Rightarrow> (bytes \<times> bytes) option"
  mlkem_decaps_key :: "bytes \<Rightarrow> bool"
  mlkem_ciphertext :: "bytes \<Rightarrow> bool"
  mlkem_decaps :: "bytes \<Rightarrow> bytes \<Rightarrow> bytes option"
  mldsa_public :: "bytes \<Rightarrow> bytes"
  mldsa_sign :: "bytes \<Rightarrow> bytes \<Rightarrow> bytes option"
  mldsa_signature :: "bytes \<Rightarrow> bool"
  mldsa_verify :: "bytes \<Rightarrow> bytes \<Rightarrow> bytes \<Rightarrow> bool"
  blake3 :: "bytes \<Rightarrow> bytes"
  uuid_v4 :: "bytes \<Rightarrow> uuid"
  kyber_to_json :: "KyberKeyPair \<Rightarrow> anyhow + bytes"
  kyber_from_json :: "bytes \<Rightarrow> anyhow + KyberKeyPair"
  dilithium_to_json :: "DilithiumKeyPair \<Rightarrow> anyhow + bytes"
  dilithium_from_json :: "bytes \<Rightarrow> anyhow + DilithiumKeyPair"
  key_record_to_json :: "KeyRecord \<Rightarrow> anyhow + bytes"
  key_record_from_json :: "bytes \<Rightarrow> anyhow + KeyRecord"

text \<open>Correctness of the schemes, as FIPS 203, FIPS 204 and the AEAD interfaces state it: a sealed message
  opens under the same key, nonce and associated data; decapsulation recovers the encapsulated secret
  for a generated key pair; a signature made with a seed verifies under its public key; sizes are the
  standard ones; serde reads back what it wrote.\<close>

definition kem_laws :: "'z crypto_ext_scheme \<Rightarrow> bool" where
  "kem_laws E \<longleftrightarrow>
     (\<forall>r ek dk. mlkem_keygen E r = Some (ek, dk) \<longrightarrow>
        length ek = 1184 \<and> length dk = 2400 \<and> mlkem_encaps_key E ek \<and> mlkem_decaps_key E dk \<and>
        (\<forall>m ss ct. mlkem_encaps E ek m = Some (ss, ct) \<longrightarrow>
           length ss = 32 \<and> length ct = 1088 \<and> mlkem_ciphertext E ct \<and> mlkem_decaps E dk ct = Some ss))"

definition dsa_laws :: "'z crypto_ext_scheme \<Rightarrow> bool" where
  "dsa_laws E \<longleftrightarrow>
     (\<forall>seed. length (mldsa_public E seed) = 1952) \<and>
     (\<forall>seed msg sig. mldsa_sign E seed msg = Some sig \<longrightarrow>
        mldsa_signature E sig \<and> mldsa_verify E (mldsa_public E seed) sig msg)"

definition aead_laws :: "'z crypto_ext_scheme \<Rightarrow> bool" where
  "aead_laws E \<longleftrightarrow>
     (\<forall>k n a p c. aes_seal E k n a p = Some c \<longrightarrow> aes_open E k n a c = Some p) \<and>
     (\<forall>k n a p c. chacha_seal E k n a p = Some c \<longrightarrow> chacha_open E k n a c = Some p) \<and>
     (\<forall>k n a p c. xchacha_seal E k n a p = Some c \<longrightarrow> xchacha_open E k n a c = Some p)"

definition key_json_laws :: "'z crypto_ext_scheme \<Rightarrow> bool" where
  "key_json_laws E \<longleftrightarrow>
     (\<forall>x b. kyber_to_json E x = Inr b \<longrightarrow> kyber_from_json E b = Inr x) \<and>
     (\<forall>x b. dilithium_to_json E x = Inr b \<longrightarrow> dilithium_from_json E b = Inr x) \<and>
     (\<forall>x b. key_record_to_json E x = Inr b \<longrightarrow> key_record_from_json E b = Inr x)"

definition crypto_laws :: "'z crypto_ext_scheme \<Rightarrow> bool" where
  "crypto_laws E \<longleftrightarrow> kem_laws E \<and> dsa_laws E \<and> aead_laws E \<and> key_json_laws E \<and>
     (\<forall>r. length (uuid_v4 E r) = 16)"

definition crypto_available :: "'z crypto_ext_scheme \<Rightarrow> bool" where
  "crypto_available E \<longleftrightarrow>
     (\<forall>k n a p. aes_seal E k n a p \<noteq> None) \<and> (\<forall>k n a p. chacha_seal E k n a p \<noteq> None) \<and>
     (\<forall>k n a p. xchacha_seal E k n a p \<noteq> None) \<and>
     (\<forall>r. mlkem_keygen E r \<noteq> None) \<and> (\<forall>ek m. mlkem_encaps_key E ek \<longrightarrow> mlkem_encaps E ek m \<noteq> None) \<and>
     (\<forall>seed m. mldsa_sign E seed m \<noteq> None) \<and>
     (\<forall>x. is_ok (kyber_to_json E x)) \<and> (\<forall>x. is_ok (dilithium_to_json E x)) \<and>
     (\<forall>x. is_ok (key_record_to_json E x))"

section \<open>Facts\<close>

lemma crypto_availableD:
  assumes "crypto_available E"
  shows "\<exists>c. aes_seal E k n a p = Some c" "\<exists>c. chacha_seal E k n a p = Some c"
    "\<exists>c. xchacha_seal E k n a p = Some c" "\<exists>ek dk. mlkem_keygen E r = Some (ek, dk)"
    "mlkem_encaps_key E ek \<Longrightarrow> \<exists>ss ct. mlkem_encaps E ek m = Some (ss, ct)"
    "\<exists>sig. mldsa_sign E seed m = Some sig" "\<exists>b. kyber_to_json E x = Inr b"
    "\<exists>b. dilithium_to_json E y = Inr b" "\<exists>b. key_record_to_json E z = Inr b"
  using assms by (simp_all add: crypto_available_def is_ok_iff)

lemma from_env_allowed:
  "is_algorithm_allowed (crypto_config_from_env v env) a \<longleftrightarrow> known_policy_algorithm a"
  by (simp add: is_algorithm_allowed_def crypto_config_from_env_def known_policy_algorithm_def)

lemma validated_algorithms:
  "crypto_config_validate c = Inr () \<Longrightarrow> is_algorithm_allowed c a \<Longrightarrow> known_policy_algorithm a"
  by (auto simp: crypto_config_validate_def is_algorithm_allowed_def result_simps list_all_iff)

section \<open>A concrete instance\<close>

definition c_bytes :: "bytes codec" where
  "c_bytes = c_list c_byte"

definition c_kyber :: "KyberKeyPair codec" where
  "c_kyber = c_iso (\<lambda>k. (kyb_public_key k, kyb_private_key k, kyb_algorithm k, kyb_key_id k, kyb_created_at k))
     (\<lambda>(a, b, c, d, e). \<lparr> kyb_public_key = a, kyb_private_key = b, kyb_algorithm = c, kyb_key_id = d, kyb_created_at = e \<rparr>)
     (c_pair c_bytes (c_pair c_bytes (c_pair c_string (c_pair c_string c_int))))"

definition c_dilithium :: "DilithiumKeyPair codec" where
  "c_dilithium = c_iso (\<lambda>k. (dil_public_key k, dil_private_key k, dil_algorithm k, dil_key_id k, dil_created_at k))
     (\<lambda>(a, b, c, d, e). \<lparr> dil_public_key = a, dil_private_key = b, dil_algorithm = c, dil_key_id = d, dil_created_at = e \<rparr>)
     (c_pair c_bytes (c_pair c_bytes (c_pair c_string (c_pair c_string c_int))))"

definition c_key_record :: "KeyRecord codec" where
  "c_key_record = c_iso (\<lambda>k. (kr_key_id k, kr_algorithm k, kr_ciphertext k, kr_nonce k, kr_created_at k))
     (\<lambda>(a, b, c, d, e). \<lparr> kr_key_id = a, kr_algorithm = b, kr_ciphertext = c, kr_nonce = d, kr_created_at = e \<rparr>)
     (c_pair c_string (c_pair c_string (c_pair c_string (c_pair c_string c_int))))"

lemma faithful_key_material: "faithful c_kyber" "faithful c_dilithium" "faithful c_key_record"
  unfolding c_kyber_def c_dilithium_def c_key_record_def c_bytes_def
  by (intro faithful_iso faithful_intros; simp)+

definition pad_to :: "nat \<Rightarrow> bytes \<Rightarrow> bytes" where
  "pad_to n b = take n (b @ replicate n 0)"

lemma length_pad_to [simp]: "length (pad_to n b) = n"
  by (simp add: pad_to_def)

definition sample_seal :: "bytes \<Rightarrow> bytes \<Rightarrow> bytes \<Rightarrow> bytes \<Rightarrow> bytes option" where
  "sample_seal k n a p = Some (k @ n @ a @ p)"

definition sample_open :: "bytes \<Rightarrow> bytes \<Rightarrow> bytes \<Rightarrow> bytes \<Rightarrow> bytes option" where
  "sample_open k n a c = (if prefix (k @ n @ a) c then Some (drop (length (k @ n @ a)) c) else None)"

lemma sample_open_seal: "sample_seal k n a p = Some c \<Longrightarrow> sample_open k n a c = Some p"
  by (auto simp: sample_seal_def sample_open_def)

definition sample_crypto_fields where
  "sample_crypto_fields = crypto_ext.fields
     sample_seal sample_open sample_seal sample_open sample_seal sample_open
     (\<lambda>r. Some (pad_to 1184 r, pad_to 2400 r)) (\<lambda>ek. True)
     (\<lambda>ek m. Some (pad_to 32 m, pad_to 32 m @ replicate 1056 0)) (\<lambda>dk. True) (\<lambda>ct. True)
     (\<lambda>dk ct. Some (take 32 ct))
     (pad_to 1952) (\<lambda>seed m. Some (1 # m)) (\<lambda>sig. sig \<noteq> []) (\<lambda>pk sig m. sig = 1 # m)
     (\<lambda>b. pad_to 32 b) (pad_to 16)
     (\<lambda>x. Inr (fst c_kyber x)) (codec_parse c_kyber)
     (\<lambda>x. Inr (fst c_dilithium x)) (codec_parse c_dilithium)
     (\<lambda>x. Inr (fst c_key_record x)) (codec_parse c_key_record)"

definition sample_crypto :: crypto_ext where
  "sample_crypto = log_ext.extend sample_log sample_crypto_fields"

lemmas sample_crypto_defs = sample_crypto_def sample_crypto_fields_def log_ext.extend_def crypto_ext.fields_def

lemma sample_crypto_laws: "crypto_laws sample_crypto" "crypto_available sample_crypto"
  by (auto simp: crypto_laws_def kem_laws_def dsa_laws_def aead_laws_def key_json_laws_def
      crypto_available_def sample_crypto_defs sample_open_seal codec_parse_print faithful_key_material)
     (auto simp: sample_seal_def)

lemma sample_crypto_log: "log_laws sample_crypto" "events_serialise sample_crypto"
  using sample_log_laws by (simp_all add: log_laws_def events_serialise_def sample_crypto_defs)

lemma sample_crypto_store: "store_laws sample_crypto" "store_available sample_crypto"
  using sample_store_laws
  by (simp_all add: store_laws_def store_available_def b64_lossless_def sample_crypto_defs
      sample_log_def sample_log_fields_def store_ext.extend_def log_ext.fields_def)

section \<open>Properties\<close>

text \<open>Which environments are accepted.  The configuration read from the environment passes
  validation exactly when the key limit is not set to zero and no backend other than the software one
  is selected while hardware support is switched on; a limit that does not parse is the default.\<close>

lemma from_env_validates_iff:
  "crypto_config_validate (crypto_config_from_env version env) = Inr () \<longleftrightarrow>
     Option.bind (env ''CRYPTO_ENGINE_MAX_KEYS_PER_CUSTOMER'') (parse_uint (2 ^ 32 - 1)) \<noteq> Some 0 \<and>
     \<not> (Option.bind (env ''CRYPTO_ENGINE_HSM_ENABLED'') parse_bool = Some True \<and>
        env ''CRYPTO_ENGINE_HSM_TYPE'' \<notin> {None, Some ''software''})"
proof -
  have bound: "n < 2 ^ 32" if "parse_uint (2 ^ 32 - 1) s = Some n" for s n
    using that by (auto simp: parse_uint_def Let_def split: list.splits option.splits if_splits)
  have limit: "env_uint env key (10000 :: 32 word) \<noteq> 0 \<longleftrightarrow>
      Option.bind (env key) (parse_uint (2 ^ 32 - 1)) \<noteq> Some 0" for key
  proof (cases "Option.bind (env key) (parse_uint (2 ^ 32 - 1))")
    case None
    then show ?thesis by (simp add: env_uint_def)
  next
    case (Some n)
    then have "n < 2 ^ 32" using bound by (auto simp: bind_eq_Some_conv)
    then have "word_of_nat n = (0 :: 32 word) \<longleftrightarrow> n = 0"
      using nat_dvd_not_less [of n "2 ^ 32"] by (auto simp: word_of_nat_eq_0_iff)
    with Some show ?thesis by (simp add: env_uint_def)
  qed
  have hsm: "env_bool env key False \<longleftrightarrow> Option.bind (env key) parse_bool = Some True" for key
    by (simp add: env_bool_def split: option.split)
  have type: "env_or env key d = d \<longleftrightarrow> env key \<in> {None, Some d}" for key d
    by (auto simp: env_or_def split: option.split)
  have policies: "list_all known_policy_algorithm (sec_allowed_algorithms (cfg_security_policies
      (crypto_config_from_env version env)))"
    by (simp add: crypto_config_from_env_def known_policy_algorithm_def)
  show ?thesis
    using policies limit [of "''CRYPTO_ENGINE_MAX_KEYS_PER_CUSTOMER''"] hsm [of "''CRYPTO_ENGINE_HSM_ENABLED''"]
      type [of "''CRYPTO_ENGINE_HSM_TYPE''" "''software''"]
    unfolding crypto_config_validate_def crypto_config_from_env_def by (simp add: result_simps)
qed

end
