(* ===== verification/Key_Store.thy ===== *)
theory Key_Store
  imports Crypto_Config
begin

text \<open>
  The sealed key store of the crypto engine:
  \<open>secret_broker_impl/crypto_engine/sealed_key_store.rs\<close>.

  Key pairs are serialised, sealed with AES-256-GCM under the store's master key and kept in one of
  three sled trees.  \<open>store_keypair\<close> and \<open>load_keypair\<close> are the generic methods, which the code
  instantiates at the ML-KEM and ML-DSA key pairs; a generic key is stored without serialisation.
  A panic inside \<open>spawn_blocking\<close> surfaces as a join error.  The store is an instance of the
  record-store interface of the sealed envelope store.
\<close>

datatype key_tree = Kyber_tree | Dilithium_tree | Generic_tree

record SealedKeyStore =
  ks_tree :: "key_tree \<Rightarrow> tree"
  ks_master_key :: bytes

section \<open>Operations\<close>

definition ks_encrypt :: "'z store_ext_scheme \<Rightarrow> bytes \<Rightarrow> bytes \<Rightarrow> bytes \<Rightarrow> anyhow + (string \<times> string)" where
  "ks_encrypt E key nonce plaintext =
     rbind (ok_or ''failed to seal key material'' (aes_gcm_encrypt E key nonce plaintext))
       (\<lambda>ciphertext. Inr (b64_encode E ciphertext, b64_encode E nonce))"

definition decrypt_record :: "'z store_ext_scheme \<Rightarrow> bytes \<Rightarrow> KeyRecord \<Rightarrow> anyhow + bytes" where
  "decrypt_record E key r =
     rbind (ok_or ''failed to decode nonce from base64'' (b64_decode E (kr_nonce r))) (\<lambda>nonce.
     rbind (ok_or ''failed to decode ciphertext from base64'' (b64_decode E (kr_ciphertext r))) (\<lambda>ciphertext.
     if length nonce \<noteq> 12 then Inl ''task panicked''
     else ok_or ''failed to unseal key material'' (aes_gcm_decrypt E key nonce ciphertext)))"

definition insert_key_record ::
  "'z crypto_ext_scheme \<Rightarrow> key_tree \<Rightarrow> string \<Rightarrow> anyhow + KeyRecord \<Rightarrow> (SealedKeyStore, anyhow, unit) effect" where
  "insert_key_record E t key_id sealed s =
     (case rbind sealed (\<lambda>r.
           rbind (map_err (\<lambda>_. ''serializing encrypted record'') (key_record_to_json E r)) (\<lambda>data.
           tree_insert E (ks_tree s t) (as_bytes key_id) data)) of
        Inl e \<Rightarrow> (Inl e, s)
      | Inr u \<Rightarrow> (tree_flush E u, s\<lparr> ks_tree := (ks_tree s)(t := u) \<rparr>))"

definition store_keypair ::
  "'z crypto_ext_scheme \<Rightarrow> key_tree \<Rightarrow> ('a \<Rightarrow> anyhow + bytes) \<Rightarrow> bytes \<Rightarrow> string \<Rightarrow> string \<Rightarrow> instant \<Rightarrow> 'a
    \<Rightarrow> (SealedKeyStore, anyhow, unit) effect" where
  "store_keypair E t to_json nonce key_id algorithm created_at pair s =
     insert_key_record E t key_id
       (rbind (map_err (\<lambda>_. ''serializing key material'') (to_json pair)) (\<lambda>plaintext.
        rbind (ks_encrypt E (ks_master_key s) nonce plaintext) (\<lambda>(ciphertext, nonce_b64).
        Inr \<lparr> kr_key_id = key_id, kr_algorithm = algorithm, kr_ciphertext = ciphertext,
              kr_nonce = nonce_b64, kr_created_at = created_at \<rparr>))) s"

definition unseal_key ::
  "'z crypto_ext_scheme \<Rightarrow> (bytes \<Rightarrow> anyhow + 'a) \<Rightarrow> bytes \<Rightarrow> bytes \<Rightarrow> anyhow + 'a" where
  "unseal_key E from_json key data =
     rbind (map_err (\<lambda>_. ''deserializing encrypted record'') (key_record_from_json E data)) (\<lambda>r.
     rbind (decrypt_record E key r) (\<lambda>plaintext.
     map_err (\<lambda>_. ''deserializing key pair from sealed store'') (from_json plaintext)))"

definition load_keypair ::
  "'z crypto_ext_scheme \<Rightarrow> key_tree \<Rightarrow> (bytes \<Rightarrow> anyhow + 'a) \<Rightarrow> string \<Rightarrow> (SealedKeyStore, anyhow, 'a option) effect" where
  "load_keypair E t from_json key_id s =
     (rbind (tree_get E (ks_tree s t) (as_bytes key_id)) (\<lambda>v.
      case v of
        None \<Rightarrow> Inr None
      | Some data \<Rightarrow> rbind (unseal_key E from_json (ks_master_key s) data) (\<lambda>pair. Inr (Some pair))), s)"

definition store_kyber_keypair ::
  "'z crypto_ext_scheme \<Rightarrow> bytes \<Rightarrow> KyberKeyPair \<Rightarrow> (SealedKeyStore, anyhow, unit) effect" where
  "store_kyber_keypair E nonce pair =
     store_keypair E Kyber_tree (kyber_to_json E) nonce (kyb_key_id pair) (kyb_algorithm pair)
       (kyb_created_at pair) pair"

definition store_dilithium_keypair ::
  "'z crypto_ext_scheme \<Rightarrow> bytes \<Rightarrow> DilithiumKeyPair \<Rightarrow> (SealedKeyStore, anyhow, unit) effect" where
  "store_dilithium_keypair E nonce pair =
     store_keypair E Dilithium_tree (dilithium_to_json E) nonce (dil_key_id pair) (dil_algorithm pair)
       (dil_created_at pair) pair"

definition load_kyber_keypair ::
  "'z crypto_ext_scheme \<Rightarrow> string \<Rightarrow> (SealedKeyStore, anyhow, KyberKeyPair option) effect" where
  "load_kyber_keypair E = load_keypair E Kyber_tree (kyber_from_json E)"

definition load_dilithium_keypair ::
  "'z crypto_ext_scheme \<Rightarrow> string \<Rightarrow> (SealedKeyStore, anyhow, DilithiumKeyPair option) effect" where
  "load_dilithium_keypair E = load_keypair E Dilithium_tree (dilithium_from_json E)"

definition store_generic_key ::
  "'z crypto_ext_scheme \<Rightarrow> bytes \<Rightarrow> instant \<Rightarrow> string \<Rightarrow> string \<Rightarrow> bytes \<Rightarrow> (SealedKeyStore, anyhow, unit) effect" where
  "store_generic_key E nonce now key_id algorithm key_bytes s =
     insert_key_record E Generic_tree key_id
       (rbind (ks_encrypt E (ks_master_key s) nonce key_bytes) (\<lambda>(ciphertext, nonce_b64).
        Inr \<lparr> kr_key_id = key_id, kr_algorithm = algorithm, kr_ciphertext = ciphertext,
              kr_nonce = nonce_b64, kr_created_at = now \<rparr>)) s"

definition load_generic_key ::
  "'z crypto_ext_scheme \<Rightarrow> string \<Rightarrow> (SealedKeyStore, anyhow, (string \<times> bytes) option) effect" where
  "load_generic_key E key_id s =
     (rbind (tree_get E (ks_tree s Generic_tree) (as_bytes key_id)) (\<lambda>v.
      case v of
        None \<Rightarrow> Inr None
      | Some data \<Rightarrow>
          rbind (map_err (\<lambda>_. ''deserializing encrypted record'') (key_record_from_json E data)) (\<lambda>r.
          rbind (decrypt_record E (ks_master_key s) r) (\<lambda>plaintext.
          Inr (Some (kr_algorithm r, plaintext))))), s)"

text \<open>The inner result of the blocking task is bound to \<open>_\<close>: only a join error is reported.\<close>

definition delete_generic_key :: "'z crypto_ext_scheme \<Rightarrow> string \<Rightarrow> (SealedKeyStore, anyhow, unit) effect" where
  "delete_generic_key E key_id s =
     (case tree_remove E (ks_tree s Generic_tree) (as_bytes key_id) of
        Inl e \<Rightarrow> (Inr (), s)
      | Inr (old, u) \<Rightarrow> (Inr (), s\<lparr> ks_tree := (ks_tree s)(Generic_tree := u) \<rparr>))"

section \<open>The store as a record store\<close>

definition key_view ::
  "'z crypto_ext_scheme \<Rightarrow> key_tree \<Rightarrow> (bytes \<Rightarrow> anyhow + 'a) \<Rightarrow> SealedKeyStore \<Rightarrow> string \<rightharpoonup> 'a" where
  "key_view E t from_json s k =
     Option.bind (ks_tree s t (as_bytes k)) (\<lambda>d. ok_value (unseal_key E from_json (ks_master_key s) d))"

definition kyber_view :: "'z crypto_ext_scheme \<Rightarrow> SealedKeyStore \<Rightarrow> string \<rightharpoonup> KyberKeyPair" where
  "kyber_view E = key_view E Kyber_tree (kyber_from_json E)"

definition key_store_laws :: "'z crypto_ext_scheme \<Rightarrow> bool" where
  "key_store_laws E \<longleftrightarrow> store_laws E \<and> key_json_laws E"

lemma decrypt_sealed:
  assumes "store_laws E" "nonce_ok n" "ks_encrypt E key n p = Inr (c, m)"
    and "kr_ciphertext r = c" "kr_nonce r = m"
  shows "decrypt_record E key r = Inr p"
proof -
  from assms(3) obtain d where "aes_gcm_encrypt E key n p = Some d" "c = b64_encode E d" "m = b64_encode E n"
    by (auto simp: ks_encrypt_def result_simps)
  moreover have "aes_gcm_decrypt E key n d = Some p" "b64_lossless E"
    using assms(1) \<open>aes_gcm_encrypt E key n p = Some d\<close> unfolding store_laws_def by blast+
  ultimately show ?thesis using assms(2,4,5) by (simp add: decrypt_record_def)
qed

lemma insert_key_record_cases:
  assumes "store_laws E" "insert_key_record E t k sealed s = (q, s')"
  shows "(\<exists>e. q = Inl e) \<and> s' = s \<or>
    (\<exists>r d. sealed = Inr r \<and> key_record_to_json E r = Inr d \<and>
       s' = s\<lparr> ks_tree := (ks_tree s)(t := (ks_tree s t)(as_bytes k \<mapsto> d)) \<rparr>)"
proof (cases "rbind sealed (\<lambda>r. rbind (map_err (\<lambda>_. ''serializing encrypted record'') (key_record_to_json E r))
    (\<lambda>data. tree_insert E (ks_tree s t) (as_bytes k) data))")
  case (Inl e)
  with assms(2) show ?thesis by (auto simp: insert_key_record_def)
next
  case (Inr u)
  then obtain r d where r: "sealed = Inr r" "key_record_to_json E r = Inr d"
    and u: "tree_insert E (ks_tree s t) (as_bytes k) d = Inr u" by (auto simp: result_simps)
  from store_lawsD(2) [OF assms(1) u] Inr assms(2) r show ?thesis by (auto simp: insert_key_record_def)
qed

lemma store_keypair_cases:
  assumes "key_store_laws E" "nonce_ok n"
    and json: "\<And>x b. to_json x = Inr b \<Longrightarrow> from_json b = Inr x"
    and run: "store_keypair E t to_json n k a c pair s = (q, s')"
  shows "(\<exists>e. q = Inl e) \<and> s' = s \<or> key_view E t from_json s' = (key_view E t from_json s)(k \<mapsto> pair)"
proof -
  have laws: "store_laws E" "key_json_laws E" using assms(1) by (simp_all add: key_store_laws_def)
  from insert_key_record_cases [OF laws(1) run [unfolded store_keypair_def]]
  show ?thesis
  proof (elim disjE exE conjE)
    fix r d
    assume r: "rbind (map_err (\<lambda>_. ''serializing key material'') (to_json pair)) (\<lambda>plaintext.
        rbind (ks_encrypt E (ks_master_key s) n plaintext) (\<lambda>(ciphertext, nonce_b64).
        Inr \<lparr> kr_key_id = k, kr_algorithm = a, kr_ciphertext = ciphertext, kr_nonce = nonce_b64,
              kr_created_at = c \<rparr>)) = Inr r"
      and d: "key_record_to_json E r = Inr d"
      and s': "s' = s\<lparr> ks_tree := (ks_tree s)(t := (ks_tree s t)(as_bytes k \<mapsto> d)) \<rparr>"
    from r obtain p x m where p: "to_json pair = Inr p" and x: "ks_encrypt E (ks_master_key s) n p = Inr (x, m)"
      and "kr_ciphertext r = x" "kr_nonce r = m" by (auto simp: result_simps)
    from decrypt_sealed [OF laws(1) assms(2) x] this(3,4)
    have "decrypt_record E (ks_master_key s) r = Inr p" by simp
    moreover have "key_record_from_json E d = Inr r" using laws(2) d unfolding key_json_laws_def by blast
    ultimately have "unseal_key E from_json (ks_master_key s) d = Inr pair"
      using json [OF p] by (simp add: unseal_key_def)
    then show ?thesis using s' by (auto simp: key_view_def fun_eq_iff)
  qed blast
qed

lemma load_keypair_view:
  assumes "store_laws E" "load_keypair E t from_json k s = (q, s')"
  shows "s' = s" and "q = Inr found \<Longrightarrow> found = key_view E t from_json s k"
proof -
  from assms(2) show "s' = s" by (simp add: load_keypair_def)
  assume "q = Inr found"
  with assms(2) obtain v where v: "tree_get E (ks_tree s t) (as_bytes k) = Inr v"
    and found: "(case v of None \<Rightarrow> Inr None
      | Some d \<Rightarrow> rbind (unseal_key E from_json (ks_master_key s) d) (\<lambda>p. Inr (Some p))) = Inr found"
    by (auto simp: load_keypair_def result_simps)
  from store_lawsD(1) [OF assms(1) v] found show "found = key_view E t from_json s k"
    by (cases "ks_tree s t (as_bytes k)") (auto simp: key_view_def result_simps)
qed

text \<open>The ML-KEM keys are what decryption relies on: they satisfy the contract of the record-store
  interface, with the algorithm name and creation time as the label of a write.\<close>

definition put_kyber ::
  "'z crypto_ext_scheme \<Rightarrow> string \<times> instant \<Rightarrow> bytes \<Rightarrow> string \<Rightarrow> KyberKeyPair \<Rightarrow> (SealedKeyStore, anyhow, unit) effect" where
  "put_kyber E w n k = store_keypair E Kyber_tree (kyber_to_json E) n k (fst w) (snd w)"

lemma put_kyber_cases:
  assumes "key_store_laws E" "nonce_ok n" "put_kyber E w n k p s = (q, s')"
  shows "(\<exists>e. q = Inl e) \<and> s' = s \<or> kyber_view E s' = (kyber_view E s)(k \<mapsto> p)"
  unfolding kyber_view_def
  by (rule store_keypair_cases [OF assms(1,2) _ assms(3) [unfolded put_kyber_def]])
     (use assms(1) in \<open>auto simp: key_store_laws_def key_json_laws_def\<close>)

interpretation kyber_keys: record_store key_store_laws "\<lambda>n :: bytes. nonce_ok n" kyber_view
  load_kyber_keypair put_kyber
proof (unfold_locales, goal_cases)
  case (1 e h s q s') then show ?case
    using load_keypair_view(1) [of e] by (auto simp: key_store_laws_def load_kyber_keypair_def)
next
  case (2 e h s f s') then show ?case
    using load_keypair_view(2) [of e Kyber_tree "kyber_from_json e" h s "Inr f" s' f]
    by (simp add: key_store_laws_def load_kyber_keypair_def kyber_view_def)
next
  case (3 e n w h r s u s') then show ?case using put_kyber_cases [of e n w h r s "Inr u" s'] by auto
next
  case (4 e n w h r s x s') then show ?case using put_kyber_cases [of e n w h r s "Inl x" s'] by auto
qed

lemma store_kyber_put: "store_kyber_keypair E n p = put_kyber E (kyb_algorithm p, kyb_created_at p) n (kyb_key_id p) p"
  by (simp add: store_kyber_keypair_def put_kyber_def)

lemma other_tree_view:
  assumes "store_laws E" "store_keypair E t to_json n k a c pair s = (q, s')" "u \<noteq> t"
  shows "key_view E u from_json s' = key_view E u from_json s"
  using insert_key_record_cases [OF assms(1) assms(2) [unfolded store_keypair_def]] assms(3)
  by (auto simp: key_view_def fun_eq_iff)

lemma store_keypair_available:
  assumes "store_available E" "crypto_available E" "\<And>x. is_ok (to_json x)"
  obtains s' where "store_keypair E t to_json n k a c pair s = (Inr (), s')"
proof -
  obtain p where p: "to_json pair = Inr p" using assms(3) unfolding is_ok_iff by blast
  obtain x where x: "aes_gcm_encrypt E (ks_master_key s) n p = Some x"
    using assms(1) unfolding store_available_def by blast
  define r where "r = \<lparr> kr_key_id = k, kr_algorithm = a, kr_ciphertext = b64_encode E x,
    kr_nonce = b64_encode E n, kr_created_at = c \<rparr>"
  obtain d where d: "key_record_to_json E r = Inr d" using crypto_availableD(9) [OF assms(2)] by blast
  obtain u where u: "tree_insert E (ks_tree s t) (as_bytes k) d = Inr u"
    using assms(1) unfolding store_available_def is_ok_iff by blast
  have "tree_flush E u = Inr ()" using assms(1) by (simp add: store_available_def is_ok_iff)
  with p x d u that show ?thesis
    by (simp add: store_keypair_def insert_key_record_def ks_encrypt_def r_def)
qed

lemma load_keypair_available:
  assumes "store_laws E" "store_available E" "key_view E t from_json s k = Some p"
  shows "load_keypair E t from_json k s = (Inr (Some p), s)"
proof -
  obtain v where v: "tree_get E (ks_tree s t) (as_bytes k) = Inr v"
    using assms(2) unfolding store_available_def is_ok_iff by blast
  from store_lawsD(1) [OF assms(1) v] assms(3) v show ?thesis
    by (cases "ks_tree s t (as_bytes k)"; cases "unseal_key E from_json (ks_master_key s) (the (ks_tree s t (as_bytes k)))")
       (auto simp: load_keypair_def key_view_def)
qed

definition sample_key_store :: SealedKeyStore where
  "sample_key_store = \<lparr> ks_tree = (\<lambda>t. Map.empty), ks_master_key = replicate 32 9 \<rparr>"

lemma sample_key_store_laws: "key_store_laws sample_crypto"
  using sample_crypto_store sample_crypto_laws by (simp add: key_store_laws_def crypto_laws_def)

definition sample_kyber :: KyberKeyPair where
  "sample_kyber = \<lparr> kyb_public_key = [1], kyb_private_key = [2], kyb_algorithm = ''mlkem768'',
     kyb_key_id = ''k'', kyb_created_at = 0 \<rparr>"

lemma sample_crypto_store_fields:
  "aes_gcm_encrypt sample_crypto k n p = Some (k @ p)" "tree_insert sample_crypto t h v = Inr (t(h \<mapsto> v))"
  "tree_flush sample_crypto t = Inr ()" "key_record_to_json sample_crypto r = Inr (fst c_key_record r)"
  by (simp_all add: sample_crypto_defs sample_log_def sample_log_fields_def store_ext.extend_def
      log_ext.fields_def sample_store_def sample_store_fields_def ext.extend_def store_ext.fields_def)

section \<open>Properties\<close>

text \<open>Generic keys round trip.  On a store whose parts do not fail, a generic key that was stored is
  loaded back with its algorithm label, also when an ML-KEM key pair is stored in between under any
  identifier, successfully or not, and after it is deleted it is no longer found.\<close>

lemma generic_key_roundtrip:
  assumes "key_store_laws E" "store_available E" "nonce_ok n"
    and "store_generic_key E n now k a b s = (Inr (), s1)"
    and "store_kyber_keypair E n' pair s1 = (q, s2)"
  shows "load_generic_key E k s2 = (Inr (Some (a, b)), s2) \<and>
    (\<exists>s3. delete_generic_key E k s2 = (Inr (), s3) \<and> load_generic_key E k s3 = (Inr None, s3))"
proof -
  have laws: "store_laws E" "key_json_laws E" using assms(1) by (simp_all add: key_store_laws_def)
  have get: "tree_get E t k = Inr (t k)" for t k
    using assms(2) store_lawsD(1) [OF laws(1)] unfolding store_available_def is_ok_iff by metis
  from insert_key_record_cases [OF laws(1) assms(4) [unfolded store_generic_key_def]] obtain r d where
    r: "rbind (ks_encrypt E (ks_master_key s) n b) (\<lambda>(ciphertext, nonce_b64).
        Inr \<lparr> kr_key_id = k, kr_algorithm = a, kr_ciphertext = ciphertext, kr_nonce = nonce_b64,
              kr_created_at = now \<rparr>) = Inr r"
    and d: "key_record_to_json E r = Inr d"
    and s1: "s1 = s\<lparr> ks_tree := (ks_tree s)(Generic_tree := (ks_tree s Generic_tree)(as_bytes k \<mapsto> d)) \<rparr>"
    by auto
  from r obtain x m where "ks_encrypt E (ks_master_key s) n b = Inr (x, m)"
    "kr_ciphertext r = x" "kr_nonce r = m" "kr_algorithm r = a" by (auto simp: result_simps)
  from decrypt_sealed [OF laws(1) assms(3) this(1-3)] this(4)
  have open_r: "decrypt_record E (ks_master_key s) r = Inr b" "kr_algorithm r = a" by simp_all
  have "key_record_from_json E d = Inr r" using laws(2) d unfolding key_json_laws_def by blast
  moreover have s2: "ks_tree s2 Generic_tree = ks_tree s1 Generic_tree" "ks_master_key s2 = ks_master_key s1"
    using insert_key_record_cases [OF laws(1) assms(5) [unfolded store_kyber_keypair_def store_keypair_def]] by auto
  ultimately have "load_generic_key E k s2 = (Inr (Some (a, b)), s2)"
    using open_r s1 by (simp add: load_generic_key_def get)
  moreover obtain old u where rem: "tree_remove E (ks_tree s2 Generic_tree) (as_bytes k) = Inr (old, u)"
    using assms(2) unfolding store_available_def is_ok_iff by (metis prod.exhaust)
  with store_lawsD(3) [OF laws(1) rem] have "\<exists>s3. delete_generic_key E k s2 = (Inr (), s3) \<and>
      load_generic_key E k s3 = (Inr None, s3)"
    by (simp add: delete_generic_key_def load_generic_key_def get)
  ultimately show ?thesis by blast
qed

lemma generic_key_roundtrip_witness:
  "\<exists>s1 q s2 s3. store_generic_key sample_crypto sample_nonce 5 ''k'' ''aes256'' [1, 2] sample_key_store = (Inr (), s1) \<and>
     store_kyber_keypair sample_crypto sample_nonce sample_kyber s1 = (q, s2) \<and>
     load_generic_key sample_crypto ''k'' s2 = (Inr (Some (''aes256'', [1, 2])), s2) \<and>
     delete_generic_key sample_crypto ''k'' s2 = (Inr (), s3) \<and>
     load_generic_key sample_crypto ''k'' s3 = (Inr None, s3)"
proof -
  obtain s1 where s1: "store_generic_key sample_crypto sample_nonce 5 ''k'' ''aes256'' [1, 2] sample_key_store = (Inr (), s1)"
    by (simp add: store_generic_key_def insert_key_record_def ks_encrypt_def sample_crypto_store_fields)
  obtain q s2 where s2: "store_kyber_keypair sample_crypto sample_nonce sample_kyber s1 = (q, s2)" by fastforce
  from generic_key_roundtrip [OF sample_key_store_laws sample_crypto_store(2) _ s1 s2] s1 s2
  show ?thesis by auto
qed

end
