(* ===== verification/Crypto_Engine.thy ===== *)
theory Crypto_Engine
  imports Key_Store
begin

text \<open>
  The symmetric engine: \<open>secret_broker_impl/crypto_engine/engine.rs\<close>, with the request and result types
  it shares with the post-quantum provider.

  The state is the in-memory key cache; a \<open>HashMap\<close> is an association list updated with
  \<open>AList.update\<close>.  Keys, key identifiers and nonces are drawn from the generator passed in.
\<close>

section \<open>Data\<close>

datatype EncryptionAlgorithm = Aes256Gcm | ChaCha20Poly1305 | XChaCha20Poly1305 | Kyber768

record EncryptionResult =
  enc_ciphertext :: bytes
  enc_nonce :: bytes
  enc_associated_data :: "bytes option"
  enc_algorithm :: string
  enc_key_id :: "string option"
  enc_exporter_binding :: "bytes option"

record DecryptionResult =
  dec_plaintext :: bytes
  dec_algorithm :: string
  dec_verified :: bool

record EncryptionRequest =
  ereq_id :: string
  ereq_data :: bytes
  ereq_algorithm :: EncryptionAlgorithm
  ereq_key_id :: "string option"
  ereq_associated_data :: "bytes option"
  ereq_customer_id :: string
  ereq_timestamp :: instant
  ereq_exporter_secret :: "bytes option"

record DecryptionRequest =
  dreq_id :: string
  dreq_encrypted_data :: bytes
  dreq_nonce :: "bytes option"
  dreq_algorithm :: EncryptionAlgorithm
  dreq_key_id :: string
  dreq_associated_data :: "bytes option"
  dreq_customer_id :: string
  dreq_timestamp :: instant
  dreq_exporter_secret :: "bytes option"

record EncryptionKey =
  ek_key_id :: string
  ek_key_data :: bytes
  ek_algorithm :: string
  ek_created_at :: instant
  ek_expires_at :: "instant option"

record CryptoEngine =
  eng_config :: CryptoConfig
  eng_key_cache :: "(string \<times> EncryptionKey) list"

section \<open>Ciphers\<close>

definition aad_of :: "bytes option \<Rightarrow> bytes" where
  "aad_of associated_data = (case associated_data of Some aad \<Rightarrow> aad | None \<Rightarrow> [])"

definition encrypt_aes256_gcm ::
  "'z crypto_ext_scheme \<Rightarrow> rng \<Rightarrow> bytes \<Rightarrow> EncryptionKey \<Rightarrow> bytes option \<Rightarrow> anyhow + EncryptionResult" where
  "encrypt_aes256_gcm E g plaintext key associated_data =
     rbind (ensure (length (ek_key_data key) = 32) ''Invalid key size for AES-256'') (\<lambda>_.
     let nonce_bytes = fill g 12 in
     rbind (ok_or ''AES-GCM encryption failed''
       (aes_seal E (ek_key_data key) nonce_bytes (aad_of associated_data) plaintext)) (\<lambda>ciphertext.
     Inr \<lparr> enc_ciphertext = nonce_bytes @ ciphertext, enc_nonce = nonce_bytes,
           enc_associated_data = associated_data, enc_algorithm = ''aes-256-gcm'',
           enc_key_id = Some (ek_key_id key), enc_exporter_binding = None \<rparr>))"

definition decrypt_aes256_gcm ::
  "'z crypto_ext_scheme \<Rightarrow> bytes \<Rightarrow> bytes \<Rightarrow> EncryptionKey \<Rightarrow> bytes option \<Rightarrow> anyhow + DecryptionResult" where
  "decrypt_aes256_gcm E ciphertext nonce key associated_data =
     rbind (ensure (length (ek_key_data key) = 32) ''Invalid key size for AES-256'') (\<lambda>_.
     rbind (ensure (length nonce = 12) ''Invalid nonce size for AES-256-GCM'') (\<lambda>_.
     rbind (ok_or ''AES-GCM decryption failed''
       (aes_open E (ek_key_data key) nonce (aad_of associated_data) ciphertext)) (\<lambda>plaintext.
     Inr \<lparr> dec_plaintext = plaintext, dec_algorithm = ''aes-256-gcm'', dec_verified = True \<rparr>)))"

definition encrypt_chacha20_poly1305 ::
  "'z crypto_ext_scheme \<Rightarrow> rng \<Rightarrow> bytes \<Rightarrow> EncryptionKey \<Rightarrow> bytes option \<Rightarrow> anyhow + EncryptionResult" where
  "encrypt_chacha20_poly1305 E g plaintext key associated_data =
     rbind (ensure (length (ek_key_data key) = 32) ''Invalid key size for ChaCha20-Poly1305'') (\<lambda>_.
     let nonce_bytes = fill g 12 in
     rbind (ok_or ''ChaCha20-Poly1305 encryption failed''
       (chacha_seal E (ek_key_data key) nonce_bytes (aad_of associated_data) plaintext)) (\<lambda>ciphertext.
     Inr \<lparr> enc_ciphertext = nonce_bytes @ ciphertext, enc_nonce = nonce_bytes,
           enc_associated_data = associated_data, enc_algorithm = ''chacha20-poly1305'',
           enc_key_id = Some (ek_key_id key), enc_exporter_binding = None \<rparr>))"

definition decrypt_chacha20_poly1305 ::
  "'z crypto_ext_scheme \<Rightarrow> bytes \<Rightarrow> bytes \<Rightarrow> EncryptionKey \<Rightarrow> bytes option \<Rightarrow> anyhow + DecryptionResult" where
  "decrypt_chacha20_poly1305 E ciphertext nonce key associated_data =
     rbind (ensure (length (ek_key_data key) = 32) ''Invalid key size for ChaCha20-Poly1305'') (\<lambda>_.
     rbind (ensure (length nonce = 12) ''Invalid nonce size for ChaCha20-Poly1305'') (\<lambda>_.
     rbind (ok_or ''ChaCha20-Poly1305 decryption failed''
       (chacha_open E (ek_key_data key) nonce (aad_of associated_data) ciphertext)) (\<lambda>plaintext.
     Inr \<lparr> dec_plaintext = plaintext, dec_algorithm = ''chacha20-poly1305'', dec_verified = True \<rparr>)))"

definition encrypt_xchacha20_poly1305 ::
  "'z crypto_ext_scheme \<Rightarrow> rng \<Rightarrow> bytes \<Rightarrow> EncryptionKey \<Rightarrow> bytes option \<Rightarrow> anyhow + EncryptionResult" where
  "encrypt_xchacha20_poly1305 E g plaintext key associated_data =
     rbind (ensure (length (ek_key_data key) = 32) ''Invalid key size for XChaCha20-Poly1305'') (\<lambda>_.
     let nonce_bytes = fill g 24 in
     rbind (ok_or ''XChaCha20-Poly1305 encryption failed''
       (xchacha_seal E (ek_key_data key) nonce_bytes (aad_of associated_data) plaintext)) (\<lambda>ciphertext.
     Inr \<lparr> enc_ciphertext = nonce_bytes @ ciphertext, enc_nonce = nonce_bytes,
           enc_associated_data = associated_data, enc_algorithm = ''xchacha20-poly1305'',
           enc_key_id = Some (ek_key_id key), enc_exporter_binding = None \<rparr>))"

definition decrypt_xchacha20_poly1305 ::
  "'z crypto_ext_scheme \<Rightarrow> bytes \<Rightarrow> bytes \<Rightarrow> EncryptionKey \<Rightarrow> bytes option \<Rightarrow> anyhow + DecryptionResult" where
  "decrypt_xchacha20_poly1305 E ciphertext nonce key associated_data =
     rbind (ensure (length (ek_key_data key) = 32) ''Invalid key size for XChaCha20-Poly1305'') (\<lambda>_.
     rbind (ensure (length nonce = 24) ''Invalid nonce size for XChaCha20-Poly1305'') (\<lambda>_.
     rbind (ok_or ''XChaCha20-Poly1305 decryption failed''
       (xchacha_open E (ek_key_data key) nonce (aad_of associated_data) ciphertext)) (\<lambda>plaintext.
     Inr \<lparr> dec_plaintext = plaintext, dec_algorithm = ''xchacha20-poly1305'', dec_verified = True \<rparr>)))"

section \<open>Requests\<close>

fun classical_name :: "EncryptionAlgorithm \<Rightarrow> anyhow + string" where
  "classical_name Aes256Gcm = Inr ''aes-256-gcm''"
| "classical_name ChaCha20Poly1305 = Inr ''chacha20-poly1305''"
| "classical_name XChaCha20Poly1305 = Inr ''xchacha20-poly1305''"
| "classical_name Kyber768 = Inl ''Unsupported algorithm''"

definition validate_encryption_request :: "CryptoConfig \<Rightarrow> EncryptionRequest \<Rightarrow> anyhow + unit" where
  "validate_encryption_request c req =
     rbind (ensure (length (ereq_data req) \<le> unat (get_max_data_size c)) ''Data size exceeds maximum allowed size'') (\<lambda>_.
     rbind (classical_name (ereq_algorithm req)) (\<lambda>algorithm_str.
     ensure (is_algorithm_allowed c algorithm_str) ''Algorithm not allowed''))"

definition validate_decryption_request :: "CryptoConfig \<Rightarrow> DecryptionRequest \<Rightarrow> anyhow + unit" where
  "validate_decryption_request c req =
     rbind (ensure (length (dreq_encrypted_data req) \<le> unat (get_max_data_size c))
       ''Encrypted data size exceeds maximum allowed size'') (\<lambda>_.
     rbind (classical_name (dreq_algorithm req)) (\<lambda>algorithm_str.
     ensure (is_algorithm_allowed c algorithm_str) ''Algorithm not allowed''))"

definition eng_get_key :: "string \<Rightarrow> (CryptoEngine, anyhow, EncryptionKey option) effect" where
  "eng_get_key key_id = sget (\<lambda>s. map_of (eng_key_cache s) key_id)"

definition eng_generate_key ::
  "'z crypto_ext_scheme \<Rightarrow> rng \<Rightarrow> instant \<Rightarrow> EncryptionAlgorithm \<Rightarrow> (CryptoEngine, anyhow, EncryptionKey) effect" where
  "eng_generate_key E g now algorithm s =
     (case map_err (\<lambda>_. ''Unsupported algorithm for key generation'') (classical_name algorithm) of
        Inl e \<Rightarrow> (Inl e, s)
      | Inr algorithm_name \<Rightarrow>
          let key_id = ''key_'' @ uuid_to_string E (uuid_v4 E (fill (skip 32 g) 16));
              key = \<lparr> ek_key_id = key_id, ek_key_data = fill g 32, ek_algorithm = algorithm_name,
                      ek_created_at = now, ek_expires_at = None \<rparr>
          in (Inr key, s\<lparr> eng_key_cache := AList.update key_id key (eng_key_cache s) \<rparr>))"

definition get_or_generate_key ::
  "'z crypto_ext_scheme \<Rightarrow> rng \<Rightarrow> instant \<Rightarrow> string option \<Rightarrow> EncryptionAlgorithm
    \<Rightarrow> (CryptoEngine, anyhow, EncryptionKey) effect" where
  "get_or_generate_key E g now key_id algorithm =
     (case key_id of
        None \<Rightarrow> eng_generate_key E g now algorithm
      | Some kid \<Rightarrow>
          sbind (eng_get_key kid) (\<lambda>found.
          case found of Some key \<Rightarrow> sret key | None \<Rightarrow> eng_generate_key E g now algorithm))"

definition eng_encrypt ::
  "'z crypto_ext_scheme \<Rightarrow> rng \<Rightarrow> EncryptionRequest \<Rightarrow> EncryptionKey \<Rightarrow> anyhow + EncryptionResult" where
  "eng_encrypt E g req key =
     (case ereq_algorithm req of
        Aes256Gcm \<Rightarrow> encrypt_aes256_gcm E g (ereq_data req) key (ereq_associated_data req)
      | ChaCha20Poly1305 \<Rightarrow> encrypt_chacha20_poly1305 E g (ereq_data req) key (ereq_associated_data req)
      | XChaCha20Poly1305 \<Rightarrow> encrypt_xchacha20_poly1305 E g (ereq_data req) key (ereq_associated_data req)
      | Kyber768 \<Rightarrow> Inl ''Unsupported algorithm for classical encryption'')"

text \<open>A fresh key takes the first 48 bytes of the generator, the nonce the bytes after them.\<close>

definition eng_process_encryption_request ::
  "'z crypto_ext_scheme \<Rightarrow> rng \<Rightarrow> instant \<Rightarrow> EncryptionRequest \<Rightarrow> (CryptoEngine, anyhow, EncryptionResult) effect" where
  "eng_process_encryption_request E g now req =
     sbind (slift (ensure (ereq_data req \<noteq> []) ''Encryption data cannot be empty'')) (\<lambda>_.
     sbind (sget eng_config) (\<lambda>c.
     sbind (slift (validate_encryption_request c req)) (\<lambda>_.
     sbind (get_or_generate_key E g now (ereq_key_id req) (ereq_algorithm req)) (\<lambda>key.
     sbind (slift (eng_encrypt E (skip 48 g) req key)) (\<lambda>result.
     sret (if enc_exporter_binding result = None
           then result\<lparr> enc_exporter_binding := ereq_exporter_secret req \<rparr> else result))))))"

definition eng_decrypt ::
  "'z crypto_ext_scheme \<Rightarrow> DecryptionRequest \<Rightarrow> EncryptionKey \<Rightarrow> anyhow + DecryptionResult" where
  "eng_decrypt E req key =
     (let nonce = take 12 (dreq_encrypted_data req); ciphertext = drop 12 (dreq_encrypted_data req) in
      case dreq_algorithm req of
        Aes256Gcm \<Rightarrow> decrypt_aes256_gcm E ciphertext nonce key (dreq_associated_data req)
      | ChaCha20Poly1305 \<Rightarrow> decrypt_chacha20_poly1305 E ciphertext nonce key (dreq_associated_data req)
      | XChaCha20Poly1305 \<Rightarrow> decrypt_xchacha20_poly1305 E ciphertext nonce key (dreq_associated_data req)
      | Kyber768 \<Rightarrow> Inl ''Unsupported algorithm for classical decryption'')"

definition eng_process_decryption_request ::
  "'z crypto_ext_scheme \<Rightarrow> instant \<Rightarrow> DecryptionRequest \<Rightarrow> (CryptoEngine, anyhow, DecryptionResult) effect" where
  "eng_process_decryption_request E now req =
     sbind (slift (ensure (dreq_exporter_secret req \<noteq> Some []) ''exporter_secret provided but empty'')) (\<lambda>_.
     sbind (sget eng_config) (\<lambda>c.
     sbind (slift (validate_decryption_request c req)) (\<lambda>_.
     sbind (eng_get_key (dreq_key_id req)) (\<lambda>found.
     sbind (slift (ok_or ''Key not found'' found)) (\<lambda>key.
     sbind (slift (ensure (\<not> (case ek_expires_at key of Some expires_at \<Rightarrow> now > expires_at | None \<Rightarrow> False))
       ''Key expired'')) (\<lambda>_.
     sbind (slift (ensure (12 \<le> length (dreq_encrypted_data req)) ''Invalid encrypted data format'')) (\<lambda>_.
     slift (eng_decrypt E req key))))))))"

section \<open>Facts\<close>

text \<open>Cached keys are 32 bytes long, filed under their own identifier and never expire.\<close>

definition engine_inv :: "CryptoEngine \<Rightarrow> bool" where
  "engine_inv s \<longleftrightarrow> (\<forall>k key. map_of (eng_key_cache s) k = Some key \<longrightarrow>
     ek_key_id key = k \<and> length (ek_key_data key) = 32 \<and> ek_expires_at key = None)"

lemma engine_inv_empty: "engine_inv \<lparr> eng_config = c, eng_key_cache = [] \<rparr>"
  by (simp add: engine_inv_def)

lemma generate_key_ok:
  assumes "eng_generate_key E g now a s = (Inr key, s')" "engine_inv s"
  shows "engine_inv s' \<and> map_of (eng_key_cache s') (ek_key_id key) = Some key \<and> eng_config s' = eng_config s"
proof -
  from assms(1) have "length (ek_key_data key) = 32" "ek_expires_at key = None"
    "s' = s\<lparr> eng_key_cache := AList.update (ek_key_id key) key (eng_key_cache s) \<rparr>"
    by (auto simp: eng_generate_key_def Let_def split: sum.splits)
  with assms(2) show ?thesis by (auto simp: engine_inv_def update_conv' split: if_splits)
qed

lemma get_or_generate_ok:
  assumes "get_or_generate_key E g now k a s = (Inr key, s')" "engine_inv s"
  shows "engine_inv s' \<and> map_of (eng_key_cache s') (ek_key_id key) = Some key \<and> eng_config s' = eng_config s"
proof (cases k)
  case None
  with assms generate_key_ok [of E g now a s key s'] show ?thesis by (simp add: get_or_generate_key_def)
next
  case (Some kid)
  show ?thesis
  proof (cases "map_of (eng_key_cache s) kid")
    case None
    with Some assms generate_key_ok [of E g now a s key s'] show ?thesis
      by (simp add: get_or_generate_key_def eng_get_key_def)
  next
    case (Some key')
    with assms \<open>k = Some kid\<close> show ?thesis
      by (auto simp: get_or_generate_key_def eng_get_key_def sret_def engine_inv_def)
  qed
qed

lemma get_or_generate_inv: "keeps engine_inv (get_or_generate_key E g now k a)"
proof (unfold keeps_def, intro allI impI)
  fix s r s' assume inv: "engine_inv s" and run: "get_or_generate_key E g now k a s = (r, s')"
  show "engine_inv s'"
  proof (cases r)
    case (Inr key)
    with run inv get_or_generate_ok show ?thesis by blast
  next
    case (Inl e)
    with run inv show ?thesis
      by (cases a) (auto simp: get_or_generate_key_def eng_generate_key_def eng_get_key_def Let_def sret_def
          split: option.splits)
  qed
qed

lemma eng_encrypt_decrypt:
  assumes "aead_laws E" "eng_encrypt E g req key = Inr r" "ereq_algorithm req \<noteq> XChaCha20Poly1305"
    and "dreq_encrypted_data d = enc_ciphertext r" "dreq_algorithm d = ereq_algorithm req"
    and "dreq_associated_data d = ereq_associated_data req"
  shows "\<exists>a. eng_decrypt E d key = Inr \<lparr> dec_plaintext = ereq_data req, dec_algorithm = a, dec_verified = True \<rparr>"
    and "12 \<le> length (enc_ciphertext r)" "enc_key_id r = Some (ek_key_id key)"
  using assms unfolding aead_laws_def
  by (cases "ereq_algorithm req"; auto simp: eng_encrypt_def eng_decrypt_def Let_def result_simps
      encrypt_aes256_gcm_def decrypt_aes256_gcm_def encrypt_chacha20_poly1305_def decrypt_chacha20_poly1305_def)+

section \<open>A concrete instance\<close>

definition sample_config :: CryptoConfig where
  "sample_config = crypto_config_from_env ''0.1.0'' (\<lambda>_. None)"

lemma sample_config_facts:
  "is_algorithm_allowed sample_config a \<longleftrightarrow> known_policy_algorithm a" "get_max_data_size sample_config = 104857600"
  by (simp_all add: sample_config_def from_env_allowed)
     (simp add: get_max_data_size_def crypto_config_from_env_def)

definition sample_engine :: CryptoEngine where
  "sample_engine = \<lparr> eng_config = sample_config, eng_key_cache = [] \<rparr>"

definition sample_request :: "EncryptionAlgorithm \<Rightarrow> EncryptionRequest" where
  "sample_request a = \<lparr> ereq_id = ''r'', ereq_data = [1, 2, 3], ereq_algorithm = a, ereq_key_id = None,
     ereq_associated_data = None, ereq_customer_id = ''c'', ereq_timestamp = 0, ereq_exporter_secret = None \<rparr>"

definition sample_decryption :: "EncryptionAlgorithm \<Rightarrow> EncryptionResult \<Rightarrow> DecryptionRequest" where
  "sample_decryption a r = \<lparr> dreq_id = ''d'', dreq_encrypted_data = enc_ciphertext r, dreq_nonce = None,
     dreq_algorithm = a, dreq_key_id = the (enc_key_id r), dreq_associated_data = None,
     dreq_customer_id = ''c'', dreq_timestamp = 0, dreq_exporter_secret = None \<rparr>"

lemma sample_engine_encrypts:
  "\<exists>r s'. eng_process_encryption_request sample_crypto g 5 (sample_request Aes256Gcm) sample_engine = (Inr r, s') \<and>
     length (enc_ciphertext r) \<le> 100 \<and> enc_key_id r \<noteq> None"
  by (simp add: eng_process_encryption_request_def sample_request_def sample_engine_def
      validate_encryption_request_def sample_config_facts known_policy_algorithm_def
      get_or_generate_key_def eng_generate_key_def Let_def sbind_def slift_def sret_def sget_def
      eng_encrypt_def encrypt_aes256_gcm_def sample_crypto_defs sample_seal_def aad_of_def)

section \<open>Properties\<close>

text \<open>C38 (symmetric round trip).  What the engine encrypted with AES-256-GCM or ChaCha20-Poly1305 it
  decrypts again under the returned key identifier, at any later time, as long as the ciphertext is
  within the size limit; the key cache invariant is kept.\<close>

theorem engine_roundtrip:
  assumes "aead_laws E" "engine_inv s"
    and "eng_process_encryption_request E g now req s = (Inr r, s')"
    and "ereq_algorithm req \<noteq> XChaCha20Poly1305"
    and "dreq_encrypted_data d = enc_ciphertext r" "enc_key_id r = Some (dreq_key_id d)"
    and "dreq_algorithm d = ereq_algorithm req" "dreq_associated_data d = ereq_associated_data req"
    and "dreq_exporter_secret d \<noteq> Some []"
    and "length (enc_ciphertext r) \<le> unat (get_max_data_size (eng_config s))"
  shows "engine_inv s' \<and> (\<exists>p. eng_process_decryption_request E later d s' = (Inr p, s') \<and>
    dec_plaintext p = ereq_data req \<and> dec_verified p)"
proof -
  from assms(3) obtain key r0 where
    v: "validate_encryption_request (eng_config s) req = Inr ()"
    and k: "get_or_generate_key E g now (ereq_key_id req) (ereq_algorithm req) s = (Inr key, s')"
    and r0: "eng_encrypt E (skip 48 g) req key = Inr r0"
    and r: "r = (if enc_exporter_binding r0 = None then r0\<lparr> enc_exporter_binding := ereq_exporter_secret req \<rparr> else r0)"
    by (auto simp: eng_process_encryption_request_def effect_simps)
  note ok = get_or_generate_ok [OF k assms(2)]
  have same: "enc_ciphertext r = enc_ciphertext r0" "enc_key_id r = enc_key_id r0" using r by simp_all
  note rt = eng_encrypt_decrypt [OF assms(1) r0 assms(4), of d]
  have "dreq_key_id d = ek_key_id key" using rt(3) same assms(5-8) by simp
  moreover have "ek_expires_at key = None" using ok by (auto simp: engine_inv_def)
  moreover have "validate_decryption_request (eng_config s) d = Inr ()"
    using v assms(5,7,10) by (auto simp: validate_encryption_request_def validate_decryption_request_def result_simps)
  ultimately show ?thesis
    using ok rt same assms(5-9)
    by (auto simp: eng_process_decryption_request_def eng_get_key_def slift_def)
qed

theorem engine_roundtrip_witness:
  "\<exists>r s' p. eng_process_encryption_request sample_crypto (\<lambda>_. 7) 5 (sample_request Aes256Gcm) sample_engine = (Inr r, s') \<and>
     eng_process_decryption_request sample_crypto 9 (sample_decryption Aes256Gcm r) s' = (Inr p, s') \<and>
     dec_plaintext p = [1, 2, 3]"
proof -
  obtain r s' where r: "eng_process_encryption_request sample_crypto (\<lambda>_. 7) 5 (sample_request Aes256Gcm) sample_engine = (Inr r, s')"
    "length (enc_ciphertext r) \<le> 100" "enc_key_id r \<noteq> None"
    using sample_engine_encrypts by blast
  have "engine_inv sample_engine" using engine_inv_empty [of sample_config] by (simp add: sample_engine_def)
  moreover have "aead_laws sample_crypto" using sample_crypto_laws(1) by (simp add: crypto_laws_def)
  ultimately have "\<exists>p. eng_process_decryption_request sample_crypto 9 (sample_decryption Aes256Gcm r) s' = (Inr p, s') \<and>
      dec_plaintext p = ereq_data (sample_request Aes256Gcm) \<and> dec_verified p"
    by (intro engine_roundtrip [OF _ _ r(1), THEN conjunct2])
       (use r(2,3) in \<open>simp_all add: sample_request_def sample_decryption_def sample_engine_def sample_config_facts\<close>)
  with r(1) show ?thesis by (auto simp: sample_request_def)
qed

text \<open>XChaCha20-Poly1305 never decrypts.  The engine takes the first 12 bytes of its input as the
  nonce for every cipher, and the XChaCha20-Poly1305 routine refuses a nonce that does not have 24
  bytes: a decryption request for that algorithm fails in every state, although encryption accepts
  it.\<close>

lemma xchacha_never_decrypts:
  assumes "dreq_algorithm d = XChaCha20Poly1305"
  shows "\<exists>e. eng_process_decryption_request E now d s = (Inl e, s)"
proof -
  have "eng_decrypt E d key \<noteq> Inr p" for key p
    using assms by (auto simp: eng_decrypt_def Let_def decrypt_xchacha20_poly1305_def ensure_def)
  then have "eng_process_decryption_request E now d s \<noteq> (Inr p, t)" for p t
    by (auto simp: eng_process_decryption_request_def effect_simps eng_get_key_def)
  moreover have "snd (eng_process_decryption_request E now d s) = s"
    using keeps_snd [of "\<lambda>t. t = s" "eng_process_decryption_request E now d" s]
    unfolding eng_process_decryption_request_def eng_get_key_def by blast
  ultimately show ?thesis by (cases "eng_process_decryption_request E now d s"; cases "fst (eng_process_decryption_request E now d s)") auto
qed

lemma xchacha_never_decrypts_witness:
  "\<exists>e. eng_process_decryption_request sample_crypto 9
     (sample_decryption XChaCha20Poly1305 \<lparr> enc_ciphertext = replicate 40 1, enc_nonce = replicate 24 1,
        enc_associated_data = None, enc_algorithm = ''xchacha20-poly1305'', enc_key_id = Some ''k'',
        enc_exporter_binding = None \<rparr>) sample_engine = (Inl e, sample_engine)"
  by (rule xchacha_never_decrypts) (simp add: sample_decryption_def)

end
