(* ===== verification/Quantum.thy ===== *)
theory Quantum
  imports Crypto_Engine
begin

text \<open>
  The post-quantum provider: \<open>secret_broker_impl/crypto_engine/quantum_resistant.rs\<close>.

  A secret is encrypted under a fresh ML-KEM-768 key pair, whose decapsulation key goes to the sealed key
  store under the envelope key identifier, with AES-256-GCM under the encapsulated secret.  The bytes
  the code draws are consumed from one generator in the order of the code.
\<close>

section \<open>Key pairs\<close>

record KyberEncapsulation =
  kem_ciphertext :: bytes
  kem_shared_secret :: bytes

definition QUANTUM_KEY_MAX_AGE_DAYS :: int where
  "QUANTUM_KEY_MAX_AGE_DAYS = 365"

text \<open>\<open>Duration::num_days\<close> truncates toward zero.\<close>

definition num_days :: "duration \<Rightarrow> int" where
  "num_days d = sgn d * (\<bar>d\<bar> div (86400 * nanos_per_sec))"

definition kyber_is_expired :: "instant \<Rightarrow> KyberKeyPair \<Rightarrow> bool" where
  "kyber_is_expired now k \<longleftrightarrow> num_days (now - kyb_created_at k) > QUANTUM_KEY_MAX_AGE_DAYS"

definition dilithium_is_expired :: "instant \<Rightarrow> DilithiumKeyPair \<Rightarrow> bool" where
  "dilithium_is_expired now k \<longleftrightarrow> num_days (now - dil_created_at k) > QUANTUM_KEY_MAX_AGE_DAYS"

definition generate_mlkem_keypair :: "'z crypto_ext_scheme \<Rightarrow> rng \<Rightarrow> instant \<Rightarrow> anyhow + KyberKeyPair" where
  "generate_mlkem_keypair E g now =
     rbind (ok_or ''ML-KEM keygen failed'' (mlkem_keygen E (fill g 64))) (\<lambda>(ek, dk).
     Inr \<lparr> kyb_public_key = ek, kyb_private_key = dk, kyb_algorithm = ''mlkem768'',
           kyb_key_id = ''mlkem_'' @ uuid_to_string E (uuid_v4 E (fill (skip 64 g) 16)),
           kyb_created_at = now \<rparr>)"

definition perform_mlkem_encapsulation ::
  "'z crypto_ext_scheme \<Rightarrow> rng \<Rightarrow> bytes \<Rightarrow> anyhow + KyberEncapsulation" where
  "perform_mlkem_encapsulation E g public_key_bytes =
     rbind (ensure (length public_key_bytes = 1184) ''Invalid ML-KEM public key size'') (\<lambda>_.
     rbind (ensure (mlkem_encaps_key E public_key_bytes) ''Invalid ML-KEM public key'') (\<lambda>_.
     rbind (ok_or ''ML-KEM encapsulation failed'' (mlkem_encaps E public_key_bytes (fill g 32)))
       (\<lambda>(shared_secret, ciphertext).
     Inr \<lparr> kem_ciphertext = ciphertext, kem_shared_secret = shared_secret \<rparr>)))"

definition perform_mlkem_decapsulation ::
  "'z crypto_ext_scheme \<Rightarrow> bytes \<Rightarrow> bytes \<Rightarrow> anyhow + bytes" where
  "perform_mlkem_decapsulation E ct_bytes secret_key_bytes =
     rbind (ensure (length secret_key_bytes = 2400) ''Invalid ML-KEM decapsulation key size'') (\<lambda>_.
     rbind (ensure (length ct_bytes = 1088) ''Invalid ML-KEM ciphertext size'') (\<lambda>_.
     rbind (ensure (mlkem_decaps_key E secret_key_bytes) ''Invalid ML-KEM decapsulation key'') (\<lambda>_.
     rbind (ensure (mlkem_ciphertext E ct_bytes) ''Invalid ML-KEM ciphertext'') (\<lambda>_.
     ok_or ''ML-KEM decapsulation failed'' (mlkem_decaps E secret_key_bytes ct_bytes)))))"

definition generate_mldsa_keypair ::
  "'z crypto_ext_scheme \<Rightarrow> rng \<Rightarrow> instant \<Rightarrow> string \<Rightarrow> anyhow + DilithiumKeyPair" where
  "generate_mldsa_keypair E g now key_id =
     (let seed = fill g 32 in
      Inr \<lparr> dil_public_key = mldsa_public E seed, dil_private_key = seed, dil_algorithm = ''mldsa65'',
            dil_key_id = key_id, dil_created_at = now \<rparr>)"

definition sign_with_real_dilithium :: "'z crypto_ext_scheme \<Rightarrow> bytes \<Rightarrow> bytes \<Rightarrow> anyhow + bytes" where
  "sign_with_real_dilithium E data private_key_bytes =
     rbind (ensure (length private_key_bytes = 32) ''Invalid ML-DSA seed size'') (\<lambda>_.
     ok_or ''ML-DSA signing failed'' (mldsa_sign E private_key_bytes data))"

definition verify_real_dilithium_signature ::
  "'z crypto_ext_scheme \<Rightarrow> bytes \<Rightarrow> bytes \<Rightarrow> bytes \<Rightarrow> anyhow + bool" where
  "verify_real_dilithium_signature E data sig_bytes public_key_bytes =
     rbind (ensure (length public_key_bytes = 1952) ''Invalid ML-DSA verification key size'') (\<lambda>_.
     rbind (ensure (mldsa_signature E sig_bytes) ''Invalid ML-DSA signature format'') (\<lambda>_.
     Inr (mldsa_verify E public_key_bytes sig_bytes data)))"

section \<open>Hybrid encryption\<close>

definition hybrid_encrypt_with_shared_secret ::
  "'z store_ext_scheme \<Rightarrow> rng \<Rightarrow> bytes \<Rightarrow> bytes \<Rightarrow> anyhow + bytes" where
  "hybrid_encrypt_with_shared_secret E g data shared_secret =
     rbind (ensure (length shared_secret = 32) ''Invalid shared secret size'') (\<lambda>_.
     let nonce_bytes = fill g 12 in
     rbind (ok_or ''AES encryption failed'' (aes_gcm_encrypt E shared_secret nonce_bytes data)) (\<lambda>ciphertext.
     Inr (nonce_bytes @ ciphertext)))"

definition hybrid_decrypt_with_shared_secret ::
  "'z store_ext_scheme \<Rightarrow> bytes \<Rightarrow> bytes \<Rightarrow> anyhow + bytes" where
  "hybrid_decrypt_with_shared_secret E encrypted_data shared_secret =
     rbind (ensure (12 \<le> length encrypted_data) ''Invalid encrypted data format'') (\<lambda>_.
     rbind (ensure (length shared_secret = 32) ''Invalid shared secret size'') (\<lambda>_.
     ok_or ''AES decryption failed''
       (aes_gcm_decrypt E shared_secret (take 12 encrypted_data) (drop 12 encrypted_data))))"

definition derive_exporter_binding :: "'z crypto_ext_scheme \<Rightarrow> bytes \<Rightarrow> bytes \<Rightarrow> bytes" where
  "derive_exporter_binding E shared_secret exporter_secret = blake3 E (shared_secret @ exporter_secret)"

record QuantumResistantCrypto =
  qrc_config :: CryptoConfig
  qrc_key_store :: SealedKeyStore

abbreviation on_keys :: "(SealedKeyStore, 'e, 'a) effect \<Rightarrow> (QuantumResistantCrypto, 'e, 'a) effect" where
  "on_keys \<equiv> szoom qrc_key_store (\<lambda>k s. s\<lparr> qrc_key_store := k \<rparr>)"

definition encrypt_with_mlkem ::
  "'z crypto_ext_scheme \<Rightarrow> rng \<Rightarrow> instant \<Rightarrow> instant \<Rightarrow> bytes \<Rightarrow> string option \<Rightarrow> bytes option
    \<Rightarrow> (QuantumResistantCrypto, anyhow, EncryptionResult) effect" where
  "encrypt_with_mlkem E g now now' data key_id exporter_secret =
     sbind (slift (generate_mlkem_keypair E g now)) (\<lambda>key_pair.
     let mldsa_key_id = ''mldsa_'' @ uuid_to_string E (uuid_v4 E (fill (skip 80 g) 16)) in
     sbind (slift (generate_mldsa_keypair E (skip 96 g) now' mldsa_key_id)) (\<lambda>mldsa_keypair.
     let storage_key_id = (case key_id of Some k \<Rightarrow> k | None \<Rightarrow> kyb_key_id key_pair);
         stored_pair = key_pair\<lparr> kyb_key_id := storage_key_id \<rparr> in
     sbind (smap_err (\<lambda>_. ''failed to persist ML-KEM key pair in sealed store'')
       (on_keys (store_kyber_keypair E (fill (skip 128 g) 12) stored_pair))) (\<lambda>_.
     sbind (smap_err (\<lambda>_. ''failed to persist ML-DSA key pair in sealed store'')
       (on_keys (store_dilithium_keypair E (fill (skip 140 g) 12)
         (mldsa_keypair\<lparr> dil_key_id := mldsa_key_id \<rparr>)))) (\<lambda>_.
     sbind (slift (perform_mlkem_encapsulation E (skip 152 g) (kyb_public_key stored_pair))) (\<lambda>encapsulation.
     sbind (slift (hybrid_encrypt_with_shared_secret E (skip 184 g) data (kem_shared_secret encapsulation)))
       (\<lambda>encrypted_data.
     sret \<lparr> enc_ciphertext = encrypted_data, enc_nonce = kem_ciphertext encapsulation,
            enc_associated_data = None, enc_algorithm = ''mlkem768-hybrid'', enc_key_id = Some storage_key_id,
            enc_exporter_binding =
              map_option (derive_exporter_binding E (kem_shared_secret encapsulation)) exporter_secret \<rparr>))))))"

definition decrypt_with_mlkem ::
  "'z crypto_ext_scheme \<Rightarrow> bytes \<Rightarrow> bytes \<Rightarrow> string \<Rightarrow> (QuantumResistantCrypto, anyhow, DecryptionResult) effect" where
  "decrypt_with_mlkem E encrypted_data mlkem_ct key_id =
     sbind (smap_err (\<lambda>_. ''failed to load ML-KEM key pair from sealed store'')
       (on_keys (load_kyber_keypair E key_id))) (\<lambda>found.
     sbind (slift (ok_or ''ML-KEM key pair not found'' found)) (\<lambda>key_pair.
     sbind (slift (perform_mlkem_decapsulation E mlkem_ct (kyb_private_key key_pair))) (\<lambda>shared_secret.
     sbind (slift (hybrid_decrypt_with_shared_secret E encrypted_data shared_secret)) (\<lambda>plaintext.
     sret \<lparr> dec_plaintext = plaintext, dec_algorithm = ''mlkem768-hybrid'', dec_verified = True \<rparr>))))"

definition qr_process_encryption_request ::
  "'z crypto_ext_scheme \<Rightarrow> rng \<Rightarrow> instant \<Rightarrow> instant \<Rightarrow> EncryptionRequest
    \<Rightarrow> (QuantumResistantCrypto, anyhow, EncryptionResult) effect" where
  "qr_process_encryption_request E g now now' req =
     sbind (sget qrc_config) (\<lambda>c.
     sbind (slift (ensure (qcc_enabled (cfg_quantum_crypto c)) ''Quantum-resistant crypto is disabled'')) (\<lambda>_.
     case ereq_algorithm req of
       Kyber768 \<Rightarrow> encrypt_with_mlkem E g now now' (ereq_data req) (ereq_key_id req) (ereq_exporter_secret req)
     | _ \<Rightarrow> sfail ''Unsupported quantum-resistant algorithm''))"

definition qr_process_decryption_request ::
  "'z crypto_ext_scheme \<Rightarrow> DecryptionRequest \<Rightarrow> (QuantumResistantCrypto, anyhow, DecryptionResult) effect" where
  "qr_process_decryption_request E req =
     sbind (sget qrc_config) (\<lambda>c.
     sbind (slift (ensure (qcc_enabled (cfg_quantum_crypto c)) ''Quantum-resistant crypto is disabled'')) (\<lambda>_.
     case dreq_algorithm req of
       Kyber768 \<Rightarrow>
         sbind (slift (ok_or ''CRITICAL: Missing ML-KEM ciphertext in nonce field for decryption'' (dreq_nonce req)))
           (\<lambda>mlkem_ct. decrypt_with_mlkem E (dreq_encrypted_data req) mlkem_ct (dreq_key_id req))
     | _ \<Rightarrow> sfail ''Unsupported quantum-resistant algorithm''))"

definition get_supported_algorithms :: "CryptoConfig \<Rightarrow> string list" where
  "get_supported_algorithms c =
     (if \<not> qcc_enabled (cfg_quantum_crypto c) then []
      else [''kyber512'', ''kyber768'', ''kyber1024'', ''dilithium2'', ''dilithium3'', ''dilithium5''])"

definition is_algorithm_supported :: "CryptoConfig \<Rightarrow> string \<Rightarrow> bool" where
  "is_algorithm_supported c algorithm \<longleftrightarrow>
     qcc_enabled (cfg_quantum_crypto c) \<and> algorithm \<in> set (get_supported_algorithms c)"

definition qr_health_check :: "'z crypto_ext_scheme \<Rightarrow> CryptoConfig \<Rightarrow> rng \<Rightarrow> instant \<Rightarrow> instant \<Rightarrow> anyhow + unit" where
  "qr_health_check E c g now now' =
     rbind (ensure (qcc_enabled (cfg_quantum_crypto c)) ''Quantum crypto is disabled - MUST be enabled for production'') (\<lambda>_.
     rbind (generate_mlkem_keypair E g now) (\<lambda>mlkem_keypair.
     rbind (generate_mldsa_keypair E (skip 80 g) now' ''health_check'') (\<lambda>mldsa_keypair.
     rbind (perform_mlkem_encapsulation E (skip 112 g) (kyb_public_key mlkem_keypair)) (\<lambda>encapsulation.
     rbind (perform_mlkem_decapsulation E (kem_ciphertext encapsulation) (kyb_private_key mlkem_keypair)) (\<lambda>decapsulated.
     rbind (ensure (decapsulated = kem_shared_secret encapsulation) ''ML-KEM encapsulation/decapsulation test failed'') (\<lambda>_.
     let test_message = as_bytes ''PRODUCTION quantum-resistant cryptography test'' in
     rbind (sign_with_real_dilithium E test_message (dil_private_key mldsa_keypair)) (\<lambda>sig.
     rbind (verify_real_dilithium_signature E test_message sig (dil_public_key mldsa_keypair)) (\<lambda>is_valid.
     ensure is_valid ''ML-DSA signing/verification test failed''))))))))"

section \<open>Facts\<close>

lemma generated_pair_decapsulates:
  assumes "kem_laws E" "generate_mlkem_keypair E g now = Inr k"
    and "perform_mlkem_encapsulation E g' (kyb_public_key k) = Inr c"
  shows "perform_mlkem_decapsulation E (kem_ciphertext c) (kyb_private_key k) = Inr (kem_shared_secret c) \<and>
    length (kem_shared_secret c) = 32"
proof -
  from assms(2) have k: "mlkem_keygen E (fill g 64) = Some (kyb_public_key k, kyb_private_key k)"
    by (auto simp: generate_mlkem_keypair_def result_simps)
  from assms(3) have "mlkem_encaps E (kyb_public_key k) (fill g' 32) = Some (kem_shared_secret c, kem_ciphertext c)"
    by (auto simp: perform_mlkem_encapsulation_def result_simps)
  moreover from assms(1) k have "length (kyb_private_key k) = 2400" "mlkem_decaps_key E (kyb_private_key k)"
    and "\<And>m ss ct. mlkem_encaps E (kyb_public_key k) m = Some (ss, ct) \<Longrightarrow> length ss = 32 \<and> length ct = 1088 \<and>
      mlkem_ciphertext E ct \<and> mlkem_decaps E (kyb_private_key k) ct = Some ss"
    unfolding kem_laws_def by blast+
  ultimately show ?thesis by (simp add: perform_mlkem_decapsulation_def)
qed

lemma hybrid_roundtrip:
  assumes "store_laws E" "hybrid_encrypt_with_shared_secret E g d ss = Inr c"
  shows "hybrid_decrypt_with_shared_secret E c ss = Inr d"
proof -
  from assms(2) obtain x where x: "aes_gcm_encrypt E ss (fill g 12) d = Some x" "c = fill g 12 @ x"
    and "length ss = 32" by (auto simp: hybrid_encrypt_with_shared_secret_def result_simps Let_def)
  moreover have "aes_gcm_decrypt E ss (fill g 12) x = Some d" using assms(1) x(1) unfolding store_laws_def by blast
  ultimately show ?thesis by (simp add: hybrid_decrypt_with_shared_secret_def)
qed

abbreviation pq_key :: "'z crypto_ext_scheme \<Rightarrow> QuantumResistantCrypto \<Rightarrow> string \<rightharpoonup> KyberKeyPair" where
  "pq_key E s \<equiv> kyber_view E (qrc_key_store s)"

text \<open>The key pair opens the hybrid ciphertext: decapsulation gives the secret the data was sealed with.\<close>

definition opens_to :: "'z crypto_ext_scheme \<Rightarrow> KyberKeyPair \<Rightarrow> bytes \<Rightarrow> bytes \<Rightarrow> bytes \<Rightarrow> bool" where
  "opens_to E k ct kem p \<longleftrightarrow>
     (\<exists>ss. perform_mlkem_decapsulation E kem (kyb_private_key k) = Inr ss \<and>
       hybrid_decrypt_with_shared_secret E ct ss = Inr p)"

lemma decrypt_opens:
  assumes "key_store_laws E" "store_available E" "pq_key E s kid = Some k" "opens_to E k ct kem p"
  shows "decrypt_with_mlkem E ct kem kid s =
    (Inr \<lparr> dec_plaintext = p, dec_algorithm = ''mlkem768-hybrid'', dec_verified = True \<rparr>, s)"
proof -
  have "load_kyber_keypair E kid (qrc_key_store s) = (Inr (Some k), qrc_key_store s)"
    using load_keypair_available [OF _ assms(2)] assms(1,3)
    by (simp add: load_kyber_keypair_def kyber_view_def key_store_laws_def)
  then have "smap_err f (on_keys (load_kyber_keypair E kid)) s = (Inr (Some k), s)" for f :: "anyhow \<Rightarrow> anyhow"
    by (simp add: smap_err_def szoom_def)
  with assms(4) show ?thesis by (auto simp: decrypt_with_mlkem_def opens_to_def sbind_step sret_def)
qed

lemma encrypt_mlkem_ok:
  assumes "crypto_laws E" "store_laws E"
    and "encrypt_with_mlkem E g now now' data key_id x s = (Inr r, s')"
  shows "\<exists>kid k. enc_key_id r = Some kid \<and> (key_id = None \<or> key_id = Some kid) \<and>
    pq_key E s' = (pq_key E s)(kid \<mapsto> k) \<and> opens_to E k (enc_ciphertext r) (enc_nonce r) data \<and> qrc_config s' = qrc_config s"
proof -
  have laws: "key_store_laws E" "kem_laws E" using assms(1,2) by (simp_all add: crypto_laws_def key_store_laws_def)
  from assms(3) obtain k d kid ks ks' c e where
    k: "generate_mlkem_keypair E g now = Inr k"
    and kid: "kid = (case key_id of Some k \<Rightarrow> k | None \<Rightarrow> kyb_key_id k)"
    and ks: "store_kyber_keypair E (fill (skip 128 g) 12) (k\<lparr> kyb_key_id := kid \<rparr>) (qrc_key_store s) = (Inr (), ks)"
    and ks': "store_dilithium_keypair E (fill (skip 140 g) 12) d ks = (Inr (), ks')"
    and c: "perform_mlkem_encapsulation E (skip 152 g) (kyb_public_key k) = Inr c"
    and e: "hybrid_encrypt_with_shared_secret E (skip 184 g) data (kem_shared_secret c) = Inr e"
    and r: "enc_ciphertext r = e" "enc_nonce r = kem_ciphertext c" "enc_key_id r = Some kid"
    and s': "s' = s\<lparr> qrc_key_store := ks' \<rparr>"
    by (auto simp: encrypt_with_mlkem_def effect_simps Let_def generate_mldsa_keypair_def)
  have "kyber_view E ks = (kyber_view E (qrc_key_store s))(kid \<mapsto> k\<lparr> kyb_key_id := kid \<rparr>)"
    using kyber_keys.put_ok [OF laws(1) _ ks [unfolded store_kyber_put]] by simp
  moreover have "kyber_view E ks' = kyber_view E ks"
    using other_tree_view [OF assms(2) ks' [unfolded store_dilithium_keypair_def], of Kyber_tree] by (simp add: kyber_view_def)
  moreover have "opens_to E (k\<lparr> kyb_key_id := kid \<rparr>) e (kem_ciphertext c) data"
    using generated_pair_decapsulates [OF laws(2) k c] hybrid_roundtrip [OF assms(2) e] by (simp add: opens_to_def)
  ultimately show ?thesis using r s' kid by (cases key_id) auto
qed

lemma encrypt_mlkem_any:
  assumes "crypto_laws E" "store_laws E" "encrypt_with_mlkem E g now now' data (Some kid) x s = (q, s')" "k \<noteq> kid"
  shows "pq_key E s' k = pq_key E s k \<and> qrc_config s' = qrc_config s"
proof -
  define P where "P t \<longleftrightarrow> pq_key E t k = pq_key E s k \<and> qrc_config t = qrc_config s" for t
  have laws: "key_store_laws E" using assms(1,2) by (simp add: crypto_laws_def key_store_laws_def)
  have kyber: "keeps P (smap_err f (on_keys (store_kyber_keypair E (fill g' 12) (p\<lparr> kyb_key_id := kid \<rparr>))))"
    for f :: "anyhow \<Rightarrow> anyhow" and g' p
  proof (intro keeps_smap_err, unfold keeps_def, intro allI impI)
    fix t r t' assume "P t" "on_keys (store_kyber_keypair E (fill g' 12) (p\<lparr> kyb_key_id := kid \<rparr>)) t = (r, t')"
    then obtain ks where "put_kyber E (kyb_algorithm p, kyb_created_at p) (fill g' 12) kid (p\<lparr> kyb_key_id := kid \<rparr>)
        (qrc_key_store t) = (r, ks)" "t' = t\<lparr> qrc_key_store := ks \<rparr>"
      by (auto simp: szoom_iff store_kyber_put)
    with put_kyber_cases [OF laws _ this(1)] \<open>P t\<close> assms(4) show "P t'" by (auto simp: P_def)
  qed
  have dil: "keeps P (smap_err f (on_keys (store_dilithium_keypair E n d)))" for f :: "anyhow \<Rightarrow> anyhow" and n d
  proof (intro keeps_smap_err, unfold keeps_def, intro allI impI)
    fix t r t' assume "P t" "on_keys (store_dilithium_keypair E n d) t = (r, t')"
    then obtain ks where "store_dilithium_keypair E n d (qrc_key_store t) = (r, ks)" "t' = t\<lparr> qrc_key_store := ks \<rparr>"
      by (auto simp: szoom_iff)
    with other_tree_view [OF assms(2) this(1) [unfolded store_dilithium_keypair_def],
        where u = Kyber_tree and from_json = "kyber_from_json E"] \<open>P t\<close>
    show "P t'" by (simp add: P_def kyber_view_def)
  qed
  have "keeps P (encrypt_with_mlkem E g now now' data (Some kid) x)"
    unfolding encrypt_with_mlkem_def Let_def option.case by (intro keeps_sbind keeps_slift keeps_sret kyber dil)
  from keepsD [OF this _ assms(3)] show ?thesis by (simp add: P_def)
qed

lemma store_pairs_available:
  assumes "store_available E" "crypto_available E"
  shows "\<exists>t'. on_keys (store_kyber_keypair E n p) t = (Inr (), t')"
    and "\<exists>t'. on_keys (store_dilithium_keypair E n d) t = (Inr (), t')"
proof -
  obtain ks where "store_kyber_keypair E n p (qrc_key_store t) = (Inr (), ks)"
    unfolding store_kyber_keypair_def
    by (rule store_keypair_available [OF assms, where to_json = "kyber_to_json E"])
       (use crypto_availableD(7) [OF assms(2)] in \<open>auto simp: is_ok_iff\<close>)
  then show "\<exists>t'. on_keys (store_kyber_keypair E n p) t = (Inr (), t')" by (simp add: szoom_def)
  obtain ks where "store_dilithium_keypair E n d (qrc_key_store t) = (Inr (), ks)"
    unfolding store_dilithium_keypair_def
    by (rule store_keypair_available [OF assms, where to_json = "dilithium_to_json E"])
       (use crypto_availableD(8) [OF assms(2)] in \<open>auto simp: is_ok_iff\<close>)
  then show "\<exists>t'. on_keys (store_dilithium_keypair E n d) t = (Inr (), t')" by (simp add: szoom_def)
qed

lemma encrypt_mlkem_available:
  assumes "crypto_laws E" "store_available E" "crypto_available E"
  shows "\<exists>r s'. encrypt_with_mlkem E g now now' data key_id x s = (Inr r, s')"
proof -
  obtain ek dk where k: "mlkem_keygen E (fill g 64) = Some (ek, dk)" using crypto_availableD(4) [OF assms(3)] by blast
  then have ek: "length ek = 1184" "mlkem_encaps_key E ek" and
    ss: "\<And>m ss ct. mlkem_encaps E ek m = Some (ss, ct) \<Longrightarrow> length ss = 32"
    using assms(1) unfolding crypto_laws_def kem_laws_def by blast+
  obtain ss ct where c: "mlkem_encaps E ek (fill (skip 152 g) 32) = Some (ss, ct)"
    using crypto_availableD(5) [OF assms(3) ek(2)] by blast
  obtain a where a: "aes_gcm_encrypt E ss (fill (skip 184 g) 12) data = Some a"
    using assms(2) unfolding store_available_def by blast
  obtain kp where kp: "generate_mlkem_keypair E g now = Inr kp" "kyb_public_key kp = ek"
    using k by (simp add: generate_mlkem_keypair_def)
  have enc: "perform_mlkem_encapsulation E (skip 152 g) ek = Inr \<lparr> kem_ciphertext = ct, kem_shared_secret = ss \<rparr>"
    using ek c by (simp add: perform_mlkem_encapsulation_def)
  have hyb: "hybrid_encrypt_with_shared_secret E (skip 184 g) data ss = Inr (fill (skip 184 g) 12 @ a)"
    using a ss [OF c] by (simp add: hybrid_encrypt_with_shared_secret_def Let_def)
  define kid where "kid = (case key_id of Some k \<Rightarrow> k | None \<Rightarrow> kyb_key_id kp)"
  obtain t1 where t1: "on_keys (store_kyber_keypair E (fill (skip 128 g) 12) (kp\<lparr> kyb_key_id := kid \<rparr>)) s = (Inr (), t1)"
    using store_pairs_available(1) [OF assms(2,3)] by blast
  define d where "d = (let m = ''mldsa_'' @ uuid_to_string E (uuid_v4 E (fill (skip 80 g) 16)) in
    \<lparr> dil_public_key = mldsa_public E (fill (skip 96 g) 32), dil_private_key = fill (skip 96 g) 32,
      dil_algorithm = ''mldsa65'', dil_key_id = m, dil_created_at = now' \<rparr>)"
  obtain t2 where t2: "on_keys (store_dilithium_keypair E (fill (skip 140 g) 12) d) t1 = (Inr (), t2)"
    using store_pairs_available(2) [OF assms(2,3)] by blast
  have t1': "smap_err f (on_keys (store_kyber_keypair E (fill (skip 128 g) 12) (kp\<lparr> kyb_key_id := kid \<rparr>))) s = (Inr (), t1)"
    and t2': "smap_err f (on_keys (store_dilithium_keypair E (fill (skip 140 g) 12) d)) t1 = (Inr (), t2)" for f :: "anyhow \<Rightarrow> anyhow"
    using t1 t2 by (simp_all add: smap_err_def)
  show ?thesis
    using kp enc hyb t1' t2'
    by (simp add: encrypt_with_mlkem_def Let_def generate_mldsa_keypair_def kid_def [symmetric] d_def sbind_step sret_def)
qed

lemma qr_encrypt_cases:
  assumes "qr_process_encryption_request E g now now' req s = (q, s')"
  shows "s' = s \<and> (\<exists>e. q = Inl e) \<or> ereq_algorithm req = Kyber768 \<and> qcc_enabled (cfg_quantum_crypto (qrc_config s)) \<and>
    encrypt_with_mlkem E g now now' (ereq_data req) (ereq_key_id req) (ereq_exporter_secret req) s = (q, s')"
  using assms
  by (cases "qcc_enabled (cfg_quantum_crypto (qrc_config s))"; cases "ereq_algorithm req")
     (auto simp: qr_process_encryption_request_def sfail_def)

text \<open>A history of requests, each with the randomness and the clock readings it gets; failures do not
  stop it.\<close>

fun run_requests ::
  "'z crypto_ext_scheme \<Rightarrow> (rng \<times> instant \<times> instant \<times> EncryptionRequest) list \<Rightarrow> QuantumResistantCrypto
    \<Rightarrow> QuantumResistantCrypto" where
  "run_requests E [] s = s"
| "run_requests E ((g, now, now', req) # rs) s =
     run_requests E rs (snd (qr_process_encryption_request E g now now' req s))"

lemma run_requests_keep:
  assumes "crypto_laws E" "store_laws E"
    and "\<forall>(g, now, now', req) \<in> set rs. ereq_key_id req \<noteq> None \<and> ereq_key_id req \<noteq> Some k"
  shows "pq_key E (run_requests E rs s) k = pq_key E s k \<and> qrc_config (run_requests E rs s) = qrc_config s"
  using assms(3)
proof (induction rs arbitrary: s)
  case (Cons x rs)
  obtain g now now' req where x: "x = (g, now, now', req)" by (cases x)
  obtain q s' where run: "qr_process_encryption_request E g now now' req s = (q, s')" by fastforce
  from Cons.prems x obtain kid where "ereq_key_id req = Some kid" "k \<noteq> kid" by auto
  with qr_encrypt_cases [OF run] encrypt_mlkem_any [OF assms(1,2)]
  have "pq_key E s' k = pq_key E s k \<and> qrc_config s' = qrc_config s" by metis
  with Cons.IH [of s'] Cons.prems x run show ?case by simp
qed simp

definition sample_quantum :: QuantumResistantCrypto where
  "sample_quantum = \<lparr> qrc_config = sample_config, qrc_key_store = sample_key_store \<rparr>"

lemma sample_quantum_enabled: "qcc_enabled (cfg_quantum_crypto sample_config)"
  by (simp add: sample_config_def crypto_config_from_env_def)

section \<open>Properties\<close>

text \<open>C36 (post-quantum round trip).  A ciphertext the provider returned for an explicit key identifier is
  decrypted to the same data later on, whatever encryption requests under other identifiers are
  processed in between, successfully or not.\<close>

theorem pq_roundtrip:
  assumes "crypto_laws E" "store_laws E" "store_available E"
    and "qr_process_encryption_request E g now now' req s = (Inr r, s1)" "ereq_key_id req = Some kid"
    and "\<forall>(g, now, now', other) \<in> set rs. ereq_key_id other \<noteq> None \<and> ereq_key_id other \<noteq> Some kid"
    and "dreq_algorithm d = Kyber768" "dreq_key_id d = kid"
    and "dreq_nonce d = Some (enc_nonce r)" "dreq_encrypted_data d = enc_ciphertext r"
  shows "qr_process_decryption_request E d (run_requests E rs s1) =
    (Inr \<lparr> dec_plaintext = ereq_data req, dec_algorithm = ''mlkem768-hybrid'', dec_verified = True \<rparr>,
     run_requests E rs s1)"
proof -
  from qr_encrypt_cases [OF assms(4)] have en: "qcc_enabled (cfg_quantum_crypto (qrc_config s))"
    and enc: "encrypt_with_mlkem E g now now' (ereq_data req) (Some kid) (ereq_exporter_secret req) s = (Inr r, s1)"
    using assms(5) by auto
  from encrypt_mlkem_ok [OF assms(1,2) enc] obtain k where
    k: "pq_key E s1 kid = Some k" "opens_to E k (enc_ciphertext r) (enc_nonce r) (ereq_data req)" "qrc_config s1 = qrc_config s"
    by auto
  have keep: "pq_key E (run_requests E rs s1) kid = Some k" "qrc_config (run_requests E rs s1) = qrc_config s"
    using run_requests_keep [OF assms(1,2,6)] k by simp_all
  have "key_store_laws E" using assms(1,2) by (simp add: crypto_laws_def key_store_laws_def)
  from decrypt_opens [OF this assms(3) keep(1) k(2)] keep(2) en assms(7-10) show ?thesis
    by (simp add: qr_process_decryption_request_def)
qed

theorem pq_roundtrip_witness:
  "\<exists>r s1. qr_process_encryption_request sample_crypto (\<lambda>_. 7) 1 2
       ((sample_request Kyber768)\<lparr> ereq_key_id := Some ''ek'' \<rparr>) sample_quantum = (Inr r, s1) \<and>
     (\<exists>p s2. qr_process_decryption_request sample_crypto
       ((sample_decryption Kyber768 r)\<lparr> dreq_nonce := Some (enc_nonce r), dreq_key_id := ''ek'' \<rparr>)
       (run_requests sample_crypto [(\<lambda>_. 8, 3, 4, (sample_request Kyber768)\<lparr> ereq_key_id := Some ''other'' \<rparr>)] s1) =
       (Inr p, s2) \<and> dec_plaintext p = [1, 2, 3])"
proof -
  define req where "req = (sample_request Kyber768)\<lparr> ereq_key_id := Some ''ek'' \<rparr>"
  obtain r s1 where r: "qr_process_encryption_request sample_crypto (\<lambda>_. 7) 1 2 req sample_quantum = (Inr r, s1)"
    using encrypt_mlkem_available [OF sample_crypto_laws(1) sample_crypto_store(2) sample_crypto_laws(2),
        of "\<lambda>_. 7" 1 2 "ereq_data req" "ereq_key_id req" "ereq_exporter_secret req" sample_quantum]
    by (auto simp: qr_process_encryption_request_def req_def sample_request_def sample_quantum_def sample_quantum_enabled)
  have "qr_process_decryption_request sample_crypto
      ((sample_decryption Kyber768 r)\<lparr> dreq_nonce := Some (enc_nonce r), dreq_key_id := ''ek'' \<rparr>)
      (run_requests sample_crypto [(\<lambda>_. 8, 3, 4, (sample_request Kyber768)\<lparr> ereq_key_id := Some ''other'' \<rparr>)] s1) =
      (Inr \<lparr> dec_plaintext = ereq_data req, dec_algorithm = ''mlkem768-hybrid'', dec_verified = True \<rparr>,
       run_requests sample_crypto [(\<lambda>_. 8, 3, 4, (sample_request Kyber768)\<lparr> ereq_key_id := Some ''other'' \<rparr>)] s1)"
    by (rule pq_roundtrip [OF sample_crypto_laws(1) sample_crypto_store r])
       (simp_all add: req_def sample_decryption_def)
  with r show ?thesis unfolding req_def by (auto simp: sample_request_def)
qed

text \<open>The provider's self test passes.  With the schemes correct and available and post-quantum
  cryptography enabled, the health check succeeds for every draw of the generator.\<close>

lemma qr_health_check_passes:
  assumes "crypto_laws E" "crypto_available E" "qcc_enabled (cfg_quantum_crypto c)"
  shows "qr_health_check E c g now now' = Inr ()"
proof -
  obtain ek dk where k: "mlkem_keygen E (fill g 64) = Some (ek, dk)" using crypto_availableD(4) [OF assms(2)] by blast
  have laws: "kem_laws E" "dsa_laws E" using assms(1) by (simp_all add: crypto_laws_def)
  from k laws(1) have ek: "length ek = 1184" "mlkem_encaps_key E ek" unfolding kem_laws_def by blast+
  obtain ss ct where c: "mlkem_encaps E ek (fill (skip 112 g) 32) = Some (ss, ct)"
    using crypto_availableD(5) [OF assms(2) ek(2)] by blast
  obtain kp where kp: "generate_mlkem_keypair E g now = Inr kp" "kyb_public_key kp = ek"
    using k by (simp add: generate_mlkem_keypair_def)
  have enc: "perform_mlkem_encapsulation E (skip 112 g) (kyb_public_key kp) = Inr \<lparr> kem_ciphertext = ct, kem_shared_secret = ss \<rparr>"
    using ek c kp by (simp add: perform_mlkem_encapsulation_def)
  have dec: "perform_mlkem_decapsulation E ct (kyb_private_key kp) = Inr ss"
    using generated_pair_decapsulates [OF laws(1) kp(1) enc] by simp
  define m where "m = as_bytes ''PRODUCTION quantum-resistant cryptography test''"
  obtain sig where sig: "mldsa_sign E (fill (skip 80 g) 32) m = Some sig" using crypto_availableD(6) [OF assms(2)] by blast
  then have "length (mldsa_public E (fill (skip 80 g) 32)) = 1952" "mldsa_signature E sig"
    "mldsa_verify E (mldsa_public E (fill (skip 80 g) 32)) sig m"
    using laws(2) unfolding dsa_laws_def by blast+
  with sig kp enc dec assms(3) show ?thesis
    by (simp add: qr_health_check_def generate_mldsa_keypair_def sign_with_real_dilithium_def
        verify_real_dilithium_signature_def m_def [symmetric] Let_def del: as_bytes_append)
qed

lemma qr_health_check_passes_witness:
  "qr_health_check sample_crypto sample_config (\<lambda>_. 1) 5 6 = Inr ()"
  by (rule qr_health_check_passes [OF sample_crypto_laws sample_quantum_enabled])

end
