(* ===== verification/Key_Manager.thy ===== *)
theory Key_Manager
  imports Quantum
begin

text \<open>
  The signing-key manager: \<open>secret_broker_impl/crypto_engine/key_manager.rs\<close>.

  The two maps are behind \<open>tokio::sync::RwLock\<close>s.  The locks are part of the state: the number of read
  guards alive and whether a writer holds or awaits the lock.  As documented for that lock, a writer
  waits until no guard is alive, and a reader that arrives while a writer waits queues behind it;
  waiting for a guard that is never dropped is the outcome \<open>Hang\<close>.  \<open>with_read\<close> and \<open>with_write\<close> hold
  their guard during their argument, as a guard bound by \<open>let\<close> does until the end of its block; a call
  that hangs keeps the guards it has, and a panic drops them (these locks are not poisoned).  A \<open>Hang\<close>
  is that of a task which is not cancelled from outside.  The locks of the master key and of the
  generator are only taken one inside the other, in one order, and are not part of the state.

  The draws of a call come from one generator; the clock readings are arguments.  The usage counter
  wraps, as \<open>u64\<close> addition does in a release build.
\<close>

section \<open>Data\<close>

record KeyPair =
  kp_key_id :: string
  kp_public_key :: bytes
  kp_private_key :: bytes
  kp_algorithm :: string
  kp_created_at :: instant
  kp_expires_at :: "instant option"
  kp_metadata :: "(string \<times> string) list"

datatype KeyStatus = Active | Rotating | Rotated | Expired | Revoked | Compromised

record KeyMetadata =
  md_key_id :: string
  md_algorithm :: string
  md_key_size_bits :: nat
  md_created_at :: instant
  md_expires_at :: "instant option"
  md_customer_id :: string
  md_usage_count :: "64 word"
  md_last_used_at :: "instant option"
  md_status :: KeyStatus
  md_metadata :: "(string \<times> string) list"

datatype km_lock = Key_pairs | Key_metadata

record KeyManager =
  km_config :: CryptoConfig
  km_key_pairs :: "(string \<times> KeyPair) list"
  km_key_metadata :: "(string \<times> KeyMetadata) list"
  km_master_key :: "bytes option"
  km_readers :: "km_lock \<Rightarrow> nat"
  km_writer :: "km_lock \<Rightarrow> bool"

type_synonym 'a km = "(KeyManager, anyhow stop, 'a) effect"

definition key_manager_new :: "CryptoConfig \<Rightarrow> rng \<Rightarrow> KeyManager" where
  "key_manager_new config g =
     \<lparr> km_config = config, km_key_pairs = [], km_key_metadata = [], km_master_key = Some (fill g 32),
       km_readers = (\<lambda>_. 0), km_writer = (\<lambda>_. False) \<rparr>"

section \<open>Locks\<close>

definition with_read :: "km_lock \<Rightarrow> 'a km \<Rightarrow> 'a km" where
  "with_read l m s =
     (if km_writer s l then (Inl Hang, s)
      else case m (s\<lparr> km_readers := (km_readers s)(l := km_readers s l + 1) \<rparr>) of
        (Inl Hang, t) \<Rightarrow> (Inl Hang, t)
      | (r, t) \<Rightarrow> (r, t\<lparr> km_readers := (km_readers t)(l := km_readers t l - 1) \<rparr>))"

definition with_write :: "km_lock \<Rightarrow> 'a km \<Rightarrow> 'a km" where
  "with_write l m s =
     (let s' = s\<lparr> km_writer := (km_writer s)(l := True) \<rparr> in
      if km_writer s l \<or> 0 < km_readers s l then (Inl Hang, s')
      else case m s' of
        (Inl Hang, t) \<Rightarrow> (Inl Hang, t)
      | (r, t) \<Rightarrow> (r, t\<lparr> km_writer := (km_writer t)(l := False) \<rparr>))"

abbreviation lift_fail :: "anyhow + 'a \<Rightarrow> 'a km" where
  "lift_fail r \<equiv> slift (map_err Fail r)"

section \<open>Algorithms\<close>

definition validate_post_quantum_algorithm :: "CryptoConfig \<Rightarrow> string \<Rightarrow> anyhow + unit" where
  "validate_post_quantum_algorithm c algorithm =
     rbind (ensure (is_algorithm_allowed c algorithm) ''Algorithm not allowed'') (\<lambda>_.
     if algorithm \<in> {''kyber768'', ''dilithium5'', ''kyber-dilithium''} then Inr ()
     else if algorithm \<in> {''rsa'', ''ecdsa'', ''ed25519''} then Inl ''Classical algorithm deprecated''
     else Inl ''Unsupported algorithm'')"

definition sign_dilithium5 :: "'z crypto_ext_scheme \<Rightarrow> bytes \<Rightarrow> bytes \<Rightarrow> anyhow + bytes" where
  "sign_dilithium5 E data private_key_bytes =
     rbind (ensure (length private_key_bytes = 32) ''Invalid ML-DSA-65 seed size'') (\<lambda>_.
     ok_or ''ML-DSA-65 signing failed'' (mldsa_sign E private_key_bytes data))"

definition verify_dilithium5_with_public_key ::
  "'z crypto_ext_scheme \<Rightarrow> bytes \<Rightarrow> bytes \<Rightarrow> bytes \<Rightarrow> anyhow + bool" where
  "verify_dilithium5_with_public_key E data sig public_key_bytes =
     rbind (ensure (length public_key_bytes = 1952) ''Invalid ML-DSA-65 public key size'') (\<lambda>_.
     rbind (ensure (mldsa_signature E sig) ''Invalid ML-DSA-65 signature format'') (\<lambda>_.
     Inr (mldsa_verify E public_key_bytes sig data)))"

definition generate_kyber_keys :: "'z crypto_ext_scheme \<Rightarrow> rng \<Rightarrow> anyhow + (bytes \<times> bytes)" where
  "generate_kyber_keys E g = ok_or ''ML-KEM-768 keygen failed'' (mlkem_keygen E (fill g 64))"

definition generate_dilithium_keys :: "'z crypto_ext_scheme \<Rightarrow> rng \<Rightarrow> anyhow + (bytes \<times> bytes)" where
  "generate_dilithium_keys E g = (let seed = fill g 32 in Inr (mldsa_public E seed, seed))"

definition generate_hybrid_pq_keys :: "'z crypto_ext_scheme \<Rightarrow> rng \<Rightarrow> anyhow + (bytes \<times> bytes)" where
  "generate_hybrid_pq_keys E g =
     rbind (generate_kyber_keys E g) (\<lambda>(kyber_pub, kyber_sec).
     rbind (generate_dilithium_keys E (skip 64 g)) (\<lambda>(dilithium_pub, dilithium_sec).
     Inr (kyber_pub @ dilithium_pub, kyber_sec @ dilithium_sec)))"

definition sign_hybrid_pq :: "'z crypto_ext_scheme \<Rightarrow> bytes \<Rightarrow> bytes \<Rightarrow> anyhow + bytes" where
  "sign_hybrid_pq E data combined_private_key =
     rbind (ensure (2400 \<le> length combined_private_key) ''Invalid hybrid private key length'') (\<lambda>_.
     sign_dilithium5 E data (drop 2400 combined_private_key))"

definition verify_hybrid_pq :: "'z crypto_ext_scheme \<Rightarrow> bytes \<Rightarrow> bytes \<Rightarrow> bytes \<Rightarrow> anyhow + bool" where
  "verify_hybrid_pq E data sig combined_public_key =
     rbind (ensure (1184 \<le> length combined_public_key) ''Invalid hybrid public key length'') (\<lambda>_.
     verify_dilithium5_with_public_key E data sig (drop 1184 combined_public_key))"

text \<open>\<open>Key::from_slice\<close> panics unless the master key has 32 bytes.\<close>

definition encrypt_private_key ::
  "'z crypto_ext_scheme \<Rightarrow> rng \<Rightarrow> bytes option \<Rightarrow> bytes \<Rightarrow> anyhow stop + bytes" where
  "encrypt_private_key E g master private_key =
     rbind (map_err Fail (ok_or ''Master key not initialized'' master)) (\<lambda>master_key.
     rbind (ensure (length master_key = 32) Panic) (\<lambda>_.
     let nonce_bytes = fill g 12 in
     rbind (map_err Fail (ok_or ''AES-GCM encryption failed'' (chacha_seal E master_key nonce_bytes [] private_key)))
       (\<lambda>ciphertext. Inr (nonce_bytes @ ciphertext))))"

definition decrypt_private_key ::
  "'z crypto_ext_scheme \<Rightarrow> bytes option \<Rightarrow> bytes \<Rightarrow> anyhow stop + bytes" where
  "decrypt_private_key E master encrypted_key =
     rbind (ensure (12 \<le> length encrypted_key) (Fail ''Invalid encrypted key format'')) (\<lambda>_.
     rbind (map_err Fail (ok_or ''Master key not initialized'' master)) (\<lambda>master_key.
     rbind (ensure (length master_key = 32) Panic) (\<lambda>_.
     map_err Fail (ok_or ''AES-GCM decryption failed''
       (chacha_open E master_key (take 12 encrypted_key) [] (drop 12 encrypted_key))))))"

definition get_key_size :: "CryptoConfig \<Rightarrow> string \<Rightarrow> nat" where
  "get_key_size c algorithm =
     (if algorithm = ''rsa'' then kmc_key_size_bits (cfg_key_management c) else 256)"

text \<open>\<open>Duration::hours\<close> and the addition to the current time panic out of range; the hours are cast from
  \<open>u64\<close> to \<open>i64\<close>.\<close>

definition calculate_expiry :: "'z ext_scheme \<Rightarrow> CryptoConfig \<Rightarrow> instant \<Rightarrow> anyhow stop + instant option" where
  "calculate_expiry E c now =
     (if kmc_key_rotation_enabled (cfg_key_management c) then
        let hours = sint (kmc_rotation_interval_hours (cfg_key_management c)) in
        rbind (ok_or Panic (try_seconds E (hours * 3600))) (\<lambda>d.
        rbind (ok_or Panic (checked_add E now d)) (\<lambda>t. Inr (Some t)))
      else Inr None)"

definition is_key_expired :: "instant \<Rightarrow> KeyPair \<Rightarrow> bool" where
  "is_key_expired now k = (case kp_expires_at k of Some expires_at \<Rightarrow> now > expires_at | None \<Rightarrow> False)"

section \<open>Operations\<close>

definition counts_toward_limit :: "string \<Rightarrow> KeyMetadata \<Rightarrow> bool" where
  "counts_toward_limit customer_id m \<longleftrightarrow> md_customer_id m = customer_id \<and> md_status m \<in> {Active, Rotating}"

definition customer_key_count :: "string \<Rightarrow> (string \<times> KeyMetadata) list \<Rightarrow> nat" where
  "customer_key_count customer_id ms = length (filter (\<lambda>(k, m). counts_toward_limit customer_id m) ms)"

definition check_key_limits :: "string \<Rightarrow> unit km" where
  "check_key_limits customer_id =
     with_read Key_metadata (\<lambda>s.
       (ensure (customer_key_count customer_id (km_key_metadata s) <
           unat (kmc_max_keys_per_customer (cfg_key_management (km_config s))))
         (Fail ''Maximum key limit reached for customer''), s))"

definition generate_keys :: "'z crypto_ext_scheme \<Rightarrow> rng \<Rightarrow> string \<Rightarrow> anyhow + (bytes \<times> bytes)" where
  "generate_keys E g algorithm =
     (if algorithm = ''kyber768'' then generate_kyber_keys E g
      else if algorithm = ''dilithium5'' then generate_dilithium_keys E g
      else if algorithm = ''kyber-dilithium'' then generate_hybrid_pq_keys E g
      else Inl ''Unsupported post-quantum algorithm'')"

definition insert_key :: "KeyPair \<Rightarrow> KeyMetadata \<Rightarrow> unit km" where
  "insert_key k m =
     with_write Key_pairs (with_write Key_metadata (\<lambda>s.
       (Inr (), s\<lparr> km_key_pairs := AList.update (kp_key_id k) k (km_key_pairs s),
                  km_key_metadata := AList.update (kp_key_id k) m (km_key_metadata s) \<rparr>)))"

definition generate_key_pair ::
  "'z crypto_ext_scheme \<Rightarrow> rng \<Rightarrow> instant \<Rightarrow> instant \<Rightarrow> string \<Rightarrow> string \<Rightarrow> KeyPair km" where
  "generate_key_pair E g now now' algorithm customer_id =
     sbind (sget km_config) (\<lambda>c.
     sbind (lift_fail (validate_post_quantum_algorithm c algorithm)) (\<lambda>_.
     sbind (check_key_limits customer_id) (\<lambda>_.
     sbind (lift_fail (generate_keys E g algorithm)) (\<lambda>(public_key, private_key).
     let key_id = ''keypair_'' @ uuid_to_string E (uuid_v4 E (fill (skip 96 g) 16)) in
     sbind (sget km_master_key) (\<lambda>master.
     sbind (slift (encrypt_private_key E (skip 112 g) master private_key)) (\<lambda>encrypted_private_key.
     sbind (slift (calculate_expiry E c now')) (\<lambda>expires_at.
     let key_pair = \<lparr> kp_key_id = key_id, kp_public_key = public_key, kp_private_key = encrypted_private_key,
           kp_algorithm = algorithm, kp_created_at = now, kp_expires_at = expires_at,
           kp_metadata = [(''customer_id'', customer_id), (''generator'', ''software'')] \<rparr>;
         metadata = \<lparr> md_key_id = key_id, md_algorithm = algorithm, md_key_size_bits = get_key_size c algorithm,
           md_created_at = now, md_expires_at = expires_at, md_customer_id = customer_id, md_usage_count = 0,
           md_last_used_at = None, md_status = Active, md_metadata = [] \<rparr> in
     sbind (insert_key key_pair metadata) (\<lambda>_. sret key_pair))))))))"

text \<open>\<open>get_mut\<close> on an entry that may be absent.\<close>

definition alter_metadata ::
  "string \<Rightarrow> (KeyMetadata \<Rightarrow> KeyMetadata) \<Rightarrow> (string \<times> KeyMetadata) list \<Rightarrow> (string \<times> KeyMetadata) list" where
  "alter_metadata key_id f ms =
     (case map_of ms key_id of None \<Rightarrow> ms | Some m \<Rightarrow> AList.update key_id (f m) ms)"

definition update_key_usage :: "instant \<Rightarrow> string \<Rightarrow> unit km" where
  "update_key_usage now key_id =
     with_write Key_metadata (\<lambda>s.
       (Inr (), s\<lparr> km_key_metadata := alter_metadata key_id
          (\<lambda>m. m\<lparr> md_usage_count := md_usage_count m + 1, md_last_used_at := Some now \<rparr>) (km_key_metadata s) \<rparr>))"

definition get_public_key :: "instant \<Rightarrow> string \<Rightarrow> bytes km" where
  "get_public_key now key_id =
     with_read Key_pairs (
       sbind (sget (\<lambda>s. map_of (km_key_pairs s) key_id)) (\<lambda>found.
       case found of
         Some key_pair \<Rightarrow> sbind (update_key_usage now key_id) (\<lambda>_. sret (kp_public_key key_pair))
       | None \<Rightarrow> sfail (Fail ''Key pair not found'')))"

definition get_key_creation_info :: "string \<Rightarrow> (instant \<times> (string \<times> string) list) option km" where
  "get_key_creation_info key_id =
     with_read Key_pairs (sget (\<lambda>s.
       map_option (\<lambda>k. (kp_created_at k, kp_metadata k)) (map_of (km_key_pairs s) key_id)))"

definition get_keys_by_customer :: "string \<Rightarrow> string list km" where
  "get_keys_by_customer customer_id =
     with_read Key_pairs (sget (\<lambda>s.
       map fst (filter (\<lambda>(i, k). map_of (kp_metadata k) ''customer_id'' = Some customer_id) (km_key_pairs s))))"

definition sign_with :: "'z crypto_ext_scheme \<Rightarrow> string \<Rightarrow> bytes \<Rightarrow> bytes \<Rightarrow> anyhow + bytes" where
  "sign_with E algorithm data private_key =
     (if algorithm = ''dilithium5'' then sign_dilithium5 E data private_key
      else if algorithm = ''kyber-dilithium'' then sign_hybrid_pq E data private_key
      else if algorithm \<in> {''rsa'', ''ecdsa'', ''ed25519''} then Inl ''Classical algorithm rejected - migrate to Dilithium5''
      else Inl ''Unsupported post-quantum algorithm for signing'')"

definition sign_data ::
  "'z crypto_ext_scheme \<Rightarrow> instant \<Rightarrow> instant \<Rightarrow> bytes \<Rightarrow> string \<Rightarrow> bytes km" where
  "sign_data E now now' data key_id =
     with_read Key_pairs (
       sbind (sget (\<lambda>s. (map_of (km_key_pairs s) key_id, km_master_key s))) (\<lambda>(found, master).
       case found of
         Some key_pair \<Rightarrow>
           sbind (slift (ensure (\<not> is_key_expired now key_pair) (Fail ''Key has expired''))) (\<lambda>_.
           sbind (slift (decrypt_private_key E master (kp_private_key key_pair))) (\<lambda>private_key.
           sbind (lift_fail (sign_with E (kp_algorithm key_pair) data private_key)) (\<lambda>sig.
           sbind (update_key_usage now' key_id) (\<lambda>_. sret sig))))
       | None \<Rightarrow> sfail (Fail ''Key pair not found'')))"

definition verify_with :: "'z crypto_ext_scheme \<Rightarrow> string \<Rightarrow> bytes \<Rightarrow> bytes \<Rightarrow> bytes \<Rightarrow> anyhow + bool" where
  "verify_with E algorithm data sig public_key =
     (if algorithm = ''dilithium5'' then verify_dilithium5_with_public_key E data sig public_key
      else if algorithm = ''kyber-dilithium'' then verify_hybrid_pq E data sig public_key
      else if algorithm \<in> {''rsa'', ''ecdsa'', ''ed25519''} then Inl ''Classical algorithm rejected - migrate to Dilithium5''
      else Inl ''Unsupported post-quantum algorithm for verification'')"

definition km_verify_signature ::
  "'z crypto_ext_scheme \<Rightarrow> instant \<Rightarrow> instant \<Rightarrow> bytes \<Rightarrow> bytes \<Rightarrow> string \<Rightarrow> bool km" where
  "km_verify_signature E now now' data sig key_id =
     with_read Key_pairs (
       sbind (sget (\<lambda>s. map_of (km_key_pairs s) key_id)) (\<lambda>found.
       case found of
         Some key_pair \<Rightarrow>
           sbind (slift (ensure (\<not> is_key_expired now key_pair) (Fail ''Key has expired''))) (\<lambda>_.
           sbind (lift_fail (verify_with E (kp_algorithm key_pair) data sig (kp_public_key key_pair))) (\<lambda>valid.
           if valid then sbind (update_key_usage now' key_id) (\<lambda>_. sret True) else sret False))
       | None \<Rightarrow> sfail (Fail ''Key pair not found'')))"

text \<open>The lookups run under the read guards of both maps, which stay alive during the generation of the
  new key; \<open>unwrap\<close> panics when the new entry is missing.\<close>

definition rotate_key :: "'z crypto_ext_scheme \<Rightarrow> rng \<Rightarrow> instant \<Rightarrow> instant \<Rightarrow> string \<Rightarrow> unit km" where
  "rotate_key E g now now' key_id =
     with_read Key_pairs (with_read Key_metadata (
       sbind (sget (\<lambda>s. (map_of (km_key_pairs s) key_id, map_of (km_key_metadata s) key_id))) (\<lambda>found.
       case found of
         (Some key_pair, Some metadata) \<Rightarrow>
           sbind (generate_key_pair E g now now' (kp_algorithm key_pair) (md_customer_id metadata)) (\<lambda>new_key_pair.
           with_write Key_metadata (\<lambda>s.
             let ms = alter_metadata key_id (\<lambda>m. m\<lparr> md_status := Rotated \<rparr>) (km_key_metadata s) in
             case map_of ms (kp_key_id new_key_pair) of
               None \<Rightarrow> (Inl Panic, s\<lparr> km_key_metadata := ms \<rparr>)
             | Some m \<Rightarrow> (Inr (), s\<lparr> km_key_metadata := AList.update (kp_key_id new_key_pair)
                 (m\<lparr> md_metadata := AList.update ''rotated_from'' key_id (md_metadata m) \<rparr>) ms \<rparr>)))
       | _ \<Rightarrow> sret ())))"

text \<open>Each rotation reads the clock twice, once per time stamp of the new key.\<close>

fun rotate_all :: "'z crypto_ext_scheme \<Rightarrow> rng \<Rightarrow> (nat \<Rightarrow> instant) \<Rightarrow> string list \<Rightarrow> unit km" where
  "rotate_all E g clock [] s = (Inr (), s)"
| "rotate_all E g clock (k # ks) s =
     (case rotate_key E g (clock 0) (clock 1) k s of
        (Inl Panic, t) \<Rightarrow> (Inl Panic, t)
      | (Inl Hang, t) \<Rightarrow> (Inl Hang, t)
      | (_, t) \<Rightarrow> rotate_all E (skip 124 g) (\<lambda>i. clock (i + 2)) ks t)"

definition rotate_expired_keys :: "'z crypto_ext_scheme \<Rightarrow> rng \<Rightarrow> instant \<Rightarrow> (nat \<Rightarrow> instant) \<Rightarrow> unit km" where
  "rotate_expired_keys E g now clock =
     sbind (with_read Key_metadata (sget (\<lambda>s. map fst (filter (\<lambda>(k, m).
       md_status m = Active \<and> (case md_expires_at m of Some expiry \<Rightarrow> expiry < now | None \<Rightarrow> False))
         (km_key_metadata s))))) (\<lambda>expired_keys.
     rotate_all E g clock expired_keys)"

text \<open>The counts are only logged.\<close>

definition km_health_check :: "unit km" where
  "km_health_check =
     sbind (with_read Key_pairs (sget (\<lambda>s. length (km_key_pairs s)))) (\<lambda>key_pairs_count.
     sbind (with_read Key_metadata (sget (\<lambda>s. length (km_key_metadata s)))) (\<lambda>metadata_count.
     sret ()))"

section \<open>Facts\<close>

text \<open>No guard is held and no writer waits: the state between two calls that returned.\<close>

definition unlocked :: "KeyManager \<Rightarrow> bool" where
  "unlocked s \<longleftrightarrow> (\<forall>l. km_readers s l = 0 \<and> \<not> km_writer s l)"

lemma with_read_Hang: "km_writer s l \<Longrightarrow> with_read l m s = (Inl Hang, s)"
  by (simp add: with_read_def)

lemma with_write_Hang:
  "0 < km_readers s l \<Longrightarrow> with_write l m s = (Inl Hang, s\<lparr> km_writer := (km_writer s)(l := True) \<rparr>)"
  by (simp add: with_write_def)

lemma with_read_Inr:
  "with_read l m s = (Inr x, t) \<Longrightarrow> \<not> km_writer s l \<and>
     (\<exists>u. m (s\<lparr> km_readers := (km_readers s)(l := km_readers s l + 1) \<rparr>) = (Inr x, u) \<and>
          t = u\<lparr> km_readers := (km_readers u)(l := km_readers u l - 1) \<rparr>)"
  by (auto simp: with_read_def split: if_splits prod.splits sum.splits stop.splits)

lemma with_write_Inr:
  "with_write l m s = (Inr x, t) \<Longrightarrow> \<not> km_writer s l \<and> km_readers s l = 0 \<and>
     (\<exists>u. m (s\<lparr> km_writer := (km_writer s)(l := True) \<rparr>) = (Inr x, u) \<and>
          t = u\<lparr> km_writer := (km_writer u)(l := False) \<rparr>)"
  by (auto simp: with_write_def Let_def split: if_splits prod.splits sum.splits stop.splits)

text \<open>A key can only be inserted while nobody holds or awaits the lock of the key pairs.\<close>

lemma insert_key_Inr:
  "insert_key k m s = (Inr u, t) \<Longrightarrow> \<not> km_writer s Key_pairs \<and> km_readers s Key_pairs = 0"
  unfolding insert_key_def by (auto dest: with_write_Inr)

lemma check_key_limits_state:
  "check_key_limits c s = (r, t) \<Longrightarrow> t = s"
  by (auto simp: check_key_limits_def with_read_def ensure_def split: if_splits)

text \<open>What a successful generation did, in the order of the code.\<close>

abbreviation fresh_metadata :: "CryptoConfig \<Rightarrow> string \<Rightarrow> KeyPair \<Rightarrow> KeyMetadata" where
  "fresh_metadata c customer k \<equiv>
     \<lparr> md_key_id = kp_key_id k, md_algorithm = kp_algorithm k, md_key_size_bits = get_key_size c (kp_algorithm k),
       md_created_at = kp_created_at k, md_expires_at = kp_expires_at k, md_customer_id = customer,
       md_usage_count = 0, md_last_used_at = None, md_status = Active, md_metadata = [] \<rparr>"

lemma generate_key_pair_Inr:
  assumes "generate_key_pair E g now now' a c s = (Inr k, t)"
  obtains priv where "check_key_limits c s = (Inr (), s)"
    and "generate_keys E g a = Inr (kp_public_key k, priv)"
    and "encrypt_private_key E (skip 112 g) (km_master_key s) priv = Inr (kp_private_key k)"
    and "kp_algorithm k = a" and "calculate_expiry E (km_config s) now' = Inr (kp_expires_at k)"
    and "insert_key k (fresh_metadata (km_config s) c k) s = (Inr (), t)"
proof -
  from assms obtain u pub priv enc ex where limit: "check_key_limits c s = (Inr (), u)"
    and keys: "generate_keys E g a = Inr (pub, priv)"
    and enc: "encrypt_private_key E (skip 112 g) (km_master_key u) priv = Inr enc"
    and ex: "calculate_expiry E (km_config s) now' = Inr ex"
    and k: "k = \<lparr> kp_key_id = ''keypair_'' @ uuid_to_string E (uuid_v4 E (fill (skip 96 g) 16)),
        kp_public_key = pub, kp_private_key = enc, kp_algorithm = a, kp_created_at = now, kp_expires_at = ex,
        kp_metadata = [(''customer_id'', c), (''generator'', ''software'')] \<rparr>"
    and ins: "insert_key k (fresh_metadata (km_config s) c k) u = (Inr (), t)"
    unfolding generate_key_pair_def sbind_sget sbind_Inr_iff slift_iff sret_iff Let_def map_err_Inr_iff
    by (elim exE conjE) (auto simp only: sbind_sget sbind_Inr_iff slift_iff sret_iff split_beta
      sum.inject KeyPair.select_convs map_err_Inr_iff prod.collapse fst_conv snd_conv)
  moreover from limit have "u = s" by (rule check_key_limits_state)
  ultimately show ?thesis by (intro that [of priv]) simp_all
qed

lemma generate_needs_free_lock:
  assumes "generate_key_pair E g now now' a c s = (Inr k, t)"
  shows "\<not> km_writer s Key_pairs \<and> km_readers s Key_pairs = 0"
  using assms by (rule generate_key_pair_Inr) (rule insert_key_Inr)

text \<open>Predicates on the maps alone are kept by whatever keeps them under the locks.\<close>

definition lock_free :: "(KeyManager \<Rightarrow> bool) \<Rightarrow> bool" where
  "lock_free P \<longleftrightarrow> (\<forall>s f h. P (s\<lparr> km_readers := f \<rparr>) = P s \<and> P (s\<lparr> km_writer := h \<rparr>) = P s)"

lemma keeps_with_read [intro]:
  assumes P: "lock_free P" and m: "keeps P m"
  shows "keeps P (with_read l m)"
proof (unfold keeps_def, intro allI impI)
  fix s r t assume "P s" and run: "with_read l m s = (r, t)"
  obtain q u where mu: "m (s\<lparr> km_readers := (km_readers s)(l := km_readers s l + 1) \<rparr>) = (q, u)" by fastforce
  with \<open>P s\<close> P m have "P u" by (auto simp: lock_free_def dest: keepsD)
  with run mu \<open>P s\<close> P show "P t"
    by (auto simp: with_read_def lock_free_def split: if_splits sum.splits stop.splits)
qed

lemma keeps_with_write [intro]:
  assumes P: "lock_free P" and m: "keeps P m"
  shows "keeps P (with_write l m)"
proof (unfold keeps_def, intro allI impI)
  fix s r t assume "P s" and run: "with_write l m s = (r, t)"
  obtain q u where mu: "m (s\<lparr> km_writer := (km_writer s)(l := True) \<rparr>) = (q, u)" by fastforce
  with \<open>P s\<close> P m have "P u" by (auto simp: lock_free_def dest: keepsD)
  with run mu \<open>P s\<close> P show "P t"
    by (auto simp: with_write_def Let_def lock_free_def split: if_splits sum.splits stop.splits)
qed

section \<open>Rotation under the read guards\<close>

text \<open>The checks and computations before the insertion succeed.\<close>

definition can_generate ::
  "'z crypto_ext_scheme \<Rightarrow> rng \<Rightarrow> instant \<Rightarrow> string \<Rightarrow> string \<Rightarrow> KeyManager \<Rightarrow> bool" where
  "can_generate E g now' a c s \<longleftrightarrow>
     is_ok (validate_post_quantum_algorithm (km_config s) a) \<and>
     customer_key_count c (km_key_metadata s) <
       unat (kmc_max_keys_per_customer (cfg_key_management (km_config s))) \<and>
     is_ok (rbind (map_err Fail (generate_keys E g a))
       (\<lambda>(pub, priv). encrypt_private_key E (skip 112 g) (km_master_key s) priv)) \<and>
     is_ok (calculate_expiry E (km_config s) now')"

lemma check_key_limits_eq:
  "\<not> km_writer s Key_metadata \<Longrightarrow> check_key_limits c s =
     (ensure (customer_key_count c (km_key_metadata s) <
        unat (kmc_max_keys_per_customer (cfg_key_management (km_config s))))
      (Fail ''Maximum key limit reached for customer''), s)"
  by (simp add: check_key_limits_def with_read_def ensure_def)

lemma generate_reaches_insert:
  assumes "can_generate E g now' a c s" "\<not> km_writer s Key_metadata"
  shows "\<exists>k. generate_key_pair E g now now' a c s =
    sbind (insert_key k (fresh_metadata (km_config s) c k)) (\<lambda>_. sret k) s"
proof -
  from assms(1) obtain pub priv enc ex where
    "validate_post_quantum_algorithm (km_config s) a = Inr ()" "generate_keys E g a = Inr (pub, priv)"
    "encrypt_private_key E (skip 112 g) (km_master_key s) priv = Inr enc"
    "calculate_expiry E (km_config s) now' = Inr ex"
    by (auto simp: can_generate_def is_ok_iff result_simps)
  moreover from assms have "check_key_limits c s = (Inr (), s)"
    by (simp add: check_key_limits_eq can_generate_def)
  ultimately have "generate_key_pair E g now now' a c s =
    (let k = \<lparr> kp_key_id = ''keypair_'' @ uuid_to_string E (uuid_v4 E (fill (skip 96 g) 16)),
        kp_public_key = pub, kp_private_key = enc, kp_algorithm = a, kp_created_at = now, kp_expires_at = ex,
        kp_metadata = [(''customer_id'', c), (''generator'', ''software'')] \<rparr>
     in sbind (insert_key k (fresh_metadata (km_config s) c k)) (\<lambda>_. sret k) s)"
    by (simp add: generate_key_pair_def sbind_step(1) Let_def)
  then show ?thesis unfolding Let_def by (rule exI)
qed

lemma generate_refused:
  assumes "\<not> can_generate E g now' a c s" "\<not> km_writer s Key_metadata"
    and "\<exists>mk. km_master_key s = Some mk \<and> length mk = 32" "is_ok (calculate_expiry E (km_config s) now')"
  shows "\<exists>e. generate_key_pair E g now now' a c s = (Inl (Fail e), s)"
proof (cases "validate_post_quantum_algorithm (km_config s) a")
  case (Inl e)
  then show ?thesis by (simp add: generate_key_pair_def sfail_def)
next
  case valid: (Inr u)
  show ?thesis
  proof (cases "customer_key_count c (km_key_metadata s) <
      unat (kmc_max_keys_per_customer (cfg_key_management (km_config s)))")
    case False
    with valid assms(2) show ?thesis
      by (simp add: generate_key_pair_def sbind_step(2) check_key_limits_eq)
  next
    case True
    with assms(2) have limit: "check_key_limits c s = (Inr (), s)" by (simp add: check_key_limits_eq)
    show ?thesis
    proof (cases "generate_keys E g a")
      case (Inl e)
      with valid limit show ?thesis by (simp add: generate_key_pair_def sbind_step(1) sfail_def)
    next
      case (Inr ks)
      with assms True valid have "\<not> is_ok (encrypt_private_key E (skip 112 g) (km_master_key s) (snd ks))"
        by (auto simp: can_generate_def split_beta)
      with assms(3) obtain e where "encrypt_private_key E (skip 112 g) (km_master_key s) (snd ks) = Inl (Fail e)"
        by (auto simp: encrypt_private_key_def is_ok_iff Let_def rbind_Inl_iff result_simps
            split: option.splits) (metis ok_or.elims map_err.simps rbind.simps)
      with valid limit Inr show ?thesis
        by (simp add: generate_key_pair_def sbind_step(1) sfail_def split_beta Let_def)
    qed
  qed
qed

text \<open>Both read guards alive and a writer queued for the key pairs, for ever.\<close>

definition wedged :: "KeyManager \<Rightarrow> KeyManager" where
  "wedged s = s\<lparr> km_readers := (km_readers s)(Key_pairs := 1, Key_metadata := 1),
                 km_writer := (km_writer s)(Key_pairs := True) \<rparr>"

definition rotatable :: "'z crypto_ext_scheme \<Rightarrow> rng \<Rightarrow> instant \<Rightarrow> string \<Rightarrow> KeyManager \<Rightarrow> bool" where
  "rotatable E g now' key_id s \<longleftrightarrow>
     (\<exists>k m. map_of (km_key_pairs s) key_id = Some k \<and> map_of (km_key_metadata s) key_id = Some m \<and>
        can_generate E g now' (kp_algorithm k) (md_customer_id m) s)"

lemma can_generate_locks [simp]:
  "can_generate E g now' a c (s\<lparr> km_readers := f \<rparr>) = can_generate E g now' a c s"
  by (simp add: can_generate_def)

lemma generate_under_guard:
  assumes "can_generate E g now' a c s" "\<not> km_writer s Key_metadata" "0 < km_readers s Key_pairs"
  shows "generate_key_pair E g now now' a c s =
    (Inl Hang, s\<lparr> km_writer := (km_writer s)(Key_pairs := True) \<rparr>)"
proof -
  obtain k where "generate_key_pair E g now now' a c s =
      sbind (insert_key k (fresh_metadata (km_config s) c k)) (\<lambda>_. sret k) s"
    using generate_reaches_insert [OF assms(1,2)] by blast
  with assms(3) show ?thesis by (simp add: insert_key_def with_write_Hang sbind_step(2))
qed

lemma rotate_key_wedges:
  assumes "unlocked s" "rotatable E g now' key_id s"
  shows "rotate_key E g now now' key_id s = (Inl Hang, wedged s)"
proof -
  from assms(2) obtain k m where found: "map_of (km_key_pairs s) key_id = Some k"
      "map_of (km_key_metadata s) key_id = Some m"
    and ready: "can_generate E g now' (kp_algorithm k) (md_customer_id m) s"
    by (auto simp: rotatable_def)
  define u where "u = s\<lparr> km_readers := (km_readers s)(Key_pairs := 1, Key_metadata := 1) \<rparr>"
  have "generate_key_pair E g now now' (kp_algorithm k) (md_customer_id m) u = (Inl Hang, wedged s)"
    using generate_under_guard [of E g now' "kp_algorithm k" "md_customer_id m" u] ready assms(1)
    by (simp add: u_def wedged_def unlocked_def)
  with assms(1) found show ?thesis
    by (simp add: rotate_key_def with_read_def unlocked_def u_def sbind_step(2))
qed

lemma rotate_key_fails:
  assumes "unlocked s" "\<not> rotatable E g now' key_id s"
    and "\<exists>mk. km_master_key s = Some mk \<and> length mk = 32" "is_ok (calculate_expiry E (km_config s) now')"
  shows "\<exists>r. rotate_key E g now now' key_id s = (r, s) \<and> (r = Inr () \<or> (\<exists>e. r = Inl (Fail e)))"
proof (cases "\<exists>k m. map_of (km_key_pairs s) key_id = Some k \<and> map_of (km_key_metadata s) key_id = Some m")
  case True
  then obtain k m where found: "map_of (km_key_pairs s) key_id = Some k"
    "map_of (km_key_metadata s) key_id = Some m" by blast
  define u where "u = s\<lparr> km_readers := (km_readers s)(Key_pairs := 1, Key_metadata := 1) \<rparr>"
  from found assms(2) have "\<not> can_generate E g now' (kp_algorithm k) (md_customer_id m) u"
    by (auto simp: rotatable_def u_def)
  moreover from assms have "\<not> km_writer u Key_metadata" "\<exists>mk. km_master_key u = Some mk \<and> length mk = 32"
    "is_ok (calculate_expiry E (km_config u) now')" by (simp_all add: u_def unlocked_def)
  ultimately obtain e where
    "generate_key_pair E g now now' (kp_algorithm k) (md_customer_id m) u = (Inl (Fail e), u)"
    using generate_refused by blast
  moreover from assms(1) have "(km_readers s)(Key_pairs := 0, Key_metadata := 0) = km_readers s"
    by (auto simp: unlocked_def fun_eq_iff)
  ultimately show ?thesis using assms(1) found
    by (simp add: rotate_key_def with_read_def unlocked_def u_def sbind_step(2) fun_upd_twist)
next
  case False
  from assms(1) have "(km_readers s)(Key_pairs := 0, Key_metadata := 0) = km_readers s"
    by (auto simp: unlocked_def fun_eq_iff)
  with False assms(1) show ?thesis
    by (auto simp: rotate_key_def with_read_def unlocked_def sret_def fun_upd_twist split: option.splits)
qed

lemma rotate_all_wedges:
  assumes "unlocked s" "\<exists>mk. km_master_key s = Some mk \<and> length mk = 32"
    and "\<And>t. is_ok (calculate_expiry E (km_config s) (clock t))"
    and "key_id \<in> set ks" "\<And>g now'. is_ok (calculate_expiry E (km_config s) now') \<Longrightarrow> rotatable E g now' key_id s"
  shows "rotate_all E g clock ks s = (Inl Hang, wedged s)"
  using assms(3,4)
proof (induction ks arbitrary: g clock)
  case (Cons k ks)
  show ?case
  proof (cases "rotatable E g (clock 1) k s")
    case True
    with assms(1) show ?thesis by (simp add: rotate_key_wedges)
  next
    case False
    with Cons.prems assms(5) have "key_id \<in> set ks" by auto
    with Cons have "rotate_all E (skip 124 g) (\<lambda>i. clock (i + 2)) ks s = (Inl Hang, wedged s)" by simp
    moreover obtain r where "rotate_key E g (clock 0) (clock 1) k s = (r, s)"
      "r = Inr () \<or> (\<exists>e. r = Inl (Fail e))"
      using rotate_key_fails [OF assms(1) False assms(2) Cons.prems(1)] by blast
    ultimately show ?thesis by auto
  qed
qed simp

lemma encrypt_private_key_available:
  "crypto_available E \<Longrightarrow> length mk = 32 \<Longrightarrow> is_ok (encrypt_private_key E g (Some mk) priv)"
  using crypto_availableD(2) [of E mk "fill g 12" "[]" priv]
  by (auto simp: encrypt_private_key_def Let_def is_ok_iff result_simps)

lemma generate_keys_available:
  "crypto_available E \<Longrightarrow> a \<in> {''kyber768'', ''dilithium5'', ''kyber-dilithium''} \<Longrightarrow>
   \<exists>pub priv. generate_keys E g a = Inr (pub, priv)"
  using crypto_availableD(4) [of E "fill g 64"]
  by (auto simp: generate_keys_def generate_kyber_keys_def generate_dilithium_keys_def
      generate_hybrid_pq_keys_def Let_def)

lemma can_generate_available:
  assumes "crypto_available E" "km_master_key s = Some mk" "length mk = 32"
    and "validate_post_quantum_algorithm (km_config s) a = Inr ()"
    and "customer_key_count c (km_key_metadata s) <
      unat (kmc_max_keys_per_customer (cfg_key_management (km_config s)))"
    and "is_ok (calculate_expiry E (km_config s) now')"
  shows "can_generate E g now' a c s"
proof -
  from assms(4) have "a \<in> {''kyber768'', ''dilithium5'', ''kyber-dilithium''}"
    by (auto simp: validate_post_quantum_algorithm_def result_simps split: if_splits)
  then obtain pub priv where "generate_keys E g a = Inr (pub, priv)"
    using generate_keys_available [OF assms(1)] by blast
  with assms encrypt_private_key_available [OF assms(1,3)] show ?thesis by (simp add: can_generate_def)
qed

section \<open>The key limit\<close>

text \<open>Steps of a running manager: every call the service makes, whatever it returns.  The identifiers drawn
  by \<open>Uuid::new_v4\<close> do not repeat.\<close>

inductive km_step :: "'z crypto_ext_scheme \<Rightarrow> KeyManager \<Rightarrow> KeyManager \<Rightarrow> bool" for E where
  step_generate: "generate_key_pair E g now now' a c s = (r, t) \<Longrightarrow>
    (\<And>k. r = Inr k \<Longrightarrow> kp_key_id k \<notin> fst ` set (km_key_metadata s)) \<Longrightarrow> km_step E s t"
| step_public_key: "get_public_key now i s = (p, t) \<Longrightarrow> km_step E s t"
| step_sign: "sign_data E now now' d i s = (p, t) \<Longrightarrow> km_step E s t"
| step_verify: "km_verify_signature E now now' d sig i s = (v, t) \<Longrightarrow> km_step E s t"
| step_rotate: "rotate_expired_keys E g now clock s = (u, t) \<Longrightarrow> km_step E s t"

abbreviation key_limit :: "KeyManager \<Rightarrow> nat" where
  "key_limit s \<equiv> unat (kmc_max_keys_per_customer (cfg_key_management (km_config s)))"

lemma customer_key_count_update_same:
  assumes "map_of ms i = Some m" "counts_toward_limit c m' = counts_toward_limit c m"
  shows "customer_key_count c (AList.update i m' ms) = customer_key_count c ms"
  using assms(1) by (induction ms) (auto simp: customer_key_count_def assms(2) split: if_splits)

lemma customer_key_count_update_fresh:
  assumes "i \<notin> fst ` set ms"
  shows "customer_key_count c (AList.update i m ms) =
    customer_key_count c ms + (if counts_toward_limit c m then 1 else 0)"
  using assms by (induction ms) (auto simp: customer_key_count_def)

text \<open>The counts of all customers and the configuration are as given.\<close>

definition counts_are :: "CryptoConfig \<Rightarrow> (string \<Rightarrow> nat) \<Rightarrow> KeyManager \<Rightarrow> bool" where
  "counts_are cfg n s \<longleftrightarrow> km_config s = cfg \<and> (\<forall>c. customer_key_count c (km_key_metadata s) = n c)"

lemma lock_free_counts [simp]: "lock_free (counts_are cfg n)"
  by (simp add: lock_free_def counts_are_def)

lemma update_key_usage_counts [intro]: "keeps (counts_are cfg n) (update_key_usage now i)"
  unfolding update_key_usage_def
  by (intro keeps_with_write lock_free_counts)
     (auto simp: keeps_def counts_are_def alter_metadata_def counts_toward_limit_def
       customer_key_count_update_same split: option.splits)

lemma lookups_keep_counts:
  "keeps (counts_are cfg n) (get_public_key now i)"
  "keeps (counts_are cfg n) (sign_data E now now' d i)"
  "keeps (counts_are cfg n) (km_verify_signature E now now' d sig i)"
  unfolding get_public_key_def sign_data_def km_verify_signature_def
  by (auto intro!: keeps_with_read keeps_sbind update_key_usage_counts split: option.splits prod.splits)

lemma insert_key_Inl_counts:
  "insert_key k m s = (Inl e, t) \<Longrightarrow> counts_are cfg n s \<Longrightarrow> counts_are cfg n t"
  by (auto simp: insert_key_def with_write_def Let_def counts_are_def split: if_splits)

lemma generate_Inl:
  assumes "generate_key_pair E g now now' a c s = (Inl e, t)"
  shows "t = s \<or> (\<exists>k m. insert_key k m s = (Inl e, t))"
proof -
  consider (early) "t = s" | (insert) u k m where "check_key_limits c s = (Inr (), u)" "insert_key k m u = (Inl e, t)"
    using assms
    unfolding generate_key_pair_def sbind_sget sbind_Inl_iff slift_iff sret_iff Let_def
    by (elim disjE exE conjE) (auto simp only: sbind_sget sbind_Inl_iff slift_iff sret_iff split_beta
      dest: check_key_limits_state)
  then show ?thesis by cases (auto dest: check_key_limits_state)
qed

lemma generate_counts:
  assumes "generate_key_pair E g now now' a c s = (r, t)" "counts_are cfg n s"
    and "\<And>k. r = Inr k \<Longrightarrow> kp_key_id k \<notin> fst ` set (km_key_metadata s)"
  shows "counts_are cfg n t \<or> n c < key_limit s \<and> counts_are cfg (n(c := n c + 1)) t"
proof (cases r)
  case (Inl e)
  with assms generate_Inl insert_key_Inl_counts show ?thesis by metis
next
  case (Inr k)
  with assms(1) have run: "generate_key_pair E g now now' a c s = (Inr k, t)" by simp
  then obtain priv where limit: "check_key_limits c s = (Inr (), s)"
    and ins: "insert_key k (fresh_metadata (km_config s) c k) s = (Inr (), t)"
    by (rule generate_key_pair_Inr)
  from limit assms(2) have "n c < key_limit s"
    by (auto simp: check_key_limits_def with_read_def ensure_def counts_are_def split: if_splits)
  moreover from ins have "km_config t = km_config s"
      "km_key_metadata t = AList.update (kp_key_id k) (fresh_metadata (km_config s) c k) (km_key_metadata s)"
    by (auto simp: insert_key_def with_write_def Let_def split: if_splits)
  ultimately show ?thesis using assms(2) assms(3) [OF Inr]
    by (auto simp: counts_are_def customer_key_count_update_fresh counts_toward_limit_def)
qed

text \<open>Under a guard of the key pairs nothing is inserted, so a rotation changes no count.\<close>

lemma generate_guarded_counts:
  assumes "generate_key_pair E g now now' a c s = (r, t)" "counts_are cfg n s" "0 < km_readers s Key_pairs"
  shows "(\<exists>e. r = Inl e) \<and> counts_are cfg n t"
proof (cases r)
  case (Inl e)
  with assms generate_Inl insert_key_Inl_counts show ?thesis by (metis sum.inject(1))
next
  case (Inr k)
  with assms generate_needs_free_lock show ?thesis by (metis less_irrefl)
qed

lemma rotate_key_counts: "keeps (counts_are cfg n) (rotate_key E g now now' i)"
proof (unfold keeps_def, intro allI impI)
  fix s r t assume s: "counts_are cfg n s" and run: "rotate_key E g now now' i s = (r, t)"
  define u where "u = s\<lparr> km_readers := (km_readers s)(Key_pairs := km_readers s Key_pairs + 1,
    Key_metadata := km_readers s Key_metadata + 1) \<rparr>"
  have u: "counts_are cfg n u" "0 < km_readers u Key_pairs" using s by (simp_all add: u_def counts_are_def)
  have gen: "\<exists>e v. generate_key_pair E g now now' a c u = (Inl e, v) \<and> counts_are cfg n v" for a c
    using generate_guarded_counts [OF _ u] by (metis surj_pair)
  have unlock: "counts_are cfg n (v\<lparr> km_readers := f \<rparr>) = counts_are cfg n v" for v f
    by (simp add: counts_are_def)
  show "counts_are cfg n t"
  proof (cases "\<exists>k m. map_of (km_key_pairs s) i = Some k \<and> map_of (km_key_metadata s) i = Some m")
    case True
    then obtain k m where found: "map_of (km_key_pairs s) i = Some k" "map_of (km_key_metadata s) i = Some m" by blast
    obtain e v where "generate_key_pair E g now now' (kp_algorithm k) (md_customer_id m) u = (Inl e, v)"
      "counts_are cfg n v" using gen by blast
    with run found s show ?thesis
      by (auto simp: rotate_key_def with_read_def u_def sbind_step(2) unlock split: if_splits stop.splits)
  next
    case False
    with run s show ?thesis
      by (auto simp: rotate_key_def with_read_def sret_def unlock split: if_splits option.splits)
  qed
qed

lemma rotate_all_counts: "counts_are cfg n s \<Longrightarrow> rotate_all E g clock ks s = (r, t) \<Longrightarrow> counts_are cfg n t"
proof (induction ks arbitrary: g clock s)
  case (Cons k ks)
  obtain q u where run: "rotate_key E g (clock 0) (clock 1) k s = (q, u)" by fastforce
  with Cons.prems(1) have "counts_are cfg n u" by (rule keepsD [OF rotate_key_counts])
  with Cons run show ?case by (auto split: sum.splits stop.splits)
qed simp

lemma rotate_expired_counts: "keeps (counts_are cfg n) (rotate_expired_keys E g now clock)"
  unfolding rotate_expired_keys_def
  by (intro keeps_sbind keeps_with_read lock_free_counts keeps_sget) (auto simp: keeps_def dest: rotate_all_counts)

lemma km_step_counts:
  assumes "km_step E s t" "counts_are cfg n s"
  shows "counts_are cfg n t \<or> (\<exists>c. n c < key_limit s \<and> counts_are cfg (n(c := n c + 1)) t)"
  using assms
proof (cases rule: km_step.cases)
  case (step_generate g now now' a c r)
  with assms(2) generate_counts show ?thesis by metis
qed (use assms(2) lookups_keep_counts rotate_expired_counts in \<open>metis keepsD\<close>)+

section \<open>Signatures\<close>

lemma unlockedD: "unlocked s \<Longrightarrow> km_readers s = (\<lambda>_. 0) \<and> km_writer s = (\<lambda>_. False)"
  by (auto simp: unlocked_def fun_eq_iff)

lemma with_read_unlocked:
  assumes "unlocked s" "m (s\<lparr> km_readers := (km_readers s)(l := 1) \<rparr>) = (Inr x, t\<lparr> km_readers := (km_readers t)(l := 1) \<rparr>)"
    and "unlocked t"
  shows "with_read l m s = (Inr x, t)"
proof -
  have "(\<lambda>_. 0)(l := 0) = (\<lambda>_. 0 :: nat)" by auto
  with assms unlockedD [OF assms(1)] unlockedD [OF assms(3)] show ?thesis by (simp add: with_read_def)
qed

lemma insert_key_unlocked:
  assumes "unlocked s" "insert_key k m s = (Inr (), t)"
  shows "unlocked t \<and> map_of (km_key_pairs t) (kp_key_id k) = Some k \<and> km_master_key t = km_master_key s"
  using assms unlockedD [OF assms(1)]
  by (auto simp: insert_key_def with_write_def Let_def unlocked_def update_conv' split: if_splits)

lemma update_key_usage_guarded:
  assumes "unlocked s"
  shows "\<exists>t. update_key_usage now i (s\<lparr> km_readers := (km_readers s)(Key_pairs := 1) \<rparr>) =
      (Inr (), t\<lparr> km_readers := (km_readers t)(Key_pairs := 1) \<rparr>) \<and>
    unlocked t \<and> km_key_pairs t = km_key_pairs s \<and> km_master_key t = km_master_key s"
proof -
  have "(\<lambda>_. False)(Key_metadata := False) = (\<lambda>_. False)" by auto
  with unlockedD [OF assms] show ?thesis
    by (intro exI [of _ "s\<lparr> km_key_metadata := alter_metadata i
      (\<lambda>m. m\<lparr> md_usage_count := md_usage_count m + 1, md_last_used_at := Some now \<rparr>) (km_key_metadata s) \<rparr>"])
       (simp add: update_key_usage_def with_write_def Let_def unlocked_def)
qed

lemma sign_data_ok:
  assumes "unlocked s" "map_of (km_key_pairs s) i = Some k" "\<not> is_key_expired now k"
    and "decrypt_private_key E (km_master_key s) (kp_private_key k) = Inr priv"
    and "sign_with E (kp_algorithm k) d priv = Inr sig"
  shows "\<exists>t. sign_data E now now' d i s = (Inr sig, t) \<and> unlocked t \<and> km_key_pairs t = km_key_pairs s"
proof -
  obtain t where t: "update_key_usage now' i (s\<lparr> km_readers := (km_readers s)(Key_pairs := 1) \<rparr>) =
      (Inr (), t\<lparr> km_readers := (km_readers t)(Key_pairs := 1) \<rparr>)" "unlocked t" "km_key_pairs t = km_key_pairs s"
    using update_key_usage_guarded [OF assms(1)] by blast
  have "sign_data E now now' d i s = (Inr sig, t)"
    unfolding sign_data_def
    by (rule with_read_unlocked [OF assms(1) _ t(2)])
       (simp add: assms(2-5) sbind_def [of "update_key_usage now' i"] t(1) [simplified] sret_def)
  with t show ?thesis by blast
qed

lemma verify_signature_ok:
  assumes "unlocked s" "map_of (km_key_pairs s) i = Some k" "\<not> is_key_expired now k"
    and "verify_with E (kp_algorithm k) d sig (kp_public_key k) = Inr True"
  shows "\<exists>t. km_verify_signature E now now' d sig i s = (Inr True, t) \<and> unlocked t"
proof -
  obtain t where t: "update_key_usage now' i (s\<lparr> km_readers := (km_readers s)(Key_pairs := 1) \<rparr>) =
      (Inr (), t\<lparr> km_readers := (km_readers t)(Key_pairs := 1) \<rparr>)" "unlocked t"
    using update_key_usage_guarded [OF assms(1)] by blast
  have "km_verify_signature E now now' d sig i s = (Inr True, t)"
    unfolding km_verify_signature_def
    by (rule with_read_unlocked [OF assms(1) _ t(2)])
       (simp add: assms(2-4) sbind_def [of "update_key_usage now' i"] t(1) [simplified] sret_def)
  with t show ?thesis by blast
qed

lemma encrypted_key_decrypts:
  assumes "aead_laws E" "encrypt_private_key E g master priv = Inr enc"
  shows "decrypt_private_key E master enc = Inr priv"
  using assms by (auto simp: encrypt_private_key_def decrypt_private_key_def aead_laws_def Let_def result_simps)

lemma generated_keys_sign:
  assumes "crypto_laws E" "crypto_available E" "generate_keys E g a = Inr (pub, priv)" "a \<noteq> ''kyber768''"
  shows "\<exists>sig. sign_with E a d priv = Inr sig \<and> verify_with E a d sig pub = Inr True"
proof -
  define seed where "seed = (if a = ''dilithium5'' then fill g 32 else fill (skip 64 g) 32)"
  obtain sig where sig: "mldsa_sign E seed d = Some sig" using crypto_availableD(6) [OF assms(2)] by blast
  from assms(1) have "dsa_laws E" "kem_laws E" by (simp_all add: crypto_laws_def)
  with sig have "length (mldsa_public E seed) = 1952" "mldsa_signature E sig" "mldsa_verify E (mldsa_public E seed) sig d"
    by (auto simp: dsa_laws_def)
  with sig assms(3,4) \<open>kem_laws E\<close> show ?thesis
    by (auto simp: generate_keys_def generate_dilithium_keys_def generate_hybrid_pq_keys_def generate_kyber_keys_def
        sign_with_def verify_with_def sign_dilithium5_def verify_dilithium5_with_public_key_def
        sign_hybrid_pq_def verify_hybrid_pq_def seed_def Let_def result_simps kem_laws_def split: if_splits)
qed

section \<open>A concrete instance\<close>

definition sample_pair :: KeyPair where
  "sample_pair = \<lparr> kp_key_id = ''k'', kp_public_key = [1], kp_private_key = [2], kp_algorithm = ''dilithium5'',
     kp_created_at = 0, kp_expires_at = Some 10, kp_metadata = [] \<rparr>"

definition sample_key_manager :: KeyManager where
  "sample_key_manager = (key_manager_new sample_config (\<lambda>_. 7))
     \<lparr> km_key_pairs := [(''k'', sample_pair)],
       km_key_metadata := [(''k'', fresh_metadata sample_config ''c'' sample_pair)] \<rparr>"

lemma sample_expiry: "is_ok (calculate_expiry sample_crypto sample_config 0)"
  by (simp add: calculate_expiry_def sample_config_def crypto_config_from_env_def Let_def sample_crypto_defs
      sample_log_def sample_log_fields_def store_ext.extend_def log_ext.fields_def sample_store_def
      sample_store_fields_def ext.extend_def store_ext.fields_def sample_ext_def max_duration_secs_def
      representable_def chrono_min_secs_def chrono_max_secs_def)

lemma sample_limit: "unat (kmc_max_keys_per_customer (cfg_key_management sample_config)) = 10000"
  by (simp add: sample_config_def crypto_config_from_env_def env_uint_def)

lemma sample_key_manager_facts:
  "unlocked sample_key_manager" "km_config sample_key_manager = sample_config"
  "km_master_key sample_key_manager = Some (fill (\<lambda>_. 7) 32)"
  "map_of (km_key_pairs sample_key_manager) ''k'' = Some sample_pair"
  "km_key_metadata sample_key_manager = [(''k'', fresh_metadata sample_config ''c'' sample_pair)]"
  by (simp_all add: sample_key_manager_def key_manager_new_def unlocked_def)

lemma generate_succeeds:
  assumes "unlocked s" "can_generate E g now' a c s"
  shows "\<exists>k t. generate_key_pair E g now now' a c s = (Inr k, t)"
proof -
  from assms(1) have "\<not> km_writer s Key_metadata" by (simp add: unlocked_def)
  then obtain k where "generate_key_pair E g now now' a c s =
      sbind (insert_key k (fresh_metadata (km_config s) c k)) (\<lambda>_. sret k) s"
    using generate_reaches_insert [OF assms(2)] by blast
  with unlockedD [OF assms(1)] show ?thesis
    by (simp add: insert_key_def with_write_def Let_def sbind_def sret_def)
qed

definition sample_new :: KeyManager where
  "sample_new = key_manager_new sample_config (\<lambda>_. 7)"

lemma sample_new_unlocked: "unlocked sample_new"
  by (simp add: sample_new_def key_manager_new_def unlocked_def)

lemma sample_generates:
  "\<exists>k t. generate_key_pair sample_crypto (\<lambda>_. 3) 0 0 ''dilithium5'' ''c'' sample_new = (Inr k, t)"
proof (rule generate_succeeds [OF sample_new_unlocked])
  show "can_generate sample_crypto (\<lambda>_. 3) 0 ''dilithium5'' ''c'' sample_new"
    by (rule can_generate_available [where mk = "fill (\<lambda>_. 7) 32"])
       (simp_all add: sample_new_def key_manager_new_def sample_crypto_laws sample_expiry sample_limit
         customer_key_count_def validate_post_quantum_algorithm_def sample_config_facts known_policy_algorithm_def)
qed

text \<open>A manager whose customer has used up a limit of one key.\<close>

definition sample_full :: KeyManager where
  "sample_full = sample_key_manager\<lparr> km_config := sample_config\<lparr> cfg_key_management :=
     (cfg_key_management sample_config)\<lparr> kmc_max_keys_per_customer := 1 \<rparr> \<rparr> \<rparr>"

section \<open>Properties\<close>

text \<open>C35 (rotation deadlocks the key manager).  Take a state with no lock held, in which a key that is
  expired and still active could be replaced: its algorithm is allowed, its customer is below the key
  limit and the primitives work.  Then the periodic rotation never returns.  It waits for the write lock
  of the key pairs while it holds read guards on it, and from then on no call generates a key pair and
  every signature, verification and public key lookup waits for ever as well.\<close>

theorem rotation_deadlocks:
  assumes "crypto_available E" "unlocked s"
    and "km_master_key s = Some mk" "length mk = 32"
    and "\<And>t. is_ok (calculate_expiry E (km_config s) (clock t))"
    and "map_of (km_key_pairs s) key_id = Some k" "map_of (km_key_metadata s) key_id = Some m"
    and "md_status m = Active" "md_expires_at m = Some expiry" "expiry < now"
    and "validate_post_quantum_algorithm (km_config s) (kp_algorithm k) = Inr ()"
    and "customer_key_count (md_customer_id m) (km_key_metadata s) <
      unat (kmc_max_keys_per_customer (cfg_key_management (km_config s)))"
  shows "\<exists>s'. rotate_expired_keys E g now clock s = (Inl Hang, s') \<and>
    (\<forall>g t t' a c r u. generate_key_pair E g t t' a c s' \<noteq> (Inr r, u)) \<and>
    (\<forall>t t' d i. sign_data E t t' d i s' = (Inl Hang, s')) \<and>
    (\<forall>t t' d sig i. km_verify_signature E t t' d sig i s' = (Inl Hang, s')) \<and>
    (\<forall>t i. get_public_key t i s' = (Inl Hang, s'))"
proof -
  define ks where "ks = map fst (filter (\<lambda>(k, m). md_status m = Active \<and>
    (case md_expires_at m of Some expiry \<Rightarrow> expiry < now | None \<Rightarrow> False)) (km_key_metadata s))"
  have "key_id \<in> set ks" using map_of_SomeD [OF assms(7)] assms(8-10) by (force simp: ks_def)
  moreover have "rotatable E g' t key_id s" if "is_ok (calculate_expiry E (km_config s) t)" for g' t
    using can_generate_available [OF assms(1,3,4,11,12) that] assms(6,7) by (auto simp: rotatable_def)
  ultimately have "rotate_all E g clock ks s = (Inl Hang, wedged s)"
    using rotate_all_wedges [of s E clock key_id ks g] assms(2-5) by blast
  moreover have "with_read Key_metadata (sget f) s = (Inr (f (s\<lparr> km_readers := (km_readers s)(Key_metadata := 1) \<rparr>)), s)"
    for f :: "KeyManager \<Rightarrow> string list"
    using assms(2) by (simp add: with_read_def sget_def unlocked_def)
      (metis (no_types, lifting) KeyManager.surjective KeyManager.update_convs(5) fun_upd_triv)
  ultimately have "rotate_expired_keys E g now clock s = (Inl Hang, wedged s)"
    by (simp add: rotate_expired_keys_def sbind_def ks_def)
  moreover have "km_writer (wedged s) Key_pairs" by (simp add: wedged_def)
  ultimately show ?thesis
    by (intro exI [of _ "wedged s"])
       (auto simp: sign_data_def km_verify_signature_def get_public_key_def with_read_Hang
         dest: generate_needs_free_lock)
qed

theorem rotation_deadlocks_witness:
  "\<exists>s'. rotate_expired_keys sample_crypto (\<lambda>_. 3) 20 (\<lambda>_. 0) sample_key_manager = (Inl Hang, s') \<and>
    (\<forall>g t t' a c r u. generate_key_pair sample_crypto g t t' a c s' \<noteq> (Inr r, u)) \<and>
    (\<forall>t t' d i. sign_data sample_crypto t t' d i s' = (Inl Hang, s')) \<and>
    (\<forall>t t' d sig i. km_verify_signature sample_crypto t t' d sig i s' = (Inl Hang, s')) \<and>
    (\<forall>t i. get_public_key t i s' = (Inl Hang, s'))"
  by (rule rotation_deadlocks [where mk = "fill (\<lambda>_. 7) 32" and key_id = "''k''" and k = sample_pair
        and m = "fresh_metadata sample_config ''c'' sample_pair" and expiry = 10])
     (simp_all add: sample_key_manager_facts sample_crypto_laws sample_expiry sample_limit sample_pair_def
       customer_key_count_def validate_post_quantum_algorithm_def sample_config_facts known_policy_algorithm_def
       counts_toward_limit_def)

text \<open>C37 (a generated key signs).  A key pair for one of the two signature algorithms, generated while no lock
  is held, signs any data before it expires, and the manager accepts that signature; both calls return
  and leave the locks free.\<close>

theorem generated_key_signs:
  assumes "crypto_laws E" "crypto_available E" "unlocked s"
    and "generate_key_pair E g now now' a c s = (Inr k, s1)" "a \<noteq> ''kyber768''"
    and "\<not> is_key_expired t1 k" "\<not> is_key_expired t3 k"
  shows "\<exists>sig s2 s3. sign_data E t1 t2 d (kp_key_id k) s1 = (Inr sig, s2) \<and>
    km_verify_signature E t3 t4 d sig (kp_key_id k) s2 = (Inr True, s3) \<and> unlocked s3"
proof -
  obtain priv where keys: "generate_keys E g a = Inr (kp_public_key k, priv)" "kp_algorithm k = a"
    and enc: "encrypt_private_key E (skip 112 g) (km_master_key s) priv = Inr (kp_private_key k)"
    and ins: "insert_key k (fresh_metadata (km_config s) c k) s = (Inr (), s1)"
    using assms(4) by (rule generate_key_pair_Inr)
  note s1 = insert_key_unlocked [OF assms(3) ins]
  from assms(1) enc s1 have "decrypt_private_key E (km_master_key s1) (kp_private_key k) = Inr priv"
    by (auto simp: crypto_laws_def dest: encrypted_key_decrypts)
  moreover obtain sig where sig: "sign_with E (kp_algorithm k) d priv = Inr sig"
      "verify_with E (kp_algorithm k) d sig (kp_public_key k) = Inr True"
    using generated_keys_sign [OF assms(1,2) keys(1) assms(5)] keys(2) by blast
  ultimately obtain s2 where s2: "sign_data E t1 t2 d (kp_key_id k) s1 = (Inr sig, s2)" "unlocked s2"
      "km_key_pairs s2 = km_key_pairs s1"
    using sign_data_ok [of s1 "kp_key_id k" k t1 E priv d sig t2] s1 assms(6) by blast
  with verify_signature_ok [of s2 "kp_key_id k" k t3 E d sig t4] s1 assms(7) sig(2) show ?thesis by metis
qed

theorem generated_key_signs_witness:
  "\<exists>k s1 sig s2 s3.
    generate_key_pair sample_crypto (\<lambda>_. 3) 0 0 ''dilithium5'' ''c'' sample_new = (Inr k, s1) \<and>
    sign_data sample_crypto (min 0 (the (kp_expires_at k))) 1 [1, 2] (kp_key_id k) s1 = (Inr sig, s2) \<and>
    km_verify_signature sample_crypto (min 0 (the (kp_expires_at k))) 1 [1, 2] sig (kp_key_id k) s2 = (Inr True, s3) \<and>
    unlocked s3"
proof -
  obtain k t where k: "generate_key_pair sample_crypto (\<lambda>_. 3) 0 0 ''dilithium5'' ''c'' sample_new = (Inr k, t)"
    using sample_generates by blast
  have "\<not> is_key_expired (min 0 (the (kp_expires_at k))) k"
    by (simp add: is_key_expired_def split: option.split)
  with generated_key_signs [OF sample_crypto_laws sample_new_unlocked k, where ?d = "[1, 2]"] k
  show ?thesis by fastforce
qed

text \<open>The key limit is a bound.  Whatever calls are made on a new manager, successful, failed or hanging,
  no customer ever has more active keys than the configured limit.\<close>

lemma key_limit_respected:
  assumes "(km_step E)\<^sup>*\<^sup>* (key_manager_new config g) s"
  shows "customer_key_count c (km_key_metadata s) \<le> unat (kmc_max_keys_per_customer (cfg_key_management config))"
proof -
  let ?max = "unat (kmc_max_keys_per_customer (cfg_key_management config))"
  from assms have "\<exists>n. counts_are config n s \<and> (\<forall>c. n c \<le> ?max)"
  proof (induction rule: rtranclp_induct)
    case base
    show ?case by (intro exI [of _ "\<lambda>_. 0"]) (simp add: counts_are_def key_manager_new_def customer_key_count_def)
  next
    case (step s t)
    then obtain n where n: "counts_are config n s" "\<forall>c. n c \<le> ?max" by blast
    then have "key_limit s = ?max" by (simp add: counts_are_def)
    with km_step_counts [OF step(2) n(1)] n(2) consider "counts_are config n t"
      | c where "n c < ?max" "counts_are config (n(c := n c + 1)) t" by auto
    then show ?case
    proof cases
      case (2 c)
      with n(2) have "\<forall>c'. (n(c := n c + 1)) c' \<le> ?max" by simp
      with 2 show ?thesis by blast
    qed (use n(2) in blast)
  qed
  then show ?thesis by (auto simp: counts_are_def)
qed

lemma key_limit_respected_witness:
  "\<exists>k s. generate_key_pair sample_crypto (\<lambda>_. 3) 0 0 ''dilithium5'' ''c'' sample_new = (Inr k, s) \<and>
     customer_key_count ''c'' (km_key_metadata s) \<le> 10000"
proof -
  obtain k s where k: "generate_key_pair sample_crypto (\<lambda>_. 3) 0 0 ''dilithium5'' ''c'' sample_new = (Inr k, s)"
    using sample_generates by blast
  then have "km_step sample_crypto sample_new s"
    by (rule step_generate) (simp add: sample_new_def key_manager_new_def)
  then have "(km_step sample_crypto)\<^sup>*\<^sup>* (key_manager_new sample_config (\<lambda>_. 7)) s"
    by (auto simp: sample_new_def)
  from key_limit_respected [OF this, of "''c''"] k show ?thesis by (auto simp: sample_limit)
qed

text \<open>An exhausted key limit stays exhausted.  Once a customer has as many active keys as the limit
  allows, no later call, and in particular no rotation, makes room again: no key pair is ever generated
  for that customer by this process.\<close>

lemma key_limit_never_freed:
  assumes "(km_step E)\<^sup>*\<^sup>* s t" "key_limit s \<le> customer_key_count c (km_key_metadata s)"
  shows "generate_key_pair E g now now' a c t \<noteq> (Inr k, u)"
proof -
  from assms(1) have "km_config t = km_config s \<and>
    customer_key_count c (km_key_metadata s) \<le> customer_key_count c (km_key_metadata t)"
  proof (induction rule: rtranclp_induct)
    case (step t u)
    let ?n = "\<lambda>c. customer_key_count c (km_key_metadata t)"
    have "counts_are (km_config t) ?n t" by (simp add: counts_are_def)
    from km_step_counts [OF step(2) this] have "km_config u = km_config t \<and> ?n c \<le> customer_key_count c (km_key_metadata u)"
      by (auto simp: counts_are_def)
    with step.IH show ?case by simp
  qed simp
  with assms(2) have full: "key_limit t \<le> customer_key_count c (km_key_metadata t)" by simp
  show ?thesis
  proof
    assume "generate_key_pair E g now now' a c t = (Inr k, u)"
    then have "check_key_limits c t = (Inr (), t)" by (rule generate_key_pair_Inr)
    with full show False by (auto simp: check_key_limits_def with_read_def ensure_def split: if_splits)
  qed
qed

lemma key_limit_never_freed_witness:
  "\<forall>g now now' a k u. generate_key_pair sample_crypto g now now' a ''c''
     (snd (rotate_expired_keys sample_crypto (\<lambda>_. 3) 20 (\<lambda>_. 0) sample_full)) \<noteq> (Inr k, u)"
proof (intro allI)
  have "(km_step sample_crypto)\<^sup>*\<^sup>* sample_full
      (snd (rotate_expired_keys sample_crypto (\<lambda>_. 3) 20 (\<lambda>_. 0) sample_full))"
    by (intro r_into_rtranclp step_rotate) (rule prod.collapse [symmetric])
  moreover have "key_limit sample_full \<le> customer_key_count ''c'' (km_key_metadata sample_full)"
    by (simp add: sample_full_def sample_key_manager_facts customer_key_count_def counts_toward_limit_def)
  ultimately show "generate_key_pair sample_crypto g now now' a ''c''
     (snd (rotate_expired_keys sample_crypto (\<lambda>_. 3) 20 (\<lambda>_. 0) sample_full)) \<noteq> (Inr k, u)" for g now now' a k u
    by (rule key_limit_never_freed)
qed

end
