(* ===== verification/Crypto_Service.thy ===== *)
theory Crypto_Service
  imports Key_Manager
begin

text \<open>
  The crypto service (\<open>secret_broker_impl/crypto_engine/service.rs\<close>) that routes requests to the symmetric
  engine, the post-quantum provider and the key manager, and the software security module
  (\<open>secret_broker_impl/crypto_engine/hardware_security.rs\<close>).

  The performance monitor only collects numbers and its results are discarded by the service; it is not
  part of the state.  Request identifiers and time stamps are drawn but only logged.
\<close>

section \<open>State\<close>

record CryptoEngineService =
  svc_engine :: CryptoEngine
  svc_keys :: KeyManager
  svc_quantum :: QuantumResistantCrypto

type_synonym 'a svc = "(CryptoEngineService, anyhow stop, 'a) effect"

abbreviation on_engine :: "(CryptoEngine, anyhow, 'a) effect \<Rightarrow> 'a svc" where
  "on_engine m \<equiv> smap_err Fail (szoom svc_engine (\<lambda>e s. s\<lparr> svc_engine := e \<rparr>) m)"

abbreviation on_quantum :: "(QuantumResistantCrypto, anyhow, 'a) effect \<Rightarrow> 'a svc" where
  "on_quantum m \<equiv> smap_err Fail (szoom svc_quantum (\<lambda>q s. s\<lparr> svc_quantum := q \<rparr>) m)"

abbreviation on_key_manager :: "'a km \<Rightarrow> 'a svc" where
  "on_key_manager \<equiv> szoom svc_keys (\<lambda>k s. s\<lparr> svc_keys := k \<rparr>)"

section \<open>Operations\<close>

definition encryption_request ::
  "'z crypto_ext_scheme \<Rightarrow> rng \<Rightarrow> instant \<Rightarrow> bytes \<Rightarrow> EncryptionAlgorithm \<Rightarrow> string option \<Rightarrow> string \<Rightarrow> bytes option
    \<Rightarrow> EncryptionRequest" where
  "encryption_request E g now data algorithm key_id customer_id exporter_secret =
     \<lparr> ereq_id = uuid_to_string E (uuid_v4 E (fill g 16)), ereq_data = data, ereq_algorithm = algorithm,
       ereq_key_id = key_id, ereq_associated_data = None, ereq_customer_id = customer_id,
       ereq_timestamp = now, ereq_exporter_secret = exporter_secret \<rparr>"

definition decryption_request ::
  "'z crypto_ext_scheme \<Rightarrow> rng \<Rightarrow> instant \<Rightarrow> bytes \<Rightarrow> bytes option \<Rightarrow> EncryptionAlgorithm \<Rightarrow> string \<Rightarrow> string
    \<Rightarrow> bytes option \<Rightarrow> DecryptionRequest" where
  "decryption_request E g now encrypted_data nonce algorithm key_id customer_id exporter_secret =
     \<lparr> dreq_id = uuid_to_string E (uuid_v4 E (fill g 16)), dreq_encrypted_data = encrypted_data,
       dreq_nonce = nonce, dreq_algorithm = algorithm, dreq_key_id = key_id, dreq_associated_data = None,
       dreq_customer_id = customer_id, dreq_timestamp = now, dreq_exporter_secret = exporter_secret \<rparr>"

definition encrypt_data_with_key ::
  "'z crypto_ext_scheme \<Rightarrow> rng \<Rightarrow> (nat \<Rightarrow> instant) \<Rightarrow> bytes \<Rightarrow> EncryptionAlgorithm \<Rightarrow> string option \<Rightarrow> string
    \<Rightarrow> EncryptionResult svc" where
  "encrypt_data_with_key E g clock data algorithm key_id customer_id =
     (let request = encryption_request E g (clock 0) data algorithm key_id customer_id None in
      case algorithm of
        Kyber768 \<Rightarrow> on_quantum (qr_process_encryption_request E (skip 16 g) (clock 1) (clock 2) request)
      | _ \<Rightarrow> on_engine (eng_process_encryption_request E (skip 16 g) (clock 1) request))"

definition decrypt_data ::
  "'z crypto_ext_scheme \<Rightarrow> rng \<Rightarrow> (nat \<Rightarrow> instant) \<Rightarrow> bytes \<Rightarrow> EncryptionAlgorithm \<Rightarrow> string \<Rightarrow> string
    \<Rightarrow> DecryptionResult svc" where
  "decrypt_data E g clock encrypted_data algorithm key_id customer_id =
     (let request = decryption_request E g (clock 0) encrypted_data None algorithm key_id customer_id None in
      case algorithm of
        Kyber768 \<Rightarrow> on_quantum (qr_process_decryption_request E request)
      | _ \<Rightarrow> on_engine (eng_process_decryption_request E (clock 1) request))"

definition encrypt_pqc ::
  "'z crypto_ext_scheme \<Rightarrow> rng \<Rightarrow> (nat \<Rightarrow> instant) \<Rightarrow> bytes \<Rightarrow> string \<Rightarrow> string \<Rightarrow> bytes option \<Rightarrow> EncryptionResult svc" where
  "encrypt_pqc E g clock data envelope_key_id customer_id exporter_secret =
     on_quantum (qr_process_encryption_request E (skip 16 g) (clock 1) (clock 2)
       (encryption_request E g (clock 0) data Kyber768 (Some envelope_key_id) customer_id exporter_secret))"

definition decrypt_pqc ::
  "'z crypto_ext_scheme \<Rightarrow> rng \<Rightarrow> instant \<Rightarrow> bytes \<Rightarrow> bytes \<Rightarrow> string \<Rightarrow> string \<Rightarrow> bytes option \<Rightarrow> DecryptionResult svc" where
  "decrypt_pqc E g now encrypted_data kyber_ciphertext envelope_key_id customer_id exporter_secret =
     on_quantum (qr_process_decryption_request E
       (decryption_request E g now encrypted_data (Some kyber_ciphertext) Kyber768 envelope_key_id customer_id exporter_secret))"

definition svc_generate_key_pair ::
  "'z crypto_ext_scheme \<Rightarrow> rng \<Rightarrow> (nat \<Rightarrow> instant) \<Rightarrow> string \<Rightarrow> string \<Rightarrow> KeyPair svc" where
  "svc_generate_key_pair E g clock algorithm customer_id =
     on_key_manager (generate_key_pair E g (clock 0) (clock 1) algorithm customer_id)"

definition svc_get_public_key :: "instant \<Rightarrow> string \<Rightarrow> bytes svc" where
  "svc_get_public_key now key_id = on_key_manager (get_public_key now key_id)"

definition svc_sign_data :: "'z crypto_ext_scheme \<Rightarrow> (nat \<Rightarrow> instant) \<Rightarrow> bytes \<Rightarrow> string \<Rightarrow> bytes svc" where
  "svc_sign_data E clock data key_id = on_key_manager (sign_data E (clock 0) (clock 1) data key_id)"

definition svc_verify_signature ::
  "'z crypto_ext_scheme \<Rightarrow> (nat \<Rightarrow> instant) \<Rightarrow> bytes \<Rightarrow> bytes \<Rightarrow> string \<Rightarrow> bool svc" where
  "svc_verify_signature E clock data sig key_id =
     on_key_manager (km_verify_signature E (clock 0) (clock 1) data sig key_id)"

definition verify_persisted_envelope_signature ::
  "'z crypto_ext_scheme \<Rightarrow> bytes \<Rightarrow> bytes \<Rightarrow> bytes \<Rightarrow> anyhow + bool" where
  "verify_persisted_envelope_signature E data sig public_key =
     verify_dilithium5_with_public_key E data sig public_key"

section \<open>The software security module\<close>

datatype HsmStatus = Healthy | Unhealthy

record HardwareSecurityModule =
  hsm_status :: HsmStatus
  hsm_is_initialized :: bool
  hsm_key_store :: SealedKeyStore

definition hsm_from_config :: "string \<Rightarrow> anyhow + unit" where
  "hsm_from_config v = ensure (to_ascii_lowercase (trim v) = ''software'') ''unsupported HSM type''"

text \<open>\<open>new\<close>, with the result of opening the key store as an argument.\<close>

definition hsm_new :: "CryptoConfig \<Rightarrow> anyhow + SealedKeyStore \<Rightarrow> anyhow + HardwareSecurityModule" where
  "hsm_new config opened =
     rbind (ensure (hsm_enabled (cfg_hsm config))
       ''HardwareSecurityModule cannot be constructed while HSM support is disabled'') (\<lambda>_.
     rbind (hsm_from_config (hsm_type (cfg_hsm config))) (\<lambda>_.
     rbind (map_err (\<lambda>_. ''failed to initialise sealed key store for HSM'') opened) (\<lambda>store.
     Inr \<lparr> hsm_status = Healthy, hsm_is_initialized = True, hsm_key_store = store \<rparr>)))"

definition check_hsm_health :: "(HardwareSecurityModule, anyhow, unit) effect" where
  "check_hsm_health h =
     (if \<not> hsm_is_initialized h
      then (Inl ''HardwareSecurityModule is not initialized'', h\<lparr> hsm_status := Unhealthy \<rparr>)
      else (Inr (), h\<lparr> hsm_status := Healthy \<rparr>))"

definition hsm_health_check :: "HardwareSecurityModule \<Rightarrow> anyhow + HsmStatus" where
  "hsm_health_check h = Inr (if \<not> hsm_is_initialized h then Unhealthy else hsm_status h)"

definition hsm_generate_random_bytes :: "rng \<Rightarrow> nat \<Rightarrow> (HardwareSecurityModule, anyhow, bytes) effect" where
  "hsm_generate_random_bytes g n = sbind check_hsm_health (\<lambda>_. sret (fill g n))"

abbreviation on_hsm_store :: "(SealedKeyStore, 'e, 'a) effect \<Rightarrow> (HardwareSecurityModule, 'e, 'a) effect" where
  "on_hsm_store \<equiv> szoom hsm_key_store (\<lambda>k h. h\<lparr> hsm_key_store := k \<rparr>)"

definition hsm_store_key ::
  "'z crypto_ext_scheme \<Rightarrow> bytes \<Rightarrow> instant \<Rightarrow> string \<Rightarrow> bytes \<Rightarrow> string \<Rightarrow> (HardwareSecurityModule, anyhow, unit) effect" where
  "hsm_store_key E nonce now key_id key_data key_type =
     sbind check_hsm_health (\<lambda>_.
     smap_err (\<lambda>_. ''failed to store key in sealed key store'')
       (on_hsm_store (store_generic_key E nonce now key_id key_type key_data)))"

definition hsm_retrieve_key :: "'z crypto_ext_scheme \<Rightarrow> string \<Rightarrow> (HardwareSecurityModule, anyhow, bytes) effect" where
  "hsm_retrieve_key E key_id =
     sbind check_hsm_health (\<lambda>_.
     sbind (smap_err (\<lambda>_. ''failed to load key'') (on_hsm_store (load_generic_key E key_id))) (\<lambda>found.
     case found of Some (algorithm, key_bytes) \<Rightarrow> sret key_bytes | None \<Rightarrow> sfail ''key not found''))"

definition hsm_delete_key :: "'z crypto_ext_scheme \<Rightarrow> string \<Rightarrow> (HardwareSecurityModule, anyhow, unit) effect" where
  "hsm_delete_key E key_id =
     sbind check_hsm_health (\<lambda>_.
     smap_err (\<lambda>_. ''failed to delete key from sealed key store'') (on_hsm_store (delete_generic_key E key_id)))"

section \<open>Facts\<close>

text \<open>What is encrypted can be decrypted as long as the key pair stays in the provider's store.\<close>

definition pqc_opens :: "'z crypto_ext_scheme \<Rightarrow> CryptoEngineService \<Rightarrow> string \<Rightarrow> bytes \<Rightarrow> bytes \<Rightarrow> bytes \<Rightarrow> bool" where
  "pqc_opens E s kid ct kem p \<longleftrightarrow> qcc_enabled (cfg_quantum_crypto (qrc_config (svc_quantum s))) \<and>
     (\<exists>k. pq_key E (svc_quantum s) kid = Some k \<and> opens_to E k ct kem p)"

lemma encrypt_pqc_opens:
  assumes "crypto_laws E" "store_laws E" "encrypt_pqc E g clock d kid c x s = (Inr r, s1)"
  shows "pqc_opens E s1 kid (enc_ciphertext r) (enc_nonce r) d"
proof -
  let ?req = "encryption_request E g (clock 0) d Kyber768 (Some kid) c x"
  from assms(3) obtain q where q: "qr_process_encryption_request E (skip 16 g) (clock 1) (clock 2) ?req (svc_quantum s) = (Inr r, q)"
    and s1: "svc_quantum s1 = q" by (auto simp: encrypt_pqc_def effect_simps)
  from qr_encrypt_cases [OF q] have en: "qcc_enabled (cfg_quantum_crypto (qrc_config (svc_quantum s)))"
    and enc: "encrypt_with_mlkem E (skip 16 g) (clock 1) (clock 2) d (Some kid) x (svc_quantum s) = (Inr r, q)"
    by (auto simp: encryption_request_def)
  from encrypt_mlkem_ok [OF assms(1,2) enc] en s1 show ?thesis by (auto simp: pqc_opens_def)
qed

lemma decrypt_pqc_opens:
  assumes "crypto_laws E" "store_laws E" "store_available E" "pqc_opens E s kid ct kem p"
  shows "decrypt_pqc E g now ct kem kid c x s =
    (Inr \<lparr> dec_plaintext = p, dec_algorithm = ''mlkem768-hybrid'', dec_verified = True \<rparr>, s)"
proof -
  have "key_store_laws E" using assms(1,2) by (simp add: crypto_laws_def key_store_laws_def)
  from assms(4) obtain k where "pq_key E (svc_quantum s) kid = Some k" "opens_to E k ct kem p"
    and en: "qcc_enabled (cfg_quantum_crypto (qrc_config (svc_quantum s)))" by (auto simp: pqc_opens_def)
  from decrypt_opens [OF \<open>key_store_laws E\<close> assms(3) this(1,2)] en show ?thesis
    by (simp add: decrypt_pqc_def qr_process_decryption_request_def decryption_request_def smap_err_def szoom_def)
qed

text \<open>A signature made with a key pair just generated verifies under its public key, with no key manager.\<close>

lemma insert_key_found:
  "insert_key k m s = (Inr u, t) \<Longrightarrow> map_of (km_key_pairs t) (kp_key_id k) = Some k \<and> km_master_key t = km_master_key s"
  unfolding insert_key_def
  by (auto simp: with_write_def Let_def update_conv' split: if_splits)

lemma sign_data_Inr:
  assumes "sign_data E now now' d i s = (Inr sig, t)"
  obtains k priv where "map_of (km_key_pairs s) i = Some k" "decrypt_private_key E (km_master_key s) (kp_private_key k) = Inr priv"
    "sign_with E (kp_algorithm k) d priv = Inr sig"
  using with_read_Inr [OF assms [unfolded sign_data_def]]
  by (auto simp: effect_simps result_simps split: option.splits)

lemma generated_signature_verifies:
  assumes "crypto_laws E" "generate_key_pair E g now now' ''dilithium5'' c s = (Inr k, s1)"
    and "sign_data E t t' d (kp_key_id k) s1 = (Inr sig, s2)"
  shows "verify_dilithium5_with_public_key E d sig (kp_public_key k) = Inr True"
proof -
  obtain priv where keys: "generate_keys E g ''dilithium5'' = Inr (kp_public_key k, priv)" "kp_algorithm k = ''dilithium5''"
    and enc: "encrypt_private_key E (skip 112 g) (km_master_key s) priv = Inr (kp_private_key k)"
    and ins: "insert_key k (fresh_metadata (km_config s) c k) s = (Inr (), s1)"
    using assms(2) by (rule generate_key_pair_Inr)
  from assms(3) obtain priv' where "decrypt_private_key E (km_master_key s) (kp_private_key k) = Inr priv'"
    and sig: "sign_with E (kp_algorithm k) d priv' = Inr sig"
    using insert_key_found [OF ins] by (elim sign_data_Inr) auto
  moreover have "decrypt_private_key E (km_master_key s) (kp_private_key k) = Inr priv"
    using assms(1) enc by (auto simp: crypto_laws_def dest: encrypted_key_decrypts)
  ultimately have "mldsa_sign E priv d = Some sig"
    using keys(2) by (auto simp: sign_with_def sign_dilithium5_def result_simps)
  moreover have "kp_public_key k = mldsa_public E priv"
    using keys(1) by (auto simp: generate_keys_def generate_dilithium_keys_def Let_def)
  ultimately show ?thesis
    using assms(1) by (auto simp: verify_dilithium5_with_public_key_def crypto_laws_def dsa_laws_def)
qed

text \<open>With the schemes available the calls return.\<close>

lemma encrypt_pqc_available:
  assumes "crypto_laws E" "store_available E" "crypto_available E" "qcc_enabled (cfg_quantum_crypto (qrc_config (svc_quantum s)))"
  obtains r s1 where "encrypt_pqc E g clock d kid c x s = (Inr r, s1)" "svc_keys s1 = svc_keys s"
proof -
  obtain r q where "encrypt_with_mlkem E (skip 16 g) (clock 1) (clock 2) d (Some kid) x (svc_quantum s) = (Inr r, q)"
    using encrypt_mlkem_available [OF assms(1-3)] by blast
  then have "encrypt_pqc E g clock d kid c x s = (Inr r, s\<lparr> svc_quantum := q \<rparr>)"
    using assms(4) by (simp add: encrypt_pqc_def qr_process_encryption_request_def encryption_request_def smap_err_def szoom_def)
  then show thesis using that by simp
qed

lemma generate_and_sign_available:
  assumes "crypto_laws E" "crypto_available E" "unlocked s" "can_generate E g now' ''dilithium5'' c s"
    and "\<And>ex. calculate_expiry E (km_config s) now' = Inr (Some ex) \<Longrightarrow> t \<le> ex"
  obtains k s1 where "generate_key_pair E g now now' ''dilithium5'' c s = (Inr k, s1)"
    "\<And>d. \<exists>sig s2. sign_data E t t' d (kp_key_id k) s1 = (Inr sig, s2)"
proof -
  obtain k s1 where k: "generate_key_pair E g now now' ''dilithium5'' c s = (Inr k, s1)"
    using generate_succeeds [OF assms(3,4)] by blast
  obtain priv where keys: "generate_keys E g ''dilithium5'' = Inr (kp_public_key k, priv)" "kp_algorithm k = ''dilithium5''"
    and enc: "encrypt_private_key E (skip 112 g) (km_master_key s) priv = Inr (kp_private_key k)"
    and ex: "calculate_expiry E (km_config s) now' = Inr (kp_expires_at k)"
    and ins: "insert_key k (fresh_metadata (km_config s) c k) s = (Inr (), s1)"
    using k by (rule generate_key_pair_Inr)
  note s1 = insert_key_unlocked [OF assms(3) ins]
  have dec: "decrypt_private_key E (km_master_key s1) (kp_private_key k) = Inr priv"
    using assms(1) enc s1 by (auto simp: crypto_laws_def dest: encrypted_key_decrypts)
  have "\<not> is_key_expired t k" using ex assms(5) by (auto simp: is_key_expired_def not_less split: option.splits)
  moreover have "\<exists>sig. sign_with E (kp_algorithm k) d priv = Inr sig" for d
    using generated_keys_sign [OF assms(1,2) keys(1)] keys(2) by auto
  ultimately have "\<exists>sig s2. sign_data E t t' d (kp_key_id k) s1 = (Inr sig, s2)" for d
    using sign_data_ok [of s1 "kp_key_id k" k t E priv d _ t'] s1 dec by blast
  with k that show thesis by blast
qed

section \<open>Properties\<close>

text \<open>ML-KEM data does not decrypt through \<open>decrypt_data\<close>.  The service accepts ML-KEM-768 in its general
  encryption call, but its general decryption call never passes the KEM ciphertext on: for that algorithm it
  fails in every state and leaves the state as it is.\<close>

lemma decrypt_data_kyber_fails:
  "\<exists>e. decrypt_data E g clock d Kyber768 key_id customer_id s = (Inl (Fail e), s)"
  by (simp add: decrypt_data_def decryption_request_def qr_process_decryption_request_def smap_err_def szoom_def
      sbind_def slift_def sget_def sfail_def ensure_def)

end
