(* ===== verification/Broker.thy ===== *)
theory Broker
  imports Policy Threshold Crypto_Service
begin

text \<open>
  The broker's state (\<open>secret_broker_impl/state.rs\<close>) and the handlers that manage an existing record
  (\<open>secret_broker_impl/handlers.rs\<close>): deletion, attenuation, lease renewal, revocation, discharge minting
  and share custody.

  The state carries the sources of nondeterminism a handler consumes: the bytes the generator will return,
  the readings of the clock and the outcomes of the appends to the log.  A handler returns its result with
  the new state; the outcomes \<open>Panic\<close> and \<open>Hang\<close> are those of the components it calls.  A call of the
  store is given a nonce and, where the code may read the clock inside it, a reading, whether or not the
  branch taken uses them: the streams are arbitrary, so skipping an element loses no behaviour.
\<close>

section \<open>State\<close>

record broker_ext = crypto_ext +
  shares_to_json :: "Share list \<Rightarrow> anyhow + string"
  shares_from_json :: "string \<Rightarrow> anyhow + Share list"

record BrokerState =
  br_crypto :: CryptoEngineService
  br_sealed_store :: SealedStore
  br_default_customer_id :: string
  br_max_handle_ttl :: duration
  br_transparency :: "TransparencyLogger option"
  br_handle_hmac_key :: bytes
  br_redeem_token_ttl :: duration
  br_require_attested_discharge_mint :: bool
  br_allowed_discharge_principal_ids :: "string list"
  br_entropy :: rng
  br_clock :: "nat \<Rightarrow> instant"
  br_appends :: "nat \<Rightarrow> append_outcome"

type_synonym 'a handler = "(BrokerState, ServiceError stop, 'a) effect"

definition configure_discharge_policy :: "bool \<Rightarrow> string list \<Rightarrow> BrokerState \<Rightarrow> BrokerState" where
  "configure_discharge_policy require_attested allowed b =
     b\<lparr> br_require_attested_discharge_mint := require_attested,
        br_allowed_discharge_principal_ids := filter (\<lambda>v. v \<noteq> []) (map trim allowed) \<rparr>"

text \<open>\<open>Utc::now()\<close>, \<open>fill_bytes\<close> and \<open>Uuid::new_v4\<close>; \<open>split_rng\<close> hands a component the bytes it will draw.\<close>

definition utc_now :: "(BrokerState, 'e, instant) effect" where
  "utc_now b = (Inr (br_clock b 0), b\<lparr> br_clock := (\<lambda>i. br_clock b (i + 1)) \<rparr>)"

definition split_rng :: "nat \<Rightarrow> (BrokerState, 'e, rng) effect" where
  "split_rng n b = (Inr (br_entropy b), b\<lparr> br_entropy := skip n (br_entropy b) \<rparr>)"

definition draw :: "nat \<Rightarrow> (BrokerState, 'e, bytes) effect" where
  "draw n = sbind (split_rng n) (\<lambda>g. sret (fill g n))"

definition new_uuid :: "'z crypto_ext_scheme \<Rightarrow> (BrokerState, 'e, uuid) effect" where
  "new_uuid E = sbind (draw 16) (\<lambda>b. sret (uuid_v4 E b))"

section \<open>Components\<close>

text \<open>Calls of the sealed store, with \<open>map_err(ServiceError::Storage)\<close>; every call may draw a nonce.\<close>

definition on_store :: "(bytes \<Rightarrow> (SealedStore, anyhow, 'a) effect) \<Rightarrow> 'a handler" where
  "on_store f =
     sbind (draw 12) (\<lambda>nonce.
     smap_err (\<lambda>e. Fail (Storage e)) (szoom br_sealed_store (\<lambda>s b. b\<lparr> br_sealed_store := s \<rparr>) (f nonce)))"

definition store_load :: "'z store_ext_scheme \<Rightarrow> uuid \<Rightarrow> StoredEnvelopeRecord option handler" where
  "store_load E handle = sbind utc_now (\<lambda>now. on_store (\<lambda>n. load E n now handle))"

definition load_existing :: "'z store_ext_scheme \<Rightarrow> uuid \<Rightarrow> StoredEnvelopeRecord handler" where
  "load_existing E handle =
     sbind (store_load E handle) (\<lambda>found. slift (ok_or (Fail HandleNotFound) found))"

abbreviation try_svc :: "ServiceError + 'a \<Rightarrow> 'a handler" where
  "try_svc r \<equiv> slift (map_err Fail r)"

text \<open>A failed append is logged and otherwise ignored.\<close>

definition record_transparency :: "'z log_ext_scheme \<Rightarrow> TransparencyEvent \<Rightarrow> unit handler" where
  "record_transparency E ev b =
     (case br_transparency b of
        Some logger \<Rightarrow>
          (Inr (), b\<lparr> br_transparency := Some (snd (record_event E (br_appends b 0) ev logger)),
                     br_appends := (\<lambda>i. br_appends b (i + 1)) \<rparr>)
      | None \<Rightarrow> (Inr (), b))"

text \<open>Building an event reads the clock; the caller is the principal of the context.\<close>

definition log_event ::
  "'z log_ext_scheme \<Rightarrow> BrokerClientContext \<Rightarrow> (instant \<Rightarrow> TransparencyEvent) \<Rightarrow> unit handler" where
  "log_event E context mk =
     sbind utc_now (\<lambda>now.
     record_transparency E (with_caller
       (case ctx_principal_id context of Some p \<Rightarrow> p | None \<Rightarrow> ''unknown'') (mk now)))"

definition handle_identifier :: "'z ext_scheme \<Rightarrow> string \<Rightarrow> uuid handler" where
  "handle_identifier E raw = sbind (sget br_handle_hmac_key) (\<lambda>key. try_svc (parse_handle_identifier E key raw))"

section \<open>Deletion\<close>

definition delete_secret_impl :: "'z log_ext_scheme \<Rightarrow> BrokerClientContext \<Rightarrow> string \<Rightarrow> bool handler" where
  "delete_secret_impl E context handle =
     sbind (handle_identifier E handle) (\<lambda>handle_id.
     sbind (store_load E handle_id) (\<lambda>found.
     sbind (case found of
         Some r \<Rightarrow> try_svc (validate_v2_record_management_requirements E r context)
       | None \<Rightarrow> sret ()) (\<lambda>_.
     sbind (on_store (\<lambda>_. delete_op E handle_id)) (\<lambda>removed.
     sbind (log_event E context (\<lambda>now.
         delete_event E now handle removed (Some (JObject (append_context_transparency_meta E context []))))) (\<lambda>_.
     sret removed)))))"

section \<open>Attenuation\<close>

definition BROKER_MAX_USES :: "32 word" where "BROKER_MAX_USES = 1"

record ThirdPartyCaveatRequest =
  tp_location :: string
  tp_condition :: string

record AttenuateV2Request =
  att_handle :: string
  att_tenant_id :: "string option"
  att_provider :: "string option"
  att_circuit_id :: "string option"
  att_node_id :: "string option"
  att_action :: "string option"
  att_max_uses :: "32 word option"
  att_third_party :: "ThirdPartyCaveatRequest option"

definition normalize_optional_string :: "string \<Rightarrow> string option" where
  "normalize_optional_string v = (let t = trim v in if t = [] then None else Some t)"

text \<open>The optional first-party caveats in the order of the code, each with its description.\<close>

definition requested_caveats :: "AttenuateV2Request \<Rightarrow> (string \<times> Caveat) list" where
  "requested_caveats p =
     (let opt = (\<lambda>v name mk. case Option.bind v normalize_optional_string of
            Some t \<Rightarrow> [(name @ ''='' @ t, mk t)] | None \<Rightarrow> []) in
      opt (att_tenant_id p) ''tenant_id'' TenantId @ opt (att_provider p) ''provider'' Provider @
      opt (att_circuit_id p) ''circuit_id'' CircuitId @ opt (att_node_id p) ''node_id'' NodeId @
      opt (att_action p) ''action'' Action)"

text \<open>The third-party caveat: a fresh identifier and secret are sealed with the record first.\<close>

definition attenuate_third_party ::
  "'z crypto_ext_scheme \<Rightarrow> uuid \<Rightarrow> ThirdPartyCaveatRequest option \<Rightarrow> ((string \<times> Caveat) list \<times> string option) handler" where
  "attenuate_third_party E handle_id third_party =
     (case third_party of
        None \<Rightarrow> sret ([], None)
      | Some tp \<Rightarrow>
          sbind (try_svc (ok_or (InvalidAttenuation ''third-party location must be non-empty'')
            (normalize_optional_string (tp_location tp)))) (\<lambda>location.
          sbind (try_svc (ok_or (InvalidAttenuation ''third-party condition must be non-empty'')
            (normalize_optional_string (tp_condition tp)))) (\<lambda>condition.
          sbind (new_uuid E) (\<lambda>u.
          let key_id = uuid_to_string E u in
          sbind (draw 32) (\<lambda>secret.
          sbind utc_now (\<lambda>now.
          sbind (on_store (\<lambda>n. append_third_party_caveat_key E n handle_id
            \<lparr> tpk_location = location, tpk_key_id = key_id, tpk_condition = Some condition,
              tpk_secret_b64 = b64_encode E secret, tpk_created_at = now \<rparr>)) (\<lambda>_.
          sret ([(''third_party:location='' @ location @ '' key_id='' @ key_id, ThirdParty location key_id)],
                Some key_id))))))))"

definition attenuate_handle_v2_impl ::
  "'z crypto_ext_scheme \<Rightarrow> BrokerClientContext \<Rightarrow> AttenuateV2Request \<Rightarrow> (string \<times> string option) handler" where
  "attenuate_handle_v2_impl E context p =
     sbind (try_svc (parse_handle_v2 E (att_handle p))) (\<lambda>mac.
     let handle_id = mac_identifier mac in
     sbind (sget br_handle_hmac_key) (\<lambda>key.
     sbind (try_svc (map_err (\<lambda>_. InvalidHandle) (verify_signature E (macaroon_root_key E key handle_id) mac))) (\<lambda>_.
     sbind (load_existing E handle_id) (\<lambda>r.
     sbind (try_svc (validate_v2_record_identity_requirements E r context)) (\<lambda>_.
     sbind (try_svc (ensure (case att_max_uses p of Some n \<Rightarrow> n = BROKER_MAX_USES | None \<Rightarrow> True)
       (InvalidAttenuation ''max_uses currently only supports the live single-use value 1''))) (\<lambda>_.
     sbind (attenuate_third_party E handle_id (att_third_party p)) (\<lambda>(third, third_party_caveat_id).
     let added = requested_caveats p @ (if att_max_uses p \<noteq> None then [(''max_uses=1'', MaxUses)] else []) @ third;
         attenuated_handle = HANDLE_V2_PREFIX @ mac_serialize E (foldl (add_caveat E) mac (map snd added)) in
     sbind (try_svc (ensure (added \<noteq> []) (InvalidAttenuation ''at least one caveat is required''))) (\<lambda>_.
     sbind (log_event E context (\<lambda>now. with_parent_handle E (att_handle p)
         (attenuate_event E now (att_handle p) (env_customer_id (rec_envelope r)) (Some (JObject
           (append_context_transparency_meta E context
             [(''caveats_added'', JInt (int (length added))), (''caveat_types'', JArray (map (JString \<circ> fst) added))])))))) (\<lambda>_.
     sret (attenuated_handle, third_party_caveat_id))))))))))"

section \<open>Lease renewal\<close>

record RenewLeaseRequest =
  ren_handle :: string
  ren_lease_duration_seconds :: "64 word"

record RenewLeaseResponse =
  ren_lease_expires_at :: instant
  ren_renewal_count :: "32 word"

definition cap_lease :: "instant option \<Rightarrow> instant \<Rightarrow> instant" where
  "cap_lease hard new_lease =
     (case hard of Some hard_ttl \<Rightarrow> if new_lease > hard_ttl then hard_ttl else new_lease | None \<Rightarrow> new_lease)"

definition renew_lease_impl ::
  "'z log_ext_scheme \<Rightarrow> BrokerClientContext \<Rightarrow> RenewLeaseRequest \<Rightarrow> RenewLeaseResponse handler" where
  "renew_lease_impl E context p =
     sbind (try_svc (ensure (\<not> (ren_lease_duration_seconds p = 0 \<or> ren_lease_duration_seconds p > 86400 * 30)) InvalidTtl)) (\<lambda>_.
     sbind (handle_identifier E (ren_handle p)) (\<lambda>handle_id.
     sbind (load_existing E handle_id) (\<lambda>r.
     sbind (try_svc (ensure (\<not> rec_revoked r) RevokedHandle)) (\<lambda>_.
     sbind (try_svc (ensure (rec_lifecycle r = RenewableLease)
       (Crypto ''only RenewableLease secrets support lease renewal''))) (\<lambda>_.
     sbind utc_now (\<lambda>now.
     sbind (try_svc (ensure (\<not> is_expired r now) ExpiredHandle)) (\<lambda>_.
     sbind (try_svc (validate_v2_record_identity_requirements E r context)) (\<lambda>_.
     sbind (slift (add_seconds E now (ren_lease_duration_seconds p))) (\<lambda>new_lease.
     let capped_lease = cap_lease (rec_expires_at r) new_lease;
         previous = (case rec_lease_expires_at r of Some t \<Rightarrow> t | None \<Rightarrow> now) in
     sbind (sbind utc_now (\<lambda>t. on_store (\<lambda>n. renew_lease E n t handle_id capped_lease))) (\<lambda>updated.
     sbind (log_event E context (\<lambda>t. with_lease_renewal (rec_lease_renewal_count updated) previous
         (renew_lease_event E t (ren_handle p) (env_customer_id (rec_envelope r)) (Some (JObject
           (append_context_transparency_meta E context
             [(''renewal_count'', JInt (uint (rec_lease_renewal_count updated))),
              (''lease_expires_at'', JString (to_rfc3339 E capped_lease))])))))) (\<lambda>_.
     sret \<lparr> ren_lease_expires_at = capped_lease, ren_renewal_count = rec_lease_renewal_count updated \<rparr>)))))))))))"

section \<open>Revocation\<close>

record RevokeSecretRequest =
  rvk_handle :: string
  rvk_reason :: "string option"

record RevokeSecretResponse =
  rvk_revoked :: bool
  rvk_revoked_at :: "instant option"

definition store_revoke :: "'z store_ext_scheme \<Rightarrow> uuid \<Rightarrow> string option \<Rightarrow> bool handler" where
  "store_revoke E handle reason = sbind utc_now (\<lambda>now. on_store (\<lambda>n. revoke E n now handle reason))"

definition revoke_secret_impl ::
  "'z log_ext_scheme \<Rightarrow> BrokerClientContext \<Rightarrow> RevokeSecretRequest \<Rightarrow> RevokeSecretResponse handler" where
  "revoke_secret_impl E context p =
     sbind (handle_identifier E (rvk_handle p)) (\<lambda>handle_id.
     sbind (load_existing E handle_id) (\<lambda>r.
     sbind (try_svc (validate_v2_record_management_requirements E r context)) (\<lambda>_.
     sbind (store_revoke E handle_id (rvk_reason p)) (\<lambda>revoked.
     if \<not> revoked then sret \<lparr> rvk_revoked = False, rvk_revoked_at = None \<rparr>
     else
       sbind utc_now (\<lambda>revoked_at.
       sbind (log_event E context (\<lambda>t. revoke_event E t (rvk_handle p) (env_customer_id (rec_envelope r)) (Some (JObject
         (append_context_transparency_meta E context (append_record_transparency_meta E r
           (json_insert ''revoked_at'' (JString (to_rfc3339 E revoked_at))
             (insert_some ''reason'' JString (rvk_reason p)
               [(''handle_version'', JInt 2),
                (''handle_fingerprint'', JString (handle_fingerprint E (rvk_handle p)))])))))))) (\<lambda>_.
       sret \<lparr> rvk_revoked = True, rvk_revoked_at = Some revoked_at \<rparr>))))))"

section \<open>Discharges\<close>

record MintDischargeRequest =
  mdr_location :: string
  mdr_primary_handle :: string
  mdr_caveat_id :: string

definition DISCHARGE_TOKEN_TTL_SECONDS :: "64 word" where "DISCHARGE_TOKEN_TTL_SECONDS = 5 * 60"

text \<open>The part after the record is loaded: the predicate and the key come from the sealed caveat state.\<close>

definition discharge_material ::
  "'z ext_scheme \<Rightarrow> bytes \<Rightarrow> Macaroon \<Rightarrow> StoredEnvelopeRecord \<Rightarrow> string \<Rightarrow> string
    \<Rightarrow> ServiceError + (bytes \<times> string \<times> string \<times> DischargeKeyRef)" where
  "discharge_material E root_key mac r location caveat_id =
     rbind (map_err (\<lambda>_. InvalidHandle) (verify_signature E root_key mac)) (\<lambda>_.
     rbind (ok_or (Crypto ''no sealed third-party caveat matches opaque caveat_id'')
       (find (\<lambda>e. tpk_location e = location \<and> tpk_key_id e = caveat_id) (caveat_keys_of r))) (\<lambda>stored.
     rbind (map_err (\<lambda>_. Crypto ''third-party binding'')
       (third_party_binding_info_by_key_id E mac root_key location (tpk_key_id stored))) (\<lambda>primary_signature.
     rbind (ok_or (Crypto ''stored third-party caveat is missing its predicate'') (tpk_condition stored)) (\<lambda>condition.
     rbind (discharge_keys_for_record E r) (\<lambda>keys.
     rbind (ok_or (Crypto ''no discharge secret registered'')
       (find (\<lambda>k. key_location k = location \<and> key_key_id k = tpk_key_id stored) keys)) (\<lambda>key.
     Inr (primary_signature, condition, tpk_key_id stored, key)))))))"

definition mint_discharge_impl :: "'z log_ext_scheme \<Rightarrow> BrokerClientContext \<Rightarrow> MintDischargeRequest \<Rightarrow> string handler" where
  "mint_discharge_impl E context p =
     sbind (sget (\<lambda>b. (br_require_attested_discharge_mint b, br_allowed_discharge_principal_ids b, br_handle_hmac_key b,
       br_default_customer_id b))) (\<lambda>(attested, allowed, hmac_key, default_customer).
     sbind (try_svc (validate_discharge_mint_requirements attested allowed context (mdr_location p))) (\<lambda>_.
     sbind (try_svc (ensure (trim (mdr_caveat_id p) \<noteq> []) (InvalidAttenuation ''mint discharge requires opaque caveat_id''))) (\<lambda>_.
     sbind (try_svc (ensure (trim (mdr_primary_handle p) \<noteq> []) InvalidHandle)) (\<lambda>_.
     sbind (try_svc (parse_handle_v2 E (trim (mdr_primary_handle p)))) (\<lambda>mac.
     sbind (load_existing E (mac_identifier mac)) (\<lambda>r.
     sbind (try_svc (discharge_material E (macaroon_root_key E hmac_key (mac_identifier mac)) mac r (mdr_location p)
       (trim (mdr_caveat_id p)))) (\<lambda>(primary_signature, condition, key_id, key).
     sbind utc_now (\<lambda>now.
     sbind (slift (add_seconds E now DISCHARGE_TOKEN_TTL_SECONDS)) (\<lambda>expires_at.
     sbind (log_event E context (\<lambda>t. wrap_event E t (''discharge:'' @ mdr_location p) ''discharge-key'' default_customer
         (Some (JObject (append_context_transparency_meta E context
           [(''type'', JString ''discharge''), (''location'', JString (mdr_location p)), (''condition'', JString condition),
            (''caveat_key_id'', JString key_id), (''discharge_expires_at'', JString (to_rfc3339 E expires_at)),
            (''primary_handle_id'', JString (uuid_to_string E (mac_identifier mac)))]))))) (\<lambda>_.
     sret (discharge_serialize E
       (mint_with_expiry E (mdr_location p) condition (key_key key) primary_signature (Some expires_at)))))))))))))"

section \<open>Share custody\<close>

text \<open>These handlers return \<open>anyhow\<close> errors; \<open>with_context\<close> replaces the message and keeps panics.\<close>

definition with_context :: "anyhow \<Rightarrow> 'a handler \<Rightarrow> (BrokerState, anyhow stop, 'a) effect" where
  "with_context msg = smap_err (\<lambda>e. case e of Fail _ \<Rightarrow> Fail msg | Panic \<Rightarrow> Panic | Hang \<Rightarrow> Hang)"

definition require_custodian ::
  "anyhow \<Rightarrow> BrokerClientContext \<Rightarrow> string \<Rightarrow> string \<Rightarrow> anyhow + unit" where
  "require_custodian missing context handle custodian_id =
     rbind (ensure (handle \<noteq> []) ''handle is required'') (\<lambda>_.
     rbind (ensure (custodian_id \<noteq> []) ''custodian_id is required'') (\<lambda>_.
     rbind (ok_or missing (trimmed (ctx_principal_id context))) (\<lambda>actual_principal.
     ensure (actual_principal = custodian_id) ''custodian_id does not match authenticated principal'')))"

text \<open>The record, when there is one, must pass the custody check.\<close>

definition check_custody ::
  "'z log_ext_scheme \<Rightarrow> BrokerClientContext \<Rightarrow> uuid \<Rightarrow> (BrokerState, anyhow stop, unit) effect" where
  "check_custody E context handle_id =
     sbind (with_context ''load sealed record'' (store_load E handle_id)) (\<lambda>found.
     case found of
       Some r \<Rightarrow> with_context ''identity validation'' (try_svc (validate_threshold_custody_record_requirements E r context))
     | None \<Rightarrow> sret ())"

definition claim_share_impl ::
  "'z log_ext_scheme \<Rightarrow> BrokerClientContext \<Rightarrow> string \<Rightarrow> string \<Rightarrow> (BrokerState, anyhow stop, ClaimResult) effect" where
  "claim_share_impl E context handle custodian_id =
     sbind (slift (map_err Fail (require_custodian ''authenticated principal is required for claim_share''
       context handle custodian_id))) (\<lambda>_.
     sbind (with_context ''invalid handle'' (handle_identifier E handle)) (\<lambda>handle_id.
     sbind (check_custody E context handle_id) (\<lambda>_.
     sbind (with_context ''claim share failed'' (on_store (\<lambda>n. claim_custodian_share E n handle_id custodian_id))) (\<lambda>result.
     sbind (with_context [] (log_event E context (\<lambda>t. wrap_event E t handle ''threshold-share-claim'' custodian_id
         (Some (JObject (append_context_transparency_meta E context
           [(''type'', JString ''claim_share''), (''custodian_id'', JString custodian_id),
            (''share_index'', JInt (uint (claim_x result))),
            (''previously_claimed'', JBool (claim_previously_claimed result))])))))) (\<lambda>_.
     sret result)))))"

record DistributeShareRequest =
  dst_handle :: string
  dst_share_index :: "32 word"
  dst_share :: Share
  dst_custodian_id :: string

definition share_ack :: "'z ext_scheme \<Rightarrow> bytes \<Rightarrow> DistributeShareRequest \<Rightarrow> string" where
  "share_ack E hmac_key req =
     b64_encode E (hmac_sha256 E hmac_key (as_bytes ''share-ack-v1:'' @ as_bytes (dst_handle req) @ as_bytes '':'' @
       as_bytes (dst_custodian_id req) @ as_bytes '':'' @ nat_le 4 (unat (dst_share_index req)) @
       as_bytes '':'' @ share_y (dst_share req)))"

definition distribute_share_impl ::
  "'z log_ext_scheme \<Rightarrow> BrokerClientContext \<Rightarrow> DistributeShareRequest \<Rightarrow> (BrokerState, anyhow stop, bool \<times> string) effect" where
  "distribute_share_impl E context req =
     sbind (slift (map_err Fail (require_custodian ''authenticated principal is required for distribute_share''
       context (dst_handle req) (dst_custodian_id req)))) (\<lambda>_.
     sbind (slift (ensure (\<not> (dst_share_index req = 0 \<or> dst_share_index req > 255)) (Fail ''share_index must be 1..=255''))) (\<lambda>_.
     sbind (with_context ''invalid handle'' (handle_identifier E (dst_handle req))) (\<lambda>handle_id.
     sbind (check_custody E context handle_id) (\<lambda>_.
     sbind (slift (ensure (share_x (dst_share req) = ucast (dst_share_index req)) (Fail ''share.x does not match share_index''))) (\<lambda>_.
     sbind (sget br_handle_hmac_key) (\<lambda>hmac_key.
     sbind (with_context [] (log_event E context (\<lambda>t. wrap_event E t (dst_handle req) ''threshold-share'' (dst_custodian_id req)
         (Some (JObject (append_context_transparency_meta E context
           [(''type'', JString ''distribute_share''), (''share_index'', JInt (uint (dst_share_index req))),
            (''custodian_id'', JString (dst_custodian_id req))])))))) (\<lambda>_.
     sret (True, share_ack E hmac_key req))))))))"

section \<open>Handlers as runs of the store\<close>

definition log_text :: "BrokerState \<Rightarrow> string" where
  "log_text b = (case br_transparency b of Some logger \<Rightarrow> log_file logger | None \<Rightarrow> [])"

text \<open>The store moves by store operations on existing handles, the log grows and the keys stay.\<close>

definition leads_to :: "'z store_ext_scheme \<Rightarrow> BrokerState \<Rightarrow> BrokerState \<Rightarrow> bool" where
  "leads_to E b b' \<longleftrightarrow>
     (\<forall>used. (store_step E)\<^sup>*\<^sup>* (br_sealed_store b, used) (br_sealed_store b', used)) \<and>
     prefix (log_text b) (log_text b') \<and> br_handle_hmac_key b' = br_handle_hmac_key b"

definition advances :: "'z store_ext_scheme \<Rightarrow> (BrokerState, 'e, 'a) effect \<Rightarrow> bool" where
  "advances E m \<longleftrightarrow> (\<forall>b r b'. m b = (r, b') \<longrightarrow> leads_to E b b')"

named_theorems advances_intros "handlers built from calls that only advance the broker"

lemma leads_to_refl [simp]: "leads_to E b b"
  by (simp add: leads_to_def)

lemma leads_to_trans: "leads_to E b c \<Longrightarrow> leads_to E c d \<Longrightarrow> leads_to E b d"
  unfolding leads_to_def by (intro conjI allI) (blast intro: rtranclp_trans, auto intro: prefix_order.trans)

lemma advances_pure [advances_intros]:
  "advances E (sret x)" "advances E (sfail e)" "advances E (slift q)" "advances E (sget f)"
  by (auto simp: advances_def effect_simps)

lemma advances_sources [advances_intros]: "advances E utc_now" "advances E (split_rng n)"
  by (auto simp: advances_def utc_now_def split_rng_def leads_to_def log_text_def)

lemma advances_sbind [advances_intros]:
  assumes "advances E m" and "\<And>x. advances E (f x)"
  shows "advances E (sbind m f)"
proof (unfold advances_def, intro allI impI)
  fix b r b' assume run: "sbind m f b = (r, b')"
  obtain q c where m: "m b = (q, c)" by fastforce
  with assms(1) have "leads_to E b c" by (auto simp: advances_def)
  moreover have "leads_to E c b'"
    using run m assms(2) by (cases q) (auto simp: sbind_def advances_def)
  ultimately show "leads_to E b b'" by (rule leads_to_trans)
qed

lemma advances_smap_err [advances_intros]: "advances E m \<Longrightarrow> advances E (smap_err g m)"
  by (auto simp: advances_def smap_err_def split: prod.splits)

lemma advances_draw [advances_intros]: "advances E (draw n)" "advances E (new_uuid E')"
  by (auto simp: draw_def new_uuid_def intro!: advances_intros)

lemma on_store_draw:
  "on_store f = sbind (split_rng 12) (\<lambda>g. smap_err (\<lambda>e. Fail (Storage e))
     (szoom br_sealed_store (\<lambda>s b. b\<lparr> br_sealed_store := s \<rparr>) (f (fill g 12))))"
  by (simp add: on_store_def draw_def fun_eq_iff sbind_def split_rng_def sret_def)

lemma advances_on_store:
  assumes "\<And>n s q s' used. nonce_ok n \<Longrightarrow> f n s = (q, s') \<Longrightarrow> store_step E (s, used) (s', used)"
  shows "advances E (on_store f)"
proof -
  have "advances E (smap_err g (szoom br_sealed_store (\<lambda>s b. b\<lparr> br_sealed_store := s \<rparr>) (f (fill rng 12))))"
    for g :: "anyhow \<Rightarrow> ServiceError stop" and rng
    using assms [of "fill rng 12"]
    by (intro advances_smap_err)
       (auto simp: advances_def szoom_iff leads_to_def log_text_def intro!: r_into_rtranclp)
  then show ?thesis unfolding on_store_draw by (intro advances_sbind advances_sources)
qed

lemma advances_record [advances_intros]: "advances E (record_transparency E' ev)"
proof -
  have "prefix (log_file l) (log_file (snd (record_event E' io ev l)))" for io l
    by (rule record_appends [of E' io ev l "fst (record_event E' io ev l)"]) simp
  then show ?thesis
    by (auto simp: advances_def record_transparency_def leads_to_def log_text_def split: option.splits)
qed

lemma advances_store_calls [advances_intros]:
  "advances E (on_store (\<lambda>n. load E n now h))" "advances E (on_store (\<lambda>n. delete_op E h))"
  "advances E (on_store (\<lambda>n. append_third_party_caveat_key E n h e))"
  "advances E (on_store (\<lambda>n. claim_custodian_share E n h cid))"
  "advances E (on_store (\<lambda>n. renew_lease E n now h lease))"
  "advances E (on_store (\<lambda>n. revoke E n now h reason))"
  by (rule advances_on_store, rule load_step, assumption+)
     (rule advances_on_store, rule delete_step, assumption,
      rule advances_on_store, rule caveat_key_step, assumption+,
      rule advances_on_store, rule claim_step, assumption+,
      rule advances_on_store, rule renew_step, assumption+,
      rule advances_on_store, rule revoke_step, assumption+)

lemma advances_branches [advances_intros]:
  "advances E m \<Longrightarrow> advances E m' \<Longrightarrow> advances E (if c then m else m')"
  "(\<And>y. x = Some y \<Longrightarrow> advances E (f y)) \<Longrightarrow> advances E m \<Longrightarrow> advances E (case x of None \<Rightarrow> m | Some y \<Rightarrow> f y)"
  "(\<And>y z. p = (y, z) \<Longrightarrow> advances E (g y z)) \<Longrightarrow> advances E (case p of (y, z) \<Rightarrow> g y z)"
  by (auto split: option.split prod.split)

lemma advances_calls [advances_intros]:
  "advances E (store_load E h)" "advances E (load_existing E h)" "advances E (store_revoke E h reason)"
  "advances E (log_event E' context mk)" "advances E (handle_identifier E'' raw)"
  unfolding store_load_def load_existing_def store_revoke_def log_event_def handle_identifier_def
  by (intro advances_intros)+

lemma advances_with_context [advances_intros]: "advances E m \<Longrightarrow> advances E (with_context msg m)"
  unfolding with_context_def by (rule advances_smap_err)

lemma advances_check_custody [advances_intros]: "advances E (check_custody E context h)"
  unfolding check_custody_def by (intro advances_intros)

lemma advances_third_party [advances_intros]: "advances E (attenuate_third_party E h tp)"
  unfolding attenuate_third_party_def Let_def by (intro advances_intros)

lemma advances_delete: "advances E (delete_secret_impl E context handle)"
  unfolding delete_secret_impl_def by (intro advances_intros)

lemma advances_attenuate: "advances E (attenuate_handle_v2_impl E context att)"
  unfolding attenuate_handle_v2_impl_def Let_def by (intro advances_intros)

lemma advances_renew: "advances E (renew_lease_impl E context ren)"
  unfolding renew_lease_impl_def Let_def by (intro advances_intros)

lemma advances_revoke: "advances E (revoke_secret_impl E context rvk)"
  unfolding revoke_secret_impl_def by (intro advances_intros)

lemma advances_mint_discharge: "advances E (mint_discharge_impl E context mdr)"
  unfolding mint_discharge_impl_def by (intro advances_intros)

lemma advances_claim: "advances E (claim_share_impl E context handle custodian)"
  unfolding claim_share_impl_def by (intro advances_intros)

lemma advances_distribute: "advances E (distribute_share_impl E context dst)"
  unfolding distribute_share_impl_def by (intro advances_intros)

lemmas advances_handlers = advances_delete advances_attenuate advances_renew advances_revoke
  advances_mint_discharge advances_claim advances_distribute

text \<open>One management call, by any caller, with any request and any outcome.\<close>

inductive manage_step :: "'z crypto_ext_scheme \<Rightarrow> BrokerState \<Rightarrow> BrokerState \<Rightarrow> bool" for E where
  manage_delete: "delete_secret_impl E context handle b = (r1, b') \<Longrightarrow> manage_step E b b'"
| manage_attenuate: "attenuate_handle_v2_impl E context att b = (r2, b') \<Longrightarrow> manage_step E b b'"
| manage_renew: "renew_lease_impl E context ren b = (r3, b') \<Longrightarrow> manage_step E b b'"
| manage_revoke: "revoke_secret_impl E context rvk b = (r4, b') \<Longrightarrow> manage_step E b b'"
| manage_discharge: "mint_discharge_impl E context mdr b = (r5, b') \<Longrightarrow> manage_step E b b'"
| manage_claim: "claim_share_impl E context handle custodian b = (r6, b') \<Longrightarrow> manage_step E b b'"
| manage_distribute: "distribute_share_impl E context dst b = (r7, b') \<Longrightarrow> manage_step E b b'"

lemma advancesD: "advances E m \<Longrightarrow> m b = (r, b') \<Longrightarrow> leads_to E b b'"
  by (simp add: advances_def)

lemma manage_step_leads: "manage_step E b b' \<Longrightarrow> leads_to E b b'"
  by (induction rule: manage_step.induct)
     (erule advancesD [OF advances_delete] advancesD [OF advances_attenuate] advancesD [OF advances_renew]
        advancesD [OF advances_revoke] advancesD [OF advances_mint_discharge] advancesD [OF advances_claim]
        advancesD [OF advances_distribute])+

lemma manage_run_leads: "(manage_step E)\<^sup>*\<^sup>* b b' \<Longrightarrow> leads_to E b b'"
  by (induction rule: rtranclp_induct) (auto intro: manage_step_leads leads_to_trans)

section \<open>A concrete instance\<close>

definition sample_broker :: BrokerState where
  "sample_broker = \<lparr>
     br_crypto = \<lparr> svc_engine = sample_engine, svc_keys = sample_new, svc_quantum = sample_quantum \<rparr>,
     br_sealed_store = sample_sealed, br_default_customer_id = ''default'',
     br_max_handle_ttl = 31536000 * nanos_per_sec, br_transparency = None, br_handle_hmac_key = [5],
     br_redeem_token_ttl = 86400 * nanos_per_sec, br_require_attested_discharge_mint = False,
     br_allowed_discharge_principal_ids = [], br_entropy = (\<lambda>_. 3), br_clock = (\<lambda>_. 0), br_appends = (\<lambda>_. Appended) \<rparr>"

lemma sample_crypto_base:
  "b64_encode sample_crypto = b64_encode sample_ext" "hmac_sha256 sample_crypto = hmac_sha256 sample_ext"
  "tree_get sample_crypto t h = Inr (t h)"
  by (simp_all add: sample_crypto_defs sample_log_def sample_log_fields_def store_ext.extend_def log_ext.fields_def
      sample_store_def sample_store_fields_def ext.extend_def store_ext.fields_def)

definition sample_mac :: Macaroon where
  "sample_mac = mint sample_crypto (macaroon_root_key sample_crypto [5] (replicate 16 9)) (replicate 16 9) [MaxUses]"

abbreviation sample_handle_text :: string where
  "sample_handle_text \<equiv> HANDLE_V2_PREFIX @ mac_serialize sample_crypto sample_mac"

lemma sample_handle_identifier: "parse_handle_identifier sample_crypto [5] sample_handle_text = Inr (replicate 16 9)"
proof -
  have id: "mac_identifier sample_mac = replicate 16 9" by (simp add: sample_mac_def mint_def)
  have "b64_lossless sample_crypto" using sample_crypto_store(1) by (simp add: store_laws_def)
  moreover have "b64_alphabet sample_crypto"
    using sample_b64_alphabet by (simp add: b64_alphabet_def sample_crypto_base)
  moreover have "mac_typed sample_mac"
    using sample_ext_laws(1) by (simp add: sample_mac_def mac_typed_def mint_def wf_str_def extend_sig_def
        sample_crypto_base hmac_32_def)
  moreover have "fits_u16 sample_mac" by (simp add: sample_mac_def fits_u16_def mint_def)
  moreover have "verify_signature sample_crypto (macaroon_root_key sample_crypto [5] (mac_identifier sample_mac)) sample_mac = Inr ()"
    by (simp add: sample_mac_def verify_signature_def mint_def Let_def)
  ultimately show ?thesis using issued_handle_identifier [of sample_crypto sample_mac "[5]"] id by simp
qed

abbreviation empty_broker :: BrokerState where
  "empty_broker \<equiv> sample_broker\<lparr> br_sealed_store := \<lparr> store_tree = Map.empty, store_key = [7] \<rparr> \<rparr>"

definition sample_distribute :: "bytes \<Rightarrow> DistributeShareRequest" where
  "sample_distribute y = \<lparr> dst_handle = sample_handle_text, dst_share_index = 1,
     dst_share = \<lparr> share_x = 1, share_y = y \<rparr>, dst_custodian_id = ''spiffe://t/a'' \<rparr>"

lemma sample_distributes:
  "\<exists>ack b'. distribute_share_impl sample_crypto sample_context (sample_distribute y) empty_broker = (Inr (True, ack), b')"
  using sample_handle_identifier
  by (simp add: distribute_share_impl_def sample_distribute_def require_custodian_def sample_context_facts
      HANDLE_V2_PREFIX_def handle_identifier_def with_context_def check_custody_def store_load_def utc_now_def
      on_store_draw split_rng_def load_def fetch_record_def sample_broker_def sample_crypto_base
      log_event_def record_transparency_def smap_err_def szoom_def sbind_def slift_def sget_def sret_def)

section \<open>Properties\<close>



text \<open>C34 (an acknowledgement does not prove possession of a share).  Whenever the broker acknowledges a deposited
  share, it acknowledges the same request with any other share data in its place, and ends in the same
  state: the data is never compared with the shares the broker holds.\<close>

theorem distribute_acks_any_share:
  assumes "distribute_share_impl E context req b = (Inr (accepted, ack), b')"
  shows "distribute_share_impl E context (req\<lparr> dst_share := (dst_share req)\<lparr> share_y := y \<rparr> \<rparr>) b =
    (Inr (True, share_ack E (br_handle_hmac_key b) (req\<lparr> dst_share := (dst_share req)\<lparr> share_y := y \<rparr> \<rparr>)), b')"
proof -
  from assms obtain h b1 b2 where
    first: "require_custodian ''authenticated principal is required for distribute_share'' context
        (dst_handle req) (dst_custodian_id req) = Inr ()"
      "\<not> (dst_share_index req = 0 \<or> dst_share_index req > 255)" "share_x (dst_share req) = ucast (dst_share_index req)"
    and h: "with_context ''invalid handle'' (handle_identifier E (dst_handle req)) b = (Inr h, b1)"
    and custody: "check_custody E context h b1 = (Inr (), b2)"
    and logged: "with_context [] (log_event E context (\<lambda>t. wrap_event E t (dst_handle req) ''threshold-share'' (dst_custodian_id req)
         (Some (JObject (append_context_transparency_meta E context
           [(''type'', JString ''distribute_share''), (''share_index'', JInt (uint (dst_share_index req))),
            (''custodian_id'', JString (dst_custodian_id req))]))))) b2 = (Inr (), b')"
    unfolding distribute_share_impl_def sbind_Inr_iff slift_iff map_err_Inr_iff ensure_Inr_iff sget_iff sret_iff
    by auto
  have "br_handle_hmac_key b2 = br_handle_hmac_key b"
    using advancesD [OF advances_with_context [OF advances_calls(5)] h, where E = E]
      advancesD [OF advances_check_custody custody]
    by (simp add: leads_to_def)
  with first h custody logged show ?thesis
    by (simp add: distribute_share_impl_def sbind_step(1) sret_def)
qed

theorem distribute_acks_any_share_witness:
  "\<exists>ack b'. distribute_share_impl sample_crypto sample_context (sample_distribute [1]) empty_broker = (Inr (True, ack), b') \<and>
     distribute_share_impl sample_crypto sample_context (sample_distribute [2]) empty_broker =
       (Inr (True, share_ack sample_crypto (br_handle_hmac_key empty_broker) (sample_distribute [2])), b')"
proof -
  obtain ack b' where run: "distribute_share_impl sample_crypto sample_context (sample_distribute [1]) empty_broker =
      (Inr (True, ack), b')" using sample_distributes by blast
  have "(sample_distribute [1])\<lparr> dst_share := (dst_share (sample_distribute [1]))\<lparr> share_y := [2] \<rparr> \<rparr> = sample_distribute [2]"
    by (simp add: sample_distribute_def)
  with distribute_acks_any_share [OF run, of "[2]"] run show ?thesis by auto
qed

end
