(* ===== verification/Issuance.thy ===== *)
theory Issuance
  imports Broker
begin

text \<open>
  The handlers that create a record (\<open>secret_broker_impl/handlers.rs\<close>): sealing a secret
  (\<open>persist_secret_v2_with_lifecycle\<close>), wrapping a caller's secret, minting a key and rotating a secret.

  The random scalars \<open>Scalar::random\<close> returns while a redeem token is split are the argument \<open>rnd\<close>; the
  curve is the argument \<open>C\<close>.
\<close>

section \<open>Components\<close>

text \<open>A component that draws an unknown number of random bytes gets every second byte of the stream.\<close>

definition fork_rng :: "(BrokerState, 'e, rng) effect" where
  "fork_rng b = (Inr (\<lambda>i. br_entropy b (2 * i)), b\<lparr> br_entropy := (\<lambda>i. br_entropy b (2 * i + 1)) \<rparr>)"

definition read_clock :: "nat \<Rightarrow> (BrokerState, 'e, nat \<Rightarrow> instant) effect" where
  "read_clock n b = (Inr (br_clock b), b\<lparr> br_clock := (\<lambda>i. br_clock b (i + n)) \<rparr>)"

definition on_crypto :: "'a svc \<Rightarrow> 'a handler" where
  "on_crypto m = smap_err (map_stop Crypto) (szoom br_crypto (\<lambda>c b. b\<lparr> br_crypto := c \<rparr>) m)"

section \<open>Sealing a secret\<close>

record StoredSecretOutcome =
  out_handle_id :: uuid
  out_customer_id :: string
  out_expires_at :: "instant option"
  out_envelope_key_id :: string
  out_redeem_token :: string
  out_redeem_token_expires_at :: "instant option"

record PersistSecretV2Input =
  inp_plaintext :: bytes
  inp_customer_id :: string
  inp_metadata :: "json option"
  inp_created_at :: instant
  inp_expires_at :: "instant option"
  inp_lifecycle :: SecretLifecycle
  inp_initial_lease_seconds :: "64 word option"
  inp_unwrap_principal_id :: "string option"

text \<open>The binding of the redeem token, the binding kept in the record and the one kept in the envelope.\<close>

definition secret_bindings ::
  "'z ext_scheme \<Rightarrow> BrokerClientContext \<Rightarrow> SecretLifecycle \<Rightarrow> bytes \<times> string option \<times> string option" where
  "secret_bindings E context lifecycle =
     (let binding_hash = sha256 E (ctx_exporter context) in
      case lifecycle of
        SingleUseUnwrap \<Rightarrow> (binding_hash, Some (b64_encode E binding_hash), Some (b64_encode E (ctx_exporter context)))
      | _ \<Rightarrow> ([], None, None))"

definition sealed_envelope ::
  "'z ext_scheme \<Rightarrow> PersistSecretV2Input \<Rightarrow> string \<Rightarrow> string option \<Rightarrow> EncryptionResult \<Rightarrow> SecretEnvelope" where
  "sealed_envelope E input envelope_key_id exporter_binding encryption = \<lparr>
     env_envelope_key_id = envelope_key_id, env_algorithm = enc_algorithm encryption,
     env_ciphertext = b64_encode E (enc_ciphertext encryption), env_kyber_ciphertext = b64_encode E (enc_nonce encryption),
     env_customer_id = inp_customer_id input, env_exporter_binding = exporter_binding, env_metadata = inp_metadata input,
     env_created_at = inp_created_at input \<rparr>"

definition sealed_entry ::
  "'z ext_scheme \<Rightarrow> BrokerClientContext \<Rightarrow> PersistSecretV2Input \<Rightarrow> SecretEnvelope \<Rightarrow> bytes \<Rightarrow> KeyPair \<Rightarrow> bytes
    \<Rightarrow> string option \<Rightarrow> instant \<Rightarrow> instant option \<Rightarrow> StoredEnvelopeRecord" where
  "sealed_entry E context input envelope signature key_pair redeem_nonce redeem_binding redeem_expires lease = \<lparr>
     rec_envelope = envelope, rec_signature = b64_encode E signature, rec_signing_key_id = kp_key_id key_pair,
     rec_signing_public_key = b64_encode E (kp_public_key key_pair), rec_signing_key_expires_at = kp_expires_at key_pair,
     rec_expires_at = inp_expires_at input, rec_last_accessed = None,
     rec_redeem_nonce = Some (b64_encode E redeem_nonce), rec_redeem_binding = redeem_binding,
     rec_unwrap_principal_id = inp_unwrap_principal_id input,
     rec_issued_with_authenticated_transport = ctx_authenticated_transport context,
     rec_issued_by_principal_id = normalized_context_principal context,
     rec_issued_by_peer_cert_sha256 = map_option (b64_encode E) (ctx_peer_cert_sha256 context),
     rec_issued_by_attestation_digest = map_option (b64_encode E) (ctx_attestation_digest context),
     rec_third_party_caveat_keys = None, rec_redeem_expires_at = Some redeem_expires, rec_redeem_used = False,
     rec_threshold = None, rec_threshold_commitments = None, rec_lifecycle = inp_lifecycle input,
     rec_lease_expires_at = lease, rec_lease_renewal_count = 0, rec_revoked = False, rec_revoked_at = None,
     rec_revocation_reason = None, rec_share_assignments = None, rec_held_shares = None \<rparr>"

text \<open>Adding a duration to a time panics when the sum is out of range.\<close>

definition persist_secret_v2_with_lifecycle ::
  "'z crypto_ext_scheme \<Rightarrow> BrokerClientContext \<Rightarrow> PersistSecretV2Input \<Rightarrow> StoredSecretOutcome handler" where
  "persist_secret_v2_with_lifecycle E context input =
     sbind (new_uuid E) (\<lambda>handle_id.
     let (binding_vec, redeem_binding, exporter_binding) = secret_bindings E context (inp_lifecycle input) in
     sbind (draw 16) (\<lambda>redeem_nonce.
     sbind (sget (\<lambda>b. (br_redeem_token_ttl b, br_handle_hmac_key b))) (\<lambda>(redeem_ttl, hmac_key).
     sbind (slift (ok_or Panic (checked_add E (inp_created_at input) redeem_ttl))) (\<lambda>redeem_expires.
     let redeem_token = b64_encode E (compute_redeem_token E hmac_key handle_id binding_vec redeem_nonce) in
     sbind (new_uuid E) (\<lambda>u.
     let envelope_key_id = uuid_to_string E u in
     sbind fork_rng (\<lambda>g. sbind (read_clock 3) (\<lambda>clock.
     sbind (on_crypto (encrypt_pqc E g clock (inp_plaintext input) envelope_key_id (inp_customer_id input)
       (map_option (\<lambda>_. ctx_exporter context) exporter_binding))) (\<lambda>encryption.
     let envelope = sealed_envelope E input envelope_key_id exporter_binding encryption in
     sbind fork_rng (\<lambda>g. sbind (read_clock 2) (\<lambda>clock.
     sbind (on_crypto (svc_generate_key_pair E g clock ''dilithium5'' (inp_customer_id input))) (\<lambda>key_pair.
     sbind (slift (map_err (\<lambda>e. Fail (Serialization e)) (envelope_to_json E envelope))) (\<lambda>envelope_bytes.
     sbind (read_clock 2) (\<lambda>clock.
     sbind (on_crypto (svc_sign_data E clock envelope_bytes (kp_key_id key_pair))) (\<lambda>signature.
     sbind (slift (case inp_initial_lease_seconds input of
         Some secs \<Rightarrow> rbind (add_seconds E (inp_created_at input) secs) (\<lambda>t. Inr (Some t))
       | None \<Rightarrow> Inr None)) (\<lambda>lease.
     sbind (on_store (\<lambda>n. insert_with_id E n handle_id (sealed_entry E context input envelope signature key_pair
       redeem_nonce redeem_binding redeem_expires lease))) (\<lambda>_.
     sret \<lparr> out_handle_id = handle_id, out_customer_id = inp_customer_id input, out_expires_at = inp_expires_at input,
            out_envelope_key_id = envelope_key_id, out_redeem_token = redeem_token,
            out_redeem_token_expires_at = Some redeem_expires \<rparr>))))))))))))))))"

section \<open>Wrapping\<close>

record WrapV2Request =
  wrp_plaintext :: bytes
  wrp_customer_id :: "string option"
  wrp_metadata :: "json option"
  wrp_lifecycle :: SecretLifecycle
  wrp_ttl_seconds :: "64 word option"
  wrp_initial_lease_seconds :: "64 word option"
  wrp_label :: "string option"
  wrp_tenant_id :: "string option"
  wrp_provider :: "string option"
  wrp_circuit_id :: "string option"
  wrp_node_id :: "string option"
  wrp_unwrap_principal_id :: "string option"

record WrapSecretOutcome =
  wro_handle :: string
  wro_expires_at :: "instant option"
  wro_redeem_token :: string
  wro_redeem_token_expires_at :: "instant option"

definition customer_or_default :: "string option \<Rightarrow> string \<Rightarrow> string" where
  "customer_or_default customer_id default_customer =
     (case Option.bind customer_id normalize_optional_string of Some c \<Rightarrow> c | None \<Rightarrow> default_customer)"

text \<open>\<open>if let Some(v) = x { caveats.push(mk(v)) }\<close>.\<close>

definition caveat_some :: "('a \<Rightarrow> Caveat) \<Rightarrow> 'a option \<Rightarrow> Caveat list" where
  "caveat_some mk x = (case x of Some v \<Rightarrow> [mk v] | None \<Rightarrow> [])"

definition v2_handle :: "'z ext_scheme \<Rightarrow> bytes \<Rightarrow> uuid \<Rightarrow> Caveat list \<Rightarrow> string" where
  "v2_handle E hmac_key handle_id caveats =
     HANDLE_V2_PREFIX @ mac_serialize E (mint E (macaroon_root_key E hmac_key handle_id) handle_id caveats)"

definition wrap_caveats :: "WrapV2Request \<Rightarrow> instant option \<Rightarrow> Caveat list" where
  "wrap_caveats request expires_at =
     (let norm = (\<lambda>v. Option.bind v normalize_optional_string) in
      caveat_some TenantId (norm (wrp_tenant_id request)) @ caveat_some Provider (norm (wrp_provider request)) @
      caveat_some CircuitId (norm (wrp_circuit_id request)) @ caveat_some NodeId (norm (wrp_node_id request)) @
      caveat_some Expires expires_at @ [Action ''unwrap'', MaxUses])"

definition wrap_metadata ::
  "'z log_ext_scheme \<Rightarrow> BrokerClientContext \<Rightarrow> WrapV2Request \<Rightarrow> string \<Rightarrow> string \<Rightarrow> 64 word option \<Rightarrow> string option
    \<Rightarrow> json_map" where
  "wrap_metadata E context request handle customer_id effective_ttl owner =
     insert_some ''secret_metadata'' id (wrp_metadata request)
    (insert_some ''unwrap_principal_id'' JString owner
    (insert_some ''ttl_seconds'' (\<lambda>n. JInt (uint n)) effective_ttl
    (json_insert ''customer_id'' (JString customer_id)
    (insert_some ''label'' JString (Option.bind (wrp_label request) normalize_optional_string)
    (append_context_transparency_meta E context
       [(''purpose'', JString ''wrap-secret-v2''), (''handle_version'', JInt 2),
        (''lifecycle'', JString (secret_lifecycle_label (wrp_lifecycle request))),
        (''handle_fingerprint'', JString (handle_fingerprint E handle))])))))"

definition wrap_secret_v2_impl ::
  "'z crypto_ext_scheme \<Rightarrow> BrokerClientContext \<Rightarrow> WrapV2Request \<Rightarrow> WrapSecretOutcome handler" where
  "wrap_secret_v2_impl E context request =
     sbind utc_now (\<lambda>created_at.
     sbind (sget (\<lambda>b. (br_default_customer_id b, br_max_handle_ttl b, br_handle_hmac_key b)))
       (\<lambda>(default_customer, max_ttl, hmac_key).
     sbind (slift (enforce_ttl E max_ttl (wrp_ttl_seconds request) created_at)) (\<lambda>(expires_at, effective_ttl).
     sbind (try_svc (v2_unwrap_principal context (wrp_lifecycle request) (wrp_unwrap_principal_id request))) (\<lambda>owner.
     sbind (persist_secret_v2_with_lifecycle E context \<lparr>
         inp_plaintext = wrp_plaintext request, inp_customer_id = customer_or_default (wrp_customer_id request) default_customer,
         inp_metadata = wrp_metadata request, inp_created_at = created_at, inp_expires_at = expires_at,
         inp_lifecycle = wrp_lifecycle request, inp_initial_lease_seconds = wrp_initial_lease_seconds request,
         inp_unwrap_principal_id = owner \<rparr>) (\<lambda>outcome.
     let handle = v2_handle E hmac_key (out_handle_id outcome) (wrap_caveats request (out_expires_at outcome)) in
     sbind (log_event E context (\<lambda>t. wrap_event E t handle (out_envelope_key_id outcome) (out_customer_id outcome)
         (Some (JObject (wrap_metadata E context request handle (out_customer_id outcome) effective_ttl owner))))) (\<lambda>_.
     sret \<lparr> wro_handle = handle, wro_expires_at = out_expires_at outcome, wro_redeem_token = out_redeem_token outcome,
            wro_redeem_token_expires_at = out_redeem_token_expires_at outcome \<rparr>))))))"

section \<open>Splitting the redeem token\<close>

text \<open>Both callers decode the token again, split it and seal threshold and commitments with the record.\<close>

definition split_redeem_token ::
  "'z store_ext_scheme \<Rightarrow> ('f :: field, 'g) curve \<Rightarrow> (nat \<Rightarrow> 'f) \<Rightarrow> uuid \<Rightarrow> string \<Rightarrow> byte \<Rightarrow> byte \<Rightarrow> Share list handler" where
  "split_redeem_token E C rnd handle_id redeem_token threshold num_shares =
     sbind (try_svc (ok_or (Crypto ''bad redeem token base64'') (b64_decode E redeem_token))) (\<lambda>token_bytes.
     sbind (try_svc (ensure (length token_bytes = 32) (Crypto ''redeem token not 32 bytes''))) (\<lambda>_.
     sbind (try_svc (map_err (\<lambda>_. Crypto ''feldman split'') (split C rnd token_bytes threshold num_shares))) (\<lambda>result.
     sbind (on_store (\<lambda>n. update_threshold_config E n handle_id threshold
       (map (b64_encode E) (split_commitments result)))) (\<lambda>_.
     sret (split_shares result)))))"

section \<open>Minting\<close>

record MintV2Request =
  mnt_ttl_seconds :: "64 word option"
  mnt_label :: "string option"
  mnt_tenant_id :: "string option"
  mnt_provider :: "string option"
  mnt_threshold :: "byte option"
  mnt_num_shares :: "byte option"
  mnt_lifecycle :: SecretLifecycle
  mnt_initial_lease_seconds :: "64 word option"
  mnt_custodian_ids :: "string list"
  mnt_unwrap_principal_id :: "string option"

record MintV2Response =
  mnr_handle :: string
  mnr_key :: string
  mnr_expires_at :: "instant option"
  mnr_redeem_token :: string
  mnr_redeem_token_expires_at :: "instant option"

definition unwrap_or :: "'a option \<Rightarrow> 'a \<Rightarrow> 'a" where
  "unwrap_or v d = (case v of Some x \<Rightarrow> x | None \<Rightarrow> d)"

definition mint_caveats :: "MintV2Request \<Rightarrow> instant option \<Rightarrow> Caveat list" where
  "mint_caveats request expires_at =
     caveat_some TenantId (mnt_tenant_id request) @ caveat_some Provider (mnt_provider request) @
     caveat_some Expires expires_at @ [Action ''unwrap'', MaxUses]"

text \<open>Indexing the shares panics when there are fewer of them than custodians.\<close>

definition assign_shares :: "string list \<Rightarrow> Share list \<Rightarrow> 'e stop + ShareAssignment list" where
  "assign_shares custodian_ids shares =
     (if length custodian_ids \<le> length shares
      then Inr (map (\<lambda>(cid, s). \<lparr> asg_custodian_id = cid, asg_share_index = share_x s, asg_claimed = False \<rparr>)
             (zip custodian_ids shares))
      else Inl Panic)"

definition hold_share :: "'z ext_scheme \<Rightarrow> Share \<Rightarrow> HeldShare" where
  "hold_share E s = \<lparr> held_x = share_x s, held_y_b64 = b64_encode E (share_y s) \<rparr>"

definition mint_redeem_token ::
  "'z broker_ext_scheme \<Rightarrow> ('f :: field, 'g) curve \<Rightarrow> (nat \<Rightarrow> 'f) \<Rightarrow> MintV2Request \<Rightarrow> StoredSecretOutcome \<Rightarrow> byte \<Rightarrow> byte
    \<Rightarrow> string handler" where
  "mint_redeem_token E C rnd request outcome threshold num_shares =
     (let custodian_mode = (threshold > 1 \<and> mnt_custodian_ids request \<noteq> []) in
      sbind (try_svc (ensure (\<not> (custodian_mode \<and> length (mnt_custodian_ids request) \<noteq> unat num_shares)) InvalidTtl)) (\<lambda>_.
      if threshold > 1 then
        sbind (split_redeem_token E C rnd (out_handle_id outcome) (out_redeem_token outcome) threshold num_shares) (\<lambda>shares.
        if custodian_mode then
          sbind (slift (assign_shares (mnt_custodian_ids request) shares)) (\<lambda>assignments.
          sbind (on_store (\<lambda>n. update_share_assignments E n (out_handle_id outcome) assignments
            (map (hold_share E) shares))) (\<lambda>_.
          sret []))
        else try_svc (map_err Serialization (shares_to_json E shares)))
      else sret (out_redeem_token outcome)))"

definition mint_aead_key_v2_impl ::
  "'z broker_ext_scheme \<Rightarrow> ('f :: field, 'g) curve \<Rightarrow> (nat \<Rightarrow> 'f) \<Rightarrow> BrokerClientContext \<Rightarrow> MintV2Request
    \<Rightarrow> MintV2Response handler" where
  "mint_aead_key_v2_impl E C rnd context request =
     sbind utc_now (\<lambda>created_at.
     sbind (sget (\<lambda>b. (br_default_customer_id b, br_max_handle_ttl b, br_handle_hmac_key b)))
       (\<lambda>(default_customer, max_ttl, hmac_key).
     sbind (slift (enforce_ttl E max_ttl (mnt_ttl_seconds request) created_at)) (\<lambda>(expires_at, ttl_seconds).
     sbind (draw 32) (\<lambda>key_bytes.
     let label = trimmed (mnt_label request);
         metadata = insert_some ''ttl_seconds'' (\<lambda>n. JInt (uint n)) ttl_seconds
           (insert_some ''label'' JString label [(''purpose'', JString ''aead-key''), (''handle_version'', JInt 2)]);
         threshold = unwrap_or (mnt_threshold request) 1; num_shares = unwrap_or (mnt_num_shares request) 1 in
     sbind (try_svc (ensure (\<not> (threshold < 1 \<or> threshold > num_shares)) InvalidTtl)) (\<lambda>_.
     sbind (try_svc (v2_unwrap_principal context (mnt_lifecycle request) (mnt_unwrap_principal_id request))) (\<lambda>owner.
     sbind (persist_secret_v2_with_lifecycle E context \<lparr>
         inp_plaintext = key_bytes, inp_customer_id = default_customer, inp_metadata = Some (JObject metadata),
         inp_created_at = created_at, inp_expires_at = expires_at, inp_lifecycle = mnt_lifecycle request,
         inp_initial_lease_seconds = mnt_initial_lease_seconds request, inp_unwrap_principal_id = owner \<rparr>) (\<lambda>outcome.
     let handle = v2_handle E hmac_key (out_handle_id outcome) (mint_caveats request expires_at) in
     sbind (mint_redeem_token E C rnd request outcome threshold num_shares) (\<lambda>redeem_token.
     sbind (log_event E context (\<lambda>t. wrap_event E t handle (out_envelope_key_id outcome) (out_customer_id outcome)
         (Some (JObject (insert_some ''unwrap_principal_id'' JString owner (insert_some ''label'' JString label
           (append_context_transparency_meta E context
             [(''purpose'', JString ''aead-key-v2''), (''handle_version'', JInt 2), (''threshold'', JInt (uint threshold)),
              (''num_shares'', JInt (uint num_shares))]))))))) (\<lambda>_.
     sret \<lparr> mnr_handle = handle, mnr_key = b64_encode E key_bytes, mnr_expires_at = expires_at,
            mnr_redeem_token = redeem_token, mnr_redeem_token_expires_at = out_redeem_token_expires_at outcome \<rparr>)))))))))"

section \<open>Rotation\<close>

record RotateSecretRequest =
  rot_old_handle :: string
  rot_new_plaintext :: bytes
  rot_customer_id :: "string option"
  rot_metadata :: "json option"
  rot_ttl_seconds :: "64 word option"
  rot_rotation_reason :: "string option"
  rot_lifecycle :: SecretLifecycle
  rot_threshold :: "byte option"
  rot_num_shares :: "byte option"

record RotateSecretResponse =
  ror_new_handle :: string
  ror_created_at :: instant
  ror_expires_at :: "instant option"
  ror_redeem_token :: string
  ror_redeem_token_expires_at :: "instant option"
  ror_old_revoked :: bool
  ror_new_shares :: "Share list"

definition rotate_secret_impl ::
  "'z crypto_ext_scheme \<Rightarrow> ('f :: field, 'g) curve \<Rightarrow> (nat \<Rightarrow> 'f) \<Rightarrow> BrokerClientContext \<Rightarrow> RotateSecretRequest
    \<Rightarrow> RotateSecretResponse handler" where
  "rotate_secret_impl E C rnd context p =
     sbind (handle_identifier E (rot_old_handle p)) (\<lambda>old_handle_id.
     sbind (load_existing E old_handle_id) (\<lambda>old_record.
     sbind (try_svc (validate_v2_record_management_requirements E old_record context)) (\<lambda>_.
     sbind utc_now (\<lambda>created_at.
     sbind (sget (\<lambda>b. (br_default_customer_id b, br_max_handle_ttl b, br_handle_hmac_key b)))
       (\<lambda>(default_customer, max_ttl, hmac_key).
     sbind (slift (enforce_ttl E max_ttl (rot_ttl_seconds p) created_at)) (\<lambda>(expires_at, _).
     let threshold = max (unwrap_or (rot_threshold p) 1) 1; num_shares = max (unwrap_or (rot_num_shares p) 1) threshold in
     sbind (try_svc (ensure (\<not> threshold > num_shares) InvalidTtl)) (\<lambda>_.
     sbind (try_svc (v2_unwrap_principal context (rot_lifecycle p) None)) (\<lambda>owner.
     sbind (persist_secret_v2_with_lifecycle E context \<lparr>
         inp_plaintext = rot_new_plaintext p, inp_customer_id = customer_or_default (rot_customer_id p) default_customer,
         inp_metadata = rot_metadata p, inp_created_at = created_at, inp_expires_at = expires_at,
         inp_lifecycle = rot_lifecycle p, inp_initial_lease_seconds = None, inp_unwrap_principal_id = owner \<rparr>) (\<lambda>outcome.
     let new_handle = v2_handle E hmac_key (out_handle_id outcome)
           (caveat_some Expires (out_expires_at outcome) @ [Action ''unwrap'', MaxUses]) in
     sbind (if threshold > 1
         then sbind (split_redeem_token E C rnd (out_handle_id outcome) (out_redeem_token outcome) threshold num_shares)
                (\<lambda>shares. sret ([], shares))
         else sret (out_redeem_token outcome, [])) (\<lambda>(redeem_token, new_shares).
     let reason = unwrap_or (rot_rotation_reason p) ''rotated to replacement capability'' in
     sbind (store_revoke E old_handle_id (Some reason)) (\<lambda>old_revoked.
     sbind (log_event E context (\<lambda>t. with_parent_handle E (rot_old_handle p)
         (rotate_event E t (rot_old_handle p) new_handle (out_envelope_key_id outcome) (out_customer_id outcome)
           (Some (JObject (append_context_transparency_meta E context
             [(''old_revoked'', JBool old_revoked), (''reason'', JString reason)])))))) (\<lambda>_.
     sret \<lparr> ror_new_handle = new_handle, ror_created_at = created_at, ror_expires_at = expires_at,
            ror_redeem_token = redeem_token, ror_redeem_token_expires_at = out_redeem_token_expires_at outcome,
            ror_old_revoked = old_revoked, ror_new_shares = new_shares \<rparr>))))))))))))"

section \<open>Running a handler\<close>

text \<open>The state after \<open>n\<close> readings of the clock, after \<open>n\<close> random bytes and after a fork of the generator.\<close>

definition tick :: "nat \<Rightarrow> BrokerState \<Rightarrow> BrokerState" where
  "tick n b = b\<lparr> br_clock := \<lambda>i. br_clock b (i + n) \<rparr>"

definition spend :: "nat \<Rightarrow> BrokerState \<Rightarrow> BrokerState" where
  "spend n b = b\<lparr> br_entropy := skip n (br_entropy b) \<rparr>"

definition halve :: "BrokerState \<Rightarrow> BrokerState" where
  "halve b = b\<lparr> br_entropy := \<lambda>i. br_entropy b (2 * i + 1) \<rparr>"

lemma source_fields [simp]:
  "br_crypto (tick n b) = br_crypto b" "br_crypto (spend n b) = br_crypto b" "br_crypto (halve b) = br_crypto b"
  "br_sealed_store (tick n b) = br_sealed_store b" "br_sealed_store (spend n b) = br_sealed_store b"
  "br_sealed_store (halve b) = br_sealed_store b"
  "br_transparency (tick n b) = br_transparency b" "br_transparency (spend n b) = br_transparency b"
  "br_transparency (halve b) = br_transparency b"
  "br_handle_hmac_key (tick n b) = br_handle_hmac_key b" "br_handle_hmac_key (spend n b) = br_handle_hmac_key b"
  "br_handle_hmac_key (halve b) = br_handle_hmac_key b"
  "br_default_customer_id (tick n b) = br_default_customer_id b" "br_max_handle_ttl (tick n b) = br_max_handle_ttl b"
  "br_redeem_token_ttl (tick n b) = br_redeem_token_ttl b" "br_redeem_token_ttl (spend n b) = br_redeem_token_ttl b"
  "br_default_customer_id (spend n b) = br_default_customer_id b" "br_max_handle_ttl (spend n b) = br_max_handle_ttl b"
  "br_clock (tick n b) i = br_clock b (i + n)" "br_clock (spend n b) = br_clock b" "br_clock (halve b) = br_clock b"
  "br_entropy (tick n b) = br_entropy b" "br_entropy (spend n b) = skip n (br_entropy b)"
  by (simp_all add: tick_def spend_def halve_def)

lemma tick_tick [simp]: "tick n (tick m b) = tick (n + m) b"
  by (simp add: tick_def add.assoc)

named_theorems run_simps "one call of a handler, run or inverted"

lemma run_sources [run_simps]:
  "sbind utc_now f0 b = f0 (br_clock b 0) (tick 1 b)"
  "sbind fork_rng f1 b = f1 (\<lambda>i. br_entropy b (2 * i)) (halve b)"
  "sbind (read_clock n) f2 b = f2 (br_clock b) (tick n b)"
  "sbind (draw n) f3 b = f3 (fill (br_entropy b) n) (spend n b)"
  "sbind (new_uuid E) f4 b = f4 (uuid_v4 E (fill (br_entropy b) 16)) (spend 16 b)"
  "sbind (sget g) f5 b = f5 (g b) b"
  by (simp_all add: utc_now_def fork_rng_def read_clock_def draw_def new_uuid_def split_rng_def sbind_def sret_def sget_def
      tick_def spend_def halve_def)

lemma run_try [run_simps]:
  "sbind (slift q) f b = (Inr y, u) \<longleftrightarrow> (\<exists>x. q = Inr x \<and> f x b = (Inr y, u))"
  by (auto simp: effect_simps)

lemmas run_calls [run_simps] =
  sbind_Inr_iff [where m = "load_existing E h" for E h] sbind_Inr_iff [where m = "store_load E h" for E h]
  sbind_Inr_iff [where m = "store_revoke E h r" for E h r]
  sbind_Inr_iff [where m = "on_crypto m" for m] sbind_Inr_iff [where m = "on_store m" for m]
  sbind_Inr_iff [where m = "log_event E c mk" for E c mk] sbind_Inr_iff [where m = "handle_identifier E h" for E h]
  sbind_Inr_iff [where m = "if c then m else m'" for c m m']

lemma leads_to_frame:
  "leads_to E b (b\<lparr> br_entropy := g \<rparr>)" "leads_to E b (b\<lparr> br_clock := k \<rparr>)" "leads_to E b (b\<lparr> br_crypto := c \<rparr>)"
  by (simp_all add: leads_to_def log_text_def)

lemma advances_frames [advances_intros]:
  "advances E fork_rng" "advances E (read_clock n)" "advances E (on_crypto m)"
  by (auto simp: advances_def fork_rng_def read_clock_def on_crypto_def smap_err_def szoom_def leads_to_frame
      split: prod.splits)

lemma load_existing_ok:
  assumes "store_laws E" "load_existing E h b = (Inr r, b1)"
  obtains r0 where "view E (br_sealed_store b) h = Some r0" "r = r0\<lparr> rec_last_accessed := Some (br_clock b 0) \<rparr>"
    "view E (br_sealed_store b1) = (view E (br_sealed_store b))(h \<mapsto> r)"
    "br_clock b1 = (\<lambda>i. br_clock b (i + 1))" "br_handle_hmac_key b1 = br_handle_hmac_key b"
    "br_crypto b1 = br_crypto b" "br_transparency b1 = br_transparency b"
proof -
  from assms(2) obtain s1 where
    l: "load E (fill (br_entropy b) 12) (br_clock b 0) h (br_sealed_store b) = (Inr (Some r), s1)"
    and b1: "b1 = b\<lparr> br_clock := \<lambda>i. br_clock b (i + 1), br_entropy := skip 12 (br_entropy b), br_sealed_store := s1 \<rparr>"
    by (auto simp: load_existing_def store_load_def utc_now_def on_store_draw split_rng_def effect_simps result_simps)
  have "nonce_ok (fill (br_entropy b) 12)" by simp
  from load_ok [OF assms(1) this l] obtain r0 where "view E (br_sealed_store b) h = Some r0"
    "r = r0\<lparr> rec_last_accessed := Some (br_clock b 0) \<rparr>" "view E s1 = (view E (br_sealed_store b))(h \<mapsto> r)"
    by (auto split: option.splits)
  with b1 that show thesis by simp
qed

lemma log_event_ok:
  "\<exists>b'. log_event E context mk b = (Inr (), b') \<and> br_sealed_store b' = br_sealed_store b \<and>
     br_handle_hmac_key b' = br_handle_hmac_key b \<and> br_crypto b' = br_crypto b"
  by (simp add: log_event_def utc_now_def record_transparency_def sbind_def split: option.split)

lemma log_event_store: "log_event E context mk b = (q, b') \<Longrightarrow> br_sealed_store b' = br_sealed_store b"
  using log_event_ok [of E "context" mk b] by auto

lemma run_log: "sbind (log_event E context mk) f b = f () (snd (log_event E context mk b))"
  using log_event_ok [of E "context" mk b] by (auto simp: sbind_def)

lemma on_crypto_store: "on_crypto m b = (q, b') \<Longrightarrow> br_sealed_store b' = br_sealed_store b"
  by (auto simp: on_crypto_def smap_err_def szoom_def split: prod.splits)

section \<open>What sealing a secret leaves behind\<close>

lemma on_store_ok:
  assumes "on_store f b = (Inr x, b')"
  obtains s where "f (fill (br_entropy b) 12) (br_sealed_store b) = (Inr x, s)"
    "b' = (spend 12 b)\<lparr> br_sealed_store := s \<rparr>"
  using assms by (auto simp: on_store_draw split_rng_def effect_simps spend_def)

lemma on_crypto_ok:
  "on_crypto m b = (Inr x, b') \<longleftrightarrow> (\<exists>c. m (br_crypto b) = (Inr x, c) \<and> b' = b\<lparr> br_crypto := c \<rparr>)"
  by (auto simp: on_crypto_def effect_simps)

text \<open>The record opens to the secret: the envelope is signed, its ciphertext decrypts and the redeem token is the
  one derived from the handle, the binding and the nonce of the record.\<close>

definition seals ::
  "'z crypto_ext_scheme \<Rightarrow> bytes \<Rightarrow> CryptoEngineService \<Rightarrow> BrokerClientContext \<Rightarrow> PersistSecretV2Input \<Rightarrow> StoredSecretOutcome
    \<Rightarrow> StoredEnvelopeRecord \<Rightarrow> bool" where
  "seals E hmac_key crypto context input out r \<longleftrightarrow>
     (\<exists>binding rb xb enc sig kp nonce rexp lease ebytes.
        secret_bindings E context (inp_lifecycle input) = (binding, rb, xb) \<and>
        r = sealed_entry E context input (sealed_envelope E input (out_envelope_key_id out) xb enc) sig kp nonce rb rexp lease \<and>
        envelope_to_json E (rec_envelope r) = Inr ebytes \<and>
        verify_persisted_envelope_signature E ebytes sig (kp_public_key kp) = Inr True \<and>
        pqc_opens E crypto (out_envelope_key_id out) (enc_ciphertext enc) (enc_nonce enc) (inp_plaintext input) \<and>
        out_redeem_token out = b64_encode E (compute_redeem_token E hmac_key (out_handle_id out) binding nonce) \<and>
        out_redeem_token_expires_at out = Some rexp \<and> out_expires_at out = inp_expires_at input)"

lemma crypto_calls_quantum:
  "svc_generate_key_pair E g clock a c s = (q, s') \<Longrightarrow> svc_quantum s' = svc_quantum s"
  "svc_sign_data E clock d k s = (q', s') \<Longrightarrow> svc_quantum s' = svc_quantum s"
  by (auto simp: svc_generate_key_pair_def svc_sign_data_def szoom_def split: prod.splits)

lemma persist_ok:
  assumes "crypto_laws E" "store_laws E" "persist_secret_v2_with_lifecycle E context input b = (Inr out, b')"
  obtains r where "out_handle_id out = uuid_v4 E (fill (br_entropy b) 16)"
    "view E (br_sealed_store b') = (view E (br_sealed_store b))(out_handle_id out \<mapsto> r)"
    "seals E (br_handle_hmac_key b) (br_crypto b') context input out r"
    "br_handle_hmac_key b' = br_handle_hmac_key b"
proof -
  obtain binding rb xb where bind: "secret_bindings E context (inp_lifecycle input) = (binding, rb, xb)"
    by (cases "secret_bindings E context (inp_lifecycle input)") auto
  define u1 where "u1 = uuid_v4 E (fill (br_entropy b) 16)"
  define kid where "kid = uuid_to_string E (uuid_v4 E (fill (skip 16 (skip 16 (br_entropy b))) 16))"
  obtain rexp enc b1 kp b2 ebytes sig b3 lease h n where
    enc: "on_crypto (encrypt_pqc E n (br_clock b) (inp_plaintext input) kid (inp_customer_id input)
       (map_option (\<lambda>_. ctx_exporter context) xb)) (tick 3 (halve (spend 16 (spend 16 (spend 16 b))))) = (Inr enc, b1)"
    and gen: "on_crypto (svc_generate_key_pair E (\<lambda>i. br_entropy b1 (2 * i)) (br_clock b1) ''dilithium5'' (inp_customer_id input))
       (tick 2 (halve b1)) = (Inr kp, b2)"
    and json: "envelope_to_json E (sealed_envelope E input kid xb enc) = Inr ebytes"
    and sig: "on_crypto (svc_sign_data E (br_clock b2) ebytes (kp_key_id kp)) (tick 2 b2) = (Inr sig, b3)"
    and ins: "on_store (\<lambda>n. insert_with_id E n u1 (sealed_entry E context input (sealed_envelope E input kid xb enc) sig kp
       (fill (skip 16 (br_entropy b)) 16) rb rexp lease)) b3 = (Inr h, b')"
    and out: "out = \<lparr> out_handle_id = u1, out_customer_id = inp_customer_id input, out_expires_at = inp_expires_at input,
       out_envelope_key_id = kid, out_redeem_token = b64_encode E (compute_redeem_token E (br_handle_hmac_key b) u1 binding
         (fill (skip 16 (br_entropy b)) 16)), out_redeem_token_expires_at = Some rexp \<rparr>"
    using assms(3) unfolding persist_secret_v2_with_lifecycle_def Let_def bind u1_def kid_def
    by (simp only: run_simps prod.case source_fields sret_iff map_err_Inr_iff ok_or_Inr_iff sum.inject) (elim exE conjE, blast)
  obtain c1 where c1: "encrypt_pqc E n (br_clock b) (inp_plaintext input) kid (inp_customer_id input)
      (map_option (\<lambda>_. ctx_exporter context) xb) (br_crypto b) = (Inr enc, c1)" and b1: "br_crypto b1 = c1"
      "br_sealed_store b1 = br_sealed_store b" "br_handle_hmac_key b1 = br_handle_hmac_key b"
    using enc by (auto simp: on_crypto_ok)
  obtain c2 where c2: "svc_generate_key_pair E (\<lambda>i. br_entropy b1 (2 * i)) (br_clock b1) ''dilithium5'' (inp_customer_id input) c1 = (Inr kp, c2)"
    and b2: "br_crypto b2 = c2" "br_sealed_store b2 = br_sealed_store b" "br_handle_hmac_key b2 = br_handle_hmac_key b"
    using gen b1 by (auto simp: on_crypto_ok)
  obtain c3 where c3: "svc_sign_data E (br_clock b2) ebytes (kp_key_id kp) c2 = (Inr sig, c3)"
    and b3: "br_crypto b3 = c3" "br_sealed_store b3 = br_sealed_store b" "br_handle_hmac_key b3 = br_handle_hmac_key b"
    using sig b2 by (auto simp: on_crypto_ok)
  have "verify_persisted_envelope_signature E ebytes sig (kp_public_key kp) = Inr True"
    using c2 c3 generated_signature_verifies [OF assms(1)]
    by (auto simp: svc_generate_key_pair_def svc_sign_data_def verify_persisted_envelope_signature_def szoom_iff)
  moreover have "pqc_opens E c3 kid (enc_ciphertext enc) (enc_nonce enc) (inp_plaintext input)"
    using encrypt_pqc_opens [OF assms(1,2) c1] crypto_calls_quantum(1) [OF c2] crypto_calls_quantum(2) [OF c3]
    by (simp add: pqc_opens_def)
  moreover obtain s where s: "insert_with_id E (fill (br_entropy b3) 12) u1 (sealed_entry E context input
      (sealed_envelope E input kid xb enc) sig kp (fill (skip 16 (br_entropy b)) 16) rb rexp lease) (br_sealed_store b3) = (Inr h, s)"
    and b': "b' = (spend 12 b3)\<lparr> br_sealed_store := s \<rparr>"
    using ins by (rule on_store_ok)
  moreover have "nonce_ok (fill (br_entropy b3) 12)" by simp
  note insert_ok [OF assms(2) this s]
  ultimately show thesis
    using that [of "sealed_entry E context input (sealed_envelope E input kid xb enc) sig kp
       (fill (skip 16 (br_entropy b)) 16) rb rexp lease"] bind json out b3 u1_def
    by (auto simp: seals_def sealed_entry_def)
qed

end
