(* ===== verification/Redemption.thy ===== *)
theory Redemption
  imports Issuance
begin

text \<open>
  Redemption of a handle (\<open>secret_broker_impl/handlers.rs\<close>): \<open>unwrap_secret_v2_impl\<close>, which checks the
  macaroon, the record, the caller and the redeem token before it decrypts, and \<open>combine_shares_impl\<close>, which
  checks the custody of shares and redeems with them.
\<close>

section \<open>Unwrapping\<close>

record UnwrapV2Request =
  unw_handle :: string
  unw_redeem_token :: string
  unw_tenant_id :: "string option"
  unw_provider :: "string option"
  unw_circuit_id :: "string option"
  unw_node_id :: "string option"
  unw_discharges :: "DischargeMacaroon list"

definition unwrap_verifier :: "UnwrapV2Request \<Rightarrow> instant \<Rightarrow> DischargeKeyRef list \<Rightarrow> CaveatVerifier" where
  "unwrap_verifier p now keys = \<lparr>
     ver_tenant_id = unw_tenant_id p, ver_provider = unw_provider p, ver_circuit_id = unw_circuit_id p,
     ver_node_id = unw_node_id p, ver_action = Some ''unwrap'', ver_use_count = 1, ver_now = now,
     ver_discharges = unw_discharges p, ver_discharge_keys = keys \<rparr>"

fun macaroon_service_error :: "MacaroonError \<Rightarrow> ServiceError" where
  "macaroon_service_error MacaroonError.SignatureInvalid = InvalidHandle"
| "macaroon_service_error MacaroonError.Expired = ExpiredHandle"
| "macaroon_service_error _ = Crypto ''macaroon''"

text \<open>The checks of the record and the caller, up to the signing key's expiry.\<close>

definition check_record ::
  "'z ext_scheme \<Rightarrow> StoredEnvelopeRecord \<Rightarrow> BrokerClientContext \<Rightarrow> instant \<Rightarrow> ServiceError + unit" where
  "check_record E r context now =
     rbind (ensure (\<not> rec_revoked r) RevokedHandle) (\<lambda>_.
     rbind (ensure (\<not> is_expired r now) ExpiredHandle) (\<lambda>_.
     rbind (validate_v2_record_identity_requirements E r context) (\<lambda>_.
     rbind (ensure (rec_lifecycle r = RenewableLease \<longrightarrow>
         (case rec_lease_expires_at r of Some lease_exp \<Rightarrow> \<not> now > lease_exp | None \<Rightarrow> True))
       (Crypto ''lease expired; renew with RenewLease before unwrapping'')) (\<lambda>_.
     ensure (case rec_signing_key_expires_at r of Some t \<Rightarrow> \<not> now > t | None \<Rightarrow> True)
       (Crypto ''sealed envelope signing key expired'')))))"

definition check_envelope :: "'z crypto_ext_scheme \<Rightarrow> StoredEnvelopeRecord \<Rightarrow> ServiceError + unit" where
  "check_envelope E r =
     rbind (map_err Storage (envelope_bytes E r)) (\<lambda>envelope.
     rbind (map_err Storage (signature_bytes E r)) (\<lambda>signature.
     rbind (ok_or ServiceError.SignatureInvalid (b64_decode E (rec_signing_public_key r))) (\<lambda>public_key.
     rbind (map_err Crypto (verify_persisted_envelope_signature E envelope signature public_key)) (\<lambda>verified.
     ensure verified ServiceError.SignatureInvalid))))"

definition expected_redeem_token ::
  "'z ext_scheme \<Rightarrow> bytes \<Rightarrow> uuid \<Rightarrow> StoredEnvelopeRecord \<Rightarrow> BrokerClientContext \<Rightarrow> instant \<Rightarrow> ServiceError + bytes" where
  "expected_redeem_token E hmac_key handle_id r context now =
     (let binding_hash = sha256 E (ctx_exporter context) in
      rbind (ok_or RedeemTokenInvalid (rec_redeem_nonce r)) (\<lambda>redeem_nonce_b64.
      rbind (case rec_redeem_binding r of
          Some binding \<Rightarrow>
            if binding \<noteq> [] then rbind (ensure (binding = b64_encode E binding_hash) RedeemTokenInvalid) (\<lambda>_. Inr binding_hash)
            else if rec_lifecycle r = SingleUseUnwrap then Inl RedeemTokenInvalid else Inr []
        | None \<Rightarrow> if rec_lifecycle r = SingleUseUnwrap then Inl RedeemTokenInvalid else Inr []) (\<lambda>effective_binding.
      rbind (ensure (\<not> (rec_lifecycle r \<noteq> RenewableLease \<and> rec_redeem_used r)) RedeemTokenUsed) (\<lambda>_.
      rbind (ok_or RedeemTokenInvalid (rec_redeem_expires_at r)) (\<lambda>redeem_expires_at.
      rbind (ensure (\<not> now > redeem_expires_at) RedeemTokenExpired) (\<lambda>_.
      rbind (ok_or RedeemTokenInvalid (b64_decode E redeem_nonce_b64)) (\<lambda>redeem_nonce.
      Inr (compute_redeem_token E hmac_key handle_id effective_binding redeem_nonce))))))))"

abbreviation record_threshold :: "StoredEnvelopeRecord \<Rightarrow> byte" where
  "record_threshold r \<equiv> unwrap_or (rec_threshold r) 1"

definition provided_redeem_token ::
  "'z broker_ext_scheme \<Rightarrow> ('f :: field, 'g :: ab_group_add) curve \<Rightarrow> StoredEnvelopeRecord \<Rightarrow> string \<Rightarrow> ServiceError + bytes" where
  "provided_redeem_token E C r redeem_token =
     (if record_threshold r > 1 then
        rbind (map_err (\<lambda>_. RedeemTokenInvalid) (shares_from_json E redeem_token)) (\<lambda>shares.
        rbind (ok_or RedeemTokenInvalid (rec_threshold_commitments r)) (\<lambda>encoded.
        rbind (collect_results (map (\<lambda>c. ok_or RedeemTokenInvalid (b64_decode E c)) encoded)) (\<lambda>commitments.
        map_err (\<lambda>_. RedeemTokenInvalid) (reconstruct C shares (record_threshold r) commitments))))
      else ok_or RedeemTokenInvalid (b64_decode E redeem_token))"

definition canonical_token ::
  "('f, 'g) curve \<Rightarrow> StoredEnvelopeRecord \<Rightarrow> bytes \<Rightarrow> ServiceError + bytes" where
  "canonical_token C r expected =
     (if record_threshold r > 1
      then rbind (ensure (length expected = SHARE_LENGTH) RedeemTokenInvalid) (\<lambda>_. Inr (canonical_secret_bytes C expected))
      else Inr expected)"

text \<open>Length test and constant-time comparison of the two tokens.\<close>

definition check_redeem_token ::
  "'z broker_ext_scheme \<Rightarrow> ('f :: field, 'g :: ab_group_add) curve \<Rightarrow> bytes \<Rightarrow> uuid \<Rightarrow> StoredEnvelopeRecord
    \<Rightarrow> BrokerClientContext \<Rightarrow> instant \<Rightarrow> string \<Rightarrow> ServiceError + unit" where
  "check_redeem_token E C hmac_key handle_id r context now redeem_token =
     rbind (expected_redeem_token E hmac_key handle_id r context now) (\<lambda>expected.
     rbind (provided_redeem_token E C r redeem_token) (\<lambda>provided.
     rbind (canonical_token C r expected) (\<lambda>expected.
     ensure (\<not> (length provided \<noteq> length expected \<or> provided \<noteq> expected)) RedeemTokenInvalid)))"

definition check_exporter ::
  "'z ext_scheme \<Rightarrow> StoredEnvelopeRecord \<Rightarrow> BrokerClientContext \<Rightarrow> ServiceError + bytes option" where
  "check_exporter E r context =
     rbind (map_err Storage (exporter_binding_bytes E r)) (\<lambda>binding.
     rbind (ensure (case binding of Some b \<Rightarrow> b = ctx_exporter context | None \<Rightarrow> True) ExporterBindingMismatch) (\<lambda>_.
     Inr binding))"

fun unwrap_label :: "SecretLifecycle \<Rightarrow> string" where
  "unwrap_label RenewableLease = ''lease_unwrap''"
| "unwrap_label ServiceBootstrap = ''bootstrap_unwrap''"
| "unwrap_label SingleUseUnwrap = ''unwrap''"

definition unwrap_metadata :: "'z ext_scheme \<Rightarrow> BrokerClientContext \<Rightarrow> StoredEnvelopeRecord \<Rightarrow> json_map" where
  "unwrap_metadata E context r =
     insert_some ''lease_renewal_count'' (\<lambda>n. JInt (uint n))
       (if rec_lifecycle r = RenewableLease then Some (rec_lease_renewal_count r) else None)
    (insert_some ''unwrap_principal_id'' JString (rec_unwrap_principal_id r)
    (insert_some ''issued_by_attestation_digest'' JString (rec_issued_by_attestation_digest r)
    (insert_some ''issued_by_peer_cert_sha256'' JString (rec_issued_by_peer_cert_sha256 r)
    (insert_some ''issued_by_principal_id'' JString (rec_issued_by_principal_id r)
    (json_insert ''issued_with_authenticated_transport'' (JBool (rec_issued_with_authenticated_transport r))
    (append_context_transparency_meta E context
       [(''lifecycle'', JString (unwrap_label (rec_lifecycle r)))]))))))"

definition unwrap_secret_v2_impl ::
  "'z broker_ext_scheme \<Rightarrow> ('f :: field, 'g :: ab_group_add) curve \<Rightarrow> BrokerClientContext \<Rightarrow> UnwrapV2Request
    \<Rightarrow> string handler" where
  "unwrap_secret_v2_impl E C context p =
     sbind (try_svc (parse_handle_v2 E (unw_handle p))) (\<lambda>mac.
     let handle_id = mac_identifier mac in
     sbind (load_existing E handle_id) (\<lambda>r.
     sbind (sget br_handle_hmac_key) (\<lambda>hmac_key.
     sbind utc_now (\<lambda>verify_now.
     sbind (try_svc (discharge_keys_for_record E r)) (\<lambda>keys.
     sbind (try_svc (map_err macaroon_service_error
       (verify E (macaroon_root_key E hmac_key handle_id) (unwrap_verifier p verify_now keys) mac))) (\<lambda>_.
     sbind utc_now (\<lambda>now.
     sbind (try_svc (check_record E r context now)) (\<lambda>_.
     sbind (try_svc (check_envelope E r)) (\<lambda>_.
     sbind (try_svc (check_redeem_token E C hmac_key handle_id r context now (unw_redeem_token p))) (\<lambda>_.
     sbind (try_svc (check_exporter E r context)) (\<lambda>exporter_secret.
     sbind (try_svc (map_err Storage (ciphertext_bytes E r))) (\<lambda>ciphertext.
     sbind (try_svc (map_err Storage (kem_ciphertext_bytes E r))) (\<lambda>kem_cipher.
     sbind fork_rng (\<lambda>g. sbind utc_now (\<lambda>t.
     sbind (on_crypto (decrypt_pqc E g t ciphertext kem_cipher (env_envelope_key_id (rec_envelope r))
       (env_customer_id (rec_envelope r)) exporter_secret)) (\<lambda>plaintext.
     sbind (if rec_lifecycle r \<noteq> RenewableLease then on_store (\<lambda>n. mark_redeem_used E n handle_id) else sret ()) (\<lambda>_.
     sbind (log_event E context (\<lambda>t. unwrap_event E t (unw_handle p) (Some (env_envelope_key_id (rec_envelope r)))
         (env_customer_id (rec_envelope r)) (Some (JObject (unwrap_metadata E context r))))) (\<lambda>_.
     sret (b64_encode E (dec_plaintext plaintext))))))))))))))))))))"

section \<open>Combining shares\<close>

record CombineSharesRequest =
  cmb_handle :: string
  cmb_shares :: "Share list"
  cmb_tenant_id :: "string option"
  cmb_provider :: "string option"
  cmb_custodian_ids :: "string list"

text \<open>The loop over custodians and shares; \<open>seen\<close> holds the share indices met so far.\<close>

fun custody_loop ::
  "'z ext_scheme \<Rightarrow> ShareAssignment list \<Rightarrow> HeldShare list \<Rightarrow> byte list \<Rightarrow> (string \<times> Share) list \<Rightarrow> anyhow + Share list" where
  "custody_loop E assignments held_shares seen [] = Inr []"
| "custody_loop E assignments held_shares seen ((custodian_id, s) # rest) =
     rbind (ok_or ''custodian_id not assigned to this handle''
       (find (\<lambda>a. asg_custodian_id a = custodian_id) assignments)) (\<lambda>assignment.
     rbind (ensure (asg_claimed assignment) ''custodian_id has not claimed their assigned share'') (\<lambda>_.
     rbind (ensure (asg_share_index assignment \<notin> set seen) ''combine_shares requires distinct assigned shares'') (\<lambda>_.
     rbind (ensure (share_x s = asg_share_index assignment) ''custodian_id must provide assigned share index'') (\<lambda>_.
     rbind (ok_or ''share index not found in held shares''
       (find (\<lambda>h. held_x h = asg_share_index assignment) held_shares)) (\<lambda>held_share.
     rbind (ok_or ''decode held share y-value'' (b64_decode E (held_y_b64 held_share))) (\<lambda>expected_y.
     rbind (ensure (share_y s = expected_y) ''provided share data does not match the broker-held assignment'') (\<lambda>_.
     rbind (custody_loop E assignments held_shares (asg_share_index assignment # seen) rest) (\<lambda>validated.
     Inr (s # validated)))))))))"

definition validate_combine_shares_custody ::
  "'z ext_scheme \<Rightarrow> StoredEnvelopeRecord \<Rightarrow> CombineSharesRequest \<Rightarrow> anyhow + Share list" where
  "validate_combine_shares_custody E r req =
     rbind (ensure (length (cmb_custodian_ids req) = length (cmb_shares req))
       ''combine_shares requires exactly one custodian_id per share'') (\<lambda>_.
     rbind (ensure (length (remdups (cmb_custodian_ids req)) = length (cmb_shares req))
       ''combine_shares requires distinct custodians for each share'') (\<lambda>_.
     rbind (ensure (\<not> list_ex (\<lambda>cid. trim cid = []) (cmb_custodian_ids req)) ''custodian_id must not be empty'') (\<lambda>_.
     rbind (ok_or ''no share assignments for this handle'' (rec_share_assignments r)) (\<lambda>assignments.
     rbind (ok_or ''no held shares for this handle'' (rec_held_shares r)) (\<lambda>held_shares.
     rbind (ensure (case rec_threshold r of Some k \<Rightarrow> \<not> length (cmb_shares req) < unat k | None \<Rightarrow> True)
       ''combine_shares requires more shares'') (\<lambda>_.
     custody_loop E assignments held_shares [] (zip (cmb_custodian_ids req) (cmb_shares req))))))))"

text \<open>\<open>?\<close> on the result of the inner handler keeps the text of the error.\<close>

fun service_error_text :: "ServiceError \<Rightarrow> anyhow" where
  "service_error_text InvalidBase64 = ''invalid base64 input''"
| "service_error_text (Serialization e) = ''serialization error: '' @ e"
| "service_error_text ServiceError.SignatureInvalid = ''signature verification failed''"
| "service_error_text (Crypto e) = ''crypto error: '' @ e"
| "service_error_text HandleNotFound = ''sealed secret handle not found''"
| "service_error_text InvalidHandle = ''invalid handle format''"
| "service_error_text ExpiredHandle = ''sealed secret expired''"
| "service_error_text (Storage e) = ''sealed store error: '' @ e"
| "service_error_text InvalidTtl = ''invalid ttl request''"
| "service_error_text ExporterBindingMismatch = ''tls exporter binding mismatch''"
| "service_error_text (Database e) = ''database error: '' @ e"
| "service_error_text (Unavailable s) = ''service unavailable: '' @ s"
| "service_error_text RedeemTokenInvalid = ''redeem token invalid or mismatched''"
| "service_error_text RedeemTokenExpired = ''redeem token expired''"
| "service_error_text RedeemTokenUsed = ''redeem token already used''"
| "service_error_text RevokedHandle = ''secret is revoked''"
| "service_error_text (InvalidAttenuation s) = ''invalid attenuation request: '' @ s"
| "service_error_text UnauthenticatedTransport = ''unauthenticated transport for lifecycle-bound secret''"
| "service_error_text AuthenticatedPrincipalRequired = ''authenticated principal required for lifecycle-bound secret''"
| "service_error_text PrincipalMismatch = ''principal identity mismatch for lifecycle-bound secret''"
| "service_error_text PeerCertMismatch = ''peer certificate mismatch for lifecycle-bound secret''"
| "service_error_text AttestationMismatch = ''attestation digest mismatch for lifecycle-bound secret''"
| "service_error_text (MissingLineage s) = ''lifecycle-bound secret missing required lineage: '' @ s"
| "service_error_text UnauthorizedDischargePrincipal = ''authenticated principal is not authorized for discharge minting''"

definition combine_shares_impl ::
  "'z broker_ext_scheme \<Rightarrow> ('f :: field, 'g :: ab_group_add) curve \<Rightarrow> BrokerClientContext \<Rightarrow> CombineSharesRequest
    \<Rightarrow> (BrokerState, anyhow stop, bytes) effect" where
  "combine_shares_impl E C context req =
     sbind (slift (ensure (cmb_handle req \<noteq> []) (Fail ''handle is required''))) (\<lambda>_.
     sbind (slift (ensure (cmb_shares req \<noteq> []) (Fail ''at least one share is required''))) (\<lambda>_.
     sbind (with_context ''invalid V2 handle'' (handle_identifier E (cmb_handle req))) (\<lambda>handle_id.
     sbind (with_context ''load sealed record failed'' (store_load E handle_id)) (\<lambda>found.
     sbind (slift (ok_or (Fail ''sealed secret handle not found'') found)) (\<lambda>r.
     sbind (slift (map_err Fail (validate_combine_shares_custody E r req))) (\<lambda>validated_shares.
     sbind (slift (map_err (\<lambda>_. Fail ''failed to encode shares'') (shares_to_json E validated_shares))) (\<lambda>redeem_token.
     sbind (smap_err (map_stop service_error_text) (unwrap_secret_v2_impl E C context \<lparr>
         unw_handle = cmb_handle req, unw_redeem_token = redeem_token, unw_tenant_id = cmb_tenant_id req,
         unw_provider = cmb_provider req, unw_circuit_id = None, unw_node_id = None, unw_discharges = [] \<rparr>)) (\<lambda>result.
     sbind (slift (ok_or (Fail ''base64 decode'') (b64_decode E result))) (\<lambda>plaintext_bytes.
     sbind (with_context [] (log_event E context (\<lambda>t. unwrap_event E t (cmb_handle req) None ''threshold-recovery''
         (Some (JObject (append_context_transparency_meta E context (insert_some ''threshold'' (\<lambda>k. JInt (uint k)) (rec_threshold r)
           [(''custodians'', JArray (map JString (cmb_custodian_ids req))),
            (''share_indices'', JArray (map (\<lambda>s. JInt (uint (share_x s))) validated_shares)),
            (''share_count'', JInt (int (length validated_shares)))]))))))) (\<lambda>_.
     sret plaintext_bytes))))))))))"

section \<open>Facts\<close>

lemma advances_redeem [advances_intros]: "advances E (on_store (\<lambda>n. mark_redeem_used E n h))"
  by (rule advances_on_store, rule redeem_step, assumption+)

lemma advances_unwrap: "advances E (unwrap_secret_v2_impl E C context p)"
  unfolding unwrap_secret_v2_impl_def Let_def by (intro advances_intros)

lemma advances_combine: "advances E (combine_shares_impl E C context req)"
  unfolding combine_shares_impl_def by (intro advances_intros advances_unwrap)

lemma redeem_marks:
  assumes "store_laws E" "on_store (\<lambda>n. mark_redeem_used E n h) b = (Inr (), b')" "view E (br_sealed_store b) h = Some r"
  shows "view E (br_sealed_store b') h = Some (consume_redeem r)"
proof -
  from assms(2) obtain s where m: "mark_redeem_used E (fill (br_entropy b) 12) h (br_sealed_store b) = (Inr (), s)"
    and b': "br_sealed_store b' = s"
    by (auto simp: on_store_draw split_rng_def effect_simps)
  have "nonce_ok (fill (br_entropy b) 12)" by simp
  from modify_ok [OF assms(1) this m [unfolded mark_redeem_used_def]] assms(3) b' show ?thesis by auto
qed

text \<open>The access time \<open>load\<close> writes plays no part in any check.\<close>

lemma accessed_irrelevant [simp]:
  "check_record E (r\<lparr> rec_last_accessed := t \<rparr>) = check_record E r"
  "check_envelope E' (r\<lparr> rec_last_accessed := t \<rparr>) = check_envelope E' r"
  "check_redeem_token E'' C k h (r\<lparr> rec_last_accessed := t \<rparr>) = check_redeem_token E'' C k h r"
  "check_exporter E (r\<lparr> rec_last_accessed := t \<rparr>) = check_exporter E r"
  "discharge_keys_for_record E (r\<lparr> rec_last_accessed := t \<rparr>) = discharge_keys_for_record E r"
  "ciphertext_bytes E (r\<lparr> rec_last_accessed := t \<rparr>) = ciphertext_bytes E r"
  "kem_ciphertext_bytes E (r\<lparr> rec_last_accessed := t \<rparr>) = kem_ciphertext_bytes E r"
  by (simp_all add: fun_eq_iff check_record_def is_expired_def validate_v2_record_identity_requirements_def
      validate_v2_record_identity_requirements_inner_def validate_lineage_def check_envelope_def envelope_bytes_def
      signature_bytes_def check_redeem_token_def expected_redeem_token_def provided_redeem_token_def canonical_token_def
      check_exporter_def exporter_binding_bytes_def discharge_keys_for_record_def ciphertext_bytes_def kem_ciphertext_bytes_def cong: if_cong option.case_cong)

text \<open>Everything a successful unwrap has established, with the record as it was stored before.\<close>

lemma unwrap_ok:
  assumes "store_laws E" "unwrap_secret_v2_impl E C context p b = (Inr out, b')"
  obtains mac r keys where "parse_handle_v2 E (unw_handle p) = Inr mac"
    "view E (br_sealed_store b) (mac_identifier mac) = Some r" "discharge_keys_for_record E r = Inr keys"
    "verify E (macaroon_root_key E (br_handle_hmac_key b) (mac_identifier mac)) (unwrap_verifier p (br_clock b 1) keys) mac = Inr ()"
    "check_record E r context (br_clock b 2) = Inr ()"
    "check_envelope E r = Inr ()"
    "check_redeem_token E C (br_handle_hmac_key b) (mac_identifier mac) r
       context (br_clock b 2) (unw_redeem_token p) = Inr ()"
    "rec_lifecycle r \<noteq> RenewableLease \<Longrightarrow> view E (br_sealed_store b') (mac_identifier mac) =
       Some (consume_redeem (r\<lparr> rec_last_accessed := Some (br_clock b 0) \<rparr>))"
proof -
  obtain mac r1 b1 keys exporter ct kc b2 pt b3 b4 where
    mac: "parse_handle_v2 E (unw_handle p) = Inr mac"
    and l: "load_existing E (mac_identifier mac) b = (Inr r1, b1)"
    and keys: "discharge_keys_for_record E r1 = Inr keys"
    and ver: "verify E (macaroon_root_key E (br_handle_hmac_key b1) (mac_identifier mac)) (unwrap_verifier p (br_clock b1 0) keys) mac = Inr ()"
    and rec: "check_record E r1 context (br_clock b1 1) = Inr ()" and env: "check_envelope E r1 = Inr ()"
    and tok: "check_redeem_token E C (br_handle_hmac_key b1) (mac_identifier mac) r1 context (br_clock b1 1) (unw_redeem_token p) = Inr ()"
    and dec: "on_crypto (decrypt_pqc E (\<lambda>i. br_entropy b1 (2 * i)) (br_clock b1 2) ct kc (env_envelope_key_id (rec_envelope r1))
       (env_customer_id (rec_envelope r1)) exporter) b2 = (Inr pt, b3)" and b2: "br_sealed_store b2 = br_sealed_store b1"
    and mark: "(if rec_lifecycle r1 \<noteq> RenewableLease then on_store (\<lambda>n. mark_redeem_used E n (mac_identifier mac)) else sret ()) b3 = (Inr (), b4)"
    and log: "br_sealed_store b' = br_sealed_store b4"
    using assms(2) unfolding unwrap_secret_v2_impl_def Let_def
    by (simp only: run_simps sret_iff map_err_Inr_iff sum.inject source_fields tick_tick)
       (elim exE conjE, fastforce dest: log_event_store simp: numeral_2_eq_2)
  obtain r where r: "view E (br_sealed_store b) (mac_identifier mac) = Some r" "r1 = r\<lparr> rec_last_accessed := Some (br_clock b 0) \<rparr>"
    "view E (br_sealed_store b1) = (view E (br_sealed_store b))(mac_identifier mac \<mapsto> r1)"
    "br_clock b1 = (\<lambda>i. br_clock b (i + 1))" "br_handle_hmac_key b1 = br_handle_hmac_key b"
    by (rule load_existing_ok [OF assms(1) l])
  have "view E (br_sealed_store b3) (mac_identifier mac) = Some r1"
    using on_crypto_store [OF dec] b2 r(3) by simp
  then have "view E (br_sealed_store b') (mac_identifier mac) = Some (consume_redeem r1)" if "rec_lifecycle r \<noteq> RenewableLease"
    using redeem_marks [OF assms(1)] mark that log r(2) by simp
  then show thesis
    using that [OF mac r(1)] keys ver rec env tok r by (simp add: numeral_2_eq_2)
qed

text \<open>Conversely, a record that passes the checks is unwrapped, on a store that works.\<close>

lemma load_existing_run:
  assumes "store_laws E" "store_available E" "view E (br_sealed_store b) h = Some r"
  obtains b1 where "load_existing E h b = (Inr (r\<lparr> rec_last_accessed := Some (br_clock b 0) \<rparr>), b1)"
proof -
  obtain s where "load E (fill (br_entropy b) 12) (br_clock b 0) h (br_sealed_store b) =
      (Inr (Some (r\<lparr> rec_last_accessed := Some (br_clock b 0) \<rparr>)), s)" by (rule load_available [OF assms])
  with that show thesis
    by (simp add: load_existing_def store_load_def utc_now_def on_store_draw split_rng_def sbind_def smap_err_def szoom_def slift_def)
qed

lemma mark_redeem_run:
  assumes "store_laws E" "store_available E" "view E (br_sealed_store b) h = Some r"
  obtains b1 where "on_store (\<lambda>n. mark_redeem_used E n h) b = (Inr (), b1)"
proof -
  obtain s where "mark_redeem_used E (fill (br_entropy b) 12) h (br_sealed_store b) = (Inr (), s)"
    unfolding mark_redeem_used_def
    by (rule modify_available [where f = "\<lambda>r. Inr ((), consume_redeem r)", OF assms refl])
  with that show thesis by (simp add: on_store_draw split_rng_def sbind_def smap_err_def szoom_def)
qed

lemma unwrap_run:
  assumes laws: "crypto_laws E" "store_laws E" "store_available E"
    and mac: "parse_handle_v2 E (unw_handle p) = Inr mac" "view E (br_sealed_store b) (mac_identifier mac) = Some r"
      "discharge_keys_for_record E r = Inr keys"
      "verify E (macaroon_root_key E (br_handle_hmac_key b) (mac_identifier mac)) (unwrap_verifier p (br_clock b 1) keys) mac = Inr ()"
    and checks: "check_record E r context (br_clock b 2) = Inr ()" "check_envelope E r = Inr ()"
      "check_redeem_token E C (br_handle_hmac_key b) (mac_identifier mac) r context (br_clock b 2) (unw_redeem_token p) = Inr ()"
      "check_exporter E r context = Inr xs" "ciphertext_bytes E r = Inr ct" "kem_ciphertext_bytes E r = Inr kem"
    and opens: "pqc_opens E (br_crypto b) (env_envelope_key_id (rec_envelope r)) ct kem plain"
  shows "\<exists>b'. unwrap_secret_v2_impl E C context p b = (Inr (b64_encode E plain), b')"
proof -
  let ?r = "r\<lparr> rec_last_accessed := Some (br_clock b 0) \<rparr>" and ?h = "mac_identifier mac"
  obtain b1 where b1: "load_existing E ?h b = (Inr ?r, b1)" by (rule load_existing_run [OF laws(2,3) mac(2)])
  then obtain r0 where f: "view E (br_sealed_store b1) = (view E (br_sealed_store b))(?h \<mapsto> ?r)"
    "br_clock b1 = (\<lambda>i. br_clock b (i + 1))" "br_handle_hmac_key b1 = br_handle_hmac_key b" "br_crypto b1 = br_crypto b"
    by (elim load_existing_ok [OF laws(2)]) auto
  let ?d = "\<lparr> dec_plaintext = plain, dec_algorithm = ''mlkem768-hybrid'', dec_verified = True \<rparr>"
  let ?b2 = "tick 1 (halve (tick 2 b1))"
  have dec: "on_crypto (decrypt_pqc E g t ct kem (env_envelope_key_id (rec_envelope r)) c xs) ?b2 = (Inr ?d, ?b2)" for g t c
    using decrypt_pqc_opens [OF laws opens] f(4) by (simp add: on_crypto_def smap_err_def szoom_def tick_def halve_def)
  obtain b3 where b3: "(if rec_lifecycle r \<noteq> RenewableLease then on_store (\<lambda>n. mark_redeem_used E n ?h) else sret ()) ?b2 = (Inr (), b3)"
  proof (cases "rec_lifecycle r \<noteq> RenewableLease")
    case True
    have "view E (br_sealed_store ?b2) ?h = Some ?r" using f(1) by simp
    then obtain b3 where "on_store (\<lambda>n. mark_redeem_used E n ?h) ?b2 = (Inr (), b3)"
      by (rule mark_redeem_run [OF laws(2,3)])
    then show thesis using that True by simp
  qed (use that in \<open>simp add: sret_def\<close>)
  obtain b4 where "log_event E context (\<lambda>t. unwrap_event E t (unw_handle p) (Some (env_envelope_key_id (rec_envelope r)))
      (env_customer_id (rec_envelope r)) (Some (JObject (unwrap_metadata E context ?r)))) b3 = (Inr (), b4)"
    using log_event_ok by blast
  with mac checks b1 f dec b3 show ?thesis
    by (simp add: unwrap_secret_v2_impl_def Let_def sbind_step(1) run_sources numeral_2_eq_2 sret_def)
qed

text \<open>A state in which the request succeeds, with the secret it returns.\<close>

definition unwrappable ::
  "'z broker_ext_scheme \<Rightarrow> ('f :: field, 'g :: ab_group_add) curve \<Rightarrow> BrokerClientContext \<Rightarrow> UnwrapV2Request \<Rightarrow> uuid \<Rightarrow> bytes
    \<Rightarrow> BrokerState \<Rightarrow> bool" where
  "unwrappable E C context p h plain b \<longleftrightarrow> (\<exists>mac r keys xs ct kem.
     parse_handle_v2 E (unw_handle p) = Inr mac \<and> mac_identifier mac = h \<and> view E (br_sealed_store b) h = Some r \<and>
     discharge_keys_for_record E r = Inr keys \<and>
     verify E (macaroon_root_key E (br_handle_hmac_key b) h) (unwrap_verifier p (br_clock b 1) keys) mac = Inr () \<and>
     check_record E r context (br_clock b 2) = Inr () \<and> check_envelope E r = Inr () \<and>
     check_redeem_token E C (br_handle_hmac_key b) h r context (br_clock b 2) (unw_redeem_token p) = Inr () \<and>
     check_exporter E r context = Inr xs \<and> ciphertext_bytes E r = Inr ct \<and> kem_ciphertext_bytes E r = Inr kem \<and>
     pqc_opens E (br_crypto b) (env_envelope_key_id (rec_envelope r)) ct kem plain)"

lemma unwrappable_unwraps:
  assumes "crypto_laws E" "store_laws E" "store_available E" "unwrappable E C context p h plain b"
  shows "\<exists>b'. unwrap_secret_v2_impl E C context p b = (Inr (b64_encode E plain), b')"
  using assms(4) unfolding unwrappable_def
  by (elim exE conjE, hypsubst) (rule unwrap_run [OF assms(1-3)])

end
