(* ===== verification/Lifecycle.thy ===== *)
theory Lifecycle
  imports Redemption
begin

text \<open>
  Properties of the broker's handlers together: a secret that was wrapped can be unwrapped by its owner, and a
  handle that was used up, revoked, rotated or deleted is never unwrapped again.
\<close>

section \<open>A sealed record passes the checks of its owner\<close>

text \<open>Digest sizes and that base64 prints something for a non-empty input.\<close>

definition digest_laws :: "'z ext_scheme \<Rightarrow> bool" where
  "digest_laws E \<longleftrightarrow> hmac_32 E \<and> (\<forall>d. sha256 E d \<noteq> []) \<and> (\<forall>b. b \<noteq> [] \<longrightarrow> b64_encode E b \<noteq> [])"

text \<open>The time is before every deadline of the record.\<close>

definition in_time :: "StoredEnvelopeRecord \<Rightarrow> instant \<Rightarrow> bool" where
  "in_time r now \<longleftrightarrow> (\<forall>t \<in> set_option (rec_expires_at r) \<union> set_option (rec_redeem_expires_at r) \<union>
     set_option (rec_lease_expires_at r) \<union> set_option (rec_signing_key_expires_at r). now \<le> t)"

lemma trimmed_idem: "trimmed v = Some s \<Longrightarrow> trimmed (Some s) = Some s"
  by (auto simp: trimmed_def trim_idem split: option.splits if_splits)

lemma trimmed_b64: "b64_alphabet E \<Longrightarrow> trimmed (Some (b64_encode E d)) = (if b64_encode E d = [] then None else Some (b64_encode E d))"
  by (simp add: trimmed_def trim_printable b64_alphabet_def)

lemma owner_identity:
  assumes "digest_laws E" "b64_alphabet E" "\<forall>c. ctx_peer_cert_sha256 context = Some c \<longrightarrow> c \<noteq> []"
    and "v2_unwrap_principal context (inp_lifecycle input) None = Inr (inp_unwrap_principal_id input)"
  shows "validate_v2_record_identity_requirements E
    (sealed_entry E context input envelope sig kp nonce rb rexp lease) context = Inr ()"
proof -
  from assms(4) obtain owner where auth: "ctx_authenticated_transport context"
    and owner: "trimmed (ctx_principal_id context) = Some owner" "inp_unwrap_principal_id input = Some owner"
    and cert: "inp_lifecycle input = SingleUseUnwrap \<or> (\<exists>c. ctx_peer_cert_sha256 context = Some c)"
    by (cases "inp_lifecycle input")
       (auto simp: v2_unwrap_principal_def result_simps normalized_context_principal_def trimmed_def [of None], metis+)
  show ?thesis
  proof (cases "inp_lifecycle input = SingleUseUnwrap")
    case True
    with auth owner show ?thesis
      by (simp add: validate_v2_record_identity_requirements_def validate_v2_record_identity_requirements_inner_def
          sealed_entry_def trimmed_idem [OF owner(1)])
  next
    case False
    with cert assms(3) obtain c where c: "ctx_peer_cert_sha256 context = Some c" "c \<noteq> []" by auto
    then have "b64_encode E c \<noteq> []" using assms(1) by (simp add: digest_laws_def)
    with False auth owner c show ?thesis
      by (cases "ctx_attestation_digest context")
         (simp_all add: validate_v2_record_identity_requirements_def validate_v2_record_identity_requirements_inner_def
          sealed_entry_def trimmed_idem [OF owner(1)] normalized_context_principal_def validate_lineage_def
          trimmed_b64 [OF assms(2)] trimmed_def [of None])
  qed
qed

lemma sealed_passes:
  assumes laws: "digest_laws E" "b64_alphabet E" "b64_lossless E"
    and "\<forall>c. ctx_peer_cert_sha256 context = Some c \<longrightarrow> c \<noteq> []"
    and "v2_unwrap_principal context (inp_lifecycle input) None = Inr (inp_unwrap_principal_id input)"
    and "seals E hmac_key crypto context input out r" "in_time r now"
  shows "check_record E r context now = Inr () \<and> check_envelope E r = Inr () \<and>
    check_redeem_token E C hmac_key (out_handle_id out) r context now (out_redeem_token out) = Inr () \<and>
    (\<exists>xs. check_exporter E r context = Inr xs) \<and> discharge_keys_for_record E r = Inr [] \<and>
    (\<exists>ct kem. ciphertext_bytes E r = Inr ct \<and> kem_ciphertext_bytes E r = Inr kem \<and>
       pqc_opens E crypto (env_envelope_key_id (rec_envelope r)) ct kem (inp_plaintext input))"
proof -
  from assms(6) obtain binding rb xb enc sig kp nonce rexp lease ebytes where
    bind: "secret_bindings E context (inp_lifecycle input) = (binding, rb, xb)"
    and r: "r = sealed_entry E context input (sealed_envelope E input (out_envelope_key_id out) xb enc) sig kp nonce rb rexp lease"
    and sig: "envelope_to_json E (rec_envelope r) = Inr ebytes"
      "verify_persisted_envelope_signature E ebytes sig (kp_public_key kp) = Inr True"
    and opens: "pqc_opens E crypto (out_envelope_key_id out) (enc_ciphertext enc) (enc_nonce enc) (inp_plaintext input)"
    and tok: "out_redeem_token out = b64_encode E (compute_redeem_token E hmac_key (out_handle_id out) binding nonce)"
    by (auto simp: seals_def)
  have dec: "b64_decode E (b64_encode E d) = Some d" for d using laws(3) by (simp add: b64_lossless_def)
  have ne: "b64_encode E (sha256 E d) \<noteq> []" for d using laws(1) by (simp add: digest_laws_def)
  have "check_record E r context now = Inr ()"
    using owner_identity [OF laws(1,2) assms(4,5)] assms(7)
    by (auto simp: check_record_def r is_expired_def in_time_def sealed_entry_def ensure_Inr_iff split: option.splits)
  moreover have "check_envelope E r = Inr ()"
    using sig dec by (simp add: check_envelope_def envelope_bytes_def signature_bytes_def r) (simp add: sealed_entry_def)
  moreover have "check_redeem_token E C hmac_key (out_handle_id out) r context now (out_redeem_token out) = Inr ()"
    using bind tok dec ne assms(7)
    by (cases "inp_lifecycle input")
       (auto simp: check_redeem_token_def expected_redeem_token_def provided_redeem_token_def canonical_token_def unwrap_or_def
         r sealed_entry_def secret_bindings_def in_time_def Let_def not_le)
  moreover have "\<exists>xs. check_exporter E r context = Inr xs"
    using bind dec by (cases "inp_lifecycle input")
      (auto simp: check_exporter_def exporter_binding_bytes_def r sealed_entry_def sealed_envelope_def secret_bindings_def Let_def)
  ultimately show ?thesis
    using opens dec by (simp add: discharge_keys_for_record_def ciphertext_bytes_def kem_ciphertext_bytes_def r)
      (simp add: sealed_entry_def sealed_envelope_def)
qed

section \<open>The handle of a sealed record\<close>

definition printable_caveats :: "'z ext_scheme \<Rightarrow> Caveat list \<Rightarrow> bool" where
  "printable_caveats E cs \<longleftrightarrow> length cs < 65536 \<and>
     (\<forall>c \<in> set cs. encodable E c \<and> wf_str (caveat_encode E c) \<and> length (caveat_encode E c) < 65536)"

lemma foldl_extend_sig_length: "hmac_32 E \<Longrightarrow> length s = 32 \<Longrightarrow> length (foldl (extend_sig E) s cs) = 32"
  by (induction cs arbitrary: s) (simp_all add: extend_sig_def hmac_32_def)

lemma v2_handle_parses:
  assumes "digest_laws E" "b64_lossless E" "b64_alphabet E" "length h = 16" "printable_caveats E cs"
  shows "parse_handle_v2 E (v2_handle E key h cs) = Inr (mint E (macaroon_root_key E key h) h cs)"
proof -
  have "hmac_32 E" using assms(1) by (simp add: digest_laws_def)
  then have "mac_typed (mint E (macaroon_root_key E key h) h cs)"
    using assms(4,5) foldl_extend_sig_length [of E]
    by (auto simp: mac_typed_def mint_def Let_def hmac_32_def printable_caveats_def list_all_iff)
  moreover have "fits_u16 (mint E (macaroon_root_key E key h) h cs)"
    using assms(5) by (simp add: fits_u16_def printable_caveats_def)
  ultimately show ?thesis using issued_handle_parses [OF assms(2,3)] by (simp add: v2_handle_def)
qed

lemma minted_verifies:
  assumes "b64url_lossless E" "b64url_alphabet E" "printable_caveats E cs"
    and "\<forall>c \<in> set cs. \<forall>sig. check E v c sig = Inr ()"
  shows "verify E k v (mint E k h cs) = Inr ()"
proof -
  have "caveat_parse E (caveat_encode E c) = Inr c" if "c \<in> set cs" for c
    using caveat_parse_encode [OF assms(1,2)] assms(3) that by (auto simp: printable_caveats_def)
  with assms(4) show ?thesis
    by (auto simp: verify_split mint_verifies check_caveats_Inr_iff dest!: set_zip_leftD)
qed

text \<open>The request of an owner who presents what the caveats ask for.\<close>

definition owner_request :: "WrapV2Request \<Rightarrow> WrapSecretOutcome \<Rightarrow> UnwrapV2Request" where
  "owner_request request out =
     (let norm = (\<lambda>v. Option.bind v normalize_optional_string) in
      \<lparr> unw_handle = wro_handle out, unw_redeem_token = wro_redeem_token out, unw_tenant_id = norm (wrp_tenant_id request),
        unw_provider = norm (wrp_provider request), unw_circuit_id = norm (wrp_circuit_id request),
        unw_node_id = norm (wrp_node_id request), unw_discharges = [] \<rparr>)"

lemma caveat_some_iff [simp]: "c \<in> set (caveat_some mk x) \<longleftrightarrow> (\<exists>v. x = Some v \<and> c = mk v)"
  by (auto simp: caveat_some_def split: option.splits)

lemma owner_satisfies:
  assumes "\<forall>t. expires = Some t \<longrightarrow> now \<le> t" "c \<in> set (wrap_caveats request expires)"
  shows "check E (unwrap_verifier (owner_request request out) now keys) c sig = Inr ()"
  using assms by (auto simp: wrap_caveats_def owner_request_def unwrap_verifier_def check_text_def Let_def)

section \<open>Wrap, then unwrap\<close>

lemma wrap_ok:
  assumes "wrap_secret_v2_impl E context request b = (Inr out, b1)"
  obtains input o1 b2 where "persist_secret_v2_with_lifecycle E context input (tick 1 b) = (Inr o1, b2)"
    "inp_plaintext input = wrp_plaintext request" "inp_lifecycle input = wrp_lifecycle request"
    "v2_unwrap_principal context (wrp_lifecycle request) (wrp_unwrap_principal_id request) = Inr (inp_unwrap_principal_id input)"
    "wro_handle out = v2_handle E (br_handle_hmac_key b) (out_handle_id o1) (wrap_caveats request (out_expires_at o1))"
    "wro_redeem_token out = out_redeem_token o1" "wro_expires_at out = out_expires_at o1"
    "br_sealed_store b1 = br_sealed_store b2" "br_handle_hmac_key b1 = br_handle_hmac_key b2" "br_crypto b1 = br_crypto b2"
proof -
  from assms obtain e owner o1 b2 mk where
    run: "persist_secret_v2_with_lifecycle E context \<lparr>
         inp_plaintext = wrp_plaintext request, inp_customer_id = customer_or_default (wrp_customer_id request) (br_default_customer_id b),
         inp_metadata = wrp_metadata request, inp_created_at = br_clock b 0, inp_expires_at = fst e,
         inp_lifecycle = wrp_lifecycle request, inp_initial_lease_seconds = wrp_initial_lease_seconds request,
         inp_unwrap_principal_id = owner \<rparr> (tick 1 b) = (Inr o1, b2)"
    and owner: "v2_unwrap_principal context (wrp_lifecycle request) (wrp_unwrap_principal_id request) = Inr owner"
    and log: "log_event E context mk b2 = (Inr (), b1)"
    and out: "out = \<lparr> wro_handle = v2_handle E (br_handle_hmac_key b) (out_handle_id o1) (wrap_caveats request (out_expires_at o1)),
       wro_expires_at = out_expires_at o1, wro_redeem_token = out_redeem_token o1,
       wro_redeem_token_expires_at = out_redeem_token_expires_at o1 \<rparr>"
    unfolding wrap_secret_v2_impl_def Let_def
    by (simp only: run_simps sbind_Inr_iff [where m = "persist_secret_v2_with_lifecycle E c i" for c i] prod.case
          source_fields sret_iff map_err_Inr_iff sum.inject split_beta fst_conv snd_conv)
       (elim exE conjE, fastforce)
  from log_event_ok [of E "context" mk b2] log have "br_sealed_store b1 = br_sealed_store b2"
    "br_handle_hmac_key b1 = br_handle_hmac_key b2" "br_crypto b1 = br_crypto b2" by auto
  with run owner out that show thesis by fastforce
qed

text \<open>A record that seals a secret for the caller, under the identifier of a handle with the caveats of a wrap request,
  can be unwrapped by that caller.\<close>

lemma sealed_unwrappable:
  assumes laws: "crypto_laws E" "store_laws E" "store_available E" "digest_laws E" "b64_alphabet E"
      "b64url_lossless E" "b64url_alphabet E"
    and seals: "seals E (br_handle_hmac_key b) (br_crypto b) context input o1 r" "view E (br_sealed_store b) (out_handle_id o1) = Some r"
      "length (out_handle_id o1) = 16"
    and owner: "v2_unwrap_principal context (inp_lifecycle input) None = Inr (inp_unwrap_principal_id input)"
      "\<forall>c. ctx_peer_cert_sha256 context = Some c \<longrightarrow> c \<noteq> []"
    and out: "wro_handle out = v2_handle E (br_handle_hmac_key b) (out_handle_id o1) (wrap_caveats request (out_expires_at o1))"
      "wro_redeem_token out = out_redeem_token o1" and caveats: "printable_caveats E (wrap_caveats request (out_expires_at o1))"
  obtains mac where "parse_handle_v2 E (wro_handle out) = Inr mac" "mac_identifier mac = out_handle_id o1"
    "\<And>clock. in_time r (clock 1) \<Longrightarrow> in_time r (clock 2) \<Longrightarrow>
       unwrappable E C context (owner_request request out) (mac_identifier mac) (inp_plaintext input) (b\<lparr> br_clock := clock \<rparr>)"
proof -
  define mac where "mac = mint E (macaroon_root_key E (br_handle_hmac_key b) (out_handle_id o1)) (out_handle_id o1)
    (wrap_caveats request (out_expires_at o1))"
  have b64: "b64_lossless E" using laws(2) by (simp add: store_laws_def)
  then have mac: "parse_handle_v2 E (wro_handle out) = Inr mac" "mac_identifier mac = out_handle_id o1"
    using v2_handle_parses [OF laws(4) _ laws(5) seals(3) caveats] out(1) by (simp_all add: mac_def)
  show thesis
  proof (rule that [OF mac])
    fix clock :: "nat \<Rightarrow> instant" assume t: "in_time r (clock 1)" "in_time r (clock 2)"
    have ex: "rec_expires_at r = out_expires_at o1" using seals(1) by (auto simp: seals_def sealed_entry_def)
    have "verify E (macaroon_root_key E (br_handle_hmac_key b) (mac_identifier mac))
        (unwrap_verifier (owner_request request out) (clock 1) []) mac = Inr ()"
      unfolding mac(2) unfolding mac_def
      by (rule minted_verifies [OF laws(6,7) caveats]) (use t(1) ex in \<open>auto simp: in_time_def intro!: owner_satisfies [of "out_expires_at o1"]\<close>)
    with sealed_passes [OF laws(4,5) b64 owner(2,1) seals(1) t(2), where C = C]
    show "unwrappable E C context (owner_request request out) (mac_identifier mac) (inp_plaintext input) (b\<lparr> br_clock := clock \<rparr>)"
      unfolding unwrappable_def using seals(2) mac out(2)
      by (elim conjE exE, intro exI [of _ mac] exI [of _ r] exI [of _ "[]"] exI) (simp add: owner_request_def Let_def)
  qed
qed

lemma wrap_then_unwrap:
  assumes laws: "crypto_laws E" "store_laws E" "store_available E" "digest_laws E" "b64_alphabet E"
      "b64url_lossless E" "b64url_alphabet E"
    and run: "wrap_secret_v2_impl E context request b = (Inr out, b1)"
    and owner: "wrp_unwrap_principal_id request = None" "\<forall>c. ctx_peer_cert_sha256 context = Some c \<longrightarrow> c \<noteq> []"
    and caveats: "printable_caveats E (wrap_caveats request (wro_expires_at out))"
  obtains mac r where "parse_handle_v2 E (wro_handle out) = Inr mac" "view E (br_sealed_store b1) (mac_identifier mac) = Some r"
    "\<And>clock. in_time r (clock 1) \<Longrightarrow> in_time r (clock 2) \<Longrightarrow>
       unwrappable E C context (owner_request request out) (mac_identifier mac) (wrp_plaintext request) (b1\<lparr> br_clock := clock \<rparr>)"
    "rec_lifecycle r = wrp_lifecycle request"
proof -
  from run obtain input o1 b2 where p: "persist_secret_v2_with_lifecycle E context input (tick 1 b) = (Inr o1, b2)"
    and i: "inp_plaintext input = wrp_plaintext request" "inp_lifecycle input = wrp_lifecycle request"
      "v2_unwrap_principal context (inp_lifecycle input) None = Inr (inp_unwrap_principal_id input)"
    and o: "wro_handle out = v2_handle E (br_handle_hmac_key b) (out_handle_id o1) (wrap_caveats request (wro_expires_at out))"
      "wro_redeem_token out = out_redeem_token o1" "wro_expires_at out = out_expires_at o1"
    and b1: "br_sealed_store b1 = br_sealed_store b2" "br_handle_hmac_key b1 = br_handle_hmac_key b2" "br_crypto b1 = br_crypto b2"
    by (rule wrap_ok) (simp add: owner)
  from p obtain r where h: "out_handle_id o1 = uuid_v4 E (fill (br_entropy b) 16)" and v: "view E (br_sealed_store b2) (out_handle_id o1) = Some r"
    and seals: "seals E (br_handle_hmac_key b1) (br_crypto b1) context input o1 r" and key: "br_handle_hmac_key b1 = br_handle_hmac_key b"
    by (rule persist_ok [OF laws(1,2)]) (simp add: b1)
  have len: "length (out_handle_id o1) = 16" using laws(1) h by (simp add: crypto_laws_def)
  have view: "view E (br_sealed_store b1) (out_handle_id o1) = Some r" using v b1(1) by simp
  show thesis
  proof (rule sealed_unwrappable [OF laws seals view len i(3) owner(2)])
    show "wro_handle out = v2_handle E (br_handle_hmac_key b1) (out_handle_id o1) (wrap_caveats request (out_expires_at o1))"
      using o key by simp
    show "printable_caveats E (wrap_caveats request (out_expires_at o1))" using caveats o(3) by simp
    fix mac assume mac: "parse_handle_v2 E (wro_handle out) = Inr mac" "mac_identifier mac = out_handle_id o1"
      and run: "\<And>clock. in_time r (clock 1) \<Longrightarrow> in_time r (clock 2) \<Longrightarrow>
       unwrappable E C context (owner_request request out) (mac_identifier mac) (inp_plaintext input) (b1\<lparr> br_clock := clock \<rparr>)"
    show thesis
      by (rule that [OF mac(1)])
         (use view mac(2) run i(1) in simp_all, use seals i(2) in \<open>auto simp: seals_def sealed_entry_def\<close>)
  qed (rule o(2))
qed

section \<open>Issuance succeeds\<close>

text \<open>Everything a new record needs: the primitives and the store work, post-quantum cryptography is on, no lock of
  the key manager is held, the customer may have another key, and no time overflows.\<close>

definition ready :: "'z crypto_ext_scheme \<Rightarrow> string \<Rightarrow> BrokerState \<Rightarrow> bool" where
  "ready E customer b \<longleftrightarrow> crypto_laws E \<and> crypto_available E \<and> store_available E \<and> (\<forall>x. is_ok (envelope_to_json E x)) \<and>
     (let keys = svc_keys (br_crypto b) in
      qcc_enabled (cfg_quantum_crypto (qrc_config (svc_quantum (br_crypto b)))) \<and> unlocked keys \<and>
      (\<forall>g i. can_generate E g (br_clock b i) ''dilithium5'' customer keys) \<and>
      (\<forall>i ex. calculate_expiry E (km_config keys) (br_clock b i) = Inr (Some ex) \<longrightarrow> br_clock b (i + 1) \<le> ex)) \<and>
     (\<forall>i. checked_add E (br_clock b i) (br_redeem_token_ttl b) \<noteq> None)"

lemma ready_tick: "ready E c b \<Longrightarrow> ready E c (tick n b)"
  by (simp add: ready_def Let_def)

lemma on_store_insert_run:
  assumes "store_available E"
  obtains b' where "on_store (\<lambda>n. insert_with_id E n h r) b = (Inr h, b')"
proof -
  obtain s where "insert_with_id E (fill (br_entropy b) 12) h r (br_sealed_store b) = (Inr h, s)"
    by (rule insert_available [OF assms])
  with that show thesis by (simp add: on_store_draw split_rng_def sbind_def smap_err_def szoom_def)
qed

lemma persist_run:
  assumes ready: "ready E (inp_customer_id input) b" and "inp_initial_lease_seconds input = None"
    and "checked_add E (inp_created_at input) (br_redeem_token_ttl b) = Some rexp"
  shows "\<exists>out b'. persist_secret_v2_with_lifecycle E context input b = (Inr out, b') \<and> out_expires_at out = inp_expires_at input"
proof -
  note r = ready [unfolded ready_def Let_def]
  obtain binding rb xb where bind: "secret_bindings E context (inp_lifecycle input) = (binding, rb, xb)"
    by (cases "secret_bindings E context (inp_lifecycle input)") auto
  define b1 where "b1 = tick 3 (halve (spend 16 (spend 16 (spend 16 b))))"
  define g where "g = (\<lambda>i. skip 16 (skip 16 (skip 16 (br_entropy b))) (2 * i))"
  define kid where "kid = uuid_to_string E (uuid_v4 E (fill (skip 16 (skip 16 (br_entropy b))) 16))"
  obtain enc c1 where enc: "encrypt_pqc E g (br_clock b) (inp_plaintext input) kid (inp_customer_id input)
      (map_option (\<lambda>_. ctx_exporter context) xb) (br_crypto b) = (Inr enc, c1)" "svc_keys c1 = svc_keys (br_crypto b)"
    by (rule encrypt_pqc_available [of E "br_crypto b" g "br_clock b"]) (use r in auto)
  define b2 where "b2 = b1\<lparr> br_crypto := c1 \<rparr>"
  define g2 where "g2 = (\<lambda>i. br_entropy b2 (2 * i))"
  obtain kp k1 where gen: "generate_key_pair E g2 (br_clock b 3) (br_clock b 4) ''dilithium5'' (inp_customer_id input) (svc_keys c1) = (Inr kp, k1)"
    and sign: "\<And>d. \<exists>sig s2. sign_data E (br_clock b 5) (br_clock b 6) d (kp_key_id kp) k1 = (Inr sig, s2)"
  proof (rule generate_and_sign_available [of E "svc_keys c1" g2 "br_clock b 4" "inp_customer_id input" "br_clock b 5" "br_clock b 3" "br_clock b 6"])
    show "br_clock b 5 \<le> ex" if "calculate_expiry E (km_config (svc_keys c1)) (br_clock b 4) = Inr (Some ex)" for ex
      using r that enc(2) by (elim conjE) (drule spec [of _ 4], auto simp: numeral_eq_Suc)
  qed (use r enc(2) in auto)
  obtain json where json: "envelope_to_json E (sealed_envelope E input kid xb enc) = Inr json"
    using r unfolding is_ok_iff by blast
  obtain sig k2 where sig: "sign_data E (br_clock b 5) (br_clock b 6) json (kp_key_id kp) k1 = (Inr sig, k2)" using sign by blast
  define s2 where "s2 = (tick 2 (halve b2))\<lparr> br_crypto := c1\<lparr> svc_keys := k1 \<rparr> \<rparr>"
  define b3 where "b3 = (tick 2 s2)\<lparr> br_crypto := c1\<lparr> svc_keys := k2 \<rparr> \<rparr>"
  obtain b4 where b4: "on_store (\<lambda>n. insert_with_id E n (uuid_v4 E (fill (br_entropy b) 16)) (sealed_entry E context input
      (sealed_envelope E input kid xb enc) sig kp (fill (skip 16 (br_entropy b)) 16) rb rexp None)) b3 =
      (Inr (uuid_v4 E (fill (br_entropy b) 16)), b4)"
    by (rule on_store_insert_run) (use r in blast)
  have e1: "on_crypto (encrypt_pqc E g (br_clock b) (inp_plaintext input) kid (inp_customer_id input)
      (map_option (\<lambda>_. ctx_exporter context) xb)) b1 = (Inr enc, b2)"
    using enc by (simp add: on_crypto_def smap_err_def szoom_def b1_def b2_def)
  have e2: "on_crypto (svc_generate_key_pair E g2 (br_clock b2) ''dilithium5'' (inp_customer_id input)) (tick 2 (halve b2)) =
      (Inr kp, s2)"
    using gen by (simp add: on_crypto_def smap_err_def szoom_def svc_generate_key_pair_def s2_def b2_def b1_def numeral_eq_Suc)
  have e3: "on_crypto (svc_sign_data E (br_clock s2) json (kp_key_id kp)) (tick 2 s2) = (Inr sig, b3)"
    using sig by (simp add: on_crypto_def smap_err_def szoom_def svc_sign_data_def s2_def b3_def b2_def b1_def numeral_eq_Suc)
  show ?thesis
    using bind assms(2,3) json b4 e1 e2 e3
    by (simp add: persist_secret_v2_with_lifecycle_def run_sources Let_def g_def [symmetric] kid_def [symmetric] b1_def [symmetric]
        sbind_step(1) g2_def [symmetric] sret_def)
qed

lemma wrap_run:
  assumes "enforce_ttl E (br_max_handle_ttl b) (wrp_ttl_seconds request) (br_clock b 0) = Inr (inp_expires_at input, ttl)"
    and "v2_unwrap_principal context (wrp_lifecycle request) (wrp_unwrap_principal_id request) = Inr (inp_unwrap_principal_id input)"
    and "persist_secret_v2_with_lifecycle E context input (tick 1 b) = (Inr o1, b2)"
    and "inp_plaintext input = wrp_plaintext request"
      "inp_customer_id input = customer_or_default (wrp_customer_id request) (br_default_customer_id b)"
      "inp_metadata input = wrp_metadata request" "inp_created_at input = br_clock b 0" "inp_lifecycle input = wrp_lifecycle request"
      "inp_initial_lease_seconds input = wrp_initial_lease_seconds request"
  shows "\<exists>out b1. wrap_secret_v2_impl E context request b = (Inr out, b1) \<and> wro_expires_at out = out_expires_at o1"
proof -
  have "input = \<lparr> inp_plaintext = wrp_plaintext request,
      inp_customer_id = customer_or_default (wrp_customer_id request) (br_default_customer_id b),
      inp_metadata = wrp_metadata request, inp_created_at = br_clock b 0, inp_expires_at = inp_expires_at input,
      inp_lifecycle = wrp_lifecycle request, inp_initial_lease_seconds = wrp_initial_lease_seconds request,
      inp_unwrap_principal_id = inp_unwrap_principal_id input \<rparr>" (is "_ = ?i")
    using assms(4-9) by (intro PersistSecretV2Input.equality) simp_all
  with assms(3) have p: "persist_secret_v2_with_lifecycle E context ?i (tick 1 b) = (Inr o1, b2)" by simp
  define handle where "handle = v2_handle E (br_handle_hmac_key b) (out_handle_id o1) (wrap_caveats request (out_expires_at o1))"
  obtain b1 where "log_event E context (\<lambda>t. wrap_event E t handle (out_envelope_key_id o1) (out_customer_id o1)
      (Some (JObject (wrap_metadata E context request handle (out_customer_id o1) ttl (inp_unwrap_principal_id input))))) b2 = (Inr (), b1)"
    using log_event_ok by blast
  with assms(1,2) p show ?thesis
    by (simp add: wrap_secret_v2_impl_def run_sources Let_def sbind_step(1) handle_def sret_def)
qed

section \<open>Runs that follow one handle\<close>

text \<open>What happens to the record of one handle, whatever calls are made, as long as no new handle collides with it.\<close>

definition follows :: "'z store_ext_scheme \<Rightarrow> uuid \<Rightarrow> BrokerState \<Rightarrow> BrokerState \<Rightarrow> bool" where
  "follows E h b b' \<longleftrightarrow> (view E (br_sealed_store b) h = None \<longrightarrow> view E (br_sealed_store b') h = None) \<and>
     (\<forall>r r'. view E (br_sealed_store b) h = Some r \<longrightarrow> view E (br_sealed_store b') h = Some r' \<longrightarrow> evolves r r')"

definition tracks :: "'z store_ext_scheme \<Rightarrow> uuid \<Rightarrow> (BrokerState, 'e, 'a) effect \<Rightarrow> BrokerState \<Rightarrow> bool" where
  "tracks E h m b \<longleftrightarrow> (\<forall>q b'. m b = (q, b') \<longrightarrow> follows E h b b')"

named_theorems tracks_intros "calls that keep the record of a handle or let it evolve"

lemma follows_same [simp]: "br_sealed_store b' = br_sealed_store b \<Longrightarrow> follows E h b b'"
  by (simp add: follows_def)

lemma follows_trans:
  assumes "follows E h b c" "follows E h c d"
  shows "follows E h b d"
  using assms unfolding follows_def
  by (cases "view E (br_sealed_store c) h") (auto intro: evolves_trans)

lemma leads_follows: "store_laws E \<Longrightarrow> leads_to E b b' \<Longrightarrow> follows E h b b'"
  using store_run_evolves [of E "(br_sealed_store b, {h})" "(br_sealed_store b', {h})" h]
  by (auto simp: leads_to_def follows_def)

lemma tracksD: "tracks E h m b \<Longrightarrow> m b = (q, b') \<Longrightarrow> follows E h b b'"
  by (simp add: tracks_def)

lemma tracks_advances: "store_laws E \<Longrightarrow> advances E m \<Longrightarrow> tracks E h m b"
  by (auto simp: tracks_def dest: advancesD leads_follows)

lemma tracks_sbind [tracks_intros]:
  assumes "tracks E h m b" and "\<And>x c. m b = (Inr x, c) \<Longrightarrow> tracks E h (f x) c"
  shows "tracks E h (sbind m f) b"
proof (unfold tracks_def, intro allI impI)
  fix q b' assume run: "sbind m f b = (q, b')"
  obtain p c where m: "m b = (p, c)" by fastforce
  with assms(1) have "follows E h b c" by (auto simp: tracks_def)
  moreover have "follows E h c b'" using run m assms(2) by (cases p) (auto simp: sbind_def tracks_def)
  ultimately show "follows E h b b'" by (rule follows_trans)
qed

lemma tracks_insert:
  assumes "store_laws E" "k \<noteq> h"
  shows "tracks E h (on_store (\<lambda>n. insert_with_id E n k r)) b"
proof -
  have "view E s' h = view E s h" if "insert_with_id E (fill g 12) k r s = (q, s')" for g s q s'
    using insert_any [OF assms(1) _ that] assms(2) by auto
  then show ?thesis
    by (auto simp: tracks_def on_store_draw split_rng_def sbind_def smap_err_def szoom_def follows_def split: prod.splits)
qed

lemma persist_tracks:
  assumes "store_laws E" "uuid_v4 E (fill (br_entropy b) 16) \<noteq> h"
  shows "tracks E h (persist_secret_v2_with_lifecycle E context input) b"
proof -
  have adv: "tracks E h m c" if "advances E m" for m :: "'x handler" and c
    using that by (rule tracks_advances [OF assms(1)])
  note steps = adv [OF advances_pure(3)] adv [OF advances_pure(4)] adv [OF advances_draw(1)] adv [OF advances_draw(2)]
    adv [OF advances_frames(1)] adv [OF advances_frames(2)] adv [OF advances_frames(3)] adv [OF advances_pure(1)]
  show ?thesis
    unfolding persist_secret_v2_with_lifecycle_def Let_def split_beta
    using assms
    by (intro tracks_sbind tracks_insert steps) (auto simp: new_uuid_def draw_def split_rng_def sbind_def sret_def)
qed

text \<open>The identifier a call draws after \<open>n\<close> random bytes.\<close>

definition issued_id :: "'z crypto_ext_scheme \<Rightarrow> nat \<Rightarrow> BrokerState \<Rightarrow> uuid" where
  "issued_id E n b = uuid_v4 E (fill (skip n (br_entropy b)) 16)"

lemma advances_shares [advances_intros]:
  "advances E (on_store (\<lambda>n. update_threshold_config E n k c cs))"
  "advances E (on_store (\<lambda>n. update_share_assignments E n k as hs))"
  by (rule advances_on_store, rule threshold_step, assumption+) (rule advances_on_store, rule shares_step, assumption+)

lemma advances_split [advances_intros]: "advances E (split_redeem_token E C rnd k tok n m)"
  unfolding split_redeem_token_def by (intro advances_intros)

lemma advances_mint_token [advances_intros]: "advances E (mint_redeem_token E C rnd req out n m)"
  unfolding mint_redeem_token_def Let_def by (intro advances_intros)

lemma load_existing_entropy:
  "load_existing E h b = (Inr r, b1) \<Longrightarrow> br_entropy b1 = skip 12 (br_entropy b)"
  by (auto simp: load_existing_def store_load_def utc_now_def on_store_draw split_rng_def effect_simps)

lemma identifier_state: "handle_identifier E raw b = (q, b') \<Longrightarrow> b' = b"
  by (auto simp: handle_identifier_def sbind_def sget_def slift_def split: sum.splits)

text \<open>The sources in front of the call that stores the record keep the bytes the identifier is made of.\<close>

lemma tracks_sources:
  "tracks E h (f0 (br_clock b 0)) (tick 1 b) \<Longrightarrow> tracks E h (sbind utc_now f0) b"
  "tracks E h (f1 (g b)) b \<Longrightarrow> tracks E h (sbind (sget g) f1) b"
  "(\<And>x. q = Inr x \<Longrightarrow> tracks E h (f2 x) b) \<Longrightarrow> tracks E h (sbind (slift q) f2) b"
  "tracks E h (f3 (fill (br_entropy b) n)) (spend n b) \<Longrightarrow> tracks E h (sbind (draw n) f3) b"
proof -
  show "tracks E h (f0 (br_clock b 0)) (tick 1 b) \<Longrightarrow> tracks E h (sbind utc_now f0) b"
    by (simp add: tracks_def run_sources follows_def)
  show "tracks E h (f1 (g b)) b \<Longrightarrow> tracks E h (sbind (sget g) f1) b" by (simp add: tracks_def)
  show "(\<And>x. q = Inr x \<Longrightarrow> tracks E h (f2 x) b) \<Longrightarrow> tracks E h (sbind (slift q) f2) b"
    by (cases q) (auto simp: tracks_def sfail_def)
  show "tracks E h (f3 (fill (br_entropy b) n)) (spend n b) \<Longrightarrow> tracks E h (sbind (draw n) f3) b"
    by (simp add: tracks_def run_sources follows_def)
qed

lemma tracks_persist:
  assumes "store_laws E" "uuid_v4 E (fill (br_entropy b) 16) \<noteq> h" "\<And>out. advances E (f out)"
  shows "tracks E h (sbind (persist_secret_v2_with_lifecycle E context input) f) b"
  by (rule tracks_sbind [OF persist_tracks [OF assms(1,2)]]) (rule tracks_advances [OF assms(1,3)])

lemma wrap_tracks:
  assumes "store_laws E" "issued_id E 0 b \<noteq> h"
  shows "tracks E h (wrap_secret_v2_impl E context request) b"
  unfolding wrap_secret_v2_impl_def Let_def split_beta
  using assms
  by (intro tracks_sources tracks_persist advances_intros) (auto simp: issued_id_def skip_def)

lemma mint_tracks:
  assumes "store_laws E" "issued_id E 32 b \<noteq> h"
  shows "tracks E h (mint_aead_key_v2_impl E C rnd context request) b"
  unfolding mint_aead_key_v2_impl_def Let_def split_beta
  using assms
  by (intro tracks_sources tracks_persist advances_intros) (auto simp: issued_id_def skip_def)

lemma rotate_tracks:
  assumes "store_laws E" "issued_id E 12 b \<noteq> h"
  shows "tracks E h (rotate_secret_impl E C rnd context request) b"
  unfolding rotate_secret_impl_def Let_def split_beta
proof (intro tracks_sbind [OF tracks_advances [OF assms(1) advances_calls(5)]] tracks_sbind [OF tracks_advances [OF assms(1) advances_calls(2)]]
    tracks_sources tracks_persist assms(1) advances_intros, goal_cases)
  case (1 old c r d)
  with assms(2) show ?case by (auto simp: issued_id_def dest!: identifier_state load_existing_entropy)
qed

text \<open>One call of the broker, by any caller, with any request and any outcome.\<close>

inductive broker_step ::
  "'z broker_ext_scheme \<Rightarrow> ('f :: field, 'g :: ab_group_add) curve \<Rightarrow> uuid \<Rightarrow> BrokerState \<Rightarrow> BrokerState \<Rightarrow> bool" for E C h where
  step_manage: "manage_step E b b' \<Longrightarrow> broker_step E C h b b'"
| step_unwrap: "unwrap_secret_v2_impl E C context p b = (q1, b') \<Longrightarrow> broker_step E C h b b'"
| step_combine: "combine_shares_impl E C context req b = (q2, b') \<Longrightarrow> broker_step E C h b b'"
| step_wrap: "wrap_secret_v2_impl E context wreq b = (q3, b') \<Longrightarrow> issued_id E 0 b \<noteq> h \<Longrightarrow> broker_step E C h b b'"
| step_mint: "mint_aead_key_v2_impl E C rnd context mreq b = (q4, b') \<Longrightarrow> issued_id E 32 b \<noteq> h \<Longrightarrow> broker_step E C h b b'"
| step_rotate: "rotate_secret_impl E C rnd context rreq b = (q5, b') \<Longrightarrow> issued_id E 12 b \<noteq> h \<Longrightarrow> broker_step E C h b b'"

lemma broker_step_follows:
  assumes "store_laws E" "broker_step E C h b b'"
  shows "follows E h b b'"
  using assms(2)
proof cases
  case step_manage
  then show ?thesis using leads_follows [OF assms(1)] manage_step_leads by blast
next
  case step_unwrap
  then show ?thesis using advancesD [OF advances_unwrap] leads_follows [OF assms(1)] by blast
next
  case step_combine
  then show ?thesis using advancesD [OF advances_combine] leads_follows [OF assms(1)] by blast
next
  case step_wrap
  then show ?thesis by (rule tracksD [OF wrap_tracks [OF assms(1)], rotated])
next
  case step_mint
  then show ?thesis by (rule tracksD [OF mint_tracks [OF assms(1)], rotated])
next
  case step_rotate
  then show ?thesis by (rule tracksD [OF rotate_tracks [OF assms(1)], rotated])
qed

lemma broker_run_follows:
  assumes "store_laws E" "(broker_step E C h)\<^sup>*\<^sup>* b b'"
  shows "follows E h b b'"
  using assms(2) by (induction rule: rtranclp_induct) (auto intro: follows_trans broker_step_follows [OF assms(1)])

section \<open>What the checks of an unwrap say\<close>

lemma checked_record:
  assumes "check_record E r context now = Inr ()"
  shows "\<not> rec_revoked r \<and> \<not> is_expired r now \<and> ctx_authenticated_transport context \<and>
    (\<exists>owner. trimmed (ctx_principal_id context) = Some owner \<and> trimmed (rec_unwrap_principal_id r) = Some owner)"
  using assms
  by (cases "rec_lifecycle r = SingleUseUnwrap")
     (auto simp: check_record_def validate_v2_record_identity_requirements_def validate_v2_record_identity_requirements_inner_def
       result_simps)

lemma checked_token:
  assumes "check_redeem_token E C key h r context now tok = Inr ()"
  shows "(rec_lifecycle r = SingleUseUnwrap \<longrightarrow> rec_redeem_binding r = Some (b64_encode E (sha256 E (ctx_exporter context)))) \<and>
      rec_redeem_nonce r \<noteq> None \<and> (rec_lifecycle r \<noteq> RenewableLease \<longrightarrow> \<not> rec_redeem_used r) \<and>
      (record_threshold r > 1 \<longrightarrow> (\<exists>shares. shares_from_json E tok = Inr shares \<and>
        unat (record_threshold r) \<le> length shares \<and> distinct (map share_x shares)))"
proof -
  from assms obtain expected provided where e: "expected_redeem_token E key h r context now = Inr expected"
    and p: "provided_redeem_token E C r tok = Inr provided" by (auto simp: check_redeem_token_def result_simps)
  have "record_threshold r > 1 \<longrightarrow> (\<exists>shares. shares_from_json E tok = Inr shares \<and>
        unat (record_threshold r) \<le> length shares \<and> distinct (map share_x shares))"
    using p by (auto simp: provided_redeem_token_def result_simps reconstruct_def has_duplicate_x_iff not_less split: if_splits)
  with e show ?thesis
    by (auto simp: expected_redeem_token_def result_simps Let_def split: option.splits if_splits)
qed

section \<open>Retired handles\<close>

text \<open>A successful unwrap of a secret that is not leased, a revocation, a rotation and a deletion retire a handle.\<close>

inductive retires ::
  "'z broker_ext_scheme \<Rightarrow> ('f :: field, 'g :: ab_group_add) curve \<Rightarrow> uuid \<Rightarrow> BrokerState \<Rightarrow> BrokerState \<Rightarrow> bool" for E C h where
  by_unwrap: "unwrap_secret_v2_impl E C context p b = (Inr out, b') \<Longrightarrow> parse_handle_v2 E (unw_handle p) = Inr mac \<Longrightarrow>
    mac_identifier mac = h \<Longrightarrow> view E (br_sealed_store b) h = Some r \<Longrightarrow> rec_lifecycle r \<noteq> RenewableLease \<Longrightarrow> retires E C h b b'"
| by_revoke: "revoke_secret_impl E context rv b = (Inr rsp, b') \<Longrightarrow> rvk_revoked rsp \<Longrightarrow>
    parse_handle_identifier E (br_handle_hmac_key b) (rvk_handle rv) = Inr h \<Longrightarrow> retires E C h b b'"
| by_rotate: "rotate_secret_impl E C rnd context ro b = (Inr ror, b') \<Longrightarrow> ror_old_revoked ror \<Longrightarrow>
    parse_handle_identifier E (br_handle_hmac_key b) (rot_old_handle ro) = Inr h \<Longrightarrow> retires E C h b b'"
| by_delete: "delete_secret_impl E context handle b = (Inr removed, b') \<Longrightarrow>
    parse_handle_identifier E (br_handle_hmac_key b) handle = Inr h \<Longrightarrow> retires E C h b b'"

definition dead :: "'z store_ext_scheme \<Rightarrow> uuid \<Rightarrow> BrokerState \<Rightarrow> bool" where
  "dead E h b \<longleftrightarrow> (\<forall>r. view E (br_sealed_store b) h = Some r \<longrightarrow> rec_redeem_nonce r = None)"

lemma dead_follows:
  assumes "dead E h b" "follows E h b b'"
  shows "dead E h b'"
  using assms unfolding dead_def follows_def evolves_def by (cases "view E (br_sealed_store b) h") auto

lemma store_revoke_dead:
  assumes "store_laws E" "store_revoke E h reason b = (Inr True, b')"
  shows "dead E h b'"
proof -
  from assms(2) obtain s where s: "revoke E (fill (br_entropy b) 12) (br_clock b 0) h reason (br_sealed_store b) = (Inr True, s)"
    "br_sealed_store b' = s"
    by (auto simp: store_revoke_def utc_now_def on_store_draw split_rng_def effect_simps)
  have "nonce_ok (fill (br_entropy b) 12)" by simp
  from revoke_ok [OF assms(1) this s(1)] s(2) show ?thesis
    by (auto simp: dead_def revoke_record_def split: option.splits)
qed

lemma dead_unwrap:
  assumes "store_laws E" "dead E h b" "parse_handle_v2 E (unw_handle p) = Inr mac" "mac_identifier mac = h"
  shows "\<exists>e b'. unwrap_secret_v2_impl E C context p b = (Inl e, b')"
proof (cases "unwrap_secret_v2_impl E C context p b")
  case (Pair q b')
  show ?thesis
  proof (cases q)
    case (Inr out)
    with Pair have "unwrap_secret_v2_impl E C context p b = (Inr out, b')" by simp
    then obtain r where "view E (br_sealed_store b) h = Some r"
      "check_redeem_token E C (br_handle_hmac_key b) h r context (br_clock b 2) (unw_redeem_token p) = Inr ()"
      using assms(3,4) by (elim unwrap_ok [OF assms(1)]) auto
    then have False
      using assms(2) by (auto simp: dead_def check_redeem_token_def expected_redeem_token_def result_simps Let_def)
    then show ?thesis ..
  qed (use Pair in blast)
qed

lemma retires_dead:
  assumes "store_laws E" "retires E C h b b'"
  shows "dead E h b'"
  using assms(2)
proof cases
  case (by_unwrap ctx p out mac r)
  from by_unwrap(1) have "view E (br_sealed_store b') h = Some (consume_redeem (r\<lparr> rec_last_accessed := Some (br_clock b 0) \<rparr>))"
    using by_unwrap(2-5) by (elim unwrap_ok [OF assms(1)]) auto
  then show ?thesis by (simp add: dead_def consume_redeem_def)
next
  case (by_revoke ctx rv rsp)
  from by_revoke(1) obtain c d where "store_revoke E h (rvk_reason rv) c = (Inr True, d)" "br_sealed_store b' = br_sealed_store d"
    using by_revoke(2,3) unfolding revoke_secret_impl_def
    by (auto simp: effect_simps handle_identifier_def result_simps utc_now_def dest!: log_event_store split: if_splits)
  then show ?thesis using store_revoke_dead [OF assms(1)] by (auto simp: dead_def)
next
  case (by_rotate rnd ctx ro ror)
  from by_rotate(1) obtain reason c d where "store_revoke E h reason c = (Inr True, d)" "br_sealed_store b' = br_sealed_store d"
    using by_rotate(2,3) unfolding rotate_secret_impl_def Let_def split_beta
    by (simp only: sbind_Inr_iff sret_iff) (auto simp: handle_identifier_def effect_simps result_simps dest!: log_event_store)
  then show ?thesis using store_revoke_dead [OF assms(1)] by (auto simp: dead_def)
next
  case (by_delete ctx handle removed)
  from by_delete(1) obtain c d where "on_store (\<lambda>_. delete_op E h) c = (Inr removed, d)" "br_sealed_store b' = br_sealed_store d"
    using by_delete(2) unfolding delete_secret_impl_def
    by (simp only: sbind_Inr_iff sret_iff) (auto simp: handle_identifier_def effect_simps result_simps dest!: log_event_store)
  then obtain s where s: "delete_op E h (br_sealed_store c) = (Inr removed, s)" "br_sealed_store b' = s"
    by (elim on_store_ok) simp
  from delete_op_cases [OF assms(1) s(1)] s(2) show ?thesis by (simp add: dead_def)
qed

section \<open>A concrete instance\<close>

definition c_share :: "Share codec" where
  "c_share = c_iso (\<lambda>s. (share_x s, share_y s)) (\<lambda>(x, y). \<lparr> share_x = x, share_y = y \<rparr>) (c_pair c_byte c_bytes)"

definition sample_env :: broker_ext where
  "sample_env = crypto_ext.extend sample_crypto (broker_ext.fields
     (\<lambda>ss. Inr (hex_encode (fst (c_list c_share) ss)))
     (\<lambda>s. rbind (ok_or [] (hex_decode s)) (codec_parse (c_list c_share))))"

lemmas sample_env_defs = sample_env_def crypto_ext.extend_def broker_ext.fields_def

lemma sample_env_fields:
  "hmac_sha256 sample_env = hmac_sha256 sample_ext" "sha256 sample_env = sha256 sample_ext" "b64_encode sample_env = hex_encode"
  "b64url_encode sample_env = hex_encode" "b64url_decode sample_env = hex_decode"
  "try_seconds sample_env = try_seconds sample_crypto" "checked_add sample_env = checked_add sample_crypto"
  "checked_add sample_crypto = checked_add sample_ext" "envelope_to_json sample_env x = Inr (fst c_envelope x)"
  by (simp_all add: sample_env_defs sample_crypto_defs sample_log_def sample_log_fields_def store_ext.extend_def log_ext.fields_def
      sample_store_def sample_store_fields_def ext.extend_def store_ext.fields_def sample_ext_def)

lemma sample_env_laws:
  "crypto_laws sample_env" "crypto_available sample_env" "store_laws sample_env" "store_available sample_env"
  "digest_laws sample_env" "b64_alphabet sample_env" "b64url_lossless sample_env" "b64url_alphabet sample_env"
proof -
  show "crypto_laws sample_env" "crypto_available sample_env"
    using sample_crypto_laws
    by (simp_all add: crypto_laws_def kem_laws_def dsa_laws_def aead_laws_def key_json_laws_def crypto_available_def sample_env_defs)
  show "store_laws sample_env" "store_available sample_env"
    using sample_crypto_store by (simp_all add: store_laws_def store_available_def b64_lossless_def sample_env_defs)
  show "digest_laws sample_env"
  proof -
    have "hex_encode b \<noteq> []" if "b \<noteq> []" for b using that by (cases b) (simp_all add: hex_encode_def)
    moreover have "sha256 sample_ext d \<noteq> []" for d by (simp add: sample_ext_def flip: length_0_conv)
    ultimately show ?thesis using sample_ext_laws(1) by (simp add: digest_laws_def sample_env_fields hmac_32_def)
  qed
  show "b64_alphabet sample_env" using sample_b64_alphabet by (simp add: b64_alphabet_def sample_env_fields sample_ext_def)
  show "b64url_lossless sample_env" "b64url_alphabet sample_env"
    using sample_ext_laws by (simp_all add: b64url_lossless_def b64url_alphabet_def sample_env_fields sample_ext_def)
qed

definition sample_wrap :: "SecretLifecycle \<Rightarrow> WrapV2Request" where
  "sample_wrap l = \<lparr> wrp_plaintext = [1, 2, 3], wrp_customer_id = None, wrp_metadata = None, wrp_lifecycle = l,
     wrp_ttl_seconds = None, wrp_initial_lease_seconds = None, wrp_label = None, wrp_tenant_id = None, wrp_provider = None,
     wrp_circuit_id = None, wrp_node_id = None, wrp_unwrap_principal_id = None \<rparr>"

lemma sample_ready: "ready sample_env ''default'' sample_broker"
proof -
  have ex: "calculate_expiry sample_env sample_config 0 = calculate_expiry sample_crypto sample_config 0"
    by (simp add: calculate_expiry_def sample_env_fields(6,7))
  have "can_generate sample_env g 0 ''dilithium5'' ''default'' sample_new" for g
    by (rule can_generate_available [where mk = "fill (\<lambda>_. 7) 32"])
       (simp_all add: sample_new_def key_manager_new_def sample_env_laws ex sample_expiry sample_limit
         customer_key_count_def validate_post_quantum_algorithm_def sample_config_facts known_policy_algorithm_def)
  moreover have "0 \<le> t" if "calculate_expiry sample_crypto sample_config 0 = Inr (Some t)" for t
    using that by (auto simp: calculate_expiry_def sample_config_def crypto_config_from_env_def Let_def sample_crypto_defs
      sample_log_def sample_log_fields_def store_ext.extend_def log_ext.fields_def sample_store_def
      sample_store_fields_def ext.extend_def store_ext.fields_def sample_ext_def max_duration_secs_def
      representable_def chrono_min_secs_def chrono_max_secs_def split: if_splits)
  moreover have "checked_add sample_env 0 (86400 * nanos_per_sec) \<noteq> None"
    by (simp add: sample_env_fields sample_ext_def representable_def chrono_min_secs_def chrono_max_secs_def)
  ultimately show ?thesis
    by (simp add: ready_def Let_def sample_env_laws sample_env_fields(9) sample_broker_def sample_quantum_def sample_quantum_enabled
        sample_new_unlocked ex) (simp add: sample_new_def key_manager_new_def ex)
qed

lemma sample_wraps:
  "\<exists>out b1. wrap_secret_v2_impl sample_env sample_context (sample_wrap l) sample_broker = (Inr out, b1) \<and> wro_expires_at out = None"
proof -
  let ?owner = "Some ''spiffe://t/a''"
  have owner: "v2_unwrap_principal sample_context l None = Inr ?owner"
    by (cases l) (simp_all add: v2_unwrap_principal_def sample_context_facts normalized_context_principal_def trimmed_def [of None])
  let ?input = "\<lparr> inp_plaintext = [1, 2, 3], inp_customer_id = ''default'', inp_metadata = None, inp_created_at = 0,
     inp_expires_at = None, inp_lifecycle = l, inp_initial_lease_seconds = None, inp_unwrap_principal_id = ?owner \<rparr>"
  obtain o1 b2 where p: "persist_secret_v2_with_lifecycle sample_env sample_context ?input (tick 1 sample_broker) = (Inr o1, b2)"
    "out_expires_at o1 = None"
    using persist_run [of sample_env ?input "tick 1 sample_broker" "86400 * nanos_per_sec" sample_context]
      ready_tick [OF sample_ready, of 1]
    by (auto simp: sample_broker_def sample_env_fields sample_ext_def representable_def chrono_min_secs_def chrono_max_secs_def)
  have "enforce_ttl sample_env (br_max_handle_ttl sample_broker) None 0 = Inr (None, None)" by (simp add: enforce_ttl_def)
  from wrap_run [OF _ _ p(1), of "sample_wrap l"] this owner p(2) show ?thesis
    by (simp add: sample_wrap_def customer_or_default_def) (simp add: sample_broker_def)
qed

lemma in_time_exists: "\<exists>t. in_time r t"
proof -
  let ?S = "set_option (rec_expires_at r) \<union> set_option (rec_redeem_expires_at r) \<union> set_option (rec_lease_expires_at r) \<union>
    set_option (rec_signing_key_expires_at r)"
  have "finite ?S" by simp
  then have "\<forall>t \<in> ?S. Min (insert 0 ?S) \<le> t" by simp
  then show ?thesis unfolding in_time_def by blast
qed

lemma sample_caveats: "printable_caveats sample_env (wrap_caveats (sample_wrap l) None)"
  by (simp add: printable_caveats_def wrap_caveats_def sample_wrap_def caveat_some_def wf_str_def)

text \<open>A secret wrapped in the sample broker and its unwrapping at some time in its life.\<close>

lemma sample_unwraps:
  obtains out b1 mac r clock b2 where
    "wrap_secret_v2_impl sample_env sample_context (sample_wrap l) sample_broker = (Inr out, b1)"
    "parse_handle_v2 sample_env (wro_handle out) = Inr mac" "view sample_env (br_sealed_store b1) (mac_identifier mac) = Some r"
    "unwrap_secret_v2_impl sample_env gf_curve sample_context (owner_request (sample_wrap l) out) (b1\<lparr> br_clock := clock \<rparr>) =
       (Inr (hex_encode [1, 2, 3]), b2)" "rec_lifecycle r = l"
proof -
  obtain out b1 where w: "wrap_secret_v2_impl sample_env sample_context (sample_wrap l) sample_broker = (Inr out, b1)"
    "wro_expires_at out = None" using sample_wraps by blast
  obtain mac r where m: "parse_handle_v2 sample_env (wro_handle out) = Inr mac" "view sample_env (br_sealed_store b1) (mac_identifier mac) = Some r"
    "\<And>clock. in_time r (clock 1) \<Longrightarrow> in_time r (clock 2) \<Longrightarrow> unwrappable sample_env gf_curve sample_context
       (owner_request (sample_wrap l) out) (mac_identifier mac) (wrp_plaintext (sample_wrap l)) (b1\<lparr> br_clock := clock \<rparr>)" "rec_lifecycle r = l"
    by (rule wrap_then_unwrap [OF sample_env_laws(1,3-8) w(1), where C = gf_curve])
       (simp_all add: sample_wrap_def sample_context_facts w(2) sample_caveats [unfolded sample_wrap_def])
  obtain t where "in_time r t" using in_time_exists by blast
  with m(3) [of "\<lambda>_. t"] obtain b2 where
    "unwrap_secret_v2_impl sample_env gf_curve sample_context (owner_request (sample_wrap l) out) (b1\<lparr> br_clock := \<lambda>_. t \<rparr>) =
       (Inr (b64_encode sample_env (wrp_plaintext (sample_wrap l))), b2)"
    using unwrappable_unwraps [OF sample_env_laws(1,3,4)] by blast
  then show thesis using that [OF w(1) m(1,2)] m(4) by (simp add: sample_env_fields sample_wrap_def)
qed

section \<open>Properties\<close>



text \<open>C4 (what a successful unwrap has established).  The handle carries a macaroon that verifies under the
  broker's key, with its caveats met for an unwrap at the time of the call; its record is present, not
  revoked and not past its expiry; the caller is authenticated and is the principal the record is bound to;
  for a single-use secret it is on the connection the secret was wrapped on; the redeem nonce is still
  there; a secret that is not a renewable lease was not redeemed before and is marked as redeemed
  afterwards; and a threshold record was opened with at least the threshold number of distinct shares.\<close>

theorem unwrap_authorised:
  assumes "store_laws E" "unwrap_secret_v2_impl E C context p b = (Inr out, b')"
  shows "\<exists>mac r keys. parse_handle_v2 E (unw_handle p) = Inr mac \<and> view E (br_sealed_store b) (mac_identifier mac) = Some r \<and>
    verify E (macaroon_root_key E (br_handle_hmac_key b) (mac_identifier mac)) (unwrap_verifier p (br_clock b 1) keys) mac = Inr () \<and>
    discharge_keys_for_record E r = Inr keys \<and> \<not> rec_revoked r \<and> \<not> is_expired r (br_clock b 2) \<and>
    ctx_authenticated_transport context \<and>
    (\<exists>owner. trimmed (ctx_principal_id context) = Some owner \<and> trimmed (rec_unwrap_principal_id r) = Some owner) \<and>
    (rec_lifecycle r = SingleUseUnwrap \<longrightarrow> rec_redeem_binding r = Some (b64_encode E (sha256 E (ctx_exporter context)))) \<and>
    rec_redeem_nonce r \<noteq> None \<and>
    (rec_lifecycle r \<noteq> RenewableLease \<longrightarrow> \<not> rec_redeem_used r \<and>
      (\<exists>r'. view E (br_sealed_store b') (mac_identifier mac) = Some r' \<and> rec_redeem_used r' \<and> rec_redeem_nonce r' = None)) \<and>
    (record_threshold r > 1 \<longrightarrow> (\<exists>shares. shares_from_json E (unw_redeem_token p) = Inr shares \<and>
      unat (record_threshold r) \<le> length shares \<and> distinct (map share_x shares)))"
proof -
  obtain mac r keys where m: "parse_handle_v2 E (unw_handle p) = Inr mac" "view E (br_sealed_store b) (mac_identifier mac) = Some r"
      "discharge_keys_for_record E r = Inr keys"
      "verify E (macaroon_root_key E (br_handle_hmac_key b) (mac_identifier mac)) (unwrap_verifier p (br_clock b 1) keys) mac = Inr ()"
    and rec: "check_record E r context (br_clock b 2) = Inr ()"
    and tok: "check_redeem_token E C (br_handle_hmac_key b) (mac_identifier mac) r context (br_clock b 2) (unw_redeem_token p) = Inr ()"
    and used: "rec_lifecycle r \<noteq> RenewableLease \<Longrightarrow> view E (br_sealed_store b') (mac_identifier mac) =
       Some (consume_redeem (r\<lparr> rec_last_accessed := Some (br_clock b 0) \<rparr>))"
    using assms(2) by (rule unwrap_ok [OF assms(1)]) blast
  note m
  moreover have "\<not> rec_revoked r \<and> \<not> is_expired r (br_clock b 2) \<and> ctx_authenticated_transport context \<and>
      (\<exists>owner. trimmed (ctx_principal_id context) = Some owner \<and> trimmed (rec_unwrap_principal_id r) = Some owner)"
    using rec by (rule checked_record)
  moreover have "(rec_lifecycle r = SingleUseUnwrap \<longrightarrow> rec_redeem_binding r = Some (b64_encode E (sha256 E (ctx_exporter context)))) \<and>
      rec_redeem_nonce r \<noteq> None \<and> (rec_lifecycle r \<noteq> RenewableLease \<longrightarrow> \<not> rec_redeem_used r)"
    and "record_threshold r > 1 \<longrightarrow> (\<exists>shares. shares_from_json E (unw_redeem_token p) = Inr shares \<and>
      unat (record_threshold r) \<le> length shares \<and> distinct (map share_x shares))"
    using checked_token [OF tok] by blast+
  moreover have "\<exists>r'. view E (br_sealed_store b') (mac_identifier mac) = Some r' \<and> rec_redeem_used r' \<and> rec_redeem_nonce r' = None"
    if "rec_lifecycle r \<noteq> RenewableLease" using used [OF that] by (simp add: consume_redeem_def)
  ultimately show ?thesis by blast
qed

theorem unwrap_authorised_witness:
  "\<exists>p b b' mac r. unwrap_secret_v2_impl sample_env gf_curve sample_context p b = (Inr (hex_encode [1, 2, 3]), b') \<and>
     parse_handle_v2 sample_env (unw_handle p) = Inr mac \<and> view sample_env (br_sealed_store b) (mac_identifier mac) = Some r \<and>
     \<not> rec_revoked r \<and> ctx_authenticated_transport sample_context"
proof -
  obtain out b1 clock b2 where
    u: "unwrap_secret_v2_impl sample_env gf_curve sample_context (owner_request (sample_wrap SingleUseUnwrap) out) (b1\<lparr> br_clock := clock \<rparr>) =
       (Inr (hex_encode [1, 2, 3]), b2)" by (rule sample_unwraps)
  from unwrap_authorised [OF sample_env_laws(3) u] u show ?thesis by blast
qed

text \<open>C3 (a retired handle is never unwrapped).  After a handle was unwrapped (unless its record is a renewable
  lease), revoked, rotated away or deleted, whatever calls follow, by whom and with what outcome, as long as no
  new record is given the same identifier, no presentation of that handle, attenuated or not, unwraps it.\<close>

theorem retired_handle_never_unwraps:
  assumes "store_laws E" "retires E C h b b1" "(broker_step E C h)\<^sup>*\<^sup>* b1 b2"
    and "parse_handle_v2 E (unw_handle p) = Inr mac" "mac_identifier mac = h"
  shows "\<exists>e b3. unwrap_secret_v2_impl E C context p b2 = (Inl e, b3)"
  using dead_unwrap [OF assms(1) _ assms(4,5)] dead_follows [OF retires_dead [OF assms(1,2)] broker_run_follows [OF assms(1,3)]]
  by blast

theorem retired_handle_never_unwraps_witness:
  "\<exists>out b1 b2 e b3. unwrap_secret_v2_impl sample_env gf_curve sample_context (owner_request (sample_wrap SingleUseUnwrap) out) b1 =
       (Inr (hex_encode [1, 2, 3]), b2) \<and>
     unwrap_secret_v2_impl sample_env gf_curve sample_context (owner_request (sample_wrap SingleUseUnwrap) out) b2 = (Inl e, b3)"
proof -
  obtain out b1 mac r clock b2 where
    m: "parse_handle_v2 sample_env (wro_handle out) = Inr mac" "view sample_env (br_sealed_store b1) (mac_identifier mac) = Some r"
      "rec_lifecycle r = SingleUseUnwrap"
    and u: "unwrap_secret_v2_impl sample_env gf_curve sample_context (owner_request (sample_wrap SingleUseUnwrap) out) (b1\<lparr> br_clock := clock \<rparr>) =
       (Inr (hex_encode [1, 2, 3]), b2)" by (rule sample_unwraps)
  have p: "parse_handle_v2 sample_env (unw_handle (owner_request (sample_wrap SingleUseUnwrap) out)) = Inr mac"
    using m(1) by (simp add: owner_request_def Let_def)
  have "retires sample_env gf_curve (mac_identifier mac) (b1\<lparr> br_clock := clock \<rparr>) b2"
    using m(2,3) by (intro by_unwrap [OF u p refl, of r]) simp_all
  from retired_handle_never_unwraps [OF sample_env_laws(3) this rtranclp.rtrancl_refl p refl] u show ?thesis by blast
qed

end
