(* ===== verification/Races.thy ===== *)
theory Races
  imports Lifecycle
begin

text \<open>
  Calls that overlap.  \<open>unwrap_secret_v2_impl\<close> holds no lock between its checks of the record and the write that
  consumes the redeem token, and suspends in between, so another call may run there.  The handler is split at that
  point, and two unwraps of one single-use secret are interleaved.
\<close>

section \<open>The two halves of an unwrap\<close>

text \<open>Everything up to the decryption, and the rest from the consumption of the redeem token on.\<close>

definition unwrap_checked ::
  "'z broker_ext_scheme \<Rightarrow> ('f :: field, 'g :: ab_group_add) curve \<Rightarrow> BrokerClientContext \<Rightarrow> UnwrapV2Request
    \<Rightarrow> (uuid \<times> StoredEnvelopeRecord \<times> bytes) handler" where
  "unwrap_checked E C context p =
     sbind (try_svc (parse_handle_v2 E (unw_handle p))) (\<lambda>mac.
     let handle_id = mac_identifier mac in
     sbind (load_existing E handle_id) (\<lambda>r.
     sbind (sget br_handle_hmac_key) (\<lambda>hmac_key.
     sbind utc_now (\<lambda>verify_now.
     sbind (try_svc (discharge_keys_for_record E r)) (\<lambda>keys.
     sbind (try_svc (map_err macaroon_service_error
       (verify E (macaroon_root_key E hmac_key handle_id) (unwrap_verifier p verify_now keys) mac))) (\<lambda>_.
     sbind utc_now (\<lambda>now.
     sbind (try_svc (check_record E r context now)) (\<lambda>_.
     sbind (try_svc (check_envelope E r)) (\<lambda>_.
     sbind (try_svc (check_redeem_token E C hmac_key handle_id r context now (unw_redeem_token p))) (\<lambda>_.
     sbind (try_svc (check_exporter E r context)) (\<lambda>exporter_secret.
     sbind (try_svc (map_err Storage (ciphertext_bytes E r))) (\<lambda>ciphertext.
     sbind (try_svc (map_err Storage (kem_ciphertext_bytes E r))) (\<lambda>kem_cipher.
     sbind fork_rng (\<lambda>g. sbind utc_now (\<lambda>t.
     sbind (on_crypto (decrypt_pqc E g t ciphertext kem_cipher (env_envelope_key_id (rec_envelope r))
       (env_customer_id (rec_envelope r)) exporter_secret)) (\<lambda>plaintext.
     sret (handle_id, r, dec_plaintext plaintext)))))))))))))))))"

definition unwrap_finish ::
  "'z broker_ext_scheme \<Rightarrow> BrokerClientContext \<Rightarrow> UnwrapV2Request \<Rightarrow> uuid \<times> StoredEnvelopeRecord \<times> bytes \<Rightarrow> string handler" where
  "unwrap_finish E context p = (\<lambda>(handle_id, r, plaintext).
     sbind (if rec_lifecycle r \<noteq> RenewableLease then on_store (\<lambda>n. mark_redeem_used E n handle_id) else sret ()) (\<lambda>_.
     sbind (log_event E context (\<lambda>t. unwrap_event E t (unw_handle p) (Some (env_envelope_key_id (rec_envelope r)))
         (env_customer_id (rec_envelope r)) (Some (JObject (unwrap_metadata E context r))))) (\<lambda>_.
     sret (b64_encode E plaintext))))"

lemma sbind_assoc: "sbind (sbind m f) g = sbind m (\<lambda>x. sbind (f x) g)"
  by (auto simp: fun_eq_iff sbind_def split: prod.splits sum.splits)

lemma unwrap_halves: "unwrap_secret_v2_impl E C context p = sbind (unwrap_checked E C context p) (unwrap_finish E context p)"
  by (simp add: unwrap_secret_v2_impl_def unwrap_checked_def unwrap_finish_def Let_def sbind_assoc sbind_sret)

section \<open>The first half can be repeated\<close>

lemma checked_run:
  assumes laws: "crypto_laws E" "store_laws E" "store_available E" and "unwrappable E C context p h plain b"
  obtains r b' where "unwrap_checked E C context p b = (Inr (h, r, plain), b')" "view E (br_sealed_store b') h = Some r"
    "unwrappable E C context p h plain (b'\<lparr> br_clock := br_clock b \<rparr>)"
proof -
  from assms(4) obtain mac r keys xs ct kem where
    mac: "parse_handle_v2 E (unw_handle p) = Inr mac" "mac_identifier mac = h" "view E (br_sealed_store b) h = Some r"
      "discharge_keys_for_record E r = Inr keys"
      "verify E (macaroon_root_key E (br_handle_hmac_key b) h) (unwrap_verifier p (br_clock b 1) keys) mac = Inr ()"
    and checks: "check_record E r context (br_clock b 2) = Inr ()" "check_envelope E r = Inr ()"
      "check_redeem_token E C (br_handle_hmac_key b) h r context (br_clock b 2) (unw_redeem_token p) = Inr ()"
      "check_exporter E r context = Inr xs" "ciphertext_bytes E r = Inr ct" "kem_ciphertext_bytes E r = Inr kem"
    and opens: "pqc_opens E (br_crypto b) (env_envelope_key_id (rec_envelope r)) ct kem plain"
    unfolding unwrappable_def by blast
  let ?r = "r\<lparr> rec_last_accessed := Some (br_clock b 0) \<rparr>"
  obtain b1 where b1: "load_existing E h b = (Inr ?r, b1)" by (rule load_existing_run [OF laws(2,3) mac(3)])
  then have f: "view E (br_sealed_store b1) h = Some ?r" "br_clock b1 = (\<lambda>i. br_clock b (i + 1))"
    "br_handle_hmac_key b1 = br_handle_hmac_key b" "br_crypto b1 = br_crypto b"
    by (elim load_existing_ok [OF laws(2)], simp)+
  let ?b2 = "tick 1 (halve (tick 2 b1))"
  have dec: "on_crypto (decrypt_pqc E g t ct kem (env_envelope_key_id (rec_envelope r)) c xs) ?b2 =
      (Inr \<lparr> dec_plaintext = plain, dec_algorithm = ''mlkem768-hybrid'', dec_verified = True \<rparr>, ?b2)" for g t c
    using decrypt_pqc_opens [OF laws opens] f(4) by (simp add: on_crypto_def smap_err_def szoom_def tick_def halve_def)
  have "unwrap_checked E C context p b = (Inr (h, ?r, plain), ?b2)"
    using mac checks b1 f dec by (simp add: unwrap_checked_def Let_def sbind_step(1) run_sources numeral_2_eq_2 sret_def)
  moreover have "view E (br_sealed_store ?b2) h = Some ?r" using f(1) by simp
  moreover have "unwrappable E C context p h plain (?b2\<lparr> br_clock := br_clock b \<rparr>)"
    unfolding unwrappable_def using mac checks opens f by (intro exI [of _ mac] exI [of _ ?r] exI) simp
  ultimately show thesis by (rule that)
qed

lemma finish_run:
  assumes "store_laws E" "store_available E" "view E (br_sealed_store b) h = Some r'"
  obtains b' r'' where "unwrap_finish E context p (h, r, plain) b = (Inr (b64_encode E plain), b')" "view E (br_sealed_store b') h = Some r''"
proof -
  let ?mark = "if rec_lifecycle r \<noteq> RenewableLease then on_store (\<lambda>n. mark_redeem_used E n h) else sret ()"
  let ?mk = "\<lambda>t. unwrap_event E t (unw_handle p) (Some (env_envelope_key_id (rec_envelope r)))
    (env_customer_id (rec_envelope r)) (Some (JObject (unwrap_metadata E context r)))"
  obtain b1 r1 where m: "?mark b = (Inr (), b1)" and v: "view E (br_sealed_store b1) h = Some r1"
  proof (cases "rec_lifecycle r = RenewableLease")
    case True
    with that [of b r'] assms(3) show thesis by (simp add: sret_def)
  next
    case False
    obtain b1 where "on_store (\<lambda>n. mark_redeem_used E n h) b = (Inr (), b1)" by (rule mark_redeem_run [OF assms])
    with that False redeem_marks [OF assms(1) this assms(3)] show thesis by simp
  qed
  obtain b2 where l: "log_event E context ?mk b1 = (Inr (), b2)" "br_sealed_store b2 = br_sealed_store b1"
    using log_event_ok by blast
  then have "unwrap_finish E context p (h, r, plain) b = (Inr (b64_encode E plain), b2)"
    using m by (simp add: unwrap_finish_def sbind_step(1) sret_def)
  with that [of b2 r1] v l(2) show thesis by simp
qed

section \<open>Properties\<close>

text \<open>C17 (two overlapping unwraps of a single-use secret both succeed).  An unwrap is its checking half followed by
  its consuming half.  After a secret was wrapped for a single use by the caller itself, two unwraps by its owner
  that overlap, so that both have been checked, with the same readings of the clock, before either consumes the
  redeem token, both return the secret.\<close>

theorem overlapping_unwraps_both_succeed:
  assumes "crypto_laws E" "store_laws E" "store_available E" "digest_laws E" "b64_alphabet E" "b64url_lossless E" "b64url_alphabet E"
    and "wrap_secret_v2_impl E context request b = (Inr out, b1)" "wrp_unwrap_principal_id request = None"
    and "\<forall>c. ctx_peer_cert_sha256 context = Some c \<longrightarrow> c \<noteq> []"
    and "printable_caveats E (wrap_caveats request (wro_expires_at out))" "wrp_lifecycle request = SingleUseUnwrap"
  shows "unwrap_secret_v2_impl E C context p = sbind (unwrap_checked E C context p) (unwrap_finish E context p) \<and>
    (\<exists>mac r. parse_handle_v2 E (wro_handle out) = Inr mac \<and> view E (br_sealed_store b1) (mac_identifier mac) = Some r \<and>
      rec_lifecycle r = SingleUseUnwrap \<and>
      (\<forall>clock. in_time r (clock 1) \<longrightarrow> in_time r (clock 2) \<longrightarrow>
        (\<exists>x c1 y c2 c3 c4.
          unwrap_checked E C context (owner_request request out) (b1\<lparr> br_clock := clock \<rparr>) = (Inr x, c1) \<and>
          unwrap_checked E C context (owner_request request out) (c1\<lparr> br_clock := clock \<rparr>) = (Inr y, c2) \<and>
          unwrap_finish E context (owner_request request out) x c2 = (Inr (b64_encode E (wrp_plaintext request)), c3) \<and>
          unwrap_finish E context (owner_request request out) y c3 = (Inr (b64_encode E (wrp_plaintext request)), c4))))"
proof -
  let ?p = "owner_request request out"
  obtain mac r where mac: "parse_handle_v2 E (wro_handle out) = Inr mac" "view E (br_sealed_store b1) (mac_identifier mac) = Some r"
    and open_at: "\<And>clock. in_time r (clock 1) \<Longrightarrow> in_time r (clock 2) \<Longrightarrow>
      unwrappable E C context ?p (mac_identifier mac) (wrp_plaintext request) (b1\<lparr> br_clock := clock \<rparr>)"
    and l: "rec_lifecycle r = wrp_lifecycle request"
    by (rule wrap_then_unwrap [OF assms(1-11), where C = C]) blast
  have "\<exists>x c1 y c2 c3 c4.
      unwrap_checked E C context ?p (b1\<lparr> br_clock := clock \<rparr>) = (Inr x, c1) \<and>
      unwrap_checked E C context ?p (c1\<lparr> br_clock := clock \<rparr>) = (Inr y, c2) \<and>
      unwrap_finish E context ?p x c2 = (Inr (b64_encode E (wrp_plaintext request)), c3) \<and>
      unwrap_finish E context ?p y c3 = (Inr (b64_encode E (wrp_plaintext request)), c4)"
    if time: "in_time r (clock 1)" "in_time r (clock 2)" for clock
  proof -
    obtain r1 c1 where c1: "unwrap_checked E C context ?p (b1\<lparr> br_clock := clock \<rparr>) = (Inr (mac_identifier mac, r1, wrp_plaintext request), c1)"
      "unwrappable E C context ?p (mac_identifier mac) (wrp_plaintext request) (c1\<lparr> br_clock := br_clock (b1\<lparr> br_clock := clock \<rparr>) \<rparr>)"
      by (rule checked_run [OF assms(1-3) open_at [OF time]])
    obtain r2 c2 where c2: "unwrap_checked E C context ?p (c1\<lparr> br_clock := clock \<rparr>) = (Inr (mac_identifier mac, r2, wrp_plaintext request), c2)"
      and v2: "view E (br_sealed_store c2) (mac_identifier mac) = Some r2"
      by (rule checked_run [OF assms(1-3) c1(2)]) simp
    obtain c3 r3 where c3: "unwrap_finish E context ?p (mac_identifier mac, r1, wrp_plaintext request) c2 =
        (Inr (b64_encode E (wrp_plaintext request)), c3)" "view E (br_sealed_store c3) (mac_identifier mac) = Some r3"
      by (rule finish_run [OF assms(2,3) v2])
    obtain c4 where "unwrap_finish E context ?p (mac_identifier mac, r2, wrp_plaintext request) c3 =
        (Inr (b64_encode E (wrp_plaintext request)), c4)"
      by (rule finish_run [OF assms(2,3) c3(2)])
    with c1(1) c2 c3(1) show ?thesis by blast
  qed
  with mac l assms(12) unwrap_halves show ?thesis by auto
qed

theorem overlapping_unwraps_both_succeed_witness:
  "\<exists>out b1 clock x c1 y c2 c3 c4. wrap_secret_v2_impl sample_env sample_context (sample_wrap SingleUseUnwrap) sample_broker = (Inr out, b1) \<and>
     unwrap_checked sample_env gf_curve sample_context (owner_request (sample_wrap SingleUseUnwrap) out) (b1\<lparr> br_clock := clock \<rparr>) = (Inr x, c1) \<and>
     unwrap_checked sample_env gf_curve sample_context (owner_request (sample_wrap SingleUseUnwrap) out) (c1\<lparr> br_clock := clock \<rparr>) = (Inr y, c2) \<and>
     unwrap_finish sample_env sample_context (owner_request (sample_wrap SingleUseUnwrap) out) x c2 = (Inr (hex_encode [1, 2, 3]), c3) \<and>
     unwrap_finish sample_env sample_context (owner_request (sample_wrap SingleUseUnwrap) out) y c3 = (Inr (hex_encode [1, 2, 3]), c4)"
proof -
  obtain out b1 where w: "wrap_secret_v2_impl sample_env sample_context (sample_wrap SingleUseUnwrap) sample_broker = (Inr out, b1)"
    "wro_expires_at out = None" using sample_wraps by blast
  have pre: "wrp_unwrap_principal_id (sample_wrap SingleUseUnwrap) = None" "\<forall>c. ctx_peer_cert_sha256 sample_context = Some c \<longrightarrow> c \<noteq> []"
    "printable_caveats sample_env (wrap_caveats (sample_wrap SingleUseUnwrap) (wro_expires_at out))"
    "wrp_lifecycle (sample_wrap SingleUseUnwrap) = SingleUseUnwrap"
    using sample_caveats w(2) by (simp_all add: sample_wrap_def sample_context_facts)
  have plain: "b64_encode sample_env (wrp_plaintext (sample_wrap SingleUseUnwrap)) = hex_encode [1, 2, 3]"
    by (simp add: sample_env_fields) (simp add: sample_wrap_def)
  from overlapping_unwraps_both_succeed [OF sample_env_laws(1,3-8) w(1) pre, where C = gf_curve, unfolded plain] obtain r where
    r: "\<forall>clock. in_time r (clock 1) \<longrightarrow> in_time r (clock 2) \<longrightarrow> (\<exists>x c1 y c2 c3 c4.
       unwrap_checked sample_env gf_curve sample_context (owner_request (sample_wrap SingleUseUnwrap) out) (b1\<lparr> br_clock := clock \<rparr>) = (Inr x, c1) \<and>
       unwrap_checked sample_env gf_curve sample_context (owner_request (sample_wrap SingleUseUnwrap) out) (c1\<lparr> br_clock := clock \<rparr>) = (Inr y, c2) \<and>
       unwrap_finish sample_env sample_context (owner_request (sample_wrap SingleUseUnwrap) out) x c2 = (Inr (hex_encode [1, 2, 3]), c3) \<and>
       unwrap_finish sample_env sample_context (owner_request (sample_wrap SingleUseUnwrap) out) y c3 = (Inr (hex_encode [1, 2, 3]), c4))"
    by blast
  obtain t where "in_time r t" using in_time_exists by blast
  with r [rule_format, of "\<lambda>_. t"] w(1) show ?thesis by blast
qed

end
