(* ===== verification/Rust_Net.thy ===== *)
theory Rust_Net
  imports Rust_Text "HOL-Library.Code_Target_Nat"
begin

text \<open>
  Socket and IP addresses of Rust's standard library: the parsers of \<open>core::net\<close> (a parser takes the rest of the
  text and gives the value with what is left) and \<open>is_loopback\<close>.
\<close>

type_synonym 'a parser = "string \<Rightarrow> ('a \<times> string) option"

definition pbind :: "'a parser \<Rightarrow> ('a \<Rightarrow> 'b parser) \<Rightarrow> 'b parser" where
  "pbind p f s = (case p s of Some (x, r) \<Rightarrow> f x r | None \<Rightarrow> None)"

definition pret :: "'a \<Rightarrow> 'a parser" where
  "pret x s = Some (x, s)"

definition por :: "'a parser \<Rightarrow> 'a parser \<Rightarrow> 'a parser" where
  "por p q s = (case p s of Some r \<Rightarrow> Some r | None \<Rightarrow> q s)"

definition pchar :: "char \<Rightarrow> unit parser" where
  "pchar c s = (case s of x # r \<Rightarrow> if x = c then Some ((), r) else None | [] \<Rightarrow> None)"

text \<open>\<open>parse_with\<close>: the whole text must be read.\<close>

definition parse_with :: "'a parser \<Rightarrow> string \<Rightarrow> 'a option" where
  "parse_with p s = (case p s of Some (x, []) \<Rightarrow> Some x | _ \<Rightarrow> None)"

section \<open>Numbers\<close>

definition digit_value :: "nat \<Rightarrow> char \<Rightarrow> nat option" where
  "digit_value radix c =
     (let n = of_char c :: nat;
          v = (if code_in 48 57 c then n - 48 else if code_in 97 102 c then n - 87 else if code_in 65 70 c then n - 55 else radix) in
      if v < radix then Some v else None)"

text \<open>The digits at the front of the text, read greedily; a number above \<open>bound\<close> or with more than \<open>most\<close> digits fails.\<close>

fun read_digits :: "nat \<Rightarrow> nat \<Rightarrow> nat option \<Rightarrow> nat \<Rightarrow> nat \<Rightarrow> (nat \<times> nat) parser" where
  "read_digits radix bound most n count [] = Some ((n, count), [])"
| "read_digits radix bound most n count (c # s) =
     (case digit_value radix c of
        None \<Rightarrow> Some ((n, count), c # s)
      | Some d \<Rightarrow>
          if n * radix + d > bound \<or> (case most of Some m \<Rightarrow> m \<le> count | None \<Rightarrow> False) then None
          else read_digits radix bound most (n * radix + d) (count + 1) s)"

definition read_number :: "nat \<Rightarrow> nat \<Rightarrow> nat option \<Rightarrow> bool \<Rightarrow> nat parser" where
  "read_number radix bound most zero_prefix s =
     pbind (read_digits radix bound most 0 0) (\<lambda>(n, count) r.
       if count = 0 \<or> (\<not> zero_prefix \<and> take 1 s = ''0'' \<and> count > 1) then None else Some (n, r)) s"

definition read_separated :: "char \<Rightarrow> nat \<Rightarrow> 'a parser \<Rightarrow> 'a parser" where
  "read_separated sep index p = (if index > 0 then pbind (pchar sep) (\<lambda>_. p) else p)"

section \<open>Addresses\<close>

datatype IpAddr = IpV4 "nat list" | IpV6 "nat list"

fun read_octets :: "nat \<Rightarrow> nat \<Rightarrow> nat list parser" where
  "read_octets index 0 = pret []"
| "read_octets index (Suc k) =
     pbind (read_separated CHR ''.'' index (read_number 10 255 (Some 3) False)) (\<lambda>b.
     pbind (read_octets (index + 1) k) (\<lambda>bs. pret (b # bs)))"

definition read_ipv4_addr :: "nat list parser" where
  "read_ipv4_addr = read_octets 0 4"

text \<open>At most \<open>k\<close> more groups of sixteen bits after \<open>index\<close> groups; an embedded IPv4 address fills two and ends the
  reading.  A group that cannot be read leaves the text before its separator.\<close>

fun read_groups :: "nat \<Rightarrow> nat \<Rightarrow> string \<Rightarrow> (nat list \<times> bool) \<times> string" where
  "read_groups index 0 s = (([], False), s)"
| "read_groups index (Suc k) s =
     (case (if k > 0 then read_separated CHR '':'' index read_ipv4_addr s else None) of
        Some (os, r) \<Rightarrow> (([os ! 0 * 256 + os ! 1, os ! 2 * 256 + os ! 3], True), r)
      | None \<Rightarrow>
          (case read_separated CHR '':'' index (read_number 16 65535 (Some 4) True) s of
             Some (g, r) \<Rightarrow> (case read_groups (index + 1) k r of ((gs, v4), r') \<Rightarrow> ((g # gs, v4), r'))
           | None \<Rightarrow> (([], False), s)))"

definition read_ipv6_addr :: "nat list parser" where
  "read_ipv6_addr s =
     (case read_groups 0 8 s of ((head, head_v4), r) \<Rightarrow>
        if length head = 8 then Some (head, r)
        else if head_v4 then None
        else pbind (pchar CHR '':'') (\<lambda>_. pbind (pchar CHR '':'') (\<lambda>_ r'.
          case read_groups 0 (7 - length head) r' of ((tail, _), r'') \<Rightarrow>
            Some (head @ replicate (8 - length head - length tail) 0 @ tail, r''))) r)"

definition parse_ip_addr :: "string \<Rightarrow> IpAddr option" where
  "parse_ip_addr s = parse_with (por (pbind read_ipv4_addr (\<lambda>a. pret (IpV4 a))) (pbind read_ipv6_addr (\<lambda>a. pret (IpV6 a)))) s"

definition read_port :: "nat parser" where
  "read_port = pbind (pchar CHR '':'') (\<lambda>_. read_number 10 65535 None True)"

definition read_scope_id :: "nat parser" where
  "read_scope_id = pbind (pchar CHR 37) (\<lambda>_. read_number 10 4294967295 None True)"

definition parse_socket_addr :: "string \<Rightarrow> (IpAddr \<times> nat) option" where
  "parse_socket_addr s = parse_with
     (por (pbind read_ipv4_addr (\<lambda>a. pbind read_port (\<lambda>p. pret (IpV4 a, p))))
       (pbind (pchar CHR ''['') (\<lambda>_. pbind read_ipv6_addr (\<lambda>a. pbind (por read_scope_id (pret 0)) (\<lambda>_.
         pbind (pchar CHR '']'') (\<lambda>_. pbind read_port (\<lambda>p. pret (IpV6 a, p)))))))) s"

fun is_loopback :: "IpAddr \<Rightarrow> bool" where
  "is_loopback (IpV4 a) \<longleftrightarrow> hd a = 127"
| "is_loopback (IpV6 a) \<longleftrightarrow> a = [0, 0, 0, 0, 0, 0, 0, 1]"

section \<open>Facts\<close>

lemma parse_loopback:
  "parse_ip_addr ''127.0.0.1'' = Some (IpV4 [127, 0, 0, 1])" "parse_ip_addr ''::1'' = Some (IpV6 [0, 0, 0, 0, 0, 0, 0, 1])"
  "parse_ip_addr ''[::1]'' = None" "parse_ip_addr ''localhost'' = None" "parse_ip_addr ''127.0.0.01'' = None"
  by code_simp+

lemma parse_socket_examples:
  "parse_socket_addr ''127.0.0.1:50052'' = Some (IpV4 [127, 0, 0, 1], 50052)"
  "parse_socket_addr ''0.0.0.0:443'' = Some (IpV4 [0, 0, 0, 0], 443)" "parse_socket_addr ''[::1]:443'' = Some (IpV6 [0, 0, 0, 0, 0, 0, 0, 1], 443)"
  by code_simp+

end
