(* ===== verification/Attested_Transport.thy ===== *)
theory Attested_Transport
  imports Policy Rust_Net Crypto_Config
begin

text \<open>
  Attested transport: the quote carried by a certificate (\<open>ra_tls.rs\<close> of the service; the client's copy differs in the
  type of the PCCS address only), the digest derived from it (\<open>tls_setup.rs\<close>) and the context the standalone broker
  builds for a connection (\<open>standalone_broker.rs\<close>).

  The X.509 parser, the DER reader, the DCAP library, the JSON reader of the event log, SHA-512 and hexadecimal text are
  the parameter record \<open>tls_ext\<close>; a TLS connection is given by what the code asks it for.
\<close>

section \<open>Certificates, quotes and reports\<close>

datatype GeneralName = URI string | OtherName

text \<open>The fields of the reports of \<open>dcap-qvl\<close> that the code reads; \<open>TD15\<close> holds them in \<open>base\<close>.\<close>

record EnclaveReport =
  sgx_mr_enclave :: bytes
  sgx_mr_signer :: bytes
  sgx_isv_svn :: "16 word"
  sgx_report_data :: bytes

record TDReport =
  td_mr_td :: bytes
  td_report_data :: bytes

datatype Report = SgxEnclave EnclaveReport | TD10 TDReport | TD15 TDReport

record TdxEventLog =
  ev_imr :: "32 word"
  ev_event :: string
  ev_event_payload :: bytes

record ('c, 'k) tls_ext =
  x509_parse :: "bytes \<Rightarrow> anyhow + 'c"
  x509_san :: "'c \<Rightarrow> anyhow + GeneralName list option"
  x509_common_names :: "'c \<Rightarrow> (anyhow + string) list"
  x509_public_key :: "'c \<Rightarrow> bytes"
  x509_extension :: "'c \<Rightarrow> nat list \<Rightarrow> anyhow + bytes option"
  der_octets :: "bytes \<Rightarrow> anyhow + bytes"
  quote_parse :: "bytes \<Rightarrow> anyhow + Report"
  get_collateral :: "string \<Rightarrow> bytes \<Rightarrow> anyhow + 'k"
  dcap_verify :: "bytes \<Rightarrow> 'k \<Rightarrow> nat \<Rightarrow> anyhow + Report"
  event_log_json :: "bytes \<Rightarrow> anyhow + TdxEventLog list"
  sha512 :: "bytes \<Rightarrow> bytes"
  hex_text :: "bytes \<Rightarrow> string"

text \<open>The report of a verified quote is the report of that quote.\<close>

definition dcap_laws :: "('c, 'k) tls_ext \<Rightarrow> bool" where
  "dcap_laws T \<longleftrightarrow> (\<forall>q k t r. dcap_verify T q k t = Inr r \<longrightarrow> quote_parse T q = Inr r)"

definition report_data :: "Report \<Rightarrow> bytes" where
  "report_data r = (case r of SgxEnclave e \<Rightarrow> sgx_report_data e | TD10 t \<Rightarrow> td_report_data t | TD15 t \<Rightarrow> td_report_data t)"

section \<open>The quote of a certificate\<close>

datatype TEEVendor = UnsupportedQuoteFormat | IntelTDX | IntelSGX

record Attestation =
  at_quote :: bytes
  at_raw_event_log :: bytes

record VerifiedAttestation =
  va_report :: Report
  va_raw_event_log :: bytes

definition PHALA_RATLS_QUOTE_OID :: "nat list" where
  "PHALA_RATLS_QUOTE_OID = [1, 3, 6, 1, 4, 1, 62397, 1, 1]"

definition PHALA_RATLS_EVENT_LOG_OID :: "nat list" where
  "PHALA_RATLS_EVENT_LOG_OID = [1, 3, 6, 1, 4, 1, 62397, 1, 2]"

definition RA_TLS_BINDING_TAG :: bytes where
  "RA_TLS_BINDING_TAG = as_bytes ''ratls-cert''"

definition get_extension_octets :: "('c, 'k) tls_ext \<Rightarrow> 'c \<Rightarrow> nat list \<Rightarrow> anyhow + bytes option" where
  "get_extension_octets T cert oid =
     rbind (map_err (\<lambda>_. ''failed to read X.509 extension'') (x509_extension T cert oid)) (\<lambda>ext.
     case ext of
       None \<Rightarrow> Inr None
     | Some v \<Rightarrow> map_err (\<lambda>_. ''RA-TLS extension is not a valid DER OCTET STRING'') (rbind (der_octets T v) (\<lambda>inner. Inr (Some inner))))"

definition attestation_from_der :: "('c, 'k) tls_ext \<Rightarrow> bytes \<Rightarrow> anyhow + Attestation option" where
  "attestation_from_der T cert_der =
     rbind (map_err (\<lambda>_. ''failed to parse X.509 certificate'') (x509_parse T cert_der)) (\<lambda>cert.
     rbind (get_extension_octets T cert PHALA_RATLS_QUOTE_OID) (\<lambda>quote.
     case quote of
       None \<Rightarrow> Inr None
     | Some quote \<Rightarrow>
         rbind (get_extension_octets T cert PHALA_RATLS_EVENT_LOG_OID) (\<lambda>log.
         Inr (Some \<lparr> at_quote = quote, at_raw_event_log = (case log of Some l \<Rightarrow> l | None \<Rightarrow> []) \<rparr>))))"

definition detect_vendor_from_quote :: "bytes \<Rightarrow> anyhow + TEEVendor" where
  "detect_vendor_from_quote quote =
     rbind (ensure (8 \<le> length quote) ''quote too short to determine vendor'') (\<lambda>_.
     let version = le_nat (take 2 quote); tee_type = le_nat (take 4 (drop 4 quote)) in
     Inr (if version = 3 \<and> tee_type = 0 then IntelSGX
          else if (version = 4 \<or> version = 5) \<and> tee_type = 129 then IntelTDX
          else if (version = 4 \<or> version = 5) \<and> tee_type = 0 then IntelSGX
          else UnsupportedQuoteFormat))"

definition supported_vendor :: "bytes \<Rightarrow> anyhow + unit" where
  "supported_vendor quote =
     rbind (detect_vendor_from_quote quote) (\<lambda>vendor.
     ensure (vendor \<noteq> UnsupportedQuoteFormat) ''unsupported RA-TLS quote format'')"

definition decode_report_data :: "('c, 'k) tls_ext \<Rightarrow> bytes \<Rightarrow> anyhow + bytes" where
  "decode_report_data T quote = rbind (map_err (\<lambda>_. ''failed to parse quote'') (quote_parse T quote)) (\<lambda>r. Inr (report_data r))"

definition expected_report_data :: "('c, 'k) tls_ext \<Rightarrow> bytes \<Rightarrow> bytes" where
  "expected_report_data T pubkey_der = sha512 T (RA_TLS_BINDING_TAG @ as_bytes '':'' @ pubkey_der)"

definition verify_with_ra_pubkey ::
  "('c, 'k) tls_ext \<Rightarrow> instant \<Rightarrow> Attestation \<Rightarrow> bytes \<Rightarrow> string option \<Rightarrow> anyhow + VerifiedAttestation" where
  "verify_with_ra_pubkey T now a pubkey_der pccs_url =
     rbind (supported_vendor (at_quote a)) (\<lambda>_.
     rbind (decode_report_data T (at_quote a)) (\<lambda>actual.
     rbind (ensure (actual = expected_report_data T pubkey_der) ''RA-TLS quote report_data does not match peer public key binding'') (\<lambda>_.
     rbind (ok_or ''SECRET_BROKER_PCCS_URL must be supplied for RA-TLS verification'' (trimmed pccs_url)) (\<lambda>pccs_url.
     rbind (map_err (\<lambda>_. ''failed to fetch quote collateral from PCCS'') (get_collateral T pccs_url (at_quote a))) (\<lambda>collateral.
     rbind (ensure (0 \<le> now) ''system clock is before UNIX epoch'') (\<lambda>_.
     rbind (map_err (\<lambda>_. ''DCAP quote verification failed'') (dcap_verify T (at_quote a) collateral (nat (now div nanos_per_sec)))) (\<lambda>verified.
     Inr \<lparr> va_report = verified, va_raw_event_log = at_raw_event_log a \<rparr>)))))))"

definition is_compose_event :: "TdxEventLog \<Rightarrow> bool" where
  "is_compose_event ev \<longleftrightarrow> ev_imr ev = 3 \<and> (ev_event ev = ''compose-hash'' \<or> ev_event ev = ''upgraded-app-id'')"

definition decode_compose_hash :: "('c, 'k) tls_ext \<Rightarrow> VerifiedAttestation \<Rightarrow> anyhow + string" where
  "decode_compose_hash T v =
     rbind (ensure (va_raw_event_log v \<noteq> []) ''event log missing - cannot decode compose hash'') (\<lambda>_.
     rbind (map_err (\<lambda>_. ''failed to parse RA-TLS event log JSON'') (event_log_json T (va_raw_event_log v))) (\<lambda>events.
     case find is_compose_event events of
       Some ev \<Rightarrow> Inr (hex_text T (ev_event_payload ev))
     | None \<Rightarrow> Inl ''compose-hash event not found in event log''))"

section \<open>The digest of a peer\<close>

definition report_measurement :: "('c, 'k) tls_ext \<Rightarrow> Report \<Rightarrow> string" where
  "report_measurement T r =
     (case r of
        TD10 t \<Rightarrow> ''tdx'' @ hex_text T (td_mr_td t)
      | TD15 t \<Rightarrow> ''tdx'' @ hex_text T (td_mr_td t)
      | SgxEnclave e \<Rightarrow> ''sgx'' @ hex_text T (sgx_mr_enclave e) @ hex_text T (sgx_mr_signer e) @ show_nat (unat (sgx_isv_svn e)))"

definition compose_part :: "('c, 'k) tls_ext \<Rightarrow> VerifiedAttestation \<Rightarrow> string" where
  "compose_part T v =
     (case decode_compose_hash T v of
        Inr h \<Rightarrow> if h \<noteq> [] then ''compose'' @ to_ascii_lowercase h else []
      | Inl _ \<Rightarrow> [])"

definition attestation_digest_from_cert ::
  "'z ext_scheme \<Rightarrow> ('c, 'k) tls_ext \<Rightarrow> instant \<Rightarrow> bytes \<Rightarrow> string option \<Rightarrow> anyhow + bytes option" where
  "attestation_digest_from_cert E T now cert pccs_url =
     rbind (map_err (\<lambda>_. ''failed to parse RA-TLS attestation extensions'') (attestation_from_der T cert)) (\<lambda>found.
     case found of
       None \<Rightarrow> Inr None
     | Some a \<Rightarrow>
         rbind (supported_vendor (at_quote a)) (\<lambda>_.
         rbind (map_err (\<lambda>_. ''failed to parse X.509 certificate for attestation digest'') (x509_parse T cert)) (\<lambda>parsed.
         rbind (map_err (\<lambda>_. ''RA-TLS attestation verification failed while deriving digest'')
           (verify_with_ra_pubkey T now a (x509_public_key T parsed) pccs_url)) (\<lambda>verified.
         Inr (Some (sha256 E (as_bytes (report_measurement T (va_report verified) @ compose_part T verified))))))))"

section \<open>The standalone broker\<close>

text \<open>\<open>env::var\<close>: a variable may be absent or hold text that is not UTF-8.\<close>

datatype env_var = NotPresent | NotUnicode | Present string

fun var_ok :: "env_var \<Rightarrow> string option" where
  "var_ok (Present v) = Some v"
| "var_ok _ = None"

type_synonym os_environment = "string \<Rightarrow> env_var"

definition normalize_spiffe_id :: "string \<Rightarrow> string option" where
  "normalize_spiffe_id uri =
     (if \<not> starts_with ''spiffe://'' uri then None
      else
        let rest = drop 9 uri; trust_domain = takeWhile (\<lambda>c. c \<noteq> CHR ''/'') rest; path = dropWhile (\<lambda>c. c \<noteq> CHR ''/'') rest in
        if path = [] then None
        else if trust_domain = [] \<or> \<not> starts_with ''/'' path then None
        else Some (''spiffe://'' @ to_ascii_lowercase trust_domain @ path))"

text \<open>The first URI name that is a SPIFFE identity.\<close>

fun first_spiffe :: "GeneralName list \<Rightarrow> string option" where
  "first_spiffe [] = None"
| "first_spiffe (OtherName # names) = first_spiffe names"
| "first_spiffe (URI uri # names) = (case normalize_spiffe_id uri of Some s \<Rightarrow> Some s | None \<Rightarrow> first_spiffe names)"

definition principal_id_from_peer_cert :: "('c, 'k) tls_ext \<Rightarrow> bytes \<Rightarrow> anyhow + string option" where
  "principal_id_from_peer_cert T cert =
     rbind (map_err (\<lambda>_. ''failed to parse peer X.509 certificate'') (x509_parse T cert)) (\<lambda>parsed.
     Inr (case x509_san T parsed of Inr (Some names) \<Rightarrow> first_spiffe names | _ \<Rightarrow> None))"

definition standalone_broker_pccs_url :: "os_environment \<Rightarrow> string option" where
  "standalone_broker_pccs_url env = trimmed (var_ok (env ''SECRET_BROKER_PCCS_URL''))"

definition parse_flag :: "string \<Rightarrow> bool option" where
  "parse_flag v =
     (let t = to_ascii_lowercase (trim v) in
      if t \<in> {''1'', ''true'', ''yes'', ''on''} then Some True
      else if t \<in> {''0'', ''false'', ''no'', ''off''} then Some False else None)"

definition standalone_broker_require_attestation :: "os_environment \<Rightarrow> anyhow + bool" where
  "standalone_broker_require_attestation env =
     (case env ''SECRET_BROKER_REQUIRE_ATTESTATION'' of
        NotPresent \<Rightarrow> Inr True
      | NotUnicode \<Rightarrow> Inl ''failed to read SECRET_BROKER_REQUIRE_ATTESTATION''
      | Present v \<Rightarrow> ok_or ''SECRET_BROKER_REQUIRE_ATTESTATION must be one of true, false, 1, 0, yes, no, on, or off'' (parse_flag v))"

definition env_flag_enabled :: "os_environment \<Rightarrow> string \<Rightarrow> bool \<Rightarrow> anyhow + bool" where
  "env_flag_enabled env key dflt =
     (case env key of
        NotPresent \<Rightarrow> Inr dflt
      | NotUnicode \<Rightarrow> Inl ''failed to read the flag''
      | Present v \<Rightarrow> ok_or ''the flag must be one of true, false, 1, 0, yes, no, on, or off'' (parse_flag v))"

definition discharge_attestation_required_from_env :: "os_environment \<Rightarrow> anyhow + bool" where
  "discharge_attestation_required_from_env env = env_flag_enabled env ''BROKER_REQUIRE_DISCHARGE_ATTESTATION'' True"

definition enforce_standalone_peer_attestation_digest :: "bytes option \<Rightarrow> bool \<Rightarrow> anyhow + bytes option" where
  "enforce_standalone_peer_attestation_digest attestation_digest require_attestation =
     rbind (ensure (\<not> (require_attestation \<and> attestation_digest = None))
       ''standalone broker peer certificate is missing required RA-TLS attestation evidence'') (\<lambda>_.
     Inr attestation_digest)"

text \<open>What the code asks the TLS connection for: the exported keying material and the certificates of the peer.\<close>

record tls_connection =
  conn_exporter :: "bytes option"
  conn_peer_certificates :: "bytes list option"

definition first_item :: "'a list \<Rightarrow> 'a option" where
  "first_item xs = (case xs of x # _ \<Rightarrow> Some x | [] \<Rightarrow> None)"

definition broker_context_from_tls_connection ::
  "'z ext_scheme \<Rightarrow> ('c, 'k) tls_ext \<Rightarrow> os_environment \<Rightarrow> instant \<Rightarrow> tls_connection \<Rightarrow> uuid \<Rightarrow> bool \<Rightarrow> anyhow + BrokerClientContext" where
  "broker_context_from_tls_connection E T env now conn session_id require_attestation =
     rbind (ok_or ''unable to derive standalone broker TLS exporter'' (conn_exporter conn)) (\<lambda>exporter.
     rbind (ok_or ''standalone broker mTLS session is missing the authenticated peer certificate''
       (Option.bind (conn_peer_certificates conn) first_item)) (\<lambda>cert.
     rbind (principal_id_from_peer_cert T cert) (\<lambda>principal.
     rbind (ok_or ''standalone broker peer certificate must carry a SPIFFE URI SAN'' principal) (\<lambda>principal_id.
     rbind (map_err (\<lambda>_. ''failed to derive standalone broker peer attestation digest'')
       (attestation_digest_from_cert E T now cert (standalone_broker_pccs_url env))) (\<lambda>digest.
     rbind (enforce_standalone_peer_attestation_digest digest require_attestation) (\<lambda>attestation_digest.
     Inr (from_tls_exporter exporter (Some session_id) (Some principal_id) (Some (sha256 E cert)) attestation_digest)))))))"

definition validate_attestation_scope :: "IpAddr \<times> nat \<Rightarrow> bool \<Rightarrow> bool \<Rightarrow> anyhow + unit" where
  "validate_attestation_scope bind_addr require_peer_attestation require_discharge_attestation =
     ensure (\<not> (\<not> is_loopback (fst bind_addr) \<and> (\<not> require_peer_attestation \<or> \<not> require_discharge_attestation)))
       ''attestation relaxation is permitted only on a loopback bind; non-loopback secret-broker listeners require peer and discharge attestation''"

text \<open>The configuration steps of \<open>run_from_env\<close>, before the state is loaded and the listener is bound.\<close>

definition listener_settings :: "os_environment \<Rightarrow> anyhow + (IpAddr \<times> nat) \<times> bool \<times> bool" where
  "listener_settings env =
     rbind (ok_or ''invalid SECRET_BROKER_BIND_ADDR''
       (parse_socket_addr (case var_ok (env ''SECRET_BROKER_BIND_ADDR'') of Some a \<Rightarrow> a | None \<Rightarrow> ''127.0.0.1:50052''))) (\<lambda>bind_addr.
     rbind (standalone_broker_require_attestation env) (\<lambda>require_peer_attestation.
     rbind (discharge_attestation_required_from_env env) (\<lambda>require_discharge_attestation.
     rbind (validate_attestation_scope bind_addr require_peer_attestation require_discharge_attestation) (\<lambda>_.
     Inr (bind_addr, require_peer_attestation, require_discharge_attestation)))))"

section \<open>Facts\<close>

text \<open>A verified quote is one that the DCAP library accepted at the present time and whose report carries the hash of
  the public key it is verified for.\<close>

definition quote_attests :: "('c, 'k) tls_ext \<Rightarrow> instant \<Rightarrow> bytes \<Rightarrow> bytes \<Rightarrow> Report \<Rightarrow> bool" where
  "quote_attests T now quote pubkey_der r \<longleftrightarrow>
     (\<exists>url collateral. get_collateral T url quote = Inr collateral \<and> dcap_verify T quote collateral (nat (now div nanos_per_sec)) = Inr r) \<and>
     report_data r = expected_report_data T pubkey_der"

lemma verify_attests:
  assumes "dcap_laws T" "verify_with_ra_pubkey T now a key url = Inr v"
  shows "quote_attests T now (at_quote a) key (va_report v)" "va_raw_event_log v = at_raw_event_log a"
proof -
  obtain r k u where r: "quote_parse T (at_quote a) = Inr r" "report_data r = expected_report_data T key"
    "get_collateral T u (at_quote a) = Inr k" "dcap_verify T (at_quote a) k (nat (now div nanos_per_sec)) = Inr (va_report v)"
    and log: "va_raw_event_log v = at_raw_event_log a"
    using assms(2) by (auto simp: verify_with_ra_pubkey_def decode_report_data_def result_simps)
  have "r = va_report v" using assms(1) r(1,4) by (auto simp: dcap_laws_def)
  then show "quote_attests T now (at_quote a) key (va_report v)" using r by (auto simp: quote_attests_def)
  show "va_raw_event_log v = at_raw_event_log a" by (rule log)
qed

lemma digest_attests:
  assumes "dcap_laws T" "attestation_digest_from_cert E T now cert url = Inr (Some d)"
  obtains parsed a r where "x509_parse T cert = Inr parsed" "attestation_from_der T cert = Inr (Some a)"
    "quote_attests T now (at_quote a) (x509_public_key T parsed) r"
    "d = sha256 E (as_bytes (report_measurement T r @ compose_part T \<lparr> va_report = r, va_raw_event_log = at_raw_event_log a \<rparr>))"
proof -
  obtain a parsed v where a: "attestation_from_der T cert = Inr (Some a)" "x509_parse T cert = Inr parsed"
    "verify_with_ra_pubkey T now a (x509_public_key T parsed) url = Inr v"
    "d = sha256 E (as_bytes (report_measurement T (va_report v) @ compose_part T v))"
    using assms(2) by (auto simp: attestation_digest_from_cert_def result_simps split: option.splits)
  have "v = \<lparr> va_report = va_report v, va_raw_event_log = at_raw_event_log a \<rparr>"
    using verify_attests(2) [OF assms(1) a(3)] by (cases v) simp
  with a show thesis using that verify_attests(1) [OF assms(1) a(3)] by metis
qed

text \<open>A SPIFFE identity is kept as it is by a second normalisation, so the identities the broker compares are
  canonical.\<close>

lemma lower_idem [simp]: "ascii_lower (ascii_lower c) = ascii_lower c"
  by (auto simp: ascii_lower_def)

lemma lower_slash [simp]: "ascii_lower c = CHR ''/'' \<longleftrightarrow> c = CHR ''/''"
  by (auto simp: ascii_lower_def char_of_eq_iff take_bit_nat_def)

lemma spiffe_parts:
  assumes "normalize_spiffe_id u = Some s"
  obtains d p where "s = ''spiffe://'' @ to_ascii_lowercase d @ CHR ''/'' # p" "d \<noteq> []" "CHR ''/'' \<notin> set d"
proof -
  define d where "d = takeWhile (\<lambda>c. c \<noteq> CHR ''/'') (drop 9 u)"
  define r where "r = dropWhile (\<lambda>c. c \<noteq> CHR ''/'') (drop 9 u)"
  have "r \<noteq> []" "d \<noteq> []" and s: "s = ''spiffe://'' @ to_ascii_lowercase d @ r"
    using assms unfolding normalize_spiffe_id_def Let_def d_def [symmetric] r_def [symmetric] by (auto split: if_splits)
  moreover have "CHR ''/'' \<notin> set d" using set_takeWhileD unfolding d_def by fastforce
  moreover have "hd r = CHR ''/''" using \<open>r \<noteq> []\<close> hd_dropWhile [of "\<lambda>c. c \<noteq> CHR ''/''" "drop 9 u"] unfolding r_def by blast
  ultimately show thesis using that [of d "tl r"] by (cases r) auto
qed

lemma normalize_spiffe_idem:
  assumes "normalize_spiffe_id u = Some s"
  shows "normalize_spiffe_id s = Some s"
proof -
  obtain d p where s: "s = ''spiffe://'' @ to_ascii_lowercase d @ CHR ''/'' # p" and d: "d \<noteq> []" "CHR ''/'' \<notin> set d"
    using assms by (rule spiffe_parts)
  have "\<forall>c \<in> set (to_ascii_lowercase d). c \<noteq> CHR ''/''" using d(2) by (auto simp: to_ascii_lowercase_def)
  then have "takeWhile (\<lambda>c. c \<noteq> CHR ''/'') (to_ascii_lowercase d @ CHR ''/'' # p) = to_ascii_lowercase d"
    "dropWhile (\<lambda>c. c \<noteq> CHR ''/'') (to_ascii_lowercase d @ CHR ''/'' # p) = CHR ''/'' # p"
    by (simp_all add: takeWhile_append2 dropWhile_append2)
  moreover have "to_ascii_lowercase (to_ascii_lowercase d) = to_ascii_lowercase d" "to_ascii_lowercase d \<noteq> []"
    using d(1) by (simp_all add: to_ascii_lowercase_def)
  ultimately show ?thesis by (simp add: normalize_spiffe_id_def s Let_def starts_with_def)
qed

lemma first_spiffe_normal: "first_spiffe names = Some s \<Longrightarrow> normalize_spiffe_id s = Some s"
  by (induction names rule: first_spiffe.induct) (auto intro: normalize_spiffe_idem split: option.splits)

lemma scope_requires:
  assumes "listener_settings env = Inr (addr, peer, discharge)" "\<not> is_loopback (fst addr)"
  shows "peer" "discharge"
  using assms by (auto simp: listener_settings_def validate_attestation_scope_def result_simps)

lemma first_item_iff [simp]: "first_item xs = Some x \<longleftrightarrow> (\<exists>ys. xs = x # ys)"
  by (cases xs) (auto simp: first_item_def)

lemma principal_iff:
  "principal_id_from_peer_cert T cert = Inr (Some p) \<longleftrightarrow>
     (\<exists>parsed names. x509_parse T cert = Inr parsed \<and> x509_san T parsed = Inr (Some names) \<and> first_spiffe names = Some p)"
  by (cases "x509_parse T cert"; cases "x509_san T (projr (x509_parse T cert))"; cases "projr (x509_san T (projr (x509_parse T cert)))")
     (auto simp: principal_id_from_peer_cert_def)

lemma context_inv:
  assumes "broker_context_from_tls_connection E T env now conn sid require = Inr context"
  obtains cert certs parsed names principal where "conn_peer_certificates conn = Some (cert # certs)" "x509_parse T cert = Inr parsed"
    "x509_san T parsed = Inr (Some names)" "first_spiffe names = Some principal"
    "attestation_digest_from_cert E T now cert (standalone_broker_pccs_url env) = Inr (ctx_attestation_digest context)"
    "require \<Longrightarrow> ctx_attestation_digest context \<noteq> None" "conn_exporter conn = Some (ctx_exporter context)"
    "ctx_principal_id context = trimmed (Some principal)" "ctx_authenticated_transport context"
    "ctx_peer_cert_sha256 context = (if sha256 E cert = [] then None else Some (sha256 E cert))"
  using assms
  by (auto simp: broker_context_from_tls_connection_def principal_iff enforce_standalone_peer_attestation_digest_def
      result_simps from_tls_exporter_def bind_eq_Some_conv)

text \<open>C11 (remote peers are attested).  When the broker listens on an address that is not a loopback address, discharge
  tokens need an attested caller, and every accepted connection belongs to a peer whose certificate names a canonical
  SPIFFE identity and carries a quote that the DCAP library verified at the time of the connection and whose report data
  is the hash of the public key of that certificate; the digest in the context is derived from that report, and the
  channel binding is the one exported from the connection.\<close>

theorem remote_peers_attested:
  assumes "dcap_laws T" "listener_settings env = Inr (addr, peer, discharge)" "\<not> is_loopback (fst addr)"
    and "broker_context_from_tls_connection E T env now conn session_id peer = Inr context"
  shows "discharge \<and> ctx_authenticated_transport context \<and> conn_exporter conn = Some (ctx_exporter context) \<and>
    (\<exists>cert certs parsed a r principal. conn_peer_certificates conn = Some (cert # certs) \<and> x509_parse T cert = Inr parsed \<and>
       normalize_spiffe_id principal = Some principal \<and> ctx_principal_id context = trimmed (Some principal) \<and>
       attestation_from_der T cert = Inr (Some a) \<and> quote_attests T now (at_quote a) (x509_public_key T parsed) r \<and>
       ctx_attestation_digest context = Some (sha256 E (as_bytes (report_measurement T r @
         compose_part T \<lparr> va_report = r, va_raw_event_log = at_raw_event_log a \<rparr>))))"
proof -
  have peer: peer discharge using assms(2,3) by (rule scope_requires)+
  obtain cert certs parsed names principal where c: "conn_peer_certificates conn = Some (cert # certs)" "x509_parse T cert = Inr parsed"
    "first_spiffe names = Some principal"
    "attestation_digest_from_cert E T now cert (standalone_broker_pccs_url env) = Inr (ctx_attestation_digest context)"
    "ctx_attestation_digest context \<noteq> None"
    "conn_exporter conn = Some (ctx_exporter context)" "ctx_principal_id context = trimmed (Some principal)" "ctx_authenticated_transport context"
    using assms(4) peer(1) by (metis context_inv)
  obtain d where d: "ctx_attestation_digest context = Some d" using c(5) by blast
  have digest: "attestation_digest_from_cert E T now cert (standalone_broker_pccs_url env) = Inr (Some d)" using c(4) d by simp
  obtain p a r where "x509_parse T cert = Inr p" "attestation_from_der T cert = Inr (Some a)"
    "quote_attests T now (at_quote a) (x509_public_key T p) r"
    "d = sha256 E (as_bytes (report_measurement T r @ compose_part T \<lparr> va_report = r, va_raw_event_log = at_raw_event_log a \<rparr>))"
    using assms(1) digest by (rule digest_attests)
  then show ?thesis using c d peer first_spiffe_normal [OF c(3)] by auto
qed

section \<open>A concrete peer\<close>

definition sample_quote :: bytes where
  "sample_quote = [4, 0, 0, 0, 129, 0, 0, 0]"

definition sample_report :: Report where
  "sample_report = TD10 \<lparr> td_mr_td = [1], td_report_data = [5] \<rparr>"

definition sample_tls :: "(bytes, unit) tls_ext" where
  "sample_tls = \<lparr>
     x509_parse = Inr, x509_san = (\<lambda>_. Inr (Some [OtherName, URI ''spiffe://T/a''])), x509_common_names = (\<lambda>_. [Inr ''Broker'']),
     x509_public_key = (\<lambda>_. [9]), x509_extension = (\<lambda>_ oid. Inr (if oid = PHALA_RATLS_QUOTE_OID then Some sample_quote else Some [7])),
     der_octets = Inr, quote_parse = (\<lambda>_. Inr sample_report), get_collateral = (\<lambda>_ _. Inr ()),
     dcap_verify = (\<lambda>_ _ _. Inr sample_report),
     event_log_json = (\<lambda>_. Inr [\<lparr> ev_imr = 3, ev_event = ''compose-hash'', ev_event_payload = [3] \<rparr>]),
     sha512 = (\<lambda>_. [5]), hex_text = (\<lambda>bs. map (\<lambda>b. char_of (97 + unat b)) bs) \<rparr>"

definition sample_os :: os_environment where
  "sample_os key = (if key = ''SECRET_BROKER_BIND_ADDR'' then Present ''0.0.0.0:443''
     else if key = ''SECRET_BROKER_PCCS_URL'' then Present ''http://pccs'' else NotPresent)"

definition sample_connection :: tls_connection where
  "sample_connection = \<lparr> conn_exporter = Some [1, 2], conn_peer_certificates = Some [[8]] \<rparr>"

lemma sample_tls_laws: "dcap_laws sample_tls"
  by (simp add: dcap_laws_def sample_tls_def)

lemma sample_settings: "listener_settings sample_os = Inr ((IpV4 [0, 0, 0, 0], 443), True, True)"
  by (simp add: listener_settings_def sample_os_def parse_socket_examples standalone_broker_require_attestation_def
      discharge_attestation_required_from_env_def env_flag_enabled_def validate_attestation_scope_def)

lemma sample_pccs: "standalone_broker_pccs_url sample_os = Some ''http://pccs''" "trimmed (Some ''http://pccs'') = Some ''http://pccs''"
  by (simp_all add: standalone_broker_pccs_url_def sample_os_def trimmed_def trim_printable printable_def)

lemma sample_spiffe: "normalize_spiffe_id ''spiffe://T/a'' = Some ''spiffe://t/a''"
  by code_simp

lemma sample_peer_accepted: "\<exists>context. broker_context_from_tls_connection sample_ext sample_tls sample_os 0 sample_connection [] True = Inr context"
  by (simp add: broker_context_from_tls_connection_def sample_connection_def principal_id_from_peer_cert_def sample_tls_def sample_spiffe
      attestation_digest_from_cert_def attestation_from_der_def get_extension_octets_def supported_vendor_def detect_vendor_from_quote_def
      sample_quote_def verify_with_ra_pubkey_def decode_report_data_def sample_report_def report_data_def expected_report_data_def sample_pccs
      enforce_standalone_peer_attestation_digest_def Let_def
      PHALA_RATLS_EVENT_LOG_OID_def PHALA_RATLS_QUOTE_OID_def first_item_def)

theorem remote_peers_attested_witness:
  "\<exists>context cert certs. broker_context_from_tls_connection sample_ext sample_tls sample_os 0 sample_connection [] True = Inr context \<and>
     ctx_authenticated_transport context \<and> conn_peer_certificates sample_connection = Some (cert # certs) \<and>
     ctx_attestation_digest context \<noteq> None"
proof -
  obtain ctx where run: "broker_context_from_tls_connection sample_ext sample_tls sample_os 0 sample_connection [] True = Inr ctx"
    using sample_peer_accepted by blast
  show ?thesis using remote_peers_attested [OF sample_tls_laws sample_settings _ run] run by auto
qed

end
