(* ===== verification/Client_Policy.thy ===== *)
theory Client_Policy
  imports Attested_Transport
begin

text \<open>
  How the client library decides to trust a broker (\<open>crates/secret-broker-client/src/client.rs\<close> and its \<open>ra_tls.rs\<close>):
  the connection configuration and its validation, the measurement policy and the check of the server certificate.

  The URL parser, PEM reader, file system, JSON reader, the name type of \<open>rustls\<close> and its chain verification are the
  parameter record \<open>client_ext\<close>, as is whether the caller runs inside a Tokio runtime; a URL is given by the answers of its accessors.
\<close>

section \<open>Parameters\<close>

record url_view =
  uv_scheme :: string
  uv_host :: "string option"
  uv_username :: string
  uv_password :: "string option"
  uv_path :: string
  uv_query :: "string option"
  uv_fragment :: "string option"
  uv_text :: string

datatype pem_item = Pkcs8Key bytes | Pkcs1Key bytes | Sec1Key bytes | OtherItem

datatype ServerName = IpAddress IpAddr | DnsName string

record client_ext =
  cl_url_parse :: "string \<Rightarrow> anyhow + url_view"
  cl_read_file :: "string \<Rightarrow> anyhow + bytes"
  cl_json :: "bytes \<Rightarrow> anyhow + json"
  cl_pem_certs :: "bytes \<Rightarrow> anyhow + bytes list"
  cl_pem_items :: "bytes \<Rightarrow> (anyhow + pem_item) list"
  cl_dns_name :: "string \<Rightarrow> anyhow + ServerName"
  cl_root_add :: "bytes \<Rightarrow> anyhow + unit"
  cl_client_auth :: "bytes list \<Rightarrow> bytes \<Rightarrow> anyhow + unit"
  cl_runtime :: bool
  cl_chain_verify :: "bytes list \<Rightarrow> bytes \<Rightarrow> bytes list \<Rightarrow> ServerName \<Rightarrow> instant \<Rightarrow> anyhow + unit"

section \<open>Mode and measurement policy\<close>

datatype AttestationMode = Enforced | Local

definition parse_mode :: "string \<Rightarrow> anyhow + AttestationMode" where
  "parse_mode raw =
     (let t = to_ascii_lowercase (trim raw) in
      if t = ''enforced'' then Inr Enforced else if t = ''local'' then Inr Local
      else Inl ''Secret Broker mode must be exactly enforced or local'')"

definition mode_from_env :: "os_environment \<Rightarrow> anyhow + AttestationMode" where
  "mode_from_env env =
     rbind (case env ''SECRET_BROKER_CLIENT_MODE'' of
         Present v \<Rightarrow> Inr v
       | NotPresent \<Rightarrow> Inr ''enforced''
       | NotUnicode \<Rightarrow> Inl ''failed to read SECRET_BROKER_CLIENT_MODE'') (\<lambda>raw.
     map_err (\<lambda>_. ''invalid SECRET_BROKER_CLIENT_MODE'') (parse_mode raw))"

text \<open>A hash set as the list of its elements.\<close>

record MeasurementPolicy =
  mp_allowed_mrtd :: "string list"
  mp_allowed_mrenclave :: "string list"
  mp_allowed_mrsigner :: "string list"
  mp_min_isvsvn :: "16 word option"
  mp_expected_compose_hash :: "string option"

record ClientPolicy =
  cp_policy_name :: string
  cp_measurement :: MeasurementPolicy

definition normalize_measurement :: "string \<Rightarrow> string" where
  "normalize_measurement v = to_ascii_lowercase (trim v)"

definition accepts_tdx_mrtd :: "MeasurementPolicy \<Rightarrow> string \<Rightarrow> bool" where
  "accepts_tdx_mrtd p mrtd \<longleftrightarrow> normalize_measurement mrtd \<in> set (mp_allowed_mrtd p)"

definition accepts_sgx :: "MeasurementPolicy \<Rightarrow> string \<Rightarrow> string \<Rightarrow> 16 word \<Rightarrow> bool" where
  "accepts_sgx p mrenclave mrsigner isvsvn \<longleftrightarrow>
     mp_allowed_mrenclave p \<noteq> [] \<and> mp_allowed_mrsigner p \<noteq> [] \<and>
     normalize_measurement mrenclave \<in> set (mp_allowed_mrenclave p) \<and>
     normalize_measurement mrsigner \<in> set (mp_allowed_mrsigner p) \<and>
     (case mp_min_isvsvn p of Some minimum \<Rightarrow> isvsvn \<ge> minimum | None \<Rightarrow> True)"

definition requires_compose_hash :: "MeasurementPolicy \<Rightarrow> bool" where
  "requires_compose_hash p \<longleftrightarrow> mp_expected_compose_hash p \<noteq> None"

definition accepts_compose_hash :: "MeasurementPolicy \<Rightarrow> string \<Rightarrow> bool" where
  "accepts_compose_hash p v \<longleftrightarrow> mp_expected_compose_hash p = Some (normalize_measurement v)"

section \<open>Policy files\<close>

definition required_json_string :: "(string \<times> json) list \<Rightarrow> string \<Rightarrow> anyhow + string" where
  "required_json_string object key =
     rbind (case map_of object key of Some (JString s) \<Rightarrow> Inr s | _ \<Rightarrow> Inl ''Secret Broker policy field must be a string'') (\<lambda>s.
     rbind (ensure (trim s \<noteq> []) ''Secret Broker policy field must not be empty'') (\<lambda>_.
     Inr (trim s)))"

fun measurement_items :: "string list \<Rightarrow> json list \<Rightarrow> anyhow + string list" where
  "measurement_items acc [] = Inr acc"
| "measurement_items acc (v # vs) =
     rbind (case v of JString raw \<Rightarrow> Inr (normalize_measurement raw) | _ \<Rightarrow> Inl ''Secret Broker policy field must contain only strings'') (\<lambda>m.
     rbind (ensure (m \<noteq> []) ''Secret Broker policy field must not contain empty values'') (\<lambda>_.
     rbind (ensure (m \<notin> set acc) ''Secret Broker policy field must not contain duplicate values'') (\<lambda>_.
     measurement_items (acc @ [m]) vs)))"

definition required_or_empty_measurement_set :: "(string \<times> json) list \<Rightarrow> string \<Rightarrow> anyhow + string list" where
  "required_or_empty_measurement_set object key =
     (case map_of object key of
        None \<Rightarrow> Inr []
      | Some (JArray vs) \<Rightarrow> measurement_items [] vs
      | Some _ \<Rightarrow> Inl ''Secret Broker policy field must be an array'')"

definition min_isvsvn_field :: "(string \<times> json) list \<Rightarrow> anyhow + 16 word option" where
  "min_isvsvn_field object =
     (case map_of object ''min_isvsvn'' of
        None \<Rightarrow> Inr None
      | Some JNull \<Rightarrow> Inr None
      | Some (JInt i) \<Rightarrow>
          rbind (ensure (0 \<le> i \<and> i < 2 ^ 64) ''min_isvsvn must be an unsigned integer'') (\<lambda>_.
          rbind (ensure (i < 2 ^ 16) ''min_isvsvn must fit in u16'') (\<lambda>_. Inr (Some (word_of_int i))))
      | Some (JFloat _) \<Rightarrow> Inl ''min_isvsvn must be an unsigned integer''
      | Some _ \<Rightarrow> Inl ''min_isvsvn must be an unsigned integer or null'')"

definition compose_hash_field :: "(string \<times> json) list \<Rightarrow> anyhow + string option" where
  "compose_hash_field object =
     (case map_of object ''expected_compose_hash'' of
        None \<Rightarrow> Inr None
      | Some JNull \<Rightarrow> Inr None
      | Some (JString v) \<Rightarrow>
          rbind (ensure (normalize_measurement v \<noteq> []) ''expected_compose_hash must not be empty'') (\<lambda>_.
          Inr (Some (normalize_measurement v)))
      | Some _ \<Rightarrow> Inl ''expected_compose_hash must be a string or null'')"

definition policy_from_json :: "json \<Rightarrow> anyhow + ClientPolicy" where
  "policy_from_json v =
     rbind (case v of JObject object \<Rightarrow> Inr object | _ \<Rightarrow> Inl ''Secret Broker client policy must be a JSON object'') (\<lambda>object.
     rbind (required_json_string object ''policy_name'') (\<lambda>policy_name.
     rbind (required_or_empty_measurement_set object ''allowed_mrtd'') (\<lambda>allowed_mrtd.
     rbind (required_or_empty_measurement_set object ''allowed_mrenclave'') (\<lambda>allowed_mrenclave.
     rbind (required_or_empty_measurement_set object ''allowed_mrsigner'') (\<lambda>allowed_mrsigner.
     rbind (min_isvsvn_field object) (\<lambda>min_isvsvn.
     rbind (compose_hash_field object) (\<lambda>expected_compose_hash.
     rbind (ensure ((allowed_mrenclave = []) = (allowed_mrsigner = []))
       ''SGX policy must provide both allowed_mrenclave and allowed_mrsigner'') (\<lambda>_.
     rbind (ensure (\<not> (allowed_mrtd = [] \<and> allowed_mrenclave = [] \<and> expected_compose_hash = None))
       ''Secret Broker policy must constrain a TDX measurement, an SGX measurement pair, or a compose hash'') (\<lambda>_.
     Inr \<lparr> cp_policy_name = policy_name, cp_measurement = \<lparr> mp_allowed_mrtd = allowed_mrtd,
             mp_allowed_mrenclave = allowed_mrenclave, mp_allowed_mrsigner = allowed_mrsigner,
             mp_min_isvsvn = min_isvsvn, mp_expected_compose_hash = expected_compose_hash \<rparr> \<rparr>)))))))))"

definition policy_from_file :: "client_ext \<Rightarrow> string \<Rightarrow> anyhow + ClientPolicy" where
  "policy_from_file X path =
     rbind (map_err (\<lambda>_. ''failed to read Secret Broker policy'') (cl_read_file X path)) (\<lambda>bytes.
     rbind (map_err (\<lambda>_. ''failed to parse Secret Broker policy'') (cl_json X bytes)) policy_from_json)"

section \<open>Connection configuration\<close>

record ClientIdentity =
  ci_certificates :: "bytes list"
  ci_private_key :: bytes

record SecretBrokerClientConfig =
  cc_endpoint :: url_view
  cc_attestation_mode :: AttestationMode
  cc_policy :: "ClientPolicy option"
  cc_subject_allowlist :: "string list option"
  cc_pccs_url :: "url_view option"
  cc_client_identity :: ClientIdentity
  cc_client_ca_certificates :: "bytes list"
  cc_server_name :: string
  cc_timeout :: duration

definition required_env :: "os_environment \<Rightarrow> string \<Rightarrow> anyhow + string" where
  "required_env env key =
     rbind (ok_or ''the variable is required'' (var_ok (env key))) (\<lambda>raw.
     rbind (ensure (trim raw \<noteq> []) ''the variable must not be empty'') (\<lambda>_. Inr (trim raw)))"

definition parse_timeout :: "os_environment \<Rightarrow> anyhow + duration" where
  "parse_timeout env =
     (case env ''SECRET_BROKER_CLIENT_TIMEOUT_SECS'' of
        Present raw \<Rightarrow>
          rbind (ensure (trim raw \<noteq> []) ''SECRET_BROKER_CLIENT_TIMEOUT_SECS must not be empty'') (\<lambda>_.
          rbind (ok_or ''SECRET_BROKER_CLIENT_TIMEOUT_SECS must be a positive integer'' (parse_uint (2 ^ 64 - 1) (trim raw))) (\<lambda>seconds.
          rbind (ensure (seconds \<noteq> 0) ''SECRET_BROKER_CLIENT_TIMEOUT_SECS must be greater than zero'') (\<lambda>_.
          Inr (int seconds * nanos_per_sec))))
      | NotPresent \<Rightarrow> Inr (10 * nanos_per_sec)
      | NotUnicode \<Rightarrow> Inl ''failed to read SECRET_BROKER_CLIENT_TIMEOUT_SECS'')"

definition validate_endpoint :: "url_view \<Rightarrow> anyhow + unit" where
  "validate_endpoint u =
     rbind (ensure (uv_scheme u = ''https'') ''SECRET_BROKER_ENDPOINT must use https'') (\<lambda>_.
     rbind (ensure (uv_host u \<noteq> None) ''SECRET_BROKER_ENDPOINT must include a host'') (\<lambda>_.
     rbind (ensure (\<not> (uv_username u \<noteq> [] \<or> uv_password u \<noteq> None)) ''SECRET_BROKER_ENDPOINT must not contain user information'') (\<lambda>_.
     rbind (ensure (\<not> (uv_query u \<noteq> None \<or> uv_fragment u \<noteq> None)) ''SECRET_BROKER_ENDPOINT must not contain a query or fragment'') (\<lambda>_.
     ensure (\<not> (uv_path u \<noteq> ''/'' \<and> uv_path u \<noteq> [])) ''SECRET_BROKER_ENDPOINT must not contain a path''))))"

definition parse_endpoint :: "client_ext \<Rightarrow> string \<Rightarrow> anyhow + url_view" where
  "parse_endpoint X raw =
     rbind (map_err (\<lambda>_. ''invalid SECRET_BROKER_ENDPOINT'') (cl_url_parse X raw)) (\<lambda>u.
     rbind (validate_endpoint u) (\<lambda>_. Inr u))"

definition validate_pccs_url :: "url_view \<Rightarrow> anyhow + unit" where
  "validate_pccs_url u =
     rbind (ensure ((uv_scheme u = ''http'' \<or> uv_scheme u = ''https'') \<and> uv_host u \<noteq> None)
       ''SECRET_BROKER_PCCS_URL must be an http(s) URL with a host'') (\<lambda>_.
     rbind (ensure (\<not> (uv_username u \<noteq> [] \<or> uv_password u \<noteq> None)) ''SECRET_BROKER_PCCS_URL must not contain user information'') (\<lambda>_.
     ensure (uv_fragment u = None) ''SECRET_BROKER_PCCS_URL must not contain a fragment''))"

definition parse_pccs_url :: "client_ext \<Rightarrow> string \<Rightarrow> anyhow + url_view" where
  "parse_pccs_url X raw =
     rbind (map_err (\<lambda>_. ''invalid SECRET_BROKER_PCCS_URL'') (cl_url_parse X raw)) (\<lambda>u.
     rbind (validate_pccs_url u) (\<lambda>_. Inr u))"

fun allowlist_entries :: "string list \<Rightarrow> string list \<Rightarrow> anyhow + string list" where
  "allowlist_entries acc [] = Inr acc"
| "allowlist_entries acc (entry # rest) =
     (let subject = to_ascii_lowercase (trim entry) in
      rbind (ensure (subject \<noteq> []) ''SECRET_BROKER_CLIENT_SUBJECTS must not contain empty values'') (\<lambda>_.
      rbind (ensure (subject \<notin> set acc) ''SECRET_BROKER_CLIENT_SUBJECTS must not contain duplicate values'') (\<lambda>_.
      allowlist_entries (acc @ [subject]) rest)))"

definition parse_subject_allowlist :: "string \<Rightarrow> anyhow + string list" where
  "parse_subject_allowlist raw =
     rbind (allowlist_entries [] (split_char CHR '','' raw)) (\<lambda>subjects.
     rbind (ensure (subjects \<noteq> []) ''SECRET_BROKER_CLIENT_SUBJECTS must not be empty'') (\<lambda>_. Inr subjects))"

definition endpoint_is_loopback :: "url_view \<Rightarrow> bool" where
  "endpoint_is_loopback u =
     (case uv_host u of
        None \<Rightarrow> False
      | Some host \<Rightarrow>
          (let normalized = to_ascii_lowercase (trim host) in
           normalized = ''localhost'' \<or> ends_with ''.localhost'' normalized \<or>
           (case parse_ip_addr normalized of Some address \<Rightarrow> is_loopback address | None \<Rightarrow> False)))"

definition parse_server_name :: "client_ext \<Rightarrow> string \<Rightarrow> anyhow + ServerName" where
  "parse_server_name X raw =
     rbind (ensure (trim raw \<noteq> []) ''SECRET_BROKER_CLIENT_SERVER_NAME must not be empty'') (\<lambda>_.
     case parse_ip_addr (trim raw) of
       Some address \<Rightarrow> Inr (IpAddress address)
     | None \<Rightarrow> map_err (\<lambda>_. ''invalid SECRET_BROKER_CLIENT_SERVER_NAME'') (cl_dns_name X (trim raw)))"

definition validate_server_name :: "client_ext \<Rightarrow> string \<Rightarrow> anyhow + unit" where
  "validate_server_name X raw = rbind (parse_server_name X raw) (\<lambda>_. Inr ())"

definition parse_certificates :: "client_ext \<Rightarrow> bytes \<Rightarrow> anyhow + bytes list" where
  "parse_certificates X pem =
     rbind (map_err (\<lambda>_. ''failed to parse PEM'') (cl_pem_certs X pem)) (\<lambda>certificates.
     rbind (ensure (certificates \<noteq> []) ''PEM bundle did not contain any certificates'') (\<lambda>_. Inr certificates))"

fun first_private_key :: "(anyhow + pem_item) list \<Rightarrow> anyhow + bytes" where
  "first_private_key [] = Inl ''client private key PEM bundle did not contain a supported key''"
| "first_private_key (item # items) =
     rbind (map_err (\<lambda>_. ''failed to parse client private key PEM'') item) (\<lambda>item.
     case item of Pkcs8Key k \<Rightarrow> Inr k | Pkcs1Key k \<Rightarrow> Inr k | Sec1Key k \<Rightarrow> Inr k | OtherItem \<Rightarrow> first_private_key items)"

definition identity_from_pem :: "client_ext \<Rightarrow> bytes \<Rightarrow> bytes \<Rightarrow> anyhow + ClientIdentity" where
  "identity_from_pem X cert_pem key_pem =
     rbind (parse_certificates X cert_pem) (\<lambda>certificates.
     rbind (first_private_key (cl_pem_items X key_pem)) (\<lambda>private_key.
     Inr \<lparr> ci_certificates = certificates, ci_private_key = private_key \<rparr>))"

definition identity_from_paths :: "client_ext \<Rightarrow> string \<Rightarrow> string \<Rightarrow> anyhow + ClientIdentity" where
  "identity_from_paths X cert_path key_path =
     rbind (map_err (\<lambda>_. ''failed to read client certificate'') (cl_read_file X cert_path)) (\<lambda>cert_pem.
     rbind (map_err (\<lambda>_. ''failed to read client private key'') (cl_read_file X key_path)) (\<lambda>key_pem.
     identity_from_pem X cert_pem key_pem))"

definition load_ca_certificates :: "client_ext \<Rightarrow> string \<Rightarrow> anyhow + bytes list" where
  "load_ca_certificates X path =
     rbind (map_err (\<lambda>_. ''failed to read Secret Broker client CA certificate'') (cl_read_file X path)) (parse_certificates X)"

definition validate_config :: "client_ext \<Rightarrow> SecretBrokerClientConfig \<Rightarrow> anyhow + unit" where
  "validate_config X c =
     rbind (validate_endpoint (cc_endpoint c)) (\<lambda>_.
     rbind (validate_server_name X (cc_server_name c)) (\<lambda>_.
     rbind (ensure (cc_timeout c \<noteq> 0) ''Secret Broker client timeout must be greater than zero'') (\<lambda>_.
     rbind (ensure (ci_certificates (cc_client_identity c) \<noteq> []) ''Secret Broker client identity must contain at least one certificate'') (\<lambda>_.
     rbind (ensure (cc_client_ca_certificates c \<noteq> []) ''Secret Broker client CA bundle must contain at least one certificate'') (\<lambda>_.
     case cc_attestation_mode c of
       Enforced \<Rightarrow>
         rbind (ok_or ''enforced Secret Broker mode requires a client measurement policy'' (cc_policy c)) (\<lambda>policy.
         rbind (ensure (trim (cp_policy_name policy) \<noteq> []) ''enforced Secret Broker policy name must not be empty'') (\<lambda>_.
         rbind (ensure (case cc_subject_allowlist c of Some subjects \<Rightarrow> subjects \<noteq> [] | None \<Rightarrow> False)
           ''enforced Secret Broker mode requires a non-empty subject allowlist'') (\<lambda>_.
         rbind (ok_or ''enforced Secret Broker mode requires SECRET_BROKER_PCCS_URL'' (cc_pccs_url c)) validate_pccs_url)))
     | Local \<Rightarrow>
         rbind (ensure (endpoint_is_loopback (cc_endpoint c))
           ''SECRET_BROKER_CLIENT_MODE=local is permitted only for a loopback SECRET_BROKER_ENDPOINT'') (\<lambda>_.
         ensure (\<not> (cc_policy c \<noteq> None \<or> cc_subject_allowlist c \<noteq> None \<or> cc_pccs_url c \<noteq> None))
           ''local Secret Broker mode must not carry enforced-attestation policy fields''))))))"

definition enforced_fields :: "client_ext \<Rightarrow> os_environment \<Rightarrow> anyhow + ClientPolicy \<times> string list \<times> url_view" where
  "enforced_fields X env =
     rbind (required_env env ''SECRET_BROKER_CLIENT_POLICY_FILE'') (\<lambda>policy_path.
     rbind (required_env env ''SECRET_BROKER_CLIENT_SUBJECTS'') (\<lambda>raw_subjects.
     rbind (parse_subject_allowlist raw_subjects) (\<lambda>subjects.
     rbind (required_env env ''SECRET_BROKER_PCCS_URL'') (\<lambda>raw_pccs.
     rbind (parse_pccs_url X raw_pccs) (\<lambda>pccs_url.
     rbind (policy_from_file X policy_path) (\<lambda>policy.
     Inr (policy, subjects, pccs_url)))))))"

definition client_config_from_env :: "client_ext \<Rightarrow> os_environment \<Rightarrow> anyhow + SecretBrokerClientConfig" where
  "client_config_from_env X env =
     rbind (required_env env ''SECRET_BROKER_ENDPOINT'') (\<lambda>raw_endpoint.
     rbind (parse_endpoint X raw_endpoint) (\<lambda>endpoint.
     rbind (mode_from_env env) (\<lambda>attestation_mode.
     rbind (required_env env ''SECRET_BROKER_CLIENT_CERT'') (\<lambda>client_cert_path.
     rbind (required_env env ''SECRET_BROKER_CLIENT_KEY'') (\<lambda>client_key_path.
     rbind (required_env env ''SECRET_BROKER_CLIENT_CA_CERT'') (\<lambda>client_ca_path.
     rbind (required_env env ''SECRET_BROKER_CLIENT_SERVER_NAME'') (\<lambda>server_name.
     rbind (validate_server_name X server_name) (\<lambda>_.
     rbind (parse_timeout env) (\<lambda>timeout.
     rbind (identity_from_paths X client_cert_path client_key_path) (\<lambda>client_identity.
     rbind (load_ca_certificates X client_ca_path) (\<lambda>client_ca_certificates.
     rbind (case attestation_mode of
         Enforced \<Rightarrow> rbind (enforced_fields X env) (\<lambda>(policy, subjects, pccs_url). Inr (Some policy, Some subjects, Some pccs_url))
       | Local \<Rightarrow> Inr (None, None, None)) (\<lambda>(policy, subject_allowlist, pccs_url).
     let config = \<lparr> cc_endpoint = endpoint, cc_attestation_mode = attestation_mode, cc_policy = policy,
           cc_subject_allowlist = subject_allowlist, cc_pccs_url = pccs_url, cc_client_identity = client_identity,
           cc_client_ca_certificates = client_ca_certificates, cc_server_name = server_name, cc_timeout = timeout \<rparr> in
     rbind (validate_config X config) (\<lambda>_. Inr config)))))))))))))"

section \<open>Checking the server\<close>

record RaTlsServerVerifier =
  rv_roots :: "bytes list"
  rv_policy :: ClientPolicy
  rv_subject_allowlist :: "string list"
  rv_pccs_url :: string

text \<open>The TLS configuration: its trust anchors and client identity, and the certificate verifier when it is not the one
  that \<open>rustls\<close> uses by default.\<close>

record client_tls_config =
  tc_roots :: "bytes list"
  tc_identity :: ClientIdentity
  tc_alpn :: "string list"
  tc_verifier :: "RaTlsServerVerifier option"

definition build_client_tls_config :: "client_ext \<Rightarrow> SecretBrokerClientConfig \<Rightarrow> anyhow + client_tls_config" where
  "build_client_tls_config X c =
     rbind (map_err (\<lambda>_. ''failed to add Secret Broker CA certificate'') (collect_results (map (cl_root_add X) (cc_client_ca_certificates c)))) (\<lambda>_.
     rbind (map_err (\<lambda>_. ''failed to configure Secret Broker client certificate'')
       (cl_client_auth X (ci_certificates (cc_client_identity c)) (ci_private_key (cc_client_identity c)))) (\<lambda>_.
     rbind (case cc_attestation_mode c of
         Local \<Rightarrow> Inr None
       | Enforced \<Rightarrow>
           rbind (ok_or ''missing enforced Secret Broker policy'' (cc_policy c)) (\<lambda>policy.
           rbind (ok_or ''missing enforced Secret Broker subject allowlist'' (cc_subject_allowlist c)) (\<lambda>subject_allowlist.
           rbind (ok_or ''missing enforced Secret Broker PCCS URL'' (cc_pccs_url c)) (\<lambda>pccs_url.
           Inr (Some \<lparr> rv_roots = cc_client_ca_certificates c, rv_policy = policy, rv_subject_allowlist = subject_allowlist,
             rv_pccs_url = uv_text pccs_url \<rparr>))))) (\<lambda>verifier.
     Inr \<lparr> tc_roots = cc_client_ca_certificates c, tc_identity = cc_client_identity c, tc_alpn = [''h2''], tc_verifier = verifier \<rparr>)))"

text \<open>The client's copy of \<open>verify_with_ra_pubkey\<close>, whose PCCS address is not optional.\<close>

definition client_verify_with_ra_pubkey ::
  "('c, 'k) tls_ext \<Rightarrow> instant \<Rightarrow> Attestation \<Rightarrow> bytes \<Rightarrow> string \<Rightarrow> anyhow + VerifiedAttestation" where
  "client_verify_with_ra_pubkey T now a pubkey_der pccs_url =
     rbind (supported_vendor (at_quote a)) (\<lambda>_.
     rbind (decode_report_data T (at_quote a)) (\<lambda>actual.
     rbind (ensure (actual = expected_report_data T pubkey_der) ''RA-TLS quote report_data does not match peer public key binding'') (\<lambda>_.
     rbind (ensure (trim pccs_url \<noteq> []) ''PCCS URL is required for RA-TLS verification'') (\<lambda>_.
     rbind (map_err (\<lambda>_. ''failed to fetch quote collateral from PCCS'') (get_collateral T (trim pccs_url) (at_quote a))) (\<lambda>collateral.
     rbind (ensure (0 \<le> now) ''system clock is before UNIX epoch'') (\<lambda>_.
     rbind (map_err (\<lambda>_. ''DCAP quote verification failed'') (dcap_verify T (at_quote a) collateral (nat (now div nanos_per_sec)))) (\<lambda>verified.
     Inr \<lparr> va_report = verified, va_raw_event_log = at_raw_event_log a \<rparr>)))))))"

definition enforce_measurement_policy :: "('c, 'k) tls_ext \<Rightarrow> MeasurementPolicy \<Rightarrow> VerifiedAttestation \<Rightarrow> anyhow + unit" where
  "enforce_measurement_policy T policy verified =
     rbind (if requires_compose_hash policy
            then rbind (map_err (\<lambda>_. ''Secret Broker RA-TLS attestation is missing a policy-required compose hash'')
                   (decode_compose_hash T verified)) (\<lambda>compose_hash.
                 ensure (accepts_compose_hash policy compose_hash) ''Secret Broker RA-TLS compose hash was rejected by policy'')
            else Inr ()) (\<lambda>_.
     case va_report verified of
       TD10 r \<Rightarrow> ensure (accepts_tdx_mrtd policy (hex_text T (td_mr_td r))) ''Secret Broker TDX MR_TD was rejected by policy''
     | TD15 r \<Rightarrow> ensure (accepts_tdx_mrtd policy (hex_text T (td_mr_td r))) ''Secret Broker TDX MR_TD was rejected by policy''
     | SgxEnclave r \<Rightarrow> ensure (accepts_sgx policy (hex_text T (sgx_mr_enclave r)) (hex_text T (sgx_mr_signer r)) (sgx_isv_svn r))
         ''Secret Broker SGX measurements were rejected by policy'')"

definition usable_common_name :: "(anyhow + string) list \<Rightarrow> string option" where
  "usable_common_name names =
     (case names of
        Inr name # _ \<Rightarrow> (let s = to_ascii_lowercase (trim name) in if s = [] then None else Some s)
      | _ \<Rightarrow> None)"

definition verify_peer_certificate ::
  "('c, 'k) tls_ext \<Rightarrow> instant \<Rightarrow> bytes \<Rightarrow> ClientPolicy \<Rightarrow> string list \<Rightarrow> string \<Rightarrow> anyhow + unit" where
  "verify_peer_certificate T now certificate policy subject_allowlist pccs_url =
     rbind (map_err (\<lambda>_. ''failed to parse Secret Broker server certificate'') (x509_parse T certificate)) (\<lambda>view.
     rbind (ok_or ''Secret Broker server certificate has no usable common name'' (usable_common_name (x509_common_names T view))) (\<lambda>subject.
     rbind (ensure (subject \<in> set subject_allowlist) ''Secret Broker server subject is not in the configured allowlist'') (\<lambda>_.
     rbind (attestation_from_der T certificate) (\<lambda>found.
     rbind (ok_or ''Secret Broker server certificate does not contain RA-TLS attestation'' found) (\<lambda>a.
     rbind (supported_vendor (at_quote a)) (\<lambda>_.
     rbind (map_err (\<lambda>_. ''Secret Broker RA-TLS attestation verification failed'')
       (client_verify_with_ra_pubkey T now a (x509_public_key T view) pccs_url)) (\<lambda>verified.
     enforce_measurement_policy T (cp_measurement policy) verified)))))))"

definition verify_server_cert ::
  "client_ext \<Rightarrow> ('c, 'k) tls_ext \<Rightarrow> instant \<Rightarrow> RaTlsServerVerifier \<Rightarrow> bytes \<Rightarrow> bytes list \<Rightarrow> ServerName \<Rightarrow> anyhow + unit" where
  "verify_server_cert X T now v end_entity intermediates server_name =
     rbind (cl_chain_verify X (rv_roots v) end_entity intermediates server_name now) (\<lambda>_.
     rbind (ensure (cl_runtime X) ''Tokio runtime is required for RA-TLS verification'') (\<lambda>_.
     verify_peer_certificate T now end_entity (rv_policy v) (rv_subject_allowlist v) (rv_pccs_url v)))"

text \<open>What the handshake of a connection checks under a configuration.\<close>

definition handshake_accepts ::
  "client_ext \<Rightarrow> ('c, 'k) tls_ext \<Rightarrow> instant \<Rightarrow> client_tls_config \<Rightarrow> bytes \<Rightarrow> bytes list \<Rightarrow> ServerName \<Rightarrow> bool" where
  "handshake_accepts X T now tc end_entity intermediates server_name =
     is_ok (case tc_verifier tc of
       Some v \<Rightarrow> verify_server_cert X T now v end_entity intermediates server_name
     | None \<Rightarrow> cl_chain_verify X (tc_roots tc) end_entity intermediates server_name now)"

section \<open>Properties\<close>

definition measured :: "('c, 'k) tls_ext \<Rightarrow> MeasurementPolicy \<Rightarrow> Report \<Rightarrow> bool" where
  "measured T p r =
     (case r of
        TD10 t \<Rightarrow> accepts_tdx_mrtd p (hex_text T (td_mr_td t))
      | TD15 t \<Rightarrow> accepts_tdx_mrtd p (hex_text T (td_mr_td t))
      | SgxEnclave e \<Rightarrow> accepts_sgx p (hex_text T (sgx_mr_enclave e)) (hex_text T (sgx_mr_signer e)) (sgx_isv_svn e))"

lemma enforce_iff:
  "enforce_measurement_policy T p v = Inr () \<longleftrightarrow> measured T p (va_report v) \<and>
     (requires_compose_hash p \<longrightarrow> (\<exists>h. decode_compose_hash T v = Inr h \<and> accepts_compose_hash p h))"
  by (auto simp: enforce_measurement_policy_def measured_def result_simps split: Report.splits)

text \<open>Both copies of the verification do the same with the same address.\<close>

lemma client_verify_eq:
  "is_ok (client_verify_with_ra_pubkey T now a key url) \<Longrightarrow> client_verify_with_ra_pubkey T now a key url = verify_with_ra_pubkey T now a key (Some url)"
  by (auto simp: client_verify_with_ra_pubkey_def verify_with_ra_pubkey_def trimmed_def result_simps)

lemma verify_peer_inv:
  assumes "dcap_laws T" "verify_peer_certificate T now cert policy subjects url = Inr ()"
  obtains view subject a r where "x509_parse T cert = Inr view" "usable_common_name (x509_common_names T view) = Some subject"
    "subject \<in> set subjects" "attestation_from_der T cert = Inr (Some a)"
    "quote_attests T now (at_quote a) (x509_public_key T view) r" "measured T (cp_measurement policy) r"
proof -
  obtain view subject a v where *: "x509_parse T cert = Inr view" "usable_common_name (x509_common_names T view) = Some subject"
    "subject \<in> set subjects" "attestation_from_der T cert = Inr (Some a)"
    and v: "client_verify_with_ra_pubkey T now a (x509_public_key T view) url = Inr v"
    and e: "enforce_measurement_policy T (cp_measurement policy) v = Inr ()"
    using assms(2) by (auto simp: verify_peer_certificate_def result_simps)
  have "verify_with_ra_pubkey T now a (x509_public_key T view) (Some url) = Inr v" using client_verify_eq [of T] v by (metis is_ok.simps(2))
  then have "quote_attests T now (at_quote a) (x509_public_key T view) (va_report v)" by (rule verify_attests(1) [OF assms(1)])
  moreover have "measured T (cp_measurement policy) (va_report v)" using e by (simp add: enforce_iff)
  ultimately show thesis using * by (intro that)
qed

text \<open>C12 (which servers a client trusts).  With a configuration that passes validation, a handshake is only accepted
  from a server whose chain leads to a configured trust anchor for the expected name; and unless the endpoint is a
  loopback address, the server's common name is in the configured list, and its certificate carries a verified quote that
  binds its public key and whose measurements the policy allows.\<close>

theorem client_trusts_measured_servers:
  assumes "dcap_laws T" "validate_config X c = Inr ()" "build_client_tls_config X c = Inr tc"
    and "handshake_accepts X T now tc cert chain name"
  shows "cl_chain_verify X (cc_client_ca_certificates c) cert chain name now = Inr () \<and>
    (endpoint_is_loopback (cc_endpoint c) \<or>
      (\<exists>policy subjects view subject a r. cc_policy c = Some policy \<and> cc_subject_allowlist c = Some subjects \<and>
         x509_parse T cert = Inr view \<and> usable_common_name (x509_common_names T view) = Some subject \<and> subject \<in> set subjects \<and>
         attestation_from_der T cert = Inr (Some a) \<and> quote_attests T now (at_quote a) (x509_public_key T view) r \<and>
         measured T (cp_measurement policy) r))"
proof (cases "cc_attestation_mode c")
  case Enforced
  then obtain policy subjects v where v: "tc_verifier tc = Some v" "cc_policy c = Some policy" "cc_subject_allowlist c = Some subjects"
    "rv_policy v = policy" "rv_subject_allowlist v = subjects" "rv_roots v = cc_client_ca_certificates c"
    using assms(3) by (auto simp: build_client_tls_config_def result_simps)
  then have chain: "cl_chain_verify X (cc_client_ca_certificates c) cert chain name now = Inr ()"
    and "verify_peer_certificate T now cert policy subjects (rv_pccs_url v) = Inr ()"
    using assms(4) by (auto simp: handshake_accepts_def verify_server_cert_def result_simps)
  from verify_peer_inv [OF assms(1) this(2)] show ?thesis using chain v(2,3) by metis
next
  case Local
  then have "tc_verifier tc = None" "tc_roots tc = cc_client_ca_certificates c" "endpoint_is_loopback (cc_endpoint c)"
    using assms(2,3) by (auto simp: build_client_tls_config_def validate_config_def result_simps)
  then show ?thesis using assms(4) by (auto simp: handshake_accepts_def result_simps)
qed

text \<open>Compose-only policies.  A policy file that constrains only the compose hash is accepted as a policy, and then
  rejects every attestation, whatever its report and event log.\<close>

lemma compose_only_policy_rejects_all:
  assumes "policy_from_json v = Inr p" "mp_allowed_mrtd (cp_measurement p) = []" "mp_allowed_mrenclave (cp_measurement p) = []"
  shows "mp_expected_compose_hash (cp_measurement p) \<noteq> None \<and> \<not> is_ok (enforce_measurement_policy T (cp_measurement p) verified)"
proof -
  have "mp_expected_compose_hash (cp_measurement p) \<noteq> None" using assms by (auto simp: policy_from_json_def result_simps)
  moreover have "\<not> measured T (cp_measurement p) r" for r
    using assms(2,3) by (auto simp: measured_def accepts_tdx_mrtd_def accepts_sgx_def split: Report.splits)
  then have "enforce_measurement_policy T (cp_measurement p) verified \<noteq> Inr ()" by (simp add: enforce_iff)
  ultimately show ?thesis by (auto simp: is_ok_iff)
qed

text \<open>C39 (the event log is not authenticated).  The compose hash is read from the event log in the certificate, and nothing
  compares that log with the quote: when a quote verifies and its measurements are allowed, the same quote with any event
  log that names the expected compose hash passes the whole check.\<close>

theorem event_log_unauthenticated:
  assumes "client_verify_with_ra_pubkey T now a key url = Inr v" "measured T p (va_report v)"
    and "log \<noteq> []" "event_log_json T log = Inr events" "find is_compose_event events = Some ev"
    and "accepts_compose_hash p (hex_text T (ev_event_payload ev))"
  shows "\<exists>v'. client_verify_with_ra_pubkey T now (a\<lparr> at_raw_event_log := log \<rparr>) key url = Inr v' \<and>
    va_report v' = va_report v \<and> enforce_measurement_policy T p v' = Inr ()"
proof -
  have "client_verify_with_ra_pubkey T now (a\<lparr> at_raw_event_log := log \<rparr>) key url = Inr (v\<lparr> va_raw_event_log := log \<rparr>)"
    using assms(1) by (auto simp: client_verify_with_ra_pubkey_def result_simps)
  moreover have "decode_compose_hash T (v\<lparr> va_raw_event_log := log \<rparr>) = Inr (hex_text T (ev_event_payload ev))"
    using assms(3-5) by (simp add: decode_compose_hash_def)
  ultimately show ?thesis using assms(2,6) by (auto simp: enforce_iff)
qed

section \<open>A concrete client\<close>

definition sample_client :: client_ext where
  "sample_client = \<lparr>
     cl_url_parse = (\<lambda>_. Inl []), cl_read_file = (\<lambda>_. Inl []), cl_json = (\<lambda>_. Inl []), cl_pem_certs = (\<lambda>_. Inl []), cl_pem_items = (\<lambda>_. []),
     cl_dns_name = (\<lambda>s. Inr (DnsName s)), cl_root_add = (\<lambda>_. Inr ()), cl_client_auth = (\<lambda>_ _. Inr ()), cl_runtime = True,
     cl_chain_verify = (\<lambda>_ _ _ _ _. Inr ()) \<rparr>"

definition sample_policy_json :: json where
  "sample_policy_json = JObject [(''policy_name'', JString ''p''), (''expected_compose_hash'', JString ''d'')]"

definition sample_policy :: ClientPolicy where
  "sample_policy = \<lparr> cp_policy_name = ''p'', cp_measurement = \<lparr> mp_allowed_mrtd = [''b''], mp_allowed_mrenclave = [],
     mp_allowed_mrsigner = [], mp_min_isvsvn = None, mp_expected_compose_hash = Some ''d'' \<rparr> \<rparr>"

definition sample_url :: "string \<Rightarrow> url_view" where
  "sample_url host = \<lparr> uv_scheme = ''https'', uv_host = Some host, uv_username = [], uv_password = None, uv_path = ''/'',
     uv_query = None, uv_fragment = None, uv_text = ''https://x'' \<rparr>"

definition sample_client_config :: SecretBrokerClientConfig where
  "sample_client_config = \<lparr> cc_endpoint = sample_url ''broker'', cc_attestation_mode = Enforced, cc_policy = Some sample_policy,
     cc_subject_allowlist = Some [''broker''], cc_pccs_url = Some (sample_url ''pccs''),
     cc_client_identity = \<lparr> ci_certificates = [[1]], ci_private_key = [2] \<rparr>, cc_client_ca_certificates = [[3]],
     cc_server_name = ''broker'', cc_timeout = 1 \<rparr>"

lemma sample_trims: "trim ''broker'' = ''broker''" "trim ''p'' = ''p''" "trim ''d'' = ''d''" "trim ''b'' = ''b''" "trim ''https://x'' = ''https://x''"
    "trim ''Broker'' = ''Broker''"
  by (simp_all add: trim_printable printable_def)

lemma sample_lower: "to_ascii_lowercase ''d'' = ''d''" "to_ascii_lowercase ''b'' = ''b''" "to_ascii_lowercase ''Broker'' = ''broker''"
    "to_ascii_lowercase ''broker'' = ''broker''"
  by code_simp+

lemma sample_chars: "[char_of (98 :: nat)] = ''b''" "[char_of (100 :: nat)] = ''d''"
  by code_simp+

lemma sample_hosts: "parse_ip_addr ''broker'' = None" "ends_with ''.localhost'' ''broker'' = False"
  by code_simp+

lemma sample_config_valid: "validate_config sample_client sample_client_config = Inr ()"
  by (simp add: validate_config_def sample_client_config_def sample_url_def validate_endpoint_def validate_server_name_def parse_server_name_def
      sample_trims sample_hosts sample_client_def sample_policy_def validate_pccs_url_def)

lemma sample_tls_built: "\<exists>tc. build_client_tls_config sample_client sample_client_config = Inr tc \<and>
    tc_verifier tc = Some \<lparr> rv_roots = [[3]], rv_policy = sample_policy, rv_subject_allowlist = [''broker''], rv_pccs_url = ''https://x'' \<rparr>"
  by (simp add: build_client_tls_config_def sample_client_config_def sample_client_def sample_url_def)

lemma sample_server_verifies: "client_verify_with_ra_pubkey sample_tls 0 \<lparr> at_quote = sample_quote, at_raw_event_log = log \<rparr> [9] ''https://x'' =
    Inr \<lparr> va_report = sample_report, va_raw_event_log = log \<rparr>"
  by (simp add: client_verify_with_ra_pubkey_def supported_vendor_def detect_vendor_from_quote_def sample_quote_def Let_def
      decode_report_data_def sample_tls_def sample_report_def report_data_def expected_report_data_def sample_trims)

lemma sample_measured: "measured sample_tls (cp_measurement sample_policy) sample_report"
  "accepts_compose_hash (cp_measurement sample_policy) (hex_text sample_tls [3])"
  by (simp_all add: measured_def sample_report_def accepts_tdx_mrtd_def sample_tls_def sample_policy_def normalize_measurement_def
      accepts_compose_hash_def sample_chars sample_trims sample_lower)

lemma sample_attestation: "attestation_from_der sample_tls [8] = Inr (Some \<lparr> at_quote = sample_quote, at_raw_event_log = [7] \<rparr>)"
  by (simp add: attestation_from_der_def get_extension_octets_def sample_tls_def PHALA_RATLS_EVENT_LOG_OID_def PHALA_RATLS_QUOTE_OID_def)

lemma sample_events: "event_log_json sample_tls log = Inr [\<lparr> ev_imr = 3, ev_event = ''compose-hash'', ev_event_payload = [3] \<rparr>]"
  "find is_compose_event [\<lparr> ev_imr = 3, ev_event = ''compose-hash'', ev_event_payload = [3] \<rparr>] =
     Some \<lparr> ev_imr = 3, ev_event = ''compose-hash'', ev_event_payload = [3] \<rparr>"
  by (simp_all add: sample_tls_def is_compose_event_def)

lemma sample_peer_verifies: "verify_peer_certificate sample_tls 0 [8] sample_policy [''broker''] ''https://x'' = Inr ()"
proof -
  have "supported_vendor sample_quote = Inr ()"
    by (simp add: supported_vendor_def detect_vendor_from_quote_def sample_quote_def Let_def)
  moreover have "enforce_measurement_policy sample_tls (cp_measurement sample_policy) \<lparr> va_report = sample_report, va_raw_event_log = [7] \<rparr> = Inr ()"
    by (simp add: enforce_iff sample_measured decode_compose_hash_def sample_events is_compose_event_def)
  moreover have "x509_parse sample_tls [8] = Inr [8]" "x509_common_names sample_tls [8] = [Inr ''Broker'']" "x509_public_key sample_tls [8] = [9]"
    by (simp_all add: sample_tls_def)
  ultimately show ?thesis
    by (simp add: verify_peer_certificate_def sample_attestation sample_server_verifies usable_common_name_def sample_trims sample_lower)
qed

theorem client_trusts_measured_servers_witness:
  "\<exists>tc. build_client_tls_config sample_client sample_client_config = Inr tc \<and>
     handshake_accepts sample_client sample_tls 0 tc [8] [] (DnsName ''broker'') \<and>
     (\<exists>r. measured sample_tls (cp_measurement sample_policy) r)"
proof -
  obtain tc where tc: "build_client_tls_config sample_client sample_client_config = Inr tc"
    "tc_verifier tc = Some \<lparr> rv_roots = [[3]], rv_policy = sample_policy, rv_subject_allowlist = [''broker''], rv_pccs_url = ''https://x'' \<rparr>"
    using sample_tls_built by blast
  have acc: "handshake_accepts sample_client sample_tls 0 tc [8] [] (DnsName ''broker'')"
    using tc(2) sample_peer_verifies by (simp add: handshake_accepts_def verify_server_cert_def sample_client_def)
  have "\<not> endpoint_is_loopback (cc_endpoint sample_client_config)"
    by (simp add: endpoint_is_loopback_def sample_client_config_def sample_url_def sample_trims sample_lower sample_hosts)
  moreover have "cc_policy sample_client_config = Some sample_policy" by (simp add: sample_client_config_def)
  ultimately show ?thesis
    using client_trusts_measured_servers [OF sample_tls_laws sample_config_valid tc(1) acc] tc(1) acc by auto
qed

lemma compose_only_policy_rejects_all_witness:
  "\<exists>p. policy_from_json sample_policy_json = Inr p \<and>
     \<not> is_ok (enforce_measurement_policy sample_tls (cp_measurement p) \<lparr> va_report = sample_report, va_raw_event_log = [7] \<rparr>)"
proof -
  have p: "policy_from_json sample_policy_json = Inr \<lparr> cp_policy_name = ''p'', cp_measurement = \<lparr> mp_allowed_mrtd = [],
     mp_allowed_mrenclave = [], mp_allowed_mrsigner = [], mp_min_isvsvn = None, mp_expected_compose_hash = Some ''d'' \<rparr> \<rparr>"
    by (simp add: policy_from_json_def sample_policy_json_def required_json_string_def required_or_empty_measurement_set_def
        min_isvsvn_field_def compose_hash_field_def normalize_measurement_def sample_trims sample_lower)
  show ?thesis using compose_only_policy_rejects_all [OF p] p by simp
qed

theorem event_log_unauthenticated_witness:
  "\<exists>v. client_verify_with_ra_pubkey sample_tls 0 \<lparr> at_quote = sample_quote, at_raw_event_log = [1] \<rparr> [9] ''https://x'' = Inr v \<and>
     enforce_measurement_policy sample_tls (cp_measurement sample_policy) v = Inr ()"
proof -
  have "hex_text sample_tls (ev_event_payload \<lparr> ev_imr = 3, ev_event = ''compose-hash'', ev_event_payload = [3] \<rparr>) = hex_text sample_tls [3]" by simp
  then show ?thesis
    using event_log_unauthenticated [OF sample_server_verifies [of "[]"] _ _ sample_events(1) sample_events(2), of "cp_measurement sample_policy" "[1]"]
      sample_measured by auto
qed

end
