(* ===== verification/Quorum.thy ===== *)
theory Quorum
  imports Lifecycle
begin

text \<open>
  Keys minted with a threshold and returned as shares (\<open>mint_aead_key_v2_impl\<close> and \<open>unwrap_secret_v2_impl\<close> of
  \<open>secret_broker_impl/handlers.rs\<close>): of the issued shares, a quorum opens the record and nothing less does.
\<close>

section \<open>A threshold record\<close>

text \<open>Threshold and commitments play no part in the checks other than that of the redeem token.\<close>

lemma threshold_irrelevant [simp]:
  "check_record E (set_threshold k cs r) = check_record E r"
  "check_envelope E' (set_threshold k cs r) = check_envelope E' r"
  "expected_redeem_token E key h (set_threshold k cs r) = expected_redeem_token E key h r"
  "check_exporter E (set_threshold k cs r) = check_exporter E r"
  "discharge_keys_for_record E (set_threshold k cs r) = discharge_keys_for_record E r"
  "ciphertext_bytes E (set_threshold k cs r) = ciphertext_bytes E r"
  "kem_ciphertext_bytes E (set_threshold k cs r) = kem_ciphertext_bytes E r"
  "in_time (set_threshold k cs r) = in_time r"
  "rec_envelope (set_threshold k cs r) = rec_envelope r" "rec_lifecycle (set_threshold k cs r) = rec_lifecycle r"
  "rec_expires_at (set_threshold k cs r) = rec_expires_at r"
  "rec_threshold (set_threshold k cs r) = Some k" "rec_threshold_commitments (set_threshold k cs r) = Some cs"
  by (simp_all add: fun_eq_iff set_threshold_def in_time_def check_record_def is_expired_def
      validate_v2_record_identity_requirements_def validate_v2_record_identity_requirements_inner_def validate_lineage_def
      check_envelope_def envelope_bytes_def signature_bytes_def expected_redeem_token_def check_exporter_def
      exporter_binding_bytes_def discharge_keys_for_record_def ciphertext_bytes_def kem_ciphertext_bytes_def
      cong: if_cong option.case_cong)

lemma single_token_expected:
  assumes "check_redeem_token E C key h r context now t = Inr ()" "rec_threshold r = None" "b64_decode E t = Some token"
  shows "expected_redeem_token E key h r context now = Inr token"
  using assms by (auto simp: check_redeem_token_def provided_redeem_token_def canonical_token_def unwrap_or_def result_simps)

lemma decoded_commitments:
  "b64_lossless E \<Longrightarrow> collect_results (map (\<lambda>c. ok_or e (b64_decode E c)) (map (b64_encode E) cs)) = Inr cs"
  by (induction cs) (simp_all add: b64_lossless_def)

text \<open>Of the issued shares, the check takes a quorum of distinct ones and nothing less.\<close>

lemma quorum_token:
  assumes "p256_laws C" "b64_lossless E" "expected_redeem_token E key h r context now = Inr token" "length token = 32"
    and "split C rnd token k n = Inr res" "1 < k" "shares_from_json E t = Inr ss" "set ss \<subseteq> set (split_shares res)"
  shows "check_redeem_token E C key h (set_threshold k (map (b64_encode E) (split_commitments res)) r) context now t = Inr () \<longleftrightarrow>
    unat k \<le> length ss \<and> distinct (map share_x ss)"
proof -
  let ?r = "set_threshold k (map (b64_encode E) (split_commitments res)) r"
  have expected: "canonical_token C ?r token = Inr (canonical_secret_bytes C token)"
    using assms(4,6) by (simp add: canonical_token_def unwrap_or_def SHARE_LENGTH_def ensure_def)
  have provided: "provided_redeem_token E C ?r t =
      map_err (\<lambda>_. RedeemTokenInvalid) (reconstruct C ss k (split_commitments res))"
    using assms(6,7) by (simp add: provided_redeem_token_def unwrap_or_def decoded_commitments [OF assms(2)] del: map_map)
  have "check_redeem_token E C key h ?r context now t = Inr () \<longleftrightarrow>
      reconstruct C ss k (split_commitments res) = Inr (canonical_secret_bytes C token)"
    by (cases "reconstruct C ss k (split_commitments res)")
       (auto simp: check_redeem_token_def assms(3) provided expected ensure_Inr_iff)
  then show ?thesis using feldman.quorum_value [OF assms(1,5,8)] by simp
qed

section \<open>Minting with a threshold\<close>

lemma split_token_ok:
  assumes "store_laws E" "split_redeem_token E C rnd h t k n b = (Inr shares, b')"
  obtains token res r where "b64_decode E t = Some token" "length token = 32" "split C rnd token k n = Inr res"
    "shares = split_shares res" "view E (br_sealed_store b) h = Some r"
    "view E (br_sealed_store b') h = Some (set_threshold k (map (b64_encode E) (split_commitments res)) r)"
    "br_handle_hmac_key b' = br_handle_hmac_key b" "br_crypto b' = br_crypto b"
proof -
  from assms(2) obtain token res where f: "b64_decode E t = Some token" "length token = 32" "split C rnd token k n = Inr res"
      "shares = split_shares res"
    and st: "on_store (\<lambda>m. update_threshold_config E m h k (map (b64_encode E) (split_commitments res))) b = (Inr (), b')"
    unfolding split_redeem_token_def
    by (simp only: run_simps sret_iff map_err_Inr_iff ok_or_Inr_iff ensure_Inr_iff sum.inject) auto
  from st obtain s where s: "update_threshold_config E (fill (br_entropy b) 12) h k (map (b64_encode E) (split_commitments res))
      (br_sealed_store b) = (Inr (), s)" "b' = (spend 12 b)\<lparr> br_sealed_store := s \<rparr>"
    by (rule on_store_ok)
  have "nonce_ok (fill (br_entropy b) 12)" by simp
  from modify_ok [OF assms(1) this s(1) [unfolded update_threshold_config_def]] s(2) that [OF f] show thesis by auto
qed

text \<open>The request that presents the handle of a minted key with a token, with the attributes its caveats ask for.\<close>

definition holder_request :: "MintV2Request \<Rightarrow> MintV2Response \<Rightarrow> string \<Rightarrow> UnwrapV2Request" where
  "holder_request request out token =
     \<lparr> unw_handle = mnr_handle out, unw_redeem_token = token, unw_tenant_id = mnt_tenant_id request,
       unw_provider = mnt_provider request, unw_circuit_id = None, unw_node_id = None, unw_discharges = [] \<rparr>"

lemma holder_satisfies:
  assumes "\<forall>t. expires = Some t \<longrightarrow> now \<le> t" "c \<in> set (mint_caveats request expires)"
  shows "check E (unwrap_verifier (holder_request request out token) now keys) c sig = Inr ()"
  using assms by (auto simp: mint_caveats_def holder_request_def unwrap_verifier_def check_text_def)

lemma mint_ok:
  assumes "mint_aead_key_v2_impl E C rnd context request b = (Inr out, b1)"
  obtains input o1 b2 b3 where
    "persist_secret_v2_with_lifecycle E context input (spend 32 (tick 1 b)) = (Inr o1, b2)"
    "mint_redeem_token E C rnd request o1 (unwrap_or (mnt_threshold request) 1) (unwrap_or (mnt_num_shares request) 1) b2 =
       (Inr (mnr_redeem_token out), b3)"
    "mnr_key out = b64_encode E (inp_plaintext input)" "inp_lifecycle input = mnt_lifecycle request"
    "v2_unwrap_principal context (mnt_lifecycle request) (mnt_unwrap_principal_id request) = Inr (inp_unwrap_principal_id input)"
    "mnr_handle out = v2_handle E (br_handle_hmac_key b) (out_handle_id o1) (mint_caveats request (mnr_expires_at out))"
    "mnr_expires_at out = inp_expires_at input"
    "br_sealed_store b1 = br_sealed_store b3" "br_handle_hmac_key b1 = br_handle_hmac_key b3" "br_crypto b1 = br_crypto b3"
proof -
  from assms obtain e owner o1 b2 b3 token mk md where
    run: "persist_secret_v2_with_lifecycle E context \<lparr>
         inp_plaintext = fill (br_entropy b) 32, inp_customer_id = br_default_customer_id b,
         inp_metadata = md, inp_created_at = br_clock b 0, inp_expires_at = fst e,
         inp_lifecycle = mnt_lifecycle request, inp_initial_lease_seconds = mnt_initial_lease_seconds request,
         inp_unwrap_principal_id = owner \<rparr> (spend 32 (tick 1 b)) = (Inr o1, b2)"
    and owner: "v2_unwrap_principal context (mnt_lifecycle request) (mnt_unwrap_principal_id request) = Inr owner"
    and tok: "mint_redeem_token E C rnd request o1 (unwrap_or (mnt_threshold request) 1) (unwrap_or (mnt_num_shares request) 1) b2 =
       (Inr token, b3)"
    and log: "log_event E context mk b3 = (Inr (), b1)"
    and out: "out = \<lparr> mnr_handle = v2_handle E (br_handle_hmac_key b) (out_handle_id o1) (mint_caveats request (fst e)),
       mnr_key = b64_encode E (fill (br_entropy b) 32), mnr_expires_at = fst e, mnr_redeem_token = token,
       mnr_redeem_token_expires_at = out_redeem_token_expires_at o1 \<rparr>"
    unfolding mint_aead_key_v2_impl_def Let_def
    by (simp only: run_simps sbind_Inr_iff [where m = "persist_secret_v2_with_lifecycle E c i" for c i]
          sbind_Inr_iff [where m = "mint_redeem_token E C rnd q o1 n m" for q o1 n m] prod.case
          source_fields sret_iff map_err_Inr_iff sum.inject split_beta fst_conv snd_conv)
       (elim exE conjE, fastforce)
  from log_event_ok [of E "context" mk b3] log have "br_sealed_store b1 = br_sealed_store b3"
    "br_handle_hmac_key b1 = br_handle_hmac_key b3" "br_crypto b1 = br_crypto b3" by auto
  with run owner tok out that show thesis by fastforce
qed

text \<open>Presenting a handle that verifies, for a record whose token has been split.\<close>

lemma quorum_unwraps:
  assumes laws: "crypto_laws E" "store_laws E" "store_available E" "p256_laws C"
    and mac: "parse_handle_v2 E (unw_handle p) = Inr mac"
      "verify E (macaroon_root_key E (br_handle_hmac_key b) (mac_identifier mac)) (unwrap_verifier p (br_clock b 1) []) mac = Inr ()"
    and view: "view E (br_sealed_store b) (mac_identifier mac) =
      Some (set_threshold k (map (b64_encode E) (split_commitments res)) r)"
    and checks: "check_record E r context (br_clock b 2) = Inr ()" "check_envelope E r = Inr ()"
      "expected_redeem_token E (br_handle_hmac_key b) (mac_identifier mac) r context (br_clock b 2) = Inr token"
      "check_exporter E r context = Inr xs" "discharge_keys_for_record E r = Inr []"
      "ciphertext_bytes E r = Inr ct" "kem_ciphertext_bytes E r = Inr kem"
      "pqc_opens E (br_crypto b) (env_envelope_key_id (rec_envelope r)) ct kem plain"
    and split: "split C rnd token k n = Inr res" "length token = 32" "1 < k"
    and shares: "shares_from_json E (unw_redeem_token p) = Inr ss" "set ss \<subseteq> set (split_shares res)"
  shows "if unat k \<le> length ss \<and> distinct (map share_x ss)
    then \<exists>b'. unwrap_secret_v2_impl E C context p b = (Inr (b64_encode E plain), b')
    else \<exists>e b'. unwrap_secret_v2_impl E C context p b = (Inl e, b')"
proof -
  let ?r = "set_threshold k (map (b64_encode E) (split_commitments res)) r"
  have "b64_lossless E" using laws(2) by (simp add: store_laws_def)
  from quorum_token [OF laws(4) this checks(3) split(2,1,3) shares]
  have tok: "check_redeem_token E C (br_handle_hmac_key b) (mac_identifier mac) ?r context (br_clock b 2) (unw_redeem_token p) = Inr ()
    \<longleftrightarrow> unat k \<le> length ss \<and> distinct (map share_x ss)" .
  show ?thesis
  proof (cases "unat k \<le> length ss \<and> distinct (map share_x ss)")
    case True
    then show ?thesis
      using unwrap_run [OF laws(1-3) mac(1) view _ mac(2), of "context" C xs ct kem plain] checks tok by simp
  next
    case False
    have "unwrap_secret_v2_impl E C context p b \<noteq> (Inr out, b')" for out b'
    proof
      assume "unwrap_secret_v2_impl E C context p b = (Inr out, b')"
      then have "check_redeem_token E C (br_handle_hmac_key b) (mac_identifier mac) ?r context (br_clock b 2) (unw_redeem_token p) = Inr ()"
        by (rule unwrap_ok [OF laws(2)]) (use mac(1) view in simp)
      with tok False show False by blast
    qed
    with False show ?thesis by (metis old.sum.exhaust surj_pair)
  qed
qed

text \<open>\<open>serde_json\<close> reads the shares it has printed.\<close>

definition shares_json_lossless :: "'z broker_ext_scheme \<Rightarrow> bool" where
  "shares_json_lossless E \<longleftrightarrow> (\<forall>ss t. shares_to_json E ss = Inr t \<longrightarrow> shares_from_json E t = Inr ss)"

lemma mint_threshold_ok:
  assumes laws: "crypto_laws E" "store_laws E" and run: "mint_aead_key_v2_impl E C rnd context request b = (Inr out, b1)"
    and mode: "mnt_threshold request = Some k" "1 < k" "mnt_custodian_ids request = []" "mnt_unwrap_principal_id request = None"
  obtains input o1 r shares token res where
    "mnr_key out = b64_encode E (inp_plaintext input)" "mnr_expires_at out = inp_expires_at input"
    "v2_unwrap_principal context (inp_lifecycle input) None = Inr (inp_unwrap_principal_id input)"
    "mnr_handle out = v2_handle E (br_handle_hmac_key b1) (out_handle_id o1) (mint_caveats request (mnr_expires_at out))"
    "length (out_handle_id o1) = 16" "seals E (br_handle_hmac_key b1) (br_crypto b1) context input o1 r"
    "b64_decode E (out_redeem_token o1) = Some token" "length token = 32"
    "split C rnd token k (unwrap_or (mnt_num_shares request) 1) = Inr res" "shares_to_json E (split_shares res) = Inr (mnr_redeem_token out)"
    "view E (br_sealed_store b1) (out_handle_id o1) = Some (set_threshold k (map (b64_encode E) (split_commitments res)) r)"
proof -
  from run obtain input o1 b2 b3 where p: "persist_secret_v2_with_lifecycle E context input (spend 32 (tick 1 b)) = (Inr o1, b2)"
    and tok: "mint_redeem_token E C rnd request o1 k (unwrap_or (mnt_num_shares request) 1) b2 = (Inr (mnr_redeem_token out), b3)"
    and i: "mnr_key out = b64_encode E (inp_plaintext input)" "mnr_expires_at out = inp_expires_at input"
      "v2_unwrap_principal context (inp_lifecycle input) None = Inr (inp_unwrap_principal_id input)"
    and o: "mnr_handle out = v2_handle E (br_handle_hmac_key b) (out_handle_id o1) (mint_caveats request (mnr_expires_at out))"
    and b1: "br_sealed_store b1 = br_sealed_store b3" "br_handle_hmac_key b1 = br_handle_hmac_key b3" "br_crypto b1 = br_crypto b3"
    by (rule mint_ok) (simp add: mode unwrap_or_def)
  from p obtain r where h: "out_handle_id o1 = uuid_v4 E (fill (skip 32 (br_entropy b)) 16)"
    and v: "view E (br_sealed_store b2) (out_handle_id o1) = Some r"
    and seals: "seals E (br_handle_hmac_key b) (br_crypto b2) context input o1 r" and key: "br_handle_hmac_key b2 = br_handle_hmac_key b"
    by (rule persist_ok [OF laws]) simp
  from tok obtain shares where sp: "split_redeem_token E C rnd (out_handle_id o1) (out_redeem_token o1) k
      (unwrap_or (mnt_num_shares request) 1) b2 = (Inr shares, b3)" and json: "shares_to_json E shares = Inr (mnr_redeem_token out)"
    using mode(2,3) by (auto simp: mint_redeem_token_def sbind_Inr_iff slift_iff result_simps)
  from sp obtain token res where t: "b64_decode E (out_redeem_token o1) = Some token" "length token = 32"
      "split C rnd token k (unwrap_or (mnt_num_shares request) 1) = Inr res" "shares = split_shares res"
    and v3: "view E (br_sealed_store b3) (out_handle_id o1) = Some (set_threshold k (map (b64_encode E) (split_commitments res)) r)"
    and b3: "br_handle_hmac_key b3 = br_handle_hmac_key b" "br_crypto b3 = br_crypto b2"
    by (rule split_token_ok [OF laws(2)]) (simp add: v key)
  have "length (out_handle_id o1) = 16" using laws(1) h by (simp add: crypto_laws_def)
  then show thesis using that [OF i _ _ _ t(1-3)] o seals json t(4) v3 b1 b3 by simp
qed

lemma mint_then_unwrap:
  assumes laws: "crypto_laws E" "store_laws E" "store_available E" "digest_laws E" "b64_alphabet E"
      "b64url_lossless E" "b64url_alphabet E" "shares_json_lossless E" "p256_laws C"
    and run: "mint_aead_key_v2_impl E C rnd context request b = (Inr out, b1)"
    and mode: "mnt_threshold request = Some k" "1 < k" "mnt_custodian_ids request = []"
    and owner: "mnt_unwrap_principal_id request = None" "\<forall>c. ctx_peer_cert_sha256 context = Some c \<longrightarrow> c \<noteq> []"
    and caveats: "printable_caveats E (mint_caveats request (mnr_expires_at out))"
  obtains mac r shares where "parse_handle_v2 E (mnr_handle out) = Inr mac"
    "view E (br_sealed_store b1) (mac_identifier mac) = Some r" "shares_to_json E shares = Inr (mnr_redeem_token out)"
    "map (unat \<circ> share_x) shares = [1..<Suc (unat (unwrap_or (mnt_num_shares request) 1))]"
    "\<And>clock ss t. in_time r (clock 1) \<Longrightarrow> in_time r (clock 2) \<Longrightarrow> set ss \<subseteq> set shares \<Longrightarrow> shares_to_json E ss = Inr t \<Longrightarrow>
       (if unat k \<le> length ss \<and> distinct (map share_x ss)
        then \<exists>b2. unwrap_secret_v2_impl E C context (holder_request request out t) (b1\<lparr> br_clock := clock \<rparr>) = (Inr (mnr_key out), b2)
        else \<exists>e b2. unwrap_secret_v2_impl E C context (holder_request request out t) (b1\<lparr> br_clock := clock \<rparr>) = (Inl e, b2))"
proof -
  from run obtain input o1 r token res where i: "mnr_key out = b64_encode E (inp_plaintext input)" "mnr_expires_at out = inp_expires_at input"
      "v2_unwrap_principal context (inp_lifecycle input) None = Inr (inp_unwrap_principal_id input)"
    and o: "mnr_handle out = v2_handle E (br_handle_hmac_key b1) (out_handle_id o1) (mint_caveats request (mnr_expires_at out))"
      "length (out_handle_id o1) = 16" and seals: "seals E (br_handle_hmac_key b1) (br_crypto b1) context input o1 r"
    and t: "b64_decode E (out_redeem_token o1) = Some token" "length token = 32"
      "split C rnd token k (unwrap_or (mnt_num_shares request) 1) = Inr res"
    and json: "shares_to_json E (split_shares res) = Inr (mnr_redeem_token out)"
    and v: "view E (br_sealed_store b1) (out_handle_id o1) = Some (set_threshold k (map (b64_encode E) (split_commitments res)) r)"
    by (rule mint_threshold_ok [OF laws(1,2) _ mode owner(1)])
  define mac where "mac = mint E (macaroon_root_key E (br_handle_hmac_key b1) (out_handle_id o1)) (out_handle_id o1)
    (mint_caveats request (mnr_expires_at out))"
  have b64: "b64_lossless E" using laws(2) by (simp add: store_laws_def)
  then have mac: "parse_handle_v2 E (mnr_handle out) = Inr mac" "mac_identifier mac = out_handle_id o1"
    using v2_handle_parses [OF laws(4) _ laws(5) o(2) caveats] o(1) by (simp_all add: mac_def)
  have r: "rec_expires_at r = mnr_expires_at out" "rec_threshold r = None" using seals i(2) by (auto simp: seals_def sealed_entry_def)
  show thesis
  proof (rule that [OF mac(1) _ json])
    show "view E (br_sealed_store b1) (mac_identifier mac) = Some (set_threshold k (map (b64_encode E) (split_commitments res)) r)"
      using v mac(2) by simp
    show "map (unat \<circ> share_x) (split_shares res) = [1..<Suc (unat (unwrap_or (mnt_num_shares request) 1))]"
      using split_positions [OF t(3)] .
    fix clock :: "nat \<Rightarrow> instant" and ss j
    assume time: "in_time (set_threshold k (map (b64_encode E) (split_commitments res)) r) (clock 1)"
        "in_time (set_threshold k (map (b64_encode E) (split_commitments res)) r) (clock 2)"
      and ss: "set ss \<subseteq> set (split_shares res)" "shares_to_json E ss = Inr j"
    have "verify E (macaroon_root_key E (br_handle_hmac_key b1) (mac_identifier mac))
        (unwrap_verifier (holder_request request out j) (clock 1) []) mac = Inr ()"
      unfolding mac(2) unfolding mac_def
      by (rule minted_verifies [OF laws(6,7) caveats])
         (use time(1) r in \<open>auto simp: in_time_def intro!: holder_satisfies [of "mnr_expires_at out"]\<close>)
    moreover have "shares_from_json E j = Inr ss" using ss(2) laws(8) by (simp add: shares_json_lossless_def)
    moreover note passes = sealed_passes [OF laws(4,5) b64 owner(2) i(3) seals time(2) [simplified], where C = C]
    moreover have "expected_redeem_token E (br_handle_hmac_key b1) (out_handle_id o1) r context (clock 2) = Inr token"
      using passes by (intro single_token_expected [OF _ r(2) t(1)]) blast
    ultimately show "if unat k \<le> length ss \<and> distinct (map share_x ss)
        then \<exists>b2. unwrap_secret_v2_impl E C context (holder_request request out j) (b1\<lparr> br_clock := clock \<rparr>) = (Inr (mnr_key out), b2)
        else \<exists>e b2. unwrap_secret_v2_impl E C context (holder_request request out j) (b1\<lparr> br_clock := clock \<rparr>) = (Inl e, b2)"
      unfolding i(1) using mac v t ss mode(2)
      by (elim conjE exE, intro quorum_unwraps [OF laws(1-3,9), where mac = mac and r = r and rnd = rnd and token = token])
         (simp_all add: holder_request_def)
  qed
qed

section \<open>A concrete instance\<close>

definition sample_mint :: MintV2Request where
  "sample_mint = \<lparr> mnt_ttl_seconds = None, mnt_label = None, mnt_tenant_id = None, mnt_provider = None,
     mnt_threshold = Some 2, mnt_num_shares = Some 3, mnt_lifecycle = SingleUseUnwrap, mnt_initial_lease_seconds = None,
     mnt_custodian_ids = [], mnt_unwrap_principal_id = None \<rparr>"

lemma sample_mint_fields:
  "mnt_ttl_seconds sample_mint = None" "mnt_label sample_mint = None" "mnt_threshold sample_mint = Some 2"
  "mnt_num_shares sample_mint = Some 3" "mnt_lifecycle sample_mint = SingleUseUnwrap"
  "mnt_initial_lease_seconds sample_mint = None" "mnt_custodian_ids sample_mint = []" "mnt_unwrap_principal_id sample_mint = None"
  by (simp_all add: sample_mint_def)

lemma split_token_run:
  assumes "store_laws E" "store_available E" "view E (br_sealed_store b) h = Some r"
    and "b64_decode E t = Some token" "length token = 32" "1 \<le> k" "k \<le> n"
  obtains shares b' where "split_redeem_token E C rnd h t k n b = (Inr shares, b')"
proof -
  obtain res where res: "split C rnd token k n = Inr res" using assms(6,7) by (simp add: split_Inr_iff)
  obtain s where "update_threshold_config E (fill (br_entropy b) 12) h k (map (b64_encode E) (split_commitments res))
      (br_sealed_store b) = (Inr (), s)"
    unfolding update_threshold_config_def
    by (rule modify_available [where f = "\<lambda>r. Inr ((), set_threshold k (map (b64_encode E) (split_commitments res)) r)",
          OF assms(1-3) refl])
  then have "on_store (\<lambda>m. update_threshold_config E m h k (map (b64_encode E) (split_commitments res))) b =
      (Inr (), (spend 12 b)\<lparr> br_sealed_store := s \<rparr>)"
    by (simp add: on_store_draw split_rng_def sbind_def smap_err_def szoom_def spend_def)
  with that assms(4,5) res show thesis by (simp add: split_redeem_token_def sbind_step(1) sret_def ensure_def)
qed

lemma seals_token:
  assumes "digest_laws E" "b64_lossless E" "seals E key crypto context input o1 r"
  obtains token where "b64_decode E (out_redeem_token o1) = Some token" "length token = 32"
proof -
  from assms(3) obtain binding nonce where
    "out_redeem_token o1 = b64_encode E (compute_redeem_token E key (out_handle_id o1) binding nonce)" by (auto simp: seals_def)
  with assms(1,2) that show thesis by (simp add: b64_lossless_def compute_redeem_token_def digest_laws_def hmac_32_def)
qed

lemma sample_persists:
  obtains o1 b2 r where "persist_secret_v2_with_lifecycle sample_env sample_context \<lparr> inp_plaintext = plain,
       inp_customer_id = ''default'', inp_metadata = md, inp_created_at = 0, inp_expires_at = None, inp_lifecycle = l,
       inp_initial_lease_seconds = None, inp_unwrap_principal_id = owner \<rparr> (spend n (tick 1 sample_broker)) = (Inr o1, b2)"
    "view sample_env (br_sealed_store b2) (out_handle_id o1) = Some r"
    "\<And>k m rnd. 1 \<le> k \<Longrightarrow> k \<le> m \<Longrightarrow>
       \<exists>shares b3. split_redeem_token sample_env gf_curve rnd (out_handle_id o1) (out_redeem_token o1) k m b2 = (Inr shares, b3)"
proof -
  let ?input = "\<lparr> inp_plaintext = plain, inp_customer_id = ''default'', inp_metadata = md, inp_created_at = 0,
     inp_expires_at = None, inp_lifecycle = l, inp_initial_lease_seconds = None, inp_unwrap_principal_id = owner \<rparr>"
  let ?b = "spend n (tick 1 sample_broker)"
  have "ready sample_env ''default'' ?b"
    using ready_tick [OF sample_ready, of 1] by (simp add: ready_def Let_def)
  then obtain o1 b2 where p: "persist_secret_v2_with_lifecycle sample_env sample_context ?input ?b = (Inr o1, b2)"
    using persist_run [of sample_env ?input ?b "86400 * nanos_per_sec" sample_context]
    by (auto simp: sample_broker_def sample_env_fields sample_ext_def representable_def chrono_min_secs_def chrono_max_secs_def)
  from p obtain r where v: "view sample_env (br_sealed_store b2) (out_handle_id o1) = Some r"
    and s: "seals sample_env (br_handle_hmac_key ?b) (br_crypto b2) sample_context ?input o1 r"
    by (rule persist_ok [OF sample_env_laws(1,3)]) simp
  have "b64_lossless sample_env" using sample_env_laws(3) by (simp add: store_laws_def)
  then obtain token where t: "b64_decode sample_env (out_redeem_token o1) = Some token" "length token = 32"
    by (rule seals_token [OF sample_env_laws(5) _ s])
  have "\<exists>shares b3. split_redeem_token sample_env gf_curve rnd (out_handle_id o1) (out_redeem_token o1) k m b2 = (Inr shares, b3)"
    if "1 \<le> k" "k \<le> m" for k m rnd
    by (rule split_token_run [OF sample_env_laws(3,4) v t that]) blast
  then show thesis by (rule that [OF p v])
qed

lemma sample_owner: "v2_unwrap_principal sample_context l None = Inr (Some ''spiffe://t/a'')"
  by (cases l) (simp_all add: v2_unwrap_principal_def sample_context_facts normalized_context_principal_def trimmed_def [of None])

lemma sample_mints:
  obtains out b1 where "mint_aead_key_v2_impl sample_env gf_curve (\<lambda>_. 5) sample_context sample_mint sample_broker = (Inr out, b1)"
    "mnr_expires_at out = None"
proof -
  obtain o1 b2 where
    p: "persist_secret_v2_with_lifecycle sample_env sample_context \<lparr> inp_plaintext = fill (br_entropy sample_broker) 32,
       inp_customer_id = ''default'', inp_metadata = Some (JObject [(''purpose'', JString ''aead-key''), (''handle_version'', JInt 2)]),
       inp_created_at = 0, inp_expires_at = None, inp_lifecycle = SingleUseUnwrap,
       inp_initial_lease_seconds = None, inp_unwrap_principal_id = Some ''spiffe://t/a'' \<rparr> (spend 32 (tick 1 sample_broker)) = (Inr o1, b2)"
    and split: "\<And>k m rnd. 1 \<le> k \<Longrightarrow> k \<le> m \<Longrightarrow>
       \<exists>shares b3. split_redeem_token sample_env gf_curve rnd (out_handle_id o1) (out_redeem_token o1) k m b2 = (Inr shares, b3)"
    by (rule sample_persists) blast
  obtain shares b3 where s: "split_redeem_token sample_env gf_curve (\<lambda>_. 5) (out_handle_id o1) (out_redeem_token o1) 2 3 b2 = (Inr shares, b3)"
    using split [of 2 3 "\<lambda>_. 5"] by auto
  obtain j where j: "shares_to_json sample_env shares = Inr j" by (simp add: sample_env_defs)
  have tok: "mint_redeem_token sample_env gf_curve (\<lambda>_. 5) sample_mint o1 2 3 b2 = (Inr j, b3)"
    using s j by (simp add: mint_redeem_token_def sample_mint_def sbind_step(1) slift_def)
  have broker: "br_clock sample_broker 0 = 0" "br_default_customer_id sample_broker = ''default''" by (simp_all add: sample_broker_def)
  show thesis
    using that sample_owner [of SingleUseUnwrap] p tok broker
    by (simp add: mint_aead_key_v2_impl_def run_sources Let_def sbind_step(1) sret_def enforce_ttl_def sample_mint_fields
        unwrap_or_def insert_some_def trimmed_def run_log)
qed

lemma sample_shares_json: "shares_json_lossless sample_env" "is_ok (shares_to_json sample_env ss)"
proof -
  have "faithful (c_list c_share)" unfolding c_share_def c_bytes_def by (intro faithful_intros faithful_iso) simp
  then show "shares_json_lossless sample_env" "is_ok (shares_to_json sample_env ss)"
    by (auto simp: shares_json_lossless_def sample_env_defs hex_decode_encode codec_parse_print is_ok_iff)
qed

lemma sample_mint_caveats: "printable_caveats sample_env (mint_caveats sample_mint None)"
  by (simp add: printable_caveats_def mint_caveats_def sample_mint_def caveat_some_def wf_str_def)

section \<open>Properties\<close>

text \<open>C7 (a quorum of the shares of a minted key unwraps it, and nothing less).  After a key was minted with a
  threshold above one and without custodians, the redeem token returned is the list of the requested number of
  shares, at the positions 1, 2, and so on.  Presented before the deadlines of the record by the caller the key
  was minted for, any selection of the shares unwraps the handle to the minted key when it has at least the
  threshold number of shares and no share twice, and fails otherwise.\<close>

theorem minted_quorum_unwraps:
  assumes "crypto_laws E" "store_laws E" "store_available E" "digest_laws E" "b64_alphabet E"
      "b64url_lossless E" "b64url_alphabet E" "shares_json_lossless E" "p256_laws C"
    and "mint_aead_key_v2_impl E C rnd context request b = (Inr out, b1)"
    and "mnt_threshold request = Some k" "1 < k" "mnt_custodian_ids request = []"
    and "mnt_unwrap_principal_id request = None" "\<forall>c. ctx_peer_cert_sha256 context = Some c \<longrightarrow> c \<noteq> []"
    and "printable_caveats E (mint_caveats request (mnr_expires_at out))"
  shows "\<exists>mac r shares. parse_handle_v2 E (mnr_handle out) = Inr mac \<and> view E (br_sealed_store b1) (mac_identifier mac) = Some r \<and>
    shares_to_json E shares = Inr (mnr_redeem_token out) \<and>
    map (unat \<circ> share_x) shares = [1..<Suc (unat (unwrap_or (mnt_num_shares request) 1))] \<and>
    (\<forall>clock ss t. in_time r (clock 1) \<longrightarrow> in_time r (clock 2) \<longrightarrow> set ss \<subseteq> set shares \<longrightarrow> shares_to_json E ss = Inr t \<longrightarrow>
      (if unat k \<le> length ss \<and> distinct (map share_x ss)
       then \<exists>b2. unwrap_secret_v2_impl E C context (holder_request request out t) (b1\<lparr> br_clock := clock \<rparr>) = (Inr (mnr_key out), b2)
       else \<exists>e b2. unwrap_secret_v2_impl E C context (holder_request request out t) (b1\<lparr> br_clock := clock \<rparr>) = (Inl e, b2)))"
  by (rule mint_then_unwrap [OF assms]) blast

theorem minted_quorum_unwraps_witness:
  "\<exists>out b1 s1 s2 s3 t1 t2 clock b2 e b3.
     mint_aead_key_v2_impl sample_env gf_curve (\<lambda>_. 5) sample_context sample_mint sample_broker = (Inr out, b1) \<and>
     shares_to_json sample_env [s1, s2, s3] = Inr (mnr_redeem_token out) \<and> shares_to_json sample_env [s3, s1] = Inr t1 \<and>
     unwrap_secret_v2_impl sample_env gf_curve sample_context (holder_request sample_mint out t1) (b1\<lparr> br_clock := clock \<rparr>) =
       (Inr (mnr_key out), b2) \<and>
     shares_to_json sample_env [s2] = Inr t2 \<and>
     unwrap_secret_v2_impl sample_env gf_curve sample_context (holder_request sample_mint out t2) (b1\<lparr> br_clock := clock \<rparr>) = (Inl e, b3)"
proof -
  obtain out b1 where m: "mint_aead_key_v2_impl sample_env gf_curve (\<lambda>_. 5) sample_context sample_mint sample_broker = (Inr out, b1)"
    "mnr_expires_at out = None" by (rule sample_mints)
  have "\<forall>c. ctx_peer_cert_sha256 sample_context = Some c \<longrightarrow> c \<noteq> []" by (simp add: sample_context_facts)
  moreover have "printable_caveats sample_env (mint_caveats sample_mint (mnr_expires_at out))"
    using sample_mint_caveats m(2) by simp
  ultimately obtain r shares where s: "shares_to_json sample_env shares = Inr (mnr_redeem_token out)"
      "map (unat \<circ> share_x) shares = [1..<Suc (unat (unwrap_or (mnt_num_shares sample_mint) 1))]"
    and u: "\<forall>clock ss t. in_time r (clock 1) \<longrightarrow> in_time r (clock 2) \<longrightarrow> set ss \<subseteq> set shares \<longrightarrow> shares_to_json sample_env ss = Inr t \<longrightarrow>
      (if unat (2 :: byte) \<le> length ss \<and> distinct (map share_x ss)
       then \<exists>b2. unwrap_secret_v2_impl sample_env gf_curve sample_context (holder_request sample_mint out t) (b1\<lparr> br_clock := clock \<rparr>) = (Inr (mnr_key out), b2)
       else \<exists>e b2. unwrap_secret_v2_impl sample_env gf_curve sample_context (holder_request sample_mint out t) (b1\<lparr> br_clock := clock \<rparr>) = (Inl e, b2))"
    using minted_quorum_unwraps [OF sample_env_laws(1,3-8) sample_shares_json(1) gf_curve_laws m(1) sample_mint_fields(3) _ sample_mint_fields(7,8)]
    by auto
  from s(2) have "map (unat \<circ> share_x) shares = [1, 2, 3]" by (simp add: sample_mint_fields unwrap_or_def upt_rec)
  then obtain s1 s2 s3 where ss: "shares = [s1, s2, s3]" "unat (share_x s1) = 1" "unat (share_x s3) = 3"
    by (auto simp: map_eq_Cons_conv)
  obtain t where t: "in_time r t" using in_time_exists by blast
  obtain t1 t2 where "shares_to_json sample_env [s3, s1] = Inr t1" "shares_to_json sample_env [s2] = Inr t2"
    using sample_shares_json(2) unfolding is_ok_iff by blast
  moreover from this u [rule_format, of "\<lambda>_. t" "[s3, s1]" t1] u [rule_format, of "\<lambda>_. t" "[s2]" t2] ss t
  have "\<exists>b2. unwrap_secret_v2_impl sample_env gf_curve sample_context (holder_request sample_mint out t1) (b1\<lparr> br_clock := \<lambda>_. t \<rparr>) = (Inr (mnr_key out), b2)"
    "\<exists>e b3. unwrap_secret_v2_impl sample_env gf_curve sample_context (holder_request sample_mint out t2) (b1\<lparr> br_clock := \<lambda>_. t \<rparr>) = (Inl e, b3)"
    by (auto split: if_splits)
  ultimately show ?thesis using m(1) s(1) ss(1) by blast
qed

end
