(* ===== verification/Custody.thy ===== *)
theory Custody
  imports Quorum
begin

text \<open>
  Shares held by the broker for custodians (\<open>mint_aead_key_v2_impl\<close> with custodians, \<open>claim_share_impl\<close>,
  \<open>validate_combine_shares_custody\<close> and \<open>combine_shares_impl\<close> of \<open>secret_broker_impl/handlers.rs\<close>): the shares are
  combined only when enough custodians have claimed theirs, and then the key is recovered.
\<close>

section \<open>What the custody check accepts\<close>

text \<open>A custodian's share is in order: the custodian has an assignment, has claimed it, and the share is the one
  the broker holds for that assignment.\<close>

definition in_custody :: "'z ext_scheme \<Rightarrow> ShareAssignment list \<Rightarrow> HeldShare list \<Rightarrow> string \<Rightarrow> Share \<Rightarrow> bool" where
  "in_custody E assignments held custodian s \<longleftrightarrow>
     (\<exists>a h. find (\<lambda>a. asg_custodian_id a = custodian) assignments = Some a \<and> asg_claimed a \<and> asg_share_index a = share_x s \<and>
        find (\<lambda>h. held_x h = share_x s) held = Some h \<and> b64_decode E (held_y_b64 h) = Some (share_y s))"

lemma custody_loop_iff:
  "custody_loop E assignments held seen ps = Inr validated \<longleftrightarrow>
     validated = map snd ps \<and> (\<forall>(custodian, s) \<in> set ps. in_custody E assignments held custodian s) \<and>
     distinct (map (share_x \<circ> snd) ps) \<and> (share_x \<circ> snd) ` set ps \<inter> set seen = {}"
proof (induction ps arbitrary: seen validated)
  case Nil
  then show ?case by auto
next
  case (Cons p ps)
  obtain custodian s where p: "p = (custodian, s)" by fastforce
  have "custody_loop E assignments held seen (p # ps) = Inr validated \<longleftrightarrow>
    in_custody E assignments held custodian s \<and> share_x s \<notin> set seen \<and>
    (\<exists>vs. custody_loop E assignments held (share_x s # seen) ps = Inr vs \<and> validated = s # vs)"
    unfolding p in_custody_def custody_loop.simps result_simps by auto
  then show ?case unfolding Cons.IH p by (auto simp: comp_def simp del: custody_loop.simps)
qed

lemma validate_custody_iff:
  "validate_combine_shares_custody E r req = Inr validated \<longleftrightarrow>
     validated = cmb_shares req \<and> length (cmb_custodian_ids req) = length (cmb_shares req) \<and> distinct (cmb_custodian_ids req) \<and>
     (\<forall>c \<in> set (cmb_custodian_ids req). trim c \<noteq> []) \<and> distinct (map share_x (cmb_shares req)) \<and>
     (\<forall>k. rec_threshold r = Some k \<longrightarrow> unat k \<le> length (cmb_shares req)) \<and>
     (\<exists>assignments held. rec_share_assignments r = Some assignments \<and> rec_held_shares r = Some held \<and>
        list_all2 (in_custody E assignments held) (cmb_custodian_ids req) (cmb_shares req))"
proof (cases "length (cmb_custodian_ids req) = length (cmb_shares req)")
  case True
  then have zip: "map snd (zip (cmb_custodian_ids req) (cmb_shares req)) = cmb_shares req"
    "map (share_x \<circ> snd) (zip (cmb_custodian_ids req) (cmb_shares req)) = map share_x (cmb_shares req)"
    by (simp_all add: map_snd_zip flip: map_map)
  have "length (remdups (cmb_custodian_ids req)) = length (cmb_shares req) \<longleftrightarrow> distinct (cmb_custodian_ids req)"
    unfolding True [symmetric] by (metis distinct_card card_distinct length_remdups_card_conv)
  with True show ?thesis
    by (auto simp: validate_combine_shares_custody_def result_simps custody_loop_iff zip list_all2_iff list_ex_iff not_less
        split: option.splits)
qed (simp add: validate_combine_shares_custody_def result_simps)


section \<open>Combining needs custody\<close>

lemma with_context_ok [run_simps]: "with_context msg m b = (Inr x, b') \<longleftrightarrow> m b = (Inr x, b')"
  by (simp add: with_context_def smap_err_Inr_iff)

lemmas context_calls [run_simps] = sbind_Inr_iff [where m = "with_context msg m" for msg m] sbind_Inr_iff [where m = "smap_err g m" for g m]

lemma store_load_existing: "store_load E h b = (Inr (Some r), b1) \<Longrightarrow> load_existing E h b = (Inr r, b1)"
  by (simp add: load_existing_def sbind_def slift_def)

lemma identifier_ok:
  "handle_identifier E raw b = (Inr h, b') \<longleftrightarrow> b' = b \<and> (\<exists>mac. parse_handle_v2 E raw = Inr mac \<and> mac_identifier mac = h \<and>
     verify_signature E (macaroon_root_key E (br_handle_hmac_key b) h) mac = Inr ())"
  by (auto simp: handle_identifier_def run_sources slift_def parse_handle_identifier_def result_simps Let_def)

lemma combine_ok:
  assumes "store_laws E" "combine_shares_impl E C context req b = (Inr plain, b')"
  obtains mac r token b1 b2 out where "parse_handle_v2 E (cmb_handle req) = Inr mac"
    "view E (br_sealed_store b) (mac_identifier mac) = Some r" "validate_combine_shares_custody E r req = Inr (cmb_shares req)"
    "shares_to_json E (cmb_shares req) = Inr token"
    "view E (br_sealed_store b1) (mac_identifier mac) = Some (r\<lparr> rec_last_accessed := Some (br_clock b 0) \<rparr>)"
    "unwrap_secret_v2_impl E C context \<lparr> unw_handle = cmb_handle req, unw_redeem_token = token, unw_tenant_id = cmb_tenant_id req,
       unw_provider = cmb_provider req, unw_circuit_id = None, unw_node_id = None, unw_discharges = [] \<rparr> b1 = (Inr out, b2)"
    "b64_decode E out = Some plain" "br_sealed_store b' = br_sealed_store b2"
proof -
  from assms(2) obtain h r1 b1 shares token out b2 where
    h: "handle_identifier E (cmb_handle req) b = (Inr h, b)"
    and l: "store_load E h b = (Inr (Some r1), b1)"
    and v: "validate_combine_shares_custody E r1 req = Inr shares" and j: "shares_to_json E shares = Inr token"
    and u: "unwrap_secret_v2_impl E C context \<lparr> unw_handle = cmb_handle req, unw_redeem_token = token, unw_tenant_id = cmb_tenant_id req,
       unw_provider = cmb_provider req, unw_circuit_id = None, unw_node_id = None, unw_discharges = [] \<rparr> b1 = (Inr out, b2)"
    and p: "b64_decode E out = Some plain" and b': "br_sealed_store b' = br_sealed_store b2"
    unfolding combine_shares_impl_def
    by (simp only: run_simps sret_iff map_err_Inr_iff ok_or_Inr_iff smap_err_Inr_iff sum.inject)
       (elim exE conjE, fastforce dest: log_event_store identifier_state)
  from h obtain mac where mac: "parse_handle_v2 E (cmb_handle req) = Inr mac" "mac_identifier mac = h"
    by (auto simp: identifier_ok)
  obtain r where r: "view E (br_sealed_store b) h = Some r" "r1 = r\<lparr> rec_last_accessed := Some (br_clock b 0) \<rparr>"
    "view E (br_sealed_store b1) = (view E (br_sealed_store b))(h \<mapsto> r1)"
    by (rule load_existing_ok [OF assms(1) store_load_existing [OF l]])
  have v: "validate_combine_shares_custody E r req = Inr shares" using v r(2) by (simp add: validate_combine_shares_custody_def)
  then have s: "shares = cmb_shares req" by (simp add: validate_custody_iff)
  show thesis by (rule that [OF mac(1) _ v [unfolded s] j [unfolded s] _ u p b']) (use mac(2) r in simp_all)
qed

section \<open>Claiming shares\<close>

lemma check_custody_loads: "check_custody E context h b = (Inr u, b1) \<Longrightarrow> \<exists>found. store_load E h b = (Inr found, b1)"
  by (auto simp: check_custody_def sbind_Inr_iff with_context_ok slift_iff sret_iff split: option.splits)

lemma claim_ok:
  assumes "store_laws E" "claim_share_impl E context handle cid b = (Inr c, b')"
    and "parse_handle_v2 E handle = Inr mac" "view E (br_sealed_store b) (mac_identifier mac) = Some r"
  obtains as held a hs t where "rec_share_assignments r = Some as" "rec_held_shares r = Some held"
    "find (\<lambda>a. asg_custodian_id a = cid) as = Some a" "find (\<lambda>h. held_x h = asg_share_index a) held = Some hs"
    "b64_decode E (held_y_b64 hs) = Some (claim_y c)" "claim_x c = asg_share_index a"
    "view E (br_sealed_store b') (mac_identifier mac) = Some (r\<lparr> rec_last_accessed := t, rec_share_assignments := Some (mark_first cid as) \<rparr>)"
    "br_handle_hmac_key b' = br_handle_hmac_key b" "br_crypto b' = br_crypto b" "cid \<noteq> []" "trim cid = cid"
proof -
  from assms(2) obtain h found b1 b2 mk where
    req: "require_custodian ''authenticated principal is required for claim_share'' context handle cid = Inr ()"
    and h: "handle_identifier E handle b = (Inr h, b)"
    and l: "store_load E h b = (Inr found, b1)"
    and cl: "on_store (\<lambda>n. claim_custodian_share E n h cid) b1 = (Inr c, b2)"
    and lg: "log_event E context mk b2 = (Inr (), b')"
    unfolding claim_share_impl_def
    by (simp only: run_simps sbind_Inr_iff [where m = "check_custody E c h" for c h] sret_iff map_err_Inr_iff sum.inject)
       (elim exE conjE, fastforce dest: check_custody_loads identifier_state)
  from h assms(3) have mac: "mac_identifier mac = h" by (auto simp: identifier_ok)
  from l assms(1,4) mac have found: "found = Some (r\<lparr> rec_last_accessed := Some (br_clock b 0) \<rparr>)"
    by (auto simp: store_load_def run_sources dest!: load_ok [rotated -1] elim!: on_store_ok)
  let ?r = "r\<lparr> rec_last_accessed := Some (br_clock b 0) \<rparr>"
  obtain v1: "view E (br_sealed_store b1) h = Some ?r" and b1: "br_handle_hmac_key b1 = br_handle_hmac_key b" "br_crypto b1 = br_crypto b"
    by (rule load_existing_ok [OF assms(1) store_load_existing [OF l [unfolded found]]]) simp
  from cl obtain s where s: "claim_custodian_share E (fill (br_entropy b1) 12) h cid (br_sealed_store b1) = (Inr c, s)"
    "b2 = (spend 12 b1)\<lparr> br_sealed_store := s \<rparr>" by (rule on_store_ok)
  have "nonce_ok (fill (br_entropy b1) 12)" by simp
  from modify_ok [OF assms(1) this s(1) [unfolded claim_custodian_share_def]] v1 s(2) obtain r' where
    c: "claim_record E cid ?r = Inr (c, r')" and v2: "view E (br_sealed_store b2) h = Some r'" by auto
  from log_event_ok [of E "context" mk b2] lg have b': "br_sealed_store b' = br_sealed_store b2"
    "br_handle_hmac_key b' = br_handle_hmac_key b2" "br_crypto b' = br_crypto b2" by auto
  from req have "cid \<noteq> []" "trim cid = cid"
    by (auto simp: require_custodian_def result_simps trimmed_def trim_idem split: option.splits if_splits)
  moreover from c obtain as held a hs where f: "rec_share_assignments r = Some as" "rec_held_shares r = Some held"
    "find (\<lambda>a. asg_custodian_id a = cid) as = Some a" "find (\<lambda>h. held_x h = asg_share_index a) held = Some hs"
    "b64_decode E (held_y_b64 hs) = Some (claim_y c)" "claim_x c = held_x hs"
    "r' = ?r\<lparr> rec_share_assignments := Some (mark_first cid as) \<rparr>"
    by (auto simp: claim_record_def result_simps)
  moreover have "held_x hs = asg_share_index a" using find_SomeD [OF f(4)] by simp
  ultimately show thesis using that [of "as" held a hs "Some (br_clock b 0)"] v2 b' b1 s(2) mac by simp
qed

text \<open>Custodians claim their shares one after the other, each under its own identity; the claimed shares.\<close>

inductive claims :: "'z log_ext_scheme \<Rightarrow> string \<Rightarrow> string list \<Rightarrow> Share list \<Rightarrow> BrokerState \<Rightarrow> BrokerState \<Rightarrow> bool" for E handle where
  claims_none: "claims E handle [] [] b b"
| claims_one: "claim_share_impl E context handle cid b = (Inr c, b1) \<Longrightarrow> claims E handle cids ss b1 b2 \<Longrightarrow>
    claims E handle (cid # cids) (\<lparr> share_x = claim_x c, share_y = claim_y c \<rparr> # ss) b b2"

text \<open>The assignments of a record up to the flags that say which were claimed.\<close>

abbreviation roster :: "ShareAssignment list \<Rightarrow> (string \<times> byte) list" where
  "roster as \<equiv> map (\<lambda>a. (asg_custodian_id a, asg_share_index a)) as"

lemma roster_mark [simp]: "roster (mark_first cid as) = roster as"
  by (induction "as") auto

lemma find_mark_other: "cid \<noteq> cid' \<Longrightarrow> find (\<lambda>a. asg_custodian_id a = cid') (mark_first cid as) = find (\<lambda>a. asg_custodian_id a = cid') as"
  by (induction "as") auto

lemma in_custody_mark: "in_custody E as held cid s \<Longrightarrow> in_custody E (mark_first cid' as) held cid s"
  by (cases "cid' = cid") (auto simp: in_custody_def find_mark_first find_mark_other)

lemma claims_custody:
  assumes "store_laws E" "claims E handle cids ss b b'" "parse_handle_v2 E handle = Inr mac"
    and "view E (br_sealed_store b) (mac_identifier mac) = Some r" "rec_share_assignments r = Some as" "rec_held_shares r = Some held"
  shows "\<exists>t as'. view E (br_sealed_store b') (mac_identifier mac) = Some (r\<lparr> rec_last_accessed := t, rec_share_assignments := Some as' \<rparr>) \<and>
    roster as' = roster as \<and> list_all2 (in_custody E as' held) cids ss \<and> (\<forall>cid s. in_custody E as held cid s \<longrightarrow> in_custody E as' held cid s) \<and>
    (\<forall>cid \<in> set cids. trim cid \<noteq> []) \<and> br_handle_hmac_key b' = br_handle_hmac_key b \<and> br_crypto b' = br_crypto b"
  using assms(2,4,5,6)
proof (induction arbitrary: r "as" rule: claims.induct)
  case (claims_none b)
  then have "r\<lparr> rec_last_accessed := rec_last_accessed r, rec_share_assignments := Some as \<rparr> = r" by (cases r) simp
  with claims_none show ?case by (intro exI [of _ "rec_last_accessed r"] exI [of _ "as"]) simp
next
  case (claims_one ctx cid b c b1 cids ss b2)
  obtain as1 held1 a hs t where same: "rec_share_assignments r = Some as1" "rec_held_shares r = Some held1"
    and f: "find (\<lambda>a. asg_custodian_id a = cid) as1 = Some a" "find (\<lambda>h. held_x h = asg_share_index a) held1 = Some hs"
      "b64_decode E (held_y_b64 hs) = Some (claim_y c)" "claim_x c = asg_share_index a"
    and v: "view E (br_sealed_store b1) (mac_identifier mac) = Some (r\<lparr> rec_last_accessed := t, rec_share_assignments := Some (mark_first cid as1) \<rparr>)"
    and b1: "br_handle_hmac_key b1 = br_handle_hmac_key b" "br_crypto b1 = br_crypto b" and cid: "cid \<noteq> []" "trim cid = cid"
    by (rule claim_ok [OF assms(1) claims_one.hyps(1) assms(3) claims_one.prems(1)])
  with claims_one.prems have [simp]: "as1 = as" "held1 = held" by simp_all
  have own: "in_custody E (mark_first cid as) held cid \<lparr> share_x = claim_x c, share_y = claim_y c \<rparr>"
    using f by (simp add: in_custody_def find_mark_first)
  obtain t' as' where ih:
    "view E (br_sealed_store b2) (mac_identifier mac) = Some (r\<lparr> rec_last_accessed := t', rec_share_assignments := Some as' \<rparr>)"
    "roster as' = roster as" "list_all2 (in_custody E as' held) cids ss"
    "\<forall>d s. in_custody E (mark_first cid as) held d s \<longrightarrow> in_custody E as' held d s"
    "\<forall>cid \<in> set cids. trim cid \<noteq> []" "br_handle_hmac_key b2 = br_handle_hmac_key b1" "br_crypto b2 = br_crypto b1"
    using claims_one.IH [OF v, of "mark_first cid as"] claims_one.prems(3) by auto
  have "in_custody E as' held d s" if "in_custody E as held d s" for d s
    using ih(4) in_custody_mark [OF that] by blast
  moreover have "list_all2 (in_custody E as' held) (cid # cids) (\<lparr> share_x = claim_x c, share_y = claim_y c \<rparr> # ss)"
    using ih(3,4) own by simp
  moreover have "\<forall>d \<in> set (cid # cids). trim d \<noteq> []" using ih(5) cid by simp
  ultimately show ?case
    using ih(1,2) ih(6,7) [unfolded b1] by (intro exI [of _ t'] exI [of _ as'] conjI allI impI)
qed

section \<open>Minting for custodians\<close>

lemma custody_irrelevant [simp]:
  "check_record E (r\<lparr> rec_share_assignments := x \<rparr>) = check_record E r"
  "check_record E (r\<lparr> rec_held_shares := y \<rparr>) = check_record E r"
  "check_envelope E' (r\<lparr> rec_share_assignments := x \<rparr>) = check_envelope E' r"
  "check_envelope E' (r\<lparr> rec_held_shares := y \<rparr>) = check_envelope E' r"
  "expected_redeem_token E key h (r\<lparr> rec_last_accessed := t \<rparr>) = expected_redeem_token E key h r"
  "expected_redeem_token E key h (r\<lparr> rec_share_assignments := x \<rparr>) = expected_redeem_token E key h r"
  "expected_redeem_token E key h (r\<lparr> rec_held_shares := y \<rparr>) = expected_redeem_token E key h r"
  "check_exporter E (r\<lparr> rec_share_assignments := x \<rparr>) = check_exporter E r"
  "check_exporter E (r\<lparr> rec_held_shares := y \<rparr>) = check_exporter E r"
  "discharge_keys_for_record E (r\<lparr> rec_share_assignments := x \<rparr>) = discharge_keys_for_record E r"
  "discharge_keys_for_record E (r\<lparr> rec_held_shares := y \<rparr>) = discharge_keys_for_record E r"
  "ciphertext_bytes E (r\<lparr> rec_share_assignments := x \<rparr>) = ciphertext_bytes E r"
  "ciphertext_bytes E (r\<lparr> rec_held_shares := y \<rparr>) = ciphertext_bytes E r"
  "kem_ciphertext_bytes E (r\<lparr> rec_share_assignments := x \<rparr>) = kem_ciphertext_bytes E r"
  "kem_ciphertext_bytes E (r\<lparr> rec_held_shares := y \<rparr>) = kem_ciphertext_bytes E r"
  by (auto simp: fun_eq_iff check_record_def is_expired_def
      validate_v2_record_identity_requirements_def validate_v2_record_identity_requirements_inner_def validate_lineage_def
      check_envelope_def envelope_bytes_def signature_bytes_def expected_redeem_token_def check_exporter_def
      exporter_binding_bytes_def discharge_keys_for_record_def ciphertext_bytes_def kem_ciphertext_bytes_def
      cong: if_cong option.case_cong)

lemma set_threshold_same:
  "rec_threshold r = Some k \<Longrightarrow> rec_threshold_commitments r = Some cs \<Longrightarrow> set_threshold k cs r = r"
  by (cases r) (simp add: set_threshold_def)

lemma mint_custody_ok:
  assumes laws: "crypto_laws E" "store_laws E" and run: "mint_aead_key_v2_impl E C rnd context request b = (Inr out, b1)"
    and mode: "mnt_threshold request = Some k" "1 < k" "mnt_custodian_ids request \<noteq> []" "mnt_unwrap_principal_id request = None"
  obtains input o1 r token res where
    "mnr_key out = b64_encode E (inp_plaintext input)" "mnr_expires_at out = inp_expires_at input"
    "v2_unwrap_principal context (inp_lifecycle input) None = Inr (inp_unwrap_principal_id input)"
    "mnr_handle out = v2_handle E (br_handle_hmac_key b1) (out_handle_id o1) (mint_caveats request (mnr_expires_at out))"
    "length (out_handle_id o1) = 16" "seals E (br_handle_hmac_key b1) (br_crypto b1) context input o1 r"
    "b64_decode E (out_redeem_token o1) = Some token" "length token = 32"
    "split C rnd token k (unwrap_or (mnt_num_shares request) 1) = Inr res" "mnr_redeem_token out = []"
    "length (mnt_custodian_ids request) = length (split_shares res)"
    "view E (br_sealed_store b1) (out_handle_id o1) = Some (set_shares
       (map (\<lambda>(cid, s). \<lparr> asg_custodian_id = cid, asg_share_index = share_x s, asg_claimed = False \<rparr>)
          (zip (mnt_custodian_ids request) (split_shares res)))
       (map (hold_share E) (split_shares res)) (set_threshold k (map (b64_encode E) (split_commitments res)) r))"
proof -
  let ?n = "unwrap_or (mnt_num_shares request) 1"
  from run obtain input o1 b2 b3 where p: "persist_secret_v2_with_lifecycle E context input (spend 32 (tick 1 b)) = (Inr o1, b2)"
    and tok: "mint_redeem_token E C rnd request o1 k ?n b2 = (Inr (mnr_redeem_token out), b3)"
    and i: "mnr_key out = b64_encode E (inp_plaintext input)" "mnr_expires_at out = inp_expires_at input"
      "v2_unwrap_principal context (inp_lifecycle input) None = Inr (inp_unwrap_principal_id input)"
    and o: "mnr_handle out = v2_handle E (br_handle_hmac_key b) (out_handle_id o1) (mint_caveats request (mnr_expires_at out))"
    and b1: "br_sealed_store b1 = br_sealed_store b3" "br_handle_hmac_key b1 = br_handle_hmac_key b3" "br_crypto b1 = br_crypto b3"
    by (rule mint_ok) (simp add: mode unwrap_or_def)
  from p obtain r where h: "out_handle_id o1 = uuid_v4 E (fill (skip 32 (br_entropy b)) 16)"
    and v: "view E (br_sealed_store b2) (out_handle_id o1) = Some r"
    and seals: "seals E (br_handle_hmac_key b) (br_crypto b2) context input o1 r" and key: "br_handle_hmac_key b2 = br_handle_hmac_key b"
    by (rule persist_ok [OF laws]) simp
  from tok obtain shares b4 as where
    len: "length (mnt_custodian_ids request) = unat ?n"
    and sp: "split_redeem_token E C rnd (out_handle_id o1) (out_redeem_token o1) k ?n b2 = (Inr shares, b4)"
    and as: "assign_shares (mnt_custodian_ids request) shares = (Inr as :: ServiceError stop + _)"
    and up: "on_store (\<lambda>n. update_share_assignments E n (out_handle_id o1) as (map (hold_share E) shares)) b4 = (Inr (), b3)"
    and out: "mnr_redeem_token out = []"
    using mode(2,3) unfolding mint_redeem_token_def Let_def by (auto simp: sbind_Inr_iff slift_iff result_simps sret_iff)
  from sp obtain token res where t: "b64_decode E (out_redeem_token o1) = Some token" "length token = 32"
      "split C rnd token k ?n = Inr res" "shares = split_shares res"
    and v4: "view E (br_sealed_store b4) (out_handle_id o1) = Some (set_threshold k (map (b64_encode E) (split_commitments res)) r)"
    and b4: "br_handle_hmac_key b4 = br_handle_hmac_key b" "br_crypto b4 = br_crypto b2"
    by (rule split_token_ok [OF laws(2)]) (simp add: v key)
  from up obtain s where s: "update_share_assignments E (fill (br_entropy b4) 12) (out_handle_id o1) as (map (hold_share E) shares)
      (br_sealed_store b4) = (Inr (), s)" "b3 = (spend 12 b4)\<lparr> br_sealed_store := s \<rparr>" by (rule on_store_ok)
  have "nonce_ok (fill (br_entropy b4) 12)" by simp
  from modify_ok [OF laws(2) this s(1) [unfolded update_share_assignments_def]] v4
  have "view E (br_sealed_store b1) (out_handle_id o1) =
      Some (set_shares as (map (hold_share E) shares) (set_threshold k (map (b64_encode E) (split_commitments res)) r))"
    using b1(1) s(2) by auto
  moreover have "length (out_handle_id o1) = 16" using laws(1) h by (simp add: crypto_laws_def)
  moreover have "length (mnt_custodian_ids request) = length (split_shares res)"
    using len arg_cong [OF split_positions [OF t(3)], of length] by simp
  ultimately show thesis using that [OF i _ _ _ t(1-3) out] o seals t(4) b1 b4 s(2) as by (simp add: assign_shares_def)
qed

section \<open>Custodians recover the key\<close>

lemma custody_issued:
  assumes "b64_lossless E" "in_custody E as (map (hold_share E) shares) cid s"
  shows "s \<in> set shares"
proof -
  from assms(2) obtain h where h: "find (\<lambda>h. held_x h = share_x s) (map (hold_share E) shares) = Some h"
    "b64_decode E (held_y_b64 h) = Some (share_y s)" by (auto simp: in_custody_def)
  from find_SomeD [OF h(1)] obtain s' where "s' \<in> set shares" "h = hold_share E s'" "share_x s' = share_x s"
    by (auto simp: hold_share_def)
  moreover from this h(2) assms(1) have "s' = s"
    by (intro Share.equality) (simp_all add: hold_share_def b64_lossless_def)
  ultimately show ?thesis by simp
qed

lemma custody_distinct:
  assumes "list_all2 (in_custody E as held) cids ss" "distinct cids" "distinct (map snd (roster as))"
  shows "distinct (map share_x ss)"
  unfolding distinct_conv_nth
proof (intro allI impI)
  fix i j assume ij: "i < length (map share_x ss)" "j < length (map share_x ss)" "i \<noteq> j"
  have len: "length cids = length ss" using assms(1) by (rule list_all2_lengthD)
  have own: "\<exists>a. a \<in> set as \<and> asg_custodian_id a = cids ! i \<and> asg_share_index a = share_x (ss ! i)" if "i < length ss" for i
  proof -
    have "in_custody E as held (cids ! i) (ss ! i)" using list_all2_nthD [OF assms(1), of i] that len by simp
    then obtain a where "find (\<lambda>a. asg_custodian_id a = cids ! i) as = Some a" "asg_share_index a = share_x (ss ! i)"
      unfolding in_custody_def by blast
    then show ?thesis using find_SomeD [of _ "as" a] by blast
  qed
  obtain a c where "a \<in> set as" "asg_custodian_id a = cids ! i" "asg_share_index a = share_x (ss ! i)"
      "c \<in> set as" "asg_custodian_id c = cids ! j" "asg_share_index c = share_x (ss ! j)"
    using own [of i] own [of j] ij by auto
  moreover have "inj_on asg_share_index (set as)" using assms(3) by (simp add: distinct_map comp_def)
  moreover have "cids ! i \<noteq> cids ! j" using assms(2) ij len by (simp add: nth_eq_iff_index_eq)
  ultimately show "map share_x ss ! i \<noteq> map share_x ss ! j" using ij by simp (metis inj_onD)
qed

definition combine_request :: "MintV2Request \<Rightarrow> MintV2Response \<Rightarrow> string list \<Rightarrow> Share list \<Rightarrow> CombineSharesRequest" where
  "combine_request request out cids ss =
     \<lparr> cmb_handle = mnr_handle out, cmb_shares = ss, cmb_tenant_id = mnt_tenant_id request,
       cmb_provider = mnt_provider request, cmb_custodian_ids = cids \<rparr>"

lemma store_load_run:
  assumes "store_laws E" "store_available E" "view E (br_sealed_store b) h = Some r"
  obtains b1 where "store_load E h b = (Inr (Some (r\<lparr> rec_last_accessed := Some (br_clock b 0) \<rparr>)), b1)"
    "view E (br_sealed_store b1) h = Some (r\<lparr> rec_last_accessed := Some (br_clock b 0) \<rparr>)"
    "br_clock b1 = (\<lambda>i. br_clock b (i + 1))" "br_handle_hmac_key b1 = br_handle_hmac_key b" "br_crypto b1 = br_crypto b"
proof -
  obtain b1 where l: "load_existing E h b = (Inr (r\<lparr> rec_last_accessed := Some (br_clock b 0) \<rparr>), b1)"
    by (rule load_existing_run [OF assms])
  then have "store_load E h b = (Inr (Some (r\<lparr> rec_last_accessed := Some (br_clock b 0) \<rparr>)), b1)"
    by (auto simp: load_existing_def sbind_Inr_iff slift_iff ok_or_Inr_iff)
  moreover obtain "view E (br_sealed_store b1) h = Some (r\<lparr> rec_last_accessed := Some (br_clock b 0) \<rparr>)"
    "br_clock b1 = (\<lambda>i. br_clock b (i + 1))" "br_handle_hmac_key b1 = br_handle_hmac_key b" "br_crypto b1 = br_crypto b"
    by (rule load_existing_ok [OF assms(1) l]) simp
  ultimately show thesis by (rule that)
qed

lemma run_context_log: "sbind (with_context msg (log_event E context mk)) f b = f () (snd (log_event E context mk b))"
  using log_event_ok [of E "context" mk b] by (auto simp: sbind_def with_context_def smap_err_def)

lemma combine_run:
  assumes "store_laws E" "store_available E" "b64_lossless E"
    and "parse_handle_v2 E (cmb_handle req) = Inr mac" "verify_signature E (macaroon_root_key E (br_handle_hmac_key b) (mac_identifier mac)) mac = Inr ()"
    and "cmb_handle req \<noteq> []" "cmb_shares req \<noteq> []" "view E (br_sealed_store b) (mac_identifier mac) = Some r"
    and "validate_combine_shares_custody E r req = Inr (cmb_shares req)" "shares_to_json E (cmb_shares req) = Inr token"
    and unwraps: "\<And>b1. view E (br_sealed_store b1) (mac_identifier mac) = Some (r\<lparr> rec_last_accessed := Some (br_clock b 0) \<rparr>) \<Longrightarrow>
      br_clock b1 = (\<lambda>i. br_clock b (i + 1)) \<Longrightarrow> br_handle_hmac_key b1 = br_handle_hmac_key b \<Longrightarrow> br_crypto b1 = br_crypto b \<Longrightarrow>
      \<exists>b2. unwrap_secret_v2_impl E C context \<lparr> unw_handle = cmb_handle req, unw_redeem_token = token, unw_tenant_id = cmb_tenant_id req,
       unw_provider = cmb_provider req, unw_circuit_id = None, unw_node_id = None, unw_discharges = [] \<rparr> b1 = (Inr (b64_encode E plain), b2)"
  shows "\<exists>b'. combine_shares_impl E C context req b = (Inr plain, b')"
proof -
  let ?r = "r\<lparr> rec_last_accessed := Some (br_clock b 0) \<rparr>"
  have id: "handle_identifier E (cmb_handle req) b = (Inr (mac_identifier mac), b)" using assms(4,5) by (auto simp: identifier_ok)
  obtain b1 where l: "store_load E (mac_identifier mac) b = (Inr (Some ?r), b1)"
    and b1: "view E (br_sealed_store b1) (mac_identifier mac) = Some ?r"
      "br_clock b1 = (\<lambda>i. br_clock b (i + 1))" "br_handle_hmac_key b1 = br_handle_hmac_key b" "br_crypto b1 = br_crypto b"
    by (rule store_load_run [OF assms(1,2,8)])
  have v: "validate_combine_shares_custody E ?r req = Inr (cmb_shares req)"
    using assms(9) by (simp add: validate_combine_shares_custody_def)
  have d: "b64_decode E (b64_encode E plain) = Some plain" using assms(3) by (simp add: b64_lossless_def)
  from unwraps [OF b1] obtain b2 where
    "unwrap_secret_v2_impl E C context \<lparr> unw_handle = cmb_handle req, unw_redeem_token = token, unw_tenant_id = cmb_tenant_id req,
       unw_provider = cmb_provider req, unw_circuit_id = None, unw_node_id = None, unw_discharges = [] \<rparr> b1 = (Inr (b64_encode E plain), b2)"
    by blast
  with assms(6,7,10) id l v d show ?thesis
    by (simp add: combine_shares_impl_def run_context_log sbind_step(1) with_context_ok smap_err_Inr_iff slift_def sret_def)
qed

lemma custody_combines:
  assumes laws: "crypto_laws E" "store_laws E" "store_available E" "p256_laws C" "shares_json_lossless E"
    and json: "shares_to_json E ss = Inr token_text"
    and mac: "parse_handle_v2 E (mnr_handle out) = Inr mac" "mnr_handle out \<noteq> []"
      "verify_signature E (macaroon_root_key E (br_handle_hmac_key b) (mac_identifier mac)) mac = Inr ()"
      "verify E (macaroon_root_key E (br_handle_hmac_key b) (mac_identifier mac))
        (unwrap_verifier (holder_request request out token_text) (br_clock b 2) []) mac = Inr ()"
    and view: "view E (br_sealed_store b) (mac_identifier mac) = Some ((set_threshold k (map (b64_encode E) (split_commitments res)) r)
        \<lparr> rec_held_shares := Some (map (hold_share E) (split_shares res)), rec_last_accessed := seen, rec_share_assignments := Some as \<rparr>)"
    and checks: "check_record E r context (br_clock b 3) = Inr ()" "check_envelope E r = Inr ()"
      "expected_redeem_token E (br_handle_hmac_key b) (mac_identifier mac) r context (br_clock b 3) = Inr token"
      "check_exporter E r context = Inr xs" "discharge_keys_for_record E r = Inr []"
      "ciphertext_bytes E r = Inr ct" "kem_ciphertext_bytes E r = Inr kem"
      "pqc_opens E (br_crypto b) (env_envelope_key_id (rec_envelope r)) ct kem plain"
    and split: "split C rnd token k n = Inr res" "length token = 32" "1 < k"
    and custody: "list_all2 (in_custody E as (map (hold_share E) (split_shares res))) cids ss" "distinct cids"
      "\<forall>cid \<in> set cids. trim cid \<noteq> []" "distinct (map snd (roster as))" "unat k \<le> length cids"
  shows "\<exists>b'. combine_shares_impl E C context (combine_request request out cids ss) b = (Inr plain, b')"
proof -
  let ?req = "combine_request request out cids ss" and ?cs = "map (b64_encode E) (split_commitments res)"
  let ?R = "(set_threshold k ?cs r)\<lparr> rec_held_shares := Some (map (hold_share E) (split_shares res)), rec_last_accessed := seen, rec_share_assignments := Some as \<rparr>"
  let ?L = "?R\<lparr> rec_last_accessed := Some (br_clock b 0) \<rparr>"
  have b64: "b64_lossless E" using laws(2) by (simp add: store_laws_def)
  have len: "length cids = length ss" using custody(1) by (rule list_all2_lengthD)
  have dist: "distinct (map share_x ss)" by (rule custody_distinct [OF custody(1,2,4)])
  have "s \<in> set (split_shares res)" if "s \<in> set ss" for s
  proof -
    from that obtain i where "i < length ss" "ss ! i = s" by (auto simp: in_set_conv_nth)
    then show ?thesis using list_all2_nthD2 [OF custody(1)] custody_issued [OF b64] by blast
  qed
  then have issued: "set ss \<subseteq> set (split_shares res)" by blast
  have same: "set_threshold k ?cs ?L = ?L" by (rule set_threshold_same) simp_all
  show ?thesis
  proof (rule combine_run [OF laws(2,3) b64, where mac = mac and r = ?R and token = token_text])
    show "parse_handle_v2 E (cmb_handle ?req) = Inr mac" "cmb_handle ?req \<noteq> []" using mac by (simp_all add: combine_request_def)
    show "cmb_shares ?req \<noteq> []" using custody(5) split(3) len by (auto simp: combine_request_def word_less_nat_alt)
    show "validate_combine_shares_custody E ?R ?req = Inr (cmb_shares ?req)"
      unfolding validate_custody_iff using custody len dist by (simp add: combine_request_def)
    fix b1 :: BrokerState assume "view E (br_sealed_store b1) (mac_identifier mac) = Some ?L" and b1: "br_clock b1 = (\<lambda>i. br_clock b (i + 1))"
      "br_handle_hmac_key b1 = br_handle_hmac_key b" "br_crypto b1 = br_crypto b"
    then have vw: "view E (br_sealed_store b1) (mac_identifier mac) = Some (set_threshold k ?cs ?L)" unfolding same by simp
    have clock: "br_clock b1 (Suc 0) = br_clock b 2" "br_clock b1 2 = br_clock b 3" using b1(1) by (simp_all add: numeral_eq_Suc)
    have "shares_from_json E token_text = Inr ss" using laws(5) json by (simp add: shares_json_lossless_def)
    then have "if unat k \<le> length ss \<and> distinct (map share_x ss)
      then \<exists>b'. unwrap_secret_v2_impl E C context (holder_request request out token_text) b1 = (Inr (b64_encode E plain), b')
      else \<exists>e b'. unwrap_secret_v2_impl E C context (holder_request request out token_text) b1 = (Inl e, b')"
      by (intro quorum_unwraps [OF laws(1-4) _ _ vw, where token = token and xs = xs and ct = ct and kem = kem and n = n and rnd = rnd])
         (use b1(2,3) clock mac checks split issued in \<open>simp_all add: holder_request_def\<close>)
    then show "\<exists>b2. unwrap_secret_v2_impl E C context \<lparr> unw_handle = cmb_handle ?req, unw_redeem_token = token_text,
        unw_tenant_id = cmb_tenant_id ?req, unw_provider = cmb_provider ?req, unw_circuit_id = None, unw_node_id = None,
        unw_discharges = [] \<rparr> b1 = (Inr (b64_encode E plain), b2)"
      using custody(5) len dist by (simp add: holder_request_def combine_request_def)
  qed (use mac view json in \<open>simp_all add: combine_request_def\<close>)
qed

lemma custodians_combine:
  assumes laws: "crypto_laws E" "store_laws E" "store_available E" "digest_laws E" "b64_alphabet E"
      "b64url_lossless E" "b64url_alphabet E" "shares_json_lossless E" "\<forall>ss. is_ok (shares_to_json E ss)" "p256_laws C"
    and run: "mint_aead_key_v2_impl E C rnd context request b = (Inr out, b1)"
    and mode: "mnt_threshold request = Some k" "1 < k" "mnt_custodian_ids request \<noteq> []" "mnt_unwrap_principal_id request = None"
    and owner: "\<forall>c. ctx_peer_cert_sha256 context = Some c \<longrightarrow> c \<noteq> []"
    and caveats: "printable_caveats E (mint_caveats request (mnr_expires_at out))"
    and claimed: "claims E (mnr_handle out) cids ss b1 b2" "distinct cids" "unat k \<le> length cids"
  obtains mac r where "parse_handle_v2 E (mnr_handle out) = Inr mac" "view E (br_sealed_store b1) (mac_identifier mac) = Some r"
    "\<And>clock. in_time r (clock 2) \<Longrightarrow> in_time r (clock 3) \<Longrightarrow>
       \<exists>plain b3. combine_shares_impl E C context (combine_request request out cids ss) (b2\<lparr> br_clock := clock \<rparr>) = (Inr plain, b3) \<and>
         mnr_key out = b64_encode E plain"
proof -
  obtain input o1 r token res where i: "mnr_key out = b64_encode E (inp_plaintext input)" "mnr_expires_at out = inp_expires_at input"
      "v2_unwrap_principal context (inp_lifecycle input) None = Inr (inp_unwrap_principal_id input)"
    and o: "mnr_handle out = v2_handle E (br_handle_hmac_key b1) (out_handle_id o1) (mint_caveats request (mnr_expires_at out))"
      "length (out_handle_id o1) = 16" and seals: "seals E (br_handle_hmac_key b1) (br_crypto b1) context input o1 r"
    and t: "b64_decode E (out_redeem_token o1) = Some token" "length token = 32"
      "split C rnd token k (unwrap_or (mnt_num_shares request) 1) = Inr res"
    and len: "length (mnt_custodian_ids request) = length (split_shares res)"
    and v: "view E (br_sealed_store b1) (out_handle_id o1) = Some (set_shares
       (map (\<lambda>(cid, s). \<lparr> asg_custodian_id = cid, asg_share_index = share_x s, asg_claimed = False \<rparr>)
          (zip (mnt_custodian_ids request) (split_shares res)))
       (map (hold_share E) (split_shares res)) (set_threshold k (map (b64_encode E) (split_commitments res)) r))"
    by (rule mint_custody_ok [OF laws(1,2) run mode])
  define mac where "mac = mint E (macaroon_root_key E (br_handle_hmac_key b1) (out_handle_id o1)) (out_handle_id o1)
    (mint_caveats request (mnr_expires_at out))"
  define cs where "cs = map (b64_encode E) (split_commitments res)"
  define held where "held = map (hold_share E) (split_shares res)"
  define as where "as = map (\<lambda>(cid, s). \<lparr> asg_custodian_id = cid, asg_share_index = share_x s, asg_claimed = False \<rparr>)
          (zip (mnt_custodian_ids request) (split_shares res))"
  have b64: "b64_lossless E" using laws(2) by (simp add: store_laws_def)
  then have mac: "parse_handle_v2 E (mnr_handle out) = Inr mac" "mac_identifier mac = out_handle_id o1"
    using v2_handle_parses [OF laws(4) _ laws(5) o(2) caveats] o(1) by (simp_all add: mac_def)
  have v1: "view E (br_sealed_store b1) (mac_identifier mac) = Some (set_shares as held (set_threshold k cs r))"
    using v mac(2) by (simp add: as_def held_def cs_def)
  obtain seen as' where v2: "view E (br_sealed_store b2) (mac_identifier mac) =
      Some ((set_shares as held (set_threshold k cs r))\<lparr> rec_last_accessed := seen, rec_share_assignments := Some as' \<rparr>)"
    and c: "roster as' = roster as" "list_all2 (in_custody E as' held) cids ss" "\<forall>cid \<in> set cids. trim cid \<noteq> []"
    and b2: "br_handle_hmac_key b2 = br_handle_hmac_key b1" "br_crypto b2 = br_crypto b1"
    using claims_custody [OF laws(2) claimed(1) mac(1) v1, of "as" held] by (auto simp: set_shares_def)
  have r: "rec_expires_at r = mnr_expires_at out" "rec_threshold r = None" using seals i(2) by (auto simp: seals_def sealed_entry_def)
  have "map snd (roster as) = map share_x (split_shares res)"
    using len by (intro nth_equalityI) (simp_all add: as_def)
  moreover have "distinct (map share_x (split_shares res))"
    using split_positions [OF t(3)] by (metis distinct_map distinct_upt map_map)
  ultimately have distinct: "distinct (map snd (roster as'))" using c(1) by simp
  obtain j where j: "shares_to_json E ss = Inr j" using laws(9) unfolding is_ok_iff by blast
  show thesis
  proof (rule that [OF mac(1) v1])
    fix clock :: "nat \<Rightarrow> instant"
    assume "in_time (set_shares as held (set_threshold k cs r)) (clock 2)" "in_time (set_shares as held (set_threshold k cs r)) (clock 3)"
    then have time: "in_time r (clock 2)" "in_time r (clock 3)" by (simp_all add: set_shares_def set_threshold_def in_time_def)
    have "verify E (macaroon_root_key E (br_handle_hmac_key b1) (mac_identifier mac))
        (unwrap_verifier (holder_request request out j) (clock 2) []) mac = Inr ()"
      unfolding mac(2) unfolding mac_def
      by (rule minted_verifies [OF laws(6,7) caveats])
         (use time(1) r in \<open>auto simp: in_time_def intro!: holder_satisfies [of "mnr_expires_at out"]\<close>)
    moreover note passes = sealed_passes [OF laws(4,5) b64 owner i(3) seals time(2), where C = C]
    moreover have "expected_redeem_token E (br_handle_hmac_key b1) (out_handle_id o1) r context (clock 3) = Inr token"
      using passes by (intro single_token_expected [OF _ r(2) t(1)]) blast
    moreover have "verify_signature E (macaroon_root_key E (br_handle_hmac_key b1) (mac_identifier mac)) mac = Inr ()"
      unfolding mac(2) unfolding mac_def by (rule mint_verifies)
    moreover have "mnr_handle out \<noteq> []" using o(1) by (simp add: v2_handle_def HANDLE_V2_PREFIX_def)
    ultimately have "\<exists>b3. combine_shares_impl E C context (combine_request request out cids ss) (b2\<lparr> br_clock := clock \<rparr>) =
        (Inr (inp_plaintext input), b3)"
      using mac b2 t mode(2) c(2,3) claimed(2,3) distinct v2 [unfolded cs_def held_def set_shares_def]
      by (elim conjE exE, intro custody_combines [OF laws(1-3,10,8) j, where mac = mac and r = r and rnd = rnd and token = token and res = res and k = k and as = as'])
         (simp_all add: held_def)
    then show "\<exists>plain b3. combine_shares_impl E C context (combine_request request out cids ss) (b2\<lparr> br_clock := clock \<rparr>) = (Inr plain, b3) \<and>
         mnr_key out = b64_encode E plain" using i(1) by blast
  qed
qed

section \<open>A concrete instance\<close>

lemma claim_run:
  assumes "store_laws E" "store_available E" "parse_handle_v2 E handle = Inr mac" "handle \<noteq> []"
    and "verify_signature E (macaroon_root_key E (br_handle_hmac_key b) (mac_identifier mac)) mac = Inr ()"
    and "view E (br_sealed_store b) (mac_identifier mac) = Some r" "trimmed (ctx_principal_id context) = Some cid" "cid \<noteq> []"
    and "validate_threshold_custody_record_requirements E r context = Inr ()" "is_ok (claim_record E cid r)"
  shows "\<exists>c b'. claim_share_impl E context handle cid b = (Inr c, b')"
proof -
  let ?r = "r\<lparr> rec_last_accessed := Some (br_clock b 0) \<rparr>"
  have id: "handle_identifier E handle b = (Inr (mac_identifier mac), b)" using assms(3,5) by (auto simp: identifier_ok)
  obtain b1 where l: "store_load E (mac_identifier mac) b = (Inr (Some ?r), b1)"
    and v: "view E (br_sealed_store b1) (mac_identifier mac) = Some ?r" by (rule store_load_run [OF assms(1,2,6)])
  have "validate_threshold_custody_record_requirements E ?r context = Inr ()"
    using assms(9) by (simp add: validate_threshold_custody_record_requirements_def validate_lineage_def)
  with l have c: "check_custody E context (mac_identifier mac) b = (Inr (), b1)"
    by (simp add: check_custody_def sbind_step(1) with_context_ok slift_def)
  obtain x r' where "claim_record E cid ?r = Inr (x, r')" using assms(10) by (auto simp: claim_record_def is_ok_iff result_simps)
  from modify_available [where f = "claim_record E cid", OF assms(1,2) v this] obtain s where
    "claim_custodian_share E (fill (br_entropy b1) 12) (mac_identifier mac) cid (br_sealed_store b1) = (Inr x, s)"
    unfolding claim_custodian_share_def by blast
  then have "on_store (\<lambda>n. claim_custodian_share E n (mac_identifier mac) cid) b1 = (Inr x, (spend 12 b1)\<lparr> br_sealed_store := s \<rparr>)"
    by (simp add: on_store_draw split_rng_def sbind_def smap_err_def szoom_def spend_def)
  with assms(4,7,8) id c show ?thesis
    by (simp add: claim_share_impl_def require_custodian_def run_context_log sbind_step(1) with_context_ok sret_def)
qed

lemma claim_record_available:
  assumes "b64_lossless E" "rec_share_assignments r = Some as" "rec_held_shares r = Some (map (hold_share E) shares)"
    "rec_threshold_commitments r = Some cs" and "\<exists>i. (cid, i) \<in> set (roster as)" "set (map snd (roster as)) \<subseteq> share_x ` set shares"
  shows "is_ok (claim_record E cid r)"
proof -
  from assms(5) have "find (\<lambda>a. asg_custodian_id a = cid) as \<noteq> None" by (auto simp: find_None_iff)
  then obtain a where a: "find (\<lambda>a. asg_custodian_id a = cid) as = Some a" by blast
  then have "a \<in> set as" using find_SomeD by metis
  then have "asg_share_index a \<in> share_x ` set shares" using assms(6) by auto
  then have "find (\<lambda>h. held_x h = asg_share_index a) (map (hold_share E) shares) \<noteq> None"
    by (auto simp: find_None_iff hold_share_def)
  then obtain h where h: "find (\<lambda>h. held_x h = asg_share_index a) (map (hold_share E) shares) = Some h" by blast
  then have "h \<in> set (map (hold_share E) shares)" using find_SomeD by metis
  then obtain y where "b64_decode E (held_y_b64 h) = Some y" using assms(1) by (auto simp: hold_share_def b64_lossless_def)
  with assms(2-4) a h show ?thesis by (simp add: claim_record_def is_ok_iff)
qed

definition sample_custody_mint :: MintV2Request where
  "sample_custody_mint = sample_mint\<lparr> mnt_num_shares := Some 2, mnt_custodian_ids := [''spiffe://t/a'', ''spiffe://t/b''] \<rparr>"

definition sample_custodian :: "string \<Rightarrow> BrokerClientContext" where
  "sample_custodian cid = sample_context\<lparr> ctx_principal_id := Some cid \<rparr>"

lemma sample_custody_fields:
  "mnt_ttl_seconds sample_custody_mint = None" "mnt_label sample_custody_mint = None" "mnt_threshold sample_custody_mint = Some 2"
  "mnt_num_shares sample_custody_mint = Some 2" "mnt_lifecycle sample_custody_mint = SingleUseUnwrap"
  "mnt_initial_lease_seconds sample_custody_mint = None"
  "mnt_custodian_ids sample_custody_mint = [''spiffe://t/a'', ''spiffe://t/b'']" "mnt_unwrap_principal_id sample_custody_mint = None"
  "mnt_tenant_id sample_custody_mint = None" "mnt_provider sample_custody_mint = None"
  by (simp_all add: sample_custody_mint_def sample_mint_def)

lemma sample_custody_mode:
  "mnt_threshold sample_custody_mint = Some 2" "(1 :: byte) < 2" "mnt_custodian_ids sample_custody_mint \<noteq> []"
  "mnt_unwrap_principal_id sample_custody_mint = None"
  by (simp_all add: sample_custody_fields)

lemma sample_custody_mints:
  obtains out b1 where "mint_aead_key_v2_impl sample_env gf_curve (\<lambda>_. 5) sample_context sample_custody_mint sample_broker = (Inr out, b1)"
    "mnr_expires_at out = None"
proof -
  obtain o1 b2 r where
    p: "persist_secret_v2_with_lifecycle sample_env sample_context \<lparr> inp_plaintext = fill (br_entropy sample_broker) 32,
       inp_customer_id = ''default'', inp_metadata = Some (JObject [(''purpose'', JString ''aead-key''), (''handle_version'', JInt 2)]),
       inp_created_at = 0, inp_expires_at = None, inp_lifecycle = SingleUseUnwrap,
       inp_initial_lease_seconds = None, inp_unwrap_principal_id = Some ''spiffe://t/a'' \<rparr> (spend 32 (tick 1 sample_broker)) = (Inr o1, b2)"
    and v: "view sample_env (br_sealed_store b2) (out_handle_id o1) = Some r"
    and split: "\<And>k m rnd. 1 \<le> k \<Longrightarrow> k \<le> m \<Longrightarrow>
       \<exists>shares b3. split_redeem_token sample_env gf_curve rnd (out_handle_id o1) (out_redeem_token o1) k m b2 = (Inr shares, b3)"
    by (rule sample_persists) blast
  obtain shares b3 where s: "split_redeem_token sample_env gf_curve (\<lambda>_. 5) (out_handle_id o1) (out_redeem_token o1) 2 2 b2 = (Inr shares, b3)"
    using split [of 2 2 "\<lambda>_. 5"] by auto
  obtain token res r' where res: "split gf_curve (\<lambda>_. 5) token 2 2 = Inr res" "shares = split_shares res"
    and v3: "view sample_env (br_sealed_store b3) (out_handle_id o1) = Some r'" by (rule split_token_ok [OF sample_env_laws(3) s])
  have "length shares = 2" using arg_cong [OF split_positions [OF res(1)], of length] res(2) by simp
  then obtain as where as: "assign_shares (mnt_custodian_ids sample_custody_mint) shares = (Inr as :: ServiceError stop + _)"
    by (simp add: assign_shares_def sample_custody_fields)
  obtain st where "update_share_assignments sample_env (fill (br_entropy b3) 12) (out_handle_id o1) as (map (hold_share sample_env) shares)
      (br_sealed_store b3) = (Inr (), st)"
    unfolding update_share_assignments_def
    by (rule modify_available [where f = "\<lambda>r. Inr ((), set_shares as (map (hold_share sample_env) shares) r)",
          OF sample_env_laws(3,4) v3 refl])
  then obtain b4 where "on_store (\<lambda>m. update_share_assignments sample_env m (out_handle_id o1) as (map (hold_share sample_env) shares)) b3 = (Inr (), b4)"
    by (simp add: on_store_draw split_rng_def sbind_def smap_err_def szoom_def)
  with s as have tok: "mint_redeem_token sample_env gf_curve (\<lambda>_. 5) sample_custody_mint o1 2 2 b2 = (Inr [], b4)"
    by (simp add: mint_redeem_token_def sample_custody_fields sbind_step(1) slift_def sret_def ensure_def)
  have broker: "br_clock sample_broker 0 = 0" "br_default_customer_id sample_broker = ''default''" by (simp_all add: sample_broker_def)
  show thesis
    using that sample_owner [of SingleUseUnwrap] p tok broker
    by (simp add: mint_aead_key_v2_impl_def run_sources Let_def sbind_step(1) sret_def enforce_ttl_def sample_custody_fields
        unwrap_or_def insert_some_def trimmed_def run_log)
qed

lemma sample_custodian_accepted:
  assumes "seals sample_env key crypto sample_context input o1 r" "cid = ''spiffe://t/a'' \<or> cid = ''spiffe://t/b''"
    and "rec_issued_with_authenticated_transport R = rec_issued_with_authenticated_transport r"
      "rec_issued_by_principal_id R = rec_issued_by_principal_id r" "rec_issued_by_peer_cert_sha256 R = rec_issued_by_peer_cert_sha256 r"
      "rec_issued_by_attestation_digest R = rec_issued_by_attestation_digest r"
  shows "validate_threshold_custody_record_requirements sample_env R (sample_custodian cid) = Inr ()"
proof -
  have "b64_encode sample_env [7] \<noteq> []" by (simp add: sample_env_fields hex_encode_def)
  with assms(1,2) show ?thesis
    by (auto simp: validate_threshold_custody_record_requirements_def validate_lineage_def assms(3-6) seals_def sealed_entry_def sample_custodian_def
        sample_context_facts sample_trimmed normalized_context_principal_def trimmed_b64 [OF sample_env_laws(6)] split: if_splits)
qed

lemma sample_claims:
  assumes run: "mint_aead_key_v2_impl sample_env gf_curve (\<lambda>_. 5) sample_context sample_custody_mint sample_broker = (Inr out, b1)"
    and caveats: "printable_caveats sample_env (mint_caveats sample_custody_mint (mnr_expires_at out))"
  obtains ss b2 where "claims sample_env (mnr_handle out) [''spiffe://t/a'', ''spiffe://t/b''] ss b1 b2"
proof -
  have b64: "b64_lossless sample_env" using sample_env_laws(3) by (simp add: store_laws_def)
  obtain input o1 r token res where "mnr_key out = b64_encode sample_env (inp_plaintext input)" "mnr_expires_at out = inp_expires_at input"
      "v2_unwrap_principal sample_context (inp_lifecycle input) None = Inr (inp_unwrap_principal_id input)"
    and o: "mnr_handle out = v2_handle sample_env (br_handle_hmac_key b1) (out_handle_id o1)
        (mint_caveats sample_custody_mint (mnr_expires_at out))" "length (out_handle_id o1) = 16"
    and seals: "seals sample_env (br_handle_hmac_key b1) (br_crypto b1) sample_context input o1 r"
    and "b64_decode sample_env (out_redeem_token o1) = Some token" "length token = 32"
      "split gf_curve (\<lambda>_. 5) token 2 (unwrap_or (mnt_num_shares sample_custody_mint) 1) = Inr res" "mnr_redeem_token out = []"
    and len: "length (mnt_custodian_ids sample_custody_mint) = length (split_shares res)"
    and v: "view sample_env (br_sealed_store b1) (out_handle_id o1) = Some (set_shares
       (map (\<lambda>(cid, s). \<lparr> asg_custodian_id = cid, asg_share_index = share_x s, asg_claimed = False \<rparr>)
          (zip (mnt_custodian_ids sample_custody_mint) (split_shares res)))
       (map (hold_share sample_env) (split_shares res)) (set_threshold 2 (map (b64_encode sample_env) (split_commitments res)) r))"
    by (rule mint_custody_ok [OF sample_env_laws(1,3) run sample_custody_mode])
  obtain s1 s2 where s: "split_shares res = [s1, s2]"
    using len [symmetric] by (auto simp: sample_custody_fields length_Suc_conv)
  define mac where "mac = mint sample_env (macaroon_root_key sample_env (br_handle_hmac_key b1) (out_handle_id o1)) (out_handle_id o1)
    (mint_caveats sample_custody_mint (mnr_expires_at out))"
  have mac: "parse_handle_v2 sample_env (mnr_handle out) = Inr mac" "mac_identifier mac = out_handle_id o1" "mnr_handle out \<noteq> []"
    using v2_handle_parses [OF sample_env_laws(5) b64 sample_env_laws(6) o(2) caveats] o(1)
    by (simp_all add: mac_def v2_handle_def HANDLE_V2_PREFIX_def)
  have sig: "verify_signature sample_env (macaroon_root_key sample_env (br_handle_hmac_key b1) (mac_identifier mac)) mac = Inr ()"
    unfolding mac(2) unfolding mac_def by (rule mint_verifies)
  define R where "R = set_shares
       (map (\<lambda>(cid, s). \<lparr> asg_custodian_id = cid, asg_share_index = share_x s, asg_claimed = False \<rparr>)
          (zip (mnt_custodian_ids sample_custody_mint) (split_shares res)))
       (map (hold_share sample_env) (split_shares res)) (set_threshold 2 (map (b64_encode sample_env) (split_commitments res)) r)"
  have vR: "view sample_env (br_sealed_store b1) (mac_identifier mac) = Some R" using v mac(2) by (simp add: R_def)
  have claim: "\<exists>c b'. claim_share_impl sample_env (sample_custodian cid) (mnr_handle out) cid b = (Inr c, b')"
    if "view sample_env (br_sealed_store b) (mac_identifier mac) = Some (R\<lparr> rec_last_accessed := t, rec_share_assignments := Some as \<rparr>)"
      "roster as = [(''spiffe://t/a'', share_x s1), (''spiffe://t/b'', share_x s2)]"
      "cid = ''spiffe://t/a'' \<or> cid = ''spiffe://t/b''" "br_handle_hmac_key b = br_handle_hmac_key b1" for cid b t as
  proof (rule claim_run [OF sample_env_laws(3,4) mac(1,3) _ that(1)])
    show "verify_signature sample_env (macaroon_root_key sample_env (br_handle_hmac_key b) (mac_identifier mac)) mac = Inr ()"
      using sig that(4) by simp
    show "trimmed (ctx_principal_id (sample_custodian cid)) = Some cid" "cid \<noteq> []"
      using that(3) sample_trimmed by (auto simp: sample_custodian_def)
    show "validate_threshold_custody_record_requirements sample_env
        (R\<lparr> rec_last_accessed := t, rec_share_assignments := Some as \<rparr>) (sample_custodian cid) = Inr ()"
      by (rule sample_custodian_accepted [OF seals that(3)]) (simp_all add: R_def set_shares_def set_threshold_def)
    show "is_ok (claim_record sample_env cid (R\<lparr> rec_last_accessed := t, rec_share_assignments := Some as \<rparr>))"
      by (rule claim_record_available [OF b64, where as = as and shares = "split_shares res"])
         (use that(2,3) s in \<open>auto simp: R_def set_shares_def\<close>)
  qed
  obtain as where as: "rec_share_assignments R = Some as" "roster as = [(''spiffe://t/a'', share_x s1), (''spiffe://t/b'', share_x s2)]"
    by (simp add: R_def set_shares_def s sample_custody_fields)
  have "R = R\<lparr> rec_last_accessed := rec_last_accessed R, rec_share_assignments := Some as \<rparr>" using as(1) by (cases R) simp
  with vR obtain c1 b2 where c1: "claim_share_impl sample_env (sample_custodian ''spiffe://t/a'') (mnr_handle out) ''spiffe://t/a'' b1 = (Inr c1, b2)"
    using claim [OF _ as(2), of b1] by fastforce
  obtain as1 t where as1: "rec_share_assignments R = Some as1" and v2: "view sample_env (br_sealed_store b2) (mac_identifier mac) =
      Some (R\<lparr> rec_last_accessed := t, rec_share_assignments := Some (mark_first ''spiffe://t/a'' as1) \<rparr>)"
    and k2: "br_handle_hmac_key b2 = br_handle_hmac_key b1"
    by (rule claim_ok [OF sample_env_laws(3) c1 mac(1) vR])
  from claim [OF v2 _ _ k2, of "''spiffe://t/b''"] as as1 obtain c2 b3 where
    c2: "claim_share_impl sample_env (sample_custodian ''spiffe://t/b'') (mnr_handle out) ''spiffe://t/b'' b2 = (Inr c2, b3)" by auto
  show thesis by (rule that [OF claims_one [OF c1 claims_one [OF c2 claims_none]]])
qed

lemma sample_combines:
  obtains req b plain b' where "combine_shares_impl sample_env gf_curve sample_context req b = (Inr plain, b')"
proof -
  obtain out b1 where m: "mint_aead_key_v2_impl sample_env gf_curve (\<lambda>_. 5) sample_context sample_custody_mint sample_broker = (Inr out, b1)"
    "mnr_expires_at out = None" by (rule sample_custody_mints)
  have pc: "printable_caveats sample_env (mint_caveats sample_custody_mint (mnr_expires_at out))"
    by (simp add: m(2) printable_caveats_def mint_caveats_def sample_custody_fields caveat_some_def wf_str_def)
  obtain ss b2 where c: "claims sample_env (mnr_handle out) [''spiffe://t/a'', ''spiffe://t/b''] ss b1 b2" by (rule sample_claims [OF m(1) pc])
  have ok: "\<forall>ss. is_ok (shares_to_json sample_env ss)" using sample_shares_json(2) by blast
  have cert: "\<forall>c. ctx_peer_cert_sha256 sample_context = Some c \<longrightarrow> c \<noteq> []" by (simp add: sample_context_facts)
  have q: "distinct [''spiffe://t/a'', ''spiffe://t/b'']" "unat (2 :: byte) \<le> length [''spiffe://t/a'', ''spiffe://t/b'']" by simp_all
  obtain r where r: "\<And>clock. in_time r (clock 2) \<Longrightarrow> in_time r (clock 3) \<Longrightarrow>
      \<exists>plain b3. combine_shares_impl sample_env gf_curve sample_context
        (combine_request sample_custody_mint out [''spiffe://t/a'', ''spiffe://t/b''] ss) (b2\<lparr> br_clock := clock \<rparr>) = (Inr plain, b3) \<and>
        mnr_key out = b64_encode sample_env plain"
    by (rule custodians_combine [OF sample_env_laws(1,3-8) sample_shares_json(1) ok gf_curve_laws m(1) sample_custody_mode cert pc c q]) blast
  obtain t where "in_time r t" using in_time_exists by blast
  with r [of "\<lambda>_. t"] that show thesis by blast
qed

section \<open>Properties\<close>

text \<open>C6 (custodians recover a minted key).  After a key was minted with a threshold above one for custodians, no
  redeem token is returned.  When distinct custodians, at least the threshold number of them, have claimed their
  shares one after the other, the caller the key was minted for recovers exactly the minted key by combining the
  claimed shares before the deadlines of the record.\<close>

theorem custodians_recover_key:
  assumes "crypto_laws E" "store_laws E" "store_available E" "digest_laws E" "b64_alphabet E"
      "b64url_lossless E" "b64url_alphabet E" "shares_json_lossless E" "\<forall>ss. is_ok (shares_to_json E ss)" "p256_laws C"
    and "mint_aead_key_v2_impl E C rnd context request b = (Inr out, b1)"
    and "mnt_threshold request = Some k" "1 < k" "mnt_custodian_ids request \<noteq> []" "mnt_unwrap_principal_id request = None"
    and "\<forall>c. ctx_peer_cert_sha256 context = Some c \<longrightarrow> c \<noteq> []"
    and "printable_caveats E (mint_caveats request (mnr_expires_at out))"
    and "claims E (mnr_handle out) cids ss b1 b2" "distinct cids" "unat k \<le> length cids"
  shows "mnr_redeem_token out = [] \<and>
    (\<exists>mac r. parse_handle_v2 E (mnr_handle out) = Inr mac \<and> view E (br_sealed_store b1) (mac_identifier mac) = Some r \<and>
      (\<forall>clock. in_time r (clock 2) \<longrightarrow> in_time r (clock 3) \<longrightarrow>
        (\<exists>plain b3. combine_shares_impl E C context (combine_request request out cids ss) (b2\<lparr> br_clock := clock \<rparr>) = (Inr plain, b3) \<and>
          mnr_key out = b64_encode E plain)))"
proof
  show "mnr_redeem_token out = []" by (rule mint_custody_ok [OF assms(1,2,11-15)])
  show "\<exists>mac r. parse_handle_v2 E (mnr_handle out) = Inr mac \<and> view E (br_sealed_store b1) (mac_identifier mac) = Some r \<and>
      (\<forall>clock. in_time r (clock 2) \<longrightarrow> in_time r (clock 3) \<longrightarrow>
        (\<exists>plain b3. combine_shares_impl E C context (combine_request request out cids ss) (b2\<lparr> br_clock := clock \<rparr>) = (Inr plain, b3) \<and>
          mnr_key out = b64_encode E plain))"
    by (rule custodians_combine [OF assms]) blast
qed

theorem custodians_recover_key_witness:
  "\<exists>out b1 ss b2 clock plain b3.
     mint_aead_key_v2_impl sample_env gf_curve (\<lambda>_. 5) sample_context sample_custody_mint sample_broker = (Inr out, b1) \<and>
     claims sample_env (mnr_handle out) [''spiffe://t/a'', ''spiffe://t/b''] ss b1 b2 \<and>
     combine_shares_impl sample_env gf_curve sample_context
       (combine_request sample_custody_mint out [''spiffe://t/a'', ''spiffe://t/b''] ss) (b2\<lparr> br_clock := clock \<rparr>) = (Inr plain, b3) \<and>
     mnr_key out = hex_encode plain"
proof -
  obtain out b1 where m: "mint_aead_key_v2_impl sample_env gf_curve (\<lambda>_. 5) sample_context sample_custody_mint sample_broker = (Inr out, b1)"
    "mnr_expires_at out = None" by (rule sample_custody_mints)
  have pc: "printable_caveats sample_env (mint_caveats sample_custody_mint (mnr_expires_at out))"
    by (simp add: m(2) printable_caveats_def mint_caveats_def sample_custody_fields caveat_some_def wf_str_def)
  obtain ss b2 where c: "claims sample_env (mnr_handle out) [''spiffe://t/a'', ''spiffe://t/b''] ss b1 b2" by (rule sample_claims [OF m(1) pc])
  have ok: "\<forall>ss. is_ok (shares_to_json sample_env ss)" using sample_shares_json(2) by blast
  have cert: "\<forall>c. ctx_peer_cert_sha256 sample_context = Some c \<longrightarrow> c \<noteq> []" by (simp add: sample_context_facts)
  have q: "distinct [''spiffe://t/a'', ''spiffe://t/b'']" "unat (2 :: byte) \<le> length [''spiffe://t/a'', ''spiffe://t/b'']" by simp_all
  from custodians_recover_key [OF sample_env_laws(1,3-8) sample_shares_json(1) ok gf_curve_laws m(1) sample_custody_mode cert pc c q]
  obtain r where r: "\<forall>clock. in_time r (clock 2) \<longrightarrow> in_time r (clock 3) \<longrightarrow>
      (\<exists>plain b3. combine_shares_impl sample_env gf_curve sample_context
        (combine_request sample_custody_mint out [''spiffe://t/a'', ''spiffe://t/b''] ss) (b2\<lparr> br_clock := clock \<rparr>) = (Inr plain, b3) \<and>
        mnr_key out = b64_encode sample_env plain)" by blast
  obtain t where "in_time r t" using in_time_exists by blast
  with r [rule_format, of "\<lambda>_. t"] m(1) c show ?thesis by (simp add: sample_env_fields) blast
qed

text \<open>C8 (combining needs custody).  When shares were combined successfully, the handle has a record with
  assignments and held shares for which the request named as many distinct, non-empty custodians as shares, every
  custodian is assigned to the record and has claimed its share, each share presented is exactly the one the broker
  holds at the position assigned to its custodian, no position occurs twice, and there are at least as many
  shares as the threshold of the record.  The record was not revoked, and the caller is the principal it is bound to.\<close>

theorem combine_requires_custody:
  assumes "store_laws E" "combine_shares_impl E C context req b = (Inr plain, b')"
  shows "\<exists>mac r assignments held. parse_handle_v2 E (cmb_handle req) = Inr mac \<and> view E (br_sealed_store b) (mac_identifier mac) = Some r \<and>
    rec_share_assignments r = Some assignments \<and> rec_held_shares r = Some held \<and>
    distinct (cmb_custodian_ids req) \<and> (\<forall>c \<in> set (cmb_custodian_ids req). trim c \<noteq> []) \<and>
    list_all2 (in_custody E assignments held) (cmb_custodian_ids req) (cmb_shares req) \<and>
    distinct (map share_x (cmb_shares req)) \<and> (\<forall>k. rec_threshold r = Some k \<longrightarrow> unat k \<le> length (cmb_shares req)) \<and>
    \<not> rec_revoked r \<and> (\<exists>owner. trimmed (ctx_principal_id context) = Some owner \<and> trimmed (rec_unwrap_principal_id r) = Some owner)"
proof -
  obtain mac r token b1 b2 out where mac: "parse_handle_v2 E (cmb_handle req) = Inr mac"
    and r: "view E (br_sealed_store b) (mac_identifier mac) = Some r"
    and v: "validate_combine_shares_custody E r req = Inr (cmb_shares req)"
    and b1: "view E (br_sealed_store b1) (mac_identifier mac) = Some (r\<lparr> rec_last_accessed := Some (br_clock b 0) \<rparr>)"
    and u: "unwrap_secret_v2_impl E C context \<lparr> unw_handle = cmb_handle req, unw_redeem_token = token, unw_tenant_id = cmb_tenant_id req,
       unw_provider = cmb_provider req, unw_circuit_id = None, unw_node_id = None, unw_discharges = [] \<rparr> b1 = (Inr out, b2)"
    by (rule combine_ok [OF assms])
  from u have "check_record E r context (br_clock b1 2) = Inr ()"
    by (rule unwrap_ok [OF assms(1)]) (use mac b1 in simp)
  from checked_record [OF this] v [unfolded validate_custody_iff] mac r show ?thesis by blast
qed

theorem combine_requires_custody_witness:
  "\<exists>req b plain b' mac r assignments held. combine_shares_impl sample_env gf_curve sample_context req b = (Inr plain, b') \<and>
     parse_handle_v2 sample_env (cmb_handle req) = Inr mac \<and> view sample_env (br_sealed_store b) (mac_identifier mac) = Some r \<and>
     rec_share_assignments r = Some assignments \<and> rec_held_shares r = Some held \<and> distinct (cmb_custodian_ids req) \<and>
     list_all2 (in_custody sample_env assignments held) (cmb_custodian_ids req) (cmb_shares req)"
proof -
  obtain req b plain b' where u: "combine_shares_impl sample_env gf_curve sample_context req b = (Inr plain, b')" by (rule sample_combines)
  from combine_requires_custody [OF sample_env_laws(3) u] u show ?thesis by blast
qed

end
