(* ===== verification/Postgres.thy ===== *)
theory Postgres
  imports Crypto_Config Policy Rust_Text "HOL-Library.AList" "HOL-Library.Char_ord" "HOL-Library.List_Lexorder"
begin

text \<open>
  Leased database credentials (\<open>secret_broker_impl/postgres.rs\<close>) and the handler that issues them
  (\<open>issue_postgres_credentials_impl\<close> of \<open>handlers.rs\<close>).

  The database, its driver (\<open>sqlx\<close>), the URL type (\<open>url\<close>), \<open>hex\<close> and the alphanumeric sampler of \<open>rand\<close> are the
  parameter record \<open>pg_ext\<close>; the order in which a hash set or hash map is visited is its field \<open>hash_order\<close>.  The
  process environment and the file system are arguments.  The cleanup task is the operation
  \<open>cleanup_expired_leases\<close>, run again and again; an error of it is only logged.
\<close>

section \<open>Database, URLs and random text\<close>

record ('d, 't, 'u) pg_ext =
  pg_connect :: "32 word \<Rightarrow> string \<Rightarrow> anyhow + 'd"
  pg_begin :: "'d \<Rightarrow> anyhow + 't"
  pg_execute :: "string \<Rightarrow> ('t, anyhow, unit) effect"
  pg_commit :: "'t \<Rightarrow> (anyhow + unit) \<times> 'd"
  pg_rollback :: "'t \<Rightarrow> 'd"
  pg_run :: "string \<Rightarrow> ('d, anyhow, unit) effect"
  url_parse :: "string \<Rightarrow> anyhow + 'u"
  url_path :: "'u \<Rightarrow> string"
  url_set_username :: "string \<Rightarrow> 'u \<Rightarrow> 'u option"
  url_set_password :: "string \<Rightarrow> 'u \<Rightarrow> 'u option"
  url_append_pair :: "string \<Rightarrow> string \<Rightarrow> 'u \<Rightarrow> 'u"
  url_to_string :: "'u \<Rightarrow> string"
  hex_of :: "bytes \<Rightarrow> string"
  sample_alphanumeric :: "rng \<Rightarrow> nat \<Rightarrow> string"
  hash_order :: "string list \<Rightarrow> string list"

text \<open>\<open>hex\<close> prints two lower-case hexadecimal digits for a byte.\<close>

definition hex_digit :: "char \<Rightarrow> bool" where
  "hex_digit c \<longleftrightarrow> code_in 48 57 c \<or> code_in 97 102 c"

definition hex_laws :: "('d, 't, 'u) pg_ext \<Rightarrow> bool" where
  "hex_laws P \<longleftrightarrow> (\<forall>b. length (hex_of P b) = 2 * length b \<and> list_all hex_digit (hex_of P b))"

text \<open>PostgreSQL transactions: after a failed statement the transaction is aborted and every further statement of
  it fails; committing an aborted transaction is answered without an error and rolls it back.\<close>

definition transaction_laws :: "('d, 't, 'u) pg_ext \<Rightarrow> ('t \<Rightarrow> 'd) \<Rightarrow> ('t \<Rightarrow> bool) \<Rightarrow> bool" where
  "transaction_laws P base aborted \<longleftrightarrow>
     (\<forall>d t. pg_begin P d = Inr t \<longrightarrow> base t = d) \<and>
     (\<forall>s t q t'. pg_execute P s t = (q, t') \<longrightarrow> base t' = base t \<and> (\<not> is_ok q \<longrightarrow> aborted t') \<and> (aborted t \<longrightarrow> \<not> is_ok q)) \<and>
     (\<forall>t. pg_rollback P t = base t) \<and> (\<forall>t. aborted t \<longrightarrow> pg_commit P t = (Inr (), base t))"

section \<open>Configuration\<close>

record BrokerDatabaseConfig =
  dbc_admin_url :: string
  dbc_pool_max_connections :: "32 word"
  dbc_default_roles :: "string list"
  dbc_audience_urls :: "(string \<times> string) list"
  dbc_audience_roles :: "(string \<times> string list) list"
  dbc_ca_certificate_pem :: "string option"
  dbc_server_cert_fingerprint :: "string option"
  dbc_default_ttl_seconds :: "64 word"
  dbc_max_ttl_seconds :: "64 word"
  dbc_cleanup_interval_seconds :: "64 word"

definition parse_comma_separated :: "string option \<Rightarrow> string list" where
  "parse_comma_separated input = (case input of Some raw \<Rightarrow> trimmed_items (split_char CHR '','' raw) | None \<Rightarrow> [])"

text \<open>A hash map as its entries, one for a key; \<open>insert\<close> replaces the entry of the key.\<close>

definition map_insert :: "string \<Rightarrow> 'a \<Rightarrow> (string \<times> 'a) list \<Rightarrow> (string \<times> 'a) list" where
  "map_insert k v m = AList.update k v m"

fun key_value_entry :: "(string \<times> string) list \<Rightarrow> string \<Rightarrow> (string \<times> string) list" where
  "key_value_entry m entry =
     (case split_once ''='' (trim entry) of
        Some (key, v) \<Rightarrow> if trim key \<noteq> [] \<and> trim v \<noteq> [] then map_insert (trim key) (trim v) m else m
      | None \<Rightarrow> m)"

definition parse_key_value_map :: "string option \<Rightarrow> (string \<times> string) list" where
  "parse_key_value_map input =
     (case input of Some raw \<Rightarrow> foldl key_value_entry [] (split_char CHR '';'' raw) | None \<Rightarrow> [])"

fun key_roles_entry :: "(string \<times> string list) list \<Rightarrow> string \<Rightarrow> (string \<times> string list) list" where
  "key_roles_entry m entry =
     (case split_once ''='' (trim entry) of
        Some (key, vs) \<Rightarrow>
          (let roles = trimmed_items (split_char CHR '','' vs) in
           if trim key \<noteq> [] \<and> roles \<noteq> [] then map_insert (trim key) roles m else m)
      | None \<Rightarrow> m)"

definition parse_key_value_list_map :: "string option \<Rightarrow> (string \<times> string list) list" where
  "parse_key_value_list_map input =
     (case input of Some raw \<Rightarrow> foldl key_roles_entry [] (split_char CHR '';'' raw) | None \<Rightarrow> [])"

text \<open>\<open>env::var(k).ok().and_then(parse).filter(|v| *v > 0).unwrap_or(d)\<close>.\<close>

definition env_positive :: "environment \<Rightarrow> string \<Rightarrow> 'w :: len word \<Rightarrow> 'w word" where
  "env_positive env key dflt = (let v = env_uint env key 0 in if v > 0 then v else dflt)"

definition database_config_from_env ::
  "'z ext_scheme \<Rightarrow> environment \<Rightarrow> (string \<Rightarrow> anyhow + string) \<Rightarrow> duration \<Rightarrow> anyhow + BrokerDatabaseConfig option" where
  "database_config_from_env E env read_to_string max_handle_ttl =
     (case env ''SECRET_BROKER_POSTGRES_ADMIN_URL'' of
        None \<Rightarrow> Inr None
      | Some url \<Rightarrow>
          if trim url = [] then Inr None
          else
            let max_handle_secs = word_of_int (num_seconds E max_handle_ttl) :: 64 word in
            rbind (case (trimmed (env ''SECRET_BROKER_POSTGRES_CA_CERT''), trimmed (env ''SECRET_BROKER_POSTGRES_CA_CERT_PATH'')) of
                (Some _, _) \<Rightarrow> Inr (env ''SECRET_BROKER_POSTGRES_CA_CERT'')
              | (None, Some _) \<Rightarrow>
                  map_err (\<lambda>_. ''failed to read CA bundle'')
                    (rbind (read_to_string (the (env ''SECRET_BROKER_POSTGRES_CA_CERT_PATH''))) (\<lambda>pem. Inr (Some pem)))
              | (None, None) \<Rightarrow> Inr None) (\<lambda>pem.
            Inr (Some \<lparr>
              dbc_admin_url = url,
              dbc_pool_max_connections = env_positive env ''SECRET_BROKER_POSTGRES_POOL_MAX'' 5,
              dbc_default_roles = parse_comma_separated (env ''SECRET_BROKER_POSTGRES_DEFAULT_ROLES''),
              dbc_audience_urls = parse_key_value_map (env ''SECRET_BROKER_POSTGRES_AUDIENCE_URLS''),
              dbc_audience_roles = parse_key_value_list_map (env ''SECRET_BROKER_POSTGRES_AUDIENCE_ROLES''),
              dbc_ca_certificate_pem = pem,
              dbc_server_cert_fingerprint = trimmed (env ''SECRET_BROKER_POSTGRES_SERVER_FINGERPRINT''),
              dbc_default_ttl_seconds = env_positive env ''SECRET_BROKER_POSTGRES_DEFAULT_TTL_SECS'' 900,
              dbc_max_ttl_seconds = min (env_positive env ''SECRET_BROKER_POSTGRES_MAX_TTL_SECS'' max_handle_secs) max_handle_secs,
              dbc_cleanup_interval_seconds = env_positive env ''SECRET_BROKER_POSTGRES_CLEANUP_INTERVAL_SECS'' 300 \<rparr>)))"

section \<open>Statements\<close>

definition quote_identifier :: "string \<Rightarrow> string" where
  "quote_identifier input = CHR 34 # replace_char CHR 34 [CHR 34, CHR 34] input @ [CHR 34]"

definition quote_literal :: "string \<Rightarrow> string" where
  "quote_literal input = CHR 39 # replace_char CHR 39 [CHR 39, CHR 39] input @ [CHR 39]"

definition LEASE_USAGE_SCHEMAS :: "string list" where
  "LEASE_USAGE_SCHEMAS = [''gateway_secrets'', ''gateway_data'', ''database_extensions'']"

definition LEASE_RW_SCHEMAS :: "string list" where
  "LEASE_RW_SCHEMAS = [''gateway_secrets'', ''gateway_data'']"

definition create_sql :: "string \<Rightarrow> string \<Rightarrow> string \<Rightarrow> string" where
  "create_sql username password valid_until =
     ''CREATE ROLE '' @ quote_identifier username @ '' WITH LOGIN PASSWORD '' @ quote_literal password @
     '' VALID UNTIL '' @ quote_literal valid_until"

definition grant_connect_sql :: "string \<Rightarrow> string \<Rightarrow> string" where
  "grant_connect_sql db_name username =
     ''GRANT CONNECT ON DATABASE '' @ quote_identifier db_name @ '' TO '' @ quote_identifier username"

definition runtime_schema_grant_statements :: "string \<Rightarrow> string list" where
  "runtime_schema_grant_statements username =
     (let lease_role = quote_identifier username in
      map (\<lambda>schema. ''GRANT USAGE ON SCHEMA '' @ quote_identifier schema @ '' TO '' @ lease_role) LEASE_USAGE_SCHEMAS @
      concat (map (\<lambda>schema.
        [''GRANT SELECT, INSERT, UPDATE, DELETE ON ALL TABLES IN SCHEMA '' @ quote_identifier schema @ '' TO '' @ lease_role,
         ''GRANT USAGE, SELECT, UPDATE ON ALL SEQUENCES IN SCHEMA '' @ quote_identifier schema @ '' TO '' @ lease_role])
        LEASE_RW_SCHEMAS))"

definition grant_role_sql :: "string \<Rightarrow> string \<Rightarrow> string" where
  "grant_role_sql role username = ''GRANT '' @ quote_identifier role @ '' TO '' @ quote_identifier username"

definition alter_sql :: "string \<Rightarrow> string \<Rightarrow> string" where
  "alter_sql username app_name =
     ''ALTER ROLE '' @ quote_identifier username @ '' SET application_name = '' @ quote_literal app_name"

definition drop_sql :: "string \<Rightarrow> string" where
  "drop_sql username = ''DROP ROLE IF EXISTS '' @ quote_identifier username"

section \<open>Names\<close>

definition sanitize_identifier :: "string \<Rightarrow> string option" where
  "sanitize_identifier audience =
     (let sanitized = filter (\<lambda>c. is_ascii_alphanumeric c \<or> c = CHR ''_'' \<or> c = CHR ''-'') audience in
      if sanitized = [] then None else Some (to_ascii_lowercase sanitized))"

definition sanitize_application_name :: "string \<Rightarrow> string option" where
  "sanitize_application_name input =
     (if trim input = [] then None
      else let sanitized = filter (\<lambda>c. is_ascii_alphanumeric c \<or> c \<in> set '' -_./'') (trim input) in
        if sanitized = [] then None
        else Some (if length sanitized > 63 then take 63 sanitized else sanitized))"

definition generate_username :: "('d, 't, 'u) pg_ext \<Rightarrow> rng \<Rightarrow> string \<Rightarrow> anyhow stop + string" where
  "generate_username P g audience =
     (let sanitized = (case sanitize_identifier audience of Some s \<Rightarrow> s | None \<Rightarrow> ''lease'');
          random = hex_of P (fill g 8) in
      rbind (ensure (16 \<le> length random) Panic) (\<lambda>_.
      let username = sanitized @ ''_'' @ take 16 random in
      Inr (if length username > 63
           then take (length sanitized - (length username - 63)) sanitized @ ''_'' @ take 16 random
           else username)))"

definition database_name_from_url :: "('d, 't, 'u) pg_ext \<Rightarrow> 'u \<Rightarrow> string option" where
  "database_name_from_url P url =
     (let path = trim_start_char CHR ''/'' (url_path P url) in if path = [] then None else Some path)"

section \<open>The lease manager\<close>

record ('d, 'u) PostgresLeaseManager =
  plm_pool :: 'd
  plm_base_url :: 'u
  plm_default_roles :: "string list"
  plm_audience_urls :: "(string \<times> 'u) list"
  plm_audience_roles :: "(string \<times> string list) list"
  plm_ca_certificate_pem :: "string option"
  plm_server_cert_fingerprint :: "string option"
  plm_default_ttl :: duration
  plm_max_ttl :: duration
  plm_cleanup_interval_seconds :: "64 word"
  plm_issued :: "(string \<times> instant) list"

definition duration_seconds :: "'z ext_scheme \<Rightarrow> 64 word \<Rightarrow> 'e stop + duration" where
  "duration_seconds E secs = ok_or Panic (try_seconds E (sint secs))"

definition lease_manager_new ::
  "'z ext_scheme \<Rightarrow> ('d, 't, 'u) pg_ext \<Rightarrow> BrokerDatabaseConfig \<Rightarrow> anyhow stop + ('d, 'u) PostgresLeaseManager" where
  "lease_manager_new E P config =
     rbind (map_err Fail (pg_connect P (dbc_pool_max_connections config) (dbc_admin_url config))) (\<lambda>pool.
     rbind (map_err Fail (url_parse P (dbc_admin_url config))) (\<lambda>base_url.
     rbind (collect_results (map (\<lambda>(audience, url).
       map_err (\<lambda>_. Fail ''failed to parse audience override URL'') (rbind (url_parse P url) (\<lambda>parsed. Inr (audience, parsed))))
       (dbc_audience_urls config))) (\<lambda>audience_urls.
     rbind (duration_seconds E (dbc_default_ttl_seconds config)) (\<lambda>default_ttl.
     rbind (duration_seconds E (dbc_max_ttl_seconds config)) (\<lambda>max_ttl.
     Inr \<lparr> plm_pool = pool, plm_base_url = base_url, plm_default_roles = dbc_default_roles config,
           plm_audience_urls = audience_urls, plm_audience_roles = dbc_audience_roles config,
           plm_ca_certificate_pem = dbc_ca_certificate_pem config,
           plm_server_cert_fingerprint = dbc_server_cert_fingerprint config, plm_default_ttl = default_ttl,
           plm_max_ttl = max_ttl, plm_cleanup_interval_seconds = dbc_cleanup_interval_seconds config, plm_issued = [] \<rparr>)))))"

definition lease_manager_from_env ::
  "'z ext_scheme \<Rightarrow> ('d, 't, 'u) pg_ext \<Rightarrow> environment \<Rightarrow> (string \<Rightarrow> anyhow + string) \<Rightarrow> duration
    \<Rightarrow> anyhow stop + ('d, 'u) PostgresLeaseManager option" where
  "lease_manager_from_env E P env read_to_string max_handle_ttl =
     rbind (map_err Fail (database_config_from_env E env read_to_string max_handle_ttl)) (\<lambda>config.
     case config of
       None \<Rightarrow> Inr None
     | Some config \<Rightarrow> rbind (lease_manager_new E P config) (\<lambda>m. Inr (Some m)))"

definition compute_ttl :: "'z ext_scheme \<Rightarrow> ('d, 'u) PostgresLeaseManager \<Rightarrow> 64 word option \<Rightarrow> anyhow stop + duration" where
  "compute_ttl E m requested_ttl =
     (let requested = (case requested_ttl of Some t \<Rightarrow> t | None \<Rightarrow> word_of_int (num_seconds E (plm_default_ttl m))) in
      rbind (ensure (requested \<noteq> 0) (Fail ''requested TTL must be greater than zero'')) (\<lambda>_.
      let ttl = min requested (word_of_int (num_seconds E (plm_max_ttl m))) in
      rbind (ensure (ttl \<noteq> 0) (Fail ''TTL calculation underflowed'')) (\<lambda>_.
      duration_seconds E ttl)))"

record 'u RoleProvisioning =
  rp_username :: string
  rp_password :: string
  rp_valid_until :: instant
  rp_target_url :: 'u
  rp_audience :: string
  rp_scopes :: "string list"
  rp_application_name :: "string option"

fun execute_all :: "('d, 't, 'u) pg_ext \<Rightarrow> string list \<Rightarrow> ('t, anyhow, unit) effect" where
  "execute_all P [] = sret ()"
| "execute_all P (s # ss) = sbind (pg_execute P s) (\<lambda>_. execute_all P ss)"

text \<open>The error of a role grant is logged and the loop goes on.\<close>

fun grant_roles :: "('d, 't, 'u) pg_ext \<Rightarrow> string \<Rightarrow> string list \<Rightarrow> 't \<Rightarrow> 't" where
  "grant_roles P username [] tx = tx"
| "grant_roles P username (role # roles) tx = grant_roles P username roles (snd (pg_execute P (grant_role_sql role username) tx))"

definition granted_roles :: "('d, 'u) PostgresLeaseManager \<Rightarrow> 'u RoleProvisioning \<Rightarrow> string list" where
  "granted_roles m request =
     remdups (plm_default_roles m @
       (case map_of (plm_audience_roles m) (rp_audience request) of Some roles \<Rightarrow> roles | None \<Rightarrow> []) @ rp_scopes request)"

definition create_role_body ::
  "'z ext_scheme \<Rightarrow> ('d, 't, 'u) pg_ext \<Rightarrow> ('d, 'u) PostgresLeaseManager \<Rightarrow> 'u RoleProvisioning \<Rightarrow> ('t, anyhow, unit) effect" where
  "create_role_body E P m request =
     sbind (pg_execute P (create_sql (rp_username request) (rp_password request) (to_rfc3339 E (rp_valid_until request)))) (\<lambda>_.
     sbind (case database_name_from_url P (rp_target_url request) of
         Some db_name \<Rightarrow> pg_execute P (grant_connect_sql db_name (rp_username request))
       | None \<Rightarrow> sret ()) (\<lambda>_.
     sbind (execute_all P (runtime_schema_grant_statements (rp_username request))) (\<lambda>_.
     sbind (\<lambda>tx. (Inr (), grant_roles P (rp_username request) (hash_order P (granted_roles m request)) tx)) (\<lambda>_.
     case Option.bind (rp_application_name request) sanitize_application_name of
       Some app_name \<Rightarrow> pg_execute P (alter_sql (rp_username request) app_name)
     | None \<Rightarrow> sret ()))))"

text \<open>A transaction that is dropped without a commit is rolled back.\<close>

definition create_role ::
  "'z ext_scheme \<Rightarrow> ('d, 't, 'u) pg_ext \<Rightarrow> ('d, 'u) PostgresLeaseManager \<Rightarrow> 'u RoleProvisioning \<Rightarrow> ('d, anyhow, unit) effect" where
  "create_role E P m request d =
     (case pg_begin P d of
        Inl e \<Rightarrow> (Inl e, d)
      | Inr tx \<Rightarrow>
          (case create_role_body E P m request tx of
             (Inl e, tx') \<Rightarrow> (Inl e, pg_rollback P tx')
           | (Inr _, tx') \<Rightarrow> pg_commit P tx'))"

record IssuedCredential =
  cred_database_url :: string
  cred_username :: string
  cred_password :: string
  cred_expires_at :: instant
  cred_ca_certificate_pem :: "string option"
  cred_server_cert_fingerprint :: "string option"

text \<open>The bytes of the user name and of the password come from the two halves of the random stream.\<close>

definition issue_credentials ::
  "'z ext_scheme \<Rightarrow> ('d, 't, 'u) pg_ext \<Rightarrow> instant \<Rightarrow> rng \<Rightarrow> string \<Rightarrow> string list \<Rightarrow> 64 word option \<Rightarrow> bytes \<Rightarrow> string option
    \<Rightarrow> (('d, 'u) PostgresLeaseManager, anyhow stop, IssuedCredential) effect" where
  "issue_credentials E P now g audience scopes requested_ttl exporter_binding application_name =
     sbind (slift (ensure (\<not> list_all (\<lambda>b. b = 0) exporter_binding) (Fail ''exporter binding is required for credential issuance''))) (\<lambda>_.
     sbind (sget (\<lambda>m. m)) (\<lambda>m.
     sbind (slift (compute_ttl E m requested_ttl)) (\<lambda>ttl.
     sbind (slift (ok_or Panic (checked_add E now ttl))) (\<lambda>expires_at.
     let target_url = (case map_of (plm_audience_urls m) audience of Some u \<Rightarrow> u | None \<Rightarrow> plm_base_url m) in
     sbind (slift (generate_username P (\<lambda>i. g (2 * i)) audience)) (\<lambda>username.
     let password = sample_alphanumeric P (\<lambda>i. g (2 * i + 1)) 48 in
     sbind (smap_err Fail (szoom plm_pool (\<lambda>d m. m\<lparr> plm_pool := d \<rparr>) (create_role E P m \<lparr>
         rp_username = username, rp_password = password, rp_valid_until = expires_at, rp_target_url = target_url,
         rp_audience = audience, rp_scopes = scopes, rp_application_name = application_name \<rparr>))) (\<lambda>_.
     sbind (slift (ok_or (Fail ''failed to set username on lease URL'') (url_set_username P username target_url))) (\<lambda>lease_url.
     sbind (slift (ok_or (Fail ''failed to set password on lease URL'') (url_set_password P password lease_url))) (\<lambda>lease_url.
     let lease_url = (case Option.bind application_name sanitize_application_name of
           Some app_name \<Rightarrow> url_append_pair P ''application_name'' app_name lease_url | None \<Rightarrow> lease_url) in
     sbind (\<lambda>m. (Inr (), m\<lparr> plm_issued := map_insert username expires_at (plm_issued m) \<rparr>)) (\<lambda>_.
     sret \<lparr> cred_database_url = url_to_string P lease_url, cred_username = username, cred_password = password,
            cred_expires_at = expires_at, cred_ca_certificate_pem = plm_ca_certificate_pem m,
            cred_server_cert_fingerprint = plm_server_cert_fingerprint m \<rparr>)))))))))"

section \<open>Cleanup\<close>

text \<open>The scan of the entries; the addition of the grace period panics when it overflows.\<close>

fun expired_users :: "'z ext_scheme \<Rightarrow> instant \<Rightarrow> (string \<times> instant) list \<Rightarrow> anyhow stop + string list" where
  "expired_users E now [] = Inr []"
| "expired_users E now ((username, expiry) # rest) =
     rbind (ok_or Panic (checked_add E expiry (60 * nanos_per_sec))) (\<lambda>deadline.
     rbind (expired_users E now rest) (\<lambda>users.
     Inr (if deadline < now then username # users else users)))"

fun drop_roles :: "('d, 't, 'u) pg_ext \<Rightarrow> string list \<Rightarrow> 'd \<Rightarrow> 'd" where
  "drop_roles P [] d = d"
| "drop_roles P (username # users) d = drop_roles P users (snd (pg_run P (drop_sql username) d))"

definition cleanup_expired_leases ::
  "'z ext_scheme \<Rightarrow> ('d, 't, 'u) pg_ext \<Rightarrow> instant \<Rightarrow> (('d, 'u) PostgresLeaseManager, anyhow stop, unit) effect" where
  "cleanup_expired_leases E P now =
     sbind (sget plm_issued) (\<lambda>issued.
     sbind (slift (expired_users E now issued)) (\<lambda>users.
     if users = [] then sret ()
     else (\<lambda>m. (Inr (), m\<lparr> plm_pool := drop_roles P (hash_order P users) (plm_pool m),
       plm_issued := filter (\<lambda>(u, _). u \<notin> set users) (plm_issued m) \<rparr>))))"

section \<open>The handler\<close>

record PostgresCredentialParams =
  pcp_audience :: string
  pcp_scope :: "string list"
  pcp_ttl_seconds :: "64 word option"
  pcp_application_name :: "string option"

record PostgresCredentialOutcome =
  pco_database_url :: string
  pco_username :: string
  pco_password :: string
  pco_expires_at :: "instant option"
  pco_ca_certificate_pem :: "string option"
  pco_server_cert_fingerprint :: "string option"

text \<open>\<open>sort\<close> and \<open>dedup\<close> of strings, which Rust orders by their bytes.\<close>

definition requested_scopes :: "string list \<Rightarrow> string list" where
  "requested_scopes scope = remdups_adj (sort (trimmed_items scope))"

definition on_manager ::
  "(('d, 'u) PostgresLeaseManager, anyhow stop, 'a) effect \<Rightarrow> (('d, 'u) PostgresLeaseManager option, ServiceError stop, 'a) effect" where
  "on_manager f state =
     (case state of
        None \<Rightarrow> (Inl (Fail (Unavailable ''postgres credential issuance disabled'')), None)
      | Some m \<Rightarrow> (case f m of (q, m') \<Rightarrow> (map_err (map_stop Database) q, Some m')))"

definition issue_postgres_credentials_impl ::
  "'z ext_scheme \<Rightarrow> ('d, 't, 'u) pg_ext \<Rightarrow> instant \<Rightarrow> rng \<Rightarrow> BrokerClientContext \<Rightarrow> PostgresCredentialParams
    \<Rightarrow> (('d, 'u) PostgresLeaseManager option, ServiceError stop, PostgresCredentialOutcome) effect" where
  "issue_postgres_credentials_impl E P now g context params =
     sbind (slift (ensure (ctx_authenticated_transport context) (Fail UnauthenticatedTransport))) (\<lambda>_.
     sbind (slift (ok_or (Fail AuthenticatedPrincipalRequired) (trimmed (ctx_principal_id context)))) (\<lambda>_.
     sbind (slift (ok_or (Fail (MissingLineage peer_cert_lineage)) (ctx_peer_cert_sha256 context))) (\<lambda>_.
     sbind (on_manager (sret ())) (\<lambda>_.
     let audience = trim (pcp_audience params) in
     sbind (slift (ensure (audience \<noteq> []) (Fail InvalidHandle))) (\<lambda>_.
     let scopes = requested_scopes (pcp_scope params) in
     sbind (slift (ensure (\<not> list_all (\<lambda>b. b = 0) (ctx_exporter context)) (Fail ExporterBindingMismatch))) (\<lambda>_.
     sbind (on_manager (issue_credentials E P now g audience scopes (pcp_ttl_seconds params) (ctx_exporter context)
       (pcp_application_name params))) (\<lambda>lease.
     sret \<lparr> pco_database_url = cred_database_url lease, pco_username = cred_username lease, pco_password = cred_password lease,
            pco_expires_at = Some (cred_expires_at lease), pco_ca_certificate_pem = cred_ca_certificate_pem lease,
            pco_server_cert_fingerprint = cred_server_cert_fingerprint lease \<rparr>)))))))"

end
