(* ===== verification/Leases.thy ===== *)
theory Leases
  imports Postgres
begin

text \<open>
  Properties of the leased database credentials.

  \<^item> A reference lexer of SQL, independent of the code's quoting, reads every statement the manager sends as the
    fixed words of that statement, with the caller's text only inside one quoted identifier or one literal.
  \<^item> A lease that is issued lives between one second and the configured maximum, its role name fits the 63 bytes of
    a PostgreSQL name, and the table of issued leases stays well formed.
  \<^item> A role grant that fails aborts the transaction the role is created in: the call still returns credentials.
\<close>

section \<open>A reference lexer\<close>

text \<open>Quoted identifiers and string constants as PostgreSQL reads them with \<open>standard_conforming_strings\<close> on, its
  default: a doubled quote stands for one quote.  A quote that follows a word without a space would be a constant
  with a prefix (\<open>E'..'\<close>); the lexer refuses it.\<close>

datatype sql_token = Ident string | Lit string | Bare string | Sym char

datatype sql_mode = Plain string | Quoted char string | Closing char string

abbreviation dquote :: char where
  "dquote \<equiv> CHR 34"

abbreviation squote :: char where
  "squote \<equiv> CHR 39"

definition word_char :: "char \<Rightarrow> bool" where
  "word_char c \<longleftrightarrow> is_ascii_alphanumeric c \<or> c = CHR ''_''"

definition bare :: "string \<Rightarrow> sql_token list" where
  "bare w = (if w = [] then [] else [Bare w])"

definition quoted_token :: "char \<Rightarrow> string \<Rightarrow> sql_token" where
  "quoted_token q w = (if q = dquote then Ident w else Lit w)"

definition then_lex :: "sql_token list \<Rightarrow> sql_token list option \<Rightarrow> sql_token list option" where
  "then_lex ts r = map_option (append ts) r"

function lex :: "sql_mode \<Rightarrow> string \<Rightarrow> sql_token list option" where
  "lex (Plain w) [] = Some (bare w)"
| "lex (Plain w) (c # s) =
     (if c = dquote \<or> c = squote then (if w = [] then lex (Quoted c []) s else None)
      else if c = CHR '' '' then then_lex (bare w) (lex (Plain []) s)
      else if word_char c then lex (Plain (w @ [c])) s
      else then_lex (bare w @ [Sym c]) (lex (Plain []) s))"
| "lex (Quoted q w) [] = None"
| "lex (Quoted q w) (c # s) = (if c = q then lex (Closing q w) s else lex (Quoted q (w @ [c])) s)"
| "lex (Closing q w) [] = Some [quoted_token q w]"
| "lex (Closing q w) (c # s) =
     (if c = q then lex (Quoted q (w @ [q])) s else then_lex [quoted_token q w] (lex (Plain []) (c # s)))"
  by pat_completeness auto
termination
  by (relation "measure (\<lambda>(m, s). 2 * length s + (case m of Closing _ _ \<Rightarrow> 1 | _ \<Rightarrow> 0))") auto

definition sql_tokens :: "string \<Rightarrow> sql_token list option" where
  "sql_tokens s = lex (Plain []) s"

definition bares :: "string list \<Rightarrow> sql_token list" where
  "bares ws = map Bare ws"

lemma then_lex_simps [simp]:
  "then_lex ts None = None" "then_lex ts (Some us) = Some (ts @ us)" "then_lex [] r = r"
  "then_lex ts (then_lex us r) = then_lex (ts @ us) r"
  by (cases r; simp add: then_lex_def)+

lemma lex_doubled: "lex (Quoted q w) (replace_char q [q, q] x @ q # s) = lex (Closing q (w @ x)) s"
  by (induction x arbitrary: w) auto

lemma lex_closing: "s = [] \<or> hd s \<noteq> q \<Longrightarrow> lex (Closing q w) s = then_lex [quoted_token q w] (lex (Plain []) s)"
  by (cases s) (auto simp: bare_def)

lemma lex_identifier: "s = [] \<or> hd s \<noteq> dquote \<Longrightarrow> lex (Plain []) (quote_identifier x @ s) = then_lex [Ident x] (lex (Plain []) s)"
  by (simp add: quote_identifier_def lex_doubled lex_closing quoted_token_def)

lemma lex_literal: "s = [] \<or> hd s \<noteq> squote \<Longrightarrow> lex (Plain []) (quote_literal x @ s) = then_lex [Lit x] (lex (Plain []) s)"
  by (simp add: quote_literal_def lex_doubled lex_closing quoted_token_def)

lemmas char_class_defs = word_char_def is_ascii_alphanumeric_def is_ascii_digit_def is_ascii_upper_def is_ascii_lower_def code_in_def

lemmas lex_statement = sql_tokens_def bare_def char_class_defs lex_identifier lex_literal
  lex_identifier [of "[]", simplified] lex_literal [of "[]", simplified] bares_def

text \<open>C20 (statements keep their shape).  The reference lexer reads each statement that the lease manager sends,
  for all names, passwords, dates, databases, roles and application names, as the words of that statement with the
  given text as the content of one identifier or one literal: no input can end its quotes and add to the statement.\<close>

theorem statements_confined:
  "sql_tokens (create_sql u p v) =
     Some (bares [''CREATE'', ''ROLE''] @ [Ident u] @ bares [''WITH'', ''LOGIN'', ''PASSWORD''] @ [Lit p] @
       bares [''VALID'', ''UNTIL''] @ [Lit v]) \<and>
   sql_tokens (grant_connect_sql db u) =
     Some (bares [''GRANT'', ''CONNECT'', ''ON'', ''DATABASE''] @ [Ident db, Bare ''TO'', Ident u]) \<and>
   map sql_tokens (runtime_schema_grant_statements u) =
     map (\<lambda>schema. Some (bares [''GRANT'', ''USAGE'', ''ON'', ''SCHEMA''] @ [Ident schema, Bare ''TO'', Ident u]))
       [''gateway_secrets'', ''gateway_data'', ''database_extensions''] @
     concat (map (\<lambda>schema.
       [Some (Bare ''GRANT'' # concat (map (\<lambda>w. [Bare w, Sym CHR '','']) [''SELECT'', ''INSERT'', ''UPDATE'']) @
          bares [''DELETE'', ''ON'', ''ALL'', ''TABLES'', ''IN'', ''SCHEMA''] @ [Ident schema, Bare ''TO'', Ident u]),
        Some (Bare ''GRANT'' # concat (map (\<lambda>w. [Bare w, Sym CHR '','']) [''USAGE'', ''SELECT'']) @
          bares [''UPDATE'', ''ON'', ''ALL'', ''SEQUENCES'', ''IN'', ''SCHEMA''] @ [Ident schema, Bare ''TO'', Ident u])])
       [''gateway_secrets'', ''gateway_data'']) \<and>
   sql_tokens (grant_role_sql role u) = Some [Bare ''GRANT'', Ident role, Bare ''TO'', Ident u] \<and>
   sql_tokens (alter_sql u a) =
     Some (bares [''ALTER'', ''ROLE''] @ [Ident u] @ bares [''SET'', ''application_name''] @ [Sym CHR ''='', Lit a]) \<and>
   sql_tokens (drop_sql u) = Some (bares [''DROP'', ''ROLE'', ''IF'', ''EXISTS''] @ [Ident u])"
  by (intro conjI)
     (simp_all add: lex_statement create_sql_def grant_connect_sql_def runtime_schema_grant_statements_def LEASE_USAGE_SCHEMAS_def
       LEASE_RW_SCHEMAS_def Let_def grant_role_sql_def alter_sql_def drop_sql_def)

section \<open>Leases\<close>

text \<open>The shape of a role name: at most 63 bytes, lower-case letters, digits, underscore and hyphen.\<close>

definition role_char :: "char \<Rightarrow> bool" where
  "role_char c \<longleftrightarrow> is_ascii_digit c \<or> is_ascii_lower c \<or> c = CHR ''_'' \<or> c = CHR ''-''"

definition role_name :: "string \<Rightarrow> bool" where
  "role_name u \<longleftrightarrow> 17 \<le> length u \<and> length u \<le> 63 \<and> list_all role_char u"

definition leases_ok :: "('d, 'u) PostgresLeaseManager \<Rightarrow> bool" where
  "leases_ok m \<longleftrightarrow> distinct (map fst (plm_issued m)) \<and> list_all (\<lambda>(u, _). role_name u) (plm_issued m)"

lemma role_char_lower: "is_ascii_alphanumeric c \<or> c = CHR ''_'' \<or> c = CHR ''-'' \<Longrightarrow> role_char (ascii_lower c)"
  using code_in_lower [of c] by (auto simp: role_char_def ascii_lower_def)

lemma sanitize_identifier_chars: "sanitize_identifier a = Some s \<Longrightarrow> list_all role_char s"
  by (auto simp: sanitize_identifier_def Let_def to_ascii_lowercase_def list_all_iff role_char_lower split: if_splits)

lemma hex_role_char: "hex_digit c \<Longrightarrow> role_char c"
  by (auto simp: hex_digit_def role_char_def is_ascii_digit_def is_ascii_lower_def code_in_def)

lemma generate_username_role:
  assumes "hex_laws P" and "generate_username P g a = Inr u"
  shows "role_name u"
proof -
  define s where "s = (case sanitize_identifier a of Some s \<Rightarrow> s | None \<Rightarrow> ''lease'')"
  have s: "list_all role_char s"
    using sanitize_identifier_chars [of a]
    by (auto simp: s_def role_char_def is_ascii_lower_def code_in_def split: option.splits)
  have r: "length (hex_of P (fill g 8)) = 16" "list_all role_char (hex_of P (fill g 8))"
    using assms(1) by (auto simp: hex_laws_def fill_def list_all_iff hex_role_char)
  have "list_all role_char (take n s)" for n using s by (auto simp: list_all_iff dest: in_set_takeD)
  then show ?thesis using s r assms(2)
    by (auto simp: generate_username_def Let_def s_def [symmetric] role_name_def list_all_append role_char_def [of "CHR ''_''"]
        split: if_splits)
qed

text \<open>The run of a successful issue: its parts in order.\<close>

lemma issue_inv:
  assumes "issue_credentials E P now g audience scopes requested exporter app m = (Inr cred, m')"
  obtains ttl username d where "compute_ttl E m requested = Inr ttl" "checked_add E now ttl = Some (cred_expires_at cred)"
    "generate_username P (\<lambda>i. g (2 * i)) audience = Inr username" "cred_username cred = username"
    "create_role E P m \<lparr> rp_username = username, rp_password = cred_password cred, rp_valid_until = cred_expires_at cred,
       rp_target_url = (case map_of (plm_audience_urls m) audience of Some u \<Rightarrow> u | None \<Rightarrow> plm_base_url m),
       rp_audience = audience, rp_scopes = scopes, rp_application_name = app \<rparr> (plm_pool m) = (Inr (), d)"
    "m' = m\<lparr> plm_pool := d, plm_issued := map_insert username (cred_expires_at cred) (plm_issued m) \<rparr>"
    "\<not> list_all (\<lambda>b. b = 0) exporter"
  using assms unfolding issue_credentials_def Let_def
  by (simp only: effect_simps result_simps sum.inject prod.inject) (elim exE conjE, fastforce)

lemma compute_ttl_bounds:
  assumes "chrono_arith E" and M: "plm_max_ttl m = M * nanos_per_sec" "0 \<le> M" "M \<le> max_duration_secs"
    and "compute_ttl E m requested = Inr ttl"
  shows "nanos_per_sec \<le> ttl \<and> ttl \<le> plm_max_ttl m \<and> (\<forall>t. requested = Some t \<longrightarrow> ttl \<le> uint t * nanos_per_sec)"
proof -
  define r where "r = (case requested of Some t \<Rightarrow> t | None \<Rightarrow> word_of_int (num_seconds E (plm_default_ttl m)))"
  define w where "w = min r (word_of_int M)"
  have num: "num_seconds E (plm_max_ttl m) = M" using assms(1) M(1) by (simp add: chrono_arith_def)
  have uM: "uint (word_of_int M :: 64 word) = M" using M(2,3) by (simp add: uint_word_of_int max_duration_secs_def)
  have w: "w \<noteq> 0" "duration_seconds E w = (Inr ttl :: anyhow stop + _)"
    using assms(5) by (auto simp: compute_ttl_def Let_def num w_def r_def [symmetric] result_simps)
  have le: "uint w \<le> M" "uint w \<le> uint r" using uM by (auto simp: w_def min_def word_le_def)
  have "sint w = uint w" using le M(3) by (simp add: sint_u64 max_duration_secs_def)
  then have "ttl = uint w * nanos_per_sec"
    using assms(1) w(2) by (auto simp: duration_seconds_def result_simps chrono_arith_def split: if_splits)
  moreover have "1 \<le> uint w" using w(1) by (metis int_one_le_iff_zero_less uint_ge_0 order_le_less uint_0_iff)
  ultimately show ?thesis using le M(1) by (auto simp: r_def)
qed

lemma set_update: "p \<in> set (AList.update k v xs) \<Longrightarrow> p = (k, v) \<or> p \<in> set xs"
  by (induction xs) (auto split: if_splits)

lemma leases_ok_insert: "leases_ok m \<Longrightarrow> role_name u \<Longrightarrow> leases_ok (m\<lparr> plm_pool := d, plm_issued := map_insert u e (plm_issued m) \<rparr>)"
  by (auto simp: leases_ok_def map_insert_def distinct_update list_all_iff dest!: set_update)

lemma issue_bounded:
  assumes "chrono_arith E" "hex_laws P" "leases_ok m"
    and "plm_max_ttl m = M * nanos_per_sec" "0 \<le> M" "M \<le> max_duration_secs"
    and "issue_credentials E P now g audience scopes requested exporter app m = (Inr cred, m')"
  shows "now + nanos_per_sec \<le> cred_expires_at cred \<and> cred_expires_at cred \<le> now + plm_max_ttl m \<and>
    (case requested of Some t \<Rightarrow> cred_expires_at cred \<le> now + uint t * nanos_per_sec | None \<Rightarrow> True) \<and>
    role_name (cred_username cred) \<and>
    map_of (plm_issued m') = (map_of (plm_issued m))(cred_username cred \<mapsto> cred_expires_at cred) \<and> leases_ok m'"
proof -
  obtain ttl d where ttl: "compute_ttl E m requested = Inr ttl" and e: "checked_add E now ttl = Some (cred_expires_at cred)"
    and u: "generate_username P (\<lambda>i. g (2 * i)) audience = Inr (cred_username cred)"
    and m': "m' = m\<lparr> plm_pool := d, plm_issued := map_insert (cred_username cred) (cred_expires_at cred) (plm_issued m) \<rparr>"
    using assms(7) by (rule issue_inv) blast
  have "cred_expires_at cred = now + ttl" using assms(1) e by (simp add: chrono_arith_def split: if_splits)
  moreover have "role_name (cred_username cred)" using assms(2) u by (rule generate_username_role)
  ultimately show ?thesis
    using compute_ttl_bounds [OF assms(1,4-6) ttl] leases_ok_insert [OF assms(3)]
    by (auto simp: m' map_insert_def update_conv' split: option.splits)
qed

lemma on_manager_iff [effect_simps]:
  "on_manager f st = (Inr x, st') \<longleftrightarrow> (\<exists>m m'. st = Some m \<and> f m = (Inr x, m') \<and> st' = Some m')"
  by (cases st) (auto simp: on_manager_def result_simps split: prod.splits)

lemma handler_inv:
  assumes "issue_postgres_credentials_impl E P now g context params (Some m) = (Inr out, st')"
  obtains cred m' where "ctx_authenticated_transport context" "trimmed (ctx_principal_id context) \<noteq> None"
    "ctx_peer_cert_sha256 context \<noteq> None" "\<not> list_all (\<lambda>b. b = 0) (ctx_exporter context)" "st' = Some m'"
    "issue_credentials E P now g (trim (pcp_audience params)) (requested_scopes (pcp_scope params)) (pcp_ttl_seconds params)
       (ctx_exporter context) (pcp_application_name params) m = (Inr cred, m')"
    "pco_username out = cred_username cred" "pco_expires_at out = Some (cred_expires_at cred)"
  using assms unfolding issue_postgres_credentials_impl_def Let_def
  by (simp only: effect_simps result_simps sum.inject prod.inject option.inject) (elim exE conjE, fastforce)

text \<open>C19 (a lease is authorised, bounded and recorded).  Database credentials are only issued over an authenticated
  transport to a named principal with a client certificate and a channel binding that is not zero.  The lease expires at
  least a second and at most the configured maximum after the call, and not after the requested time to live; the role
  name fits a PostgreSQL name; the lease is recorded under that name, no other lease changes and the table of leases
  stays well formed.\<close>

theorem lease_bounded:
  assumes "chrono_arith E" "hex_laws P" "leases_ok m"
    and "plm_max_ttl m = M * nanos_per_sec" "0 \<le> M" "M \<le> max_duration_secs"
    and "issue_postgres_credentials_impl E P now g context params (Some m) = (Inr out, st')"
  shows "ctx_authenticated_transport context \<and> trimmed (ctx_principal_id context) \<noteq> None \<and>
    ctx_peer_cert_sha256 context \<noteq> None \<and> \<not> list_all (\<lambda>b. b = 0) (ctx_exporter context) \<and>
    (\<exists>m' expires_at. st' = Some m' \<and> leases_ok m' \<and> pco_expires_at out = Some expires_at \<and>
       map_of (plm_issued m') = (map_of (plm_issued m))(pco_username out \<mapsto> expires_at) \<and> role_name (pco_username out) \<and>
       now + nanos_per_sec \<le> expires_at \<and> expires_at \<le> now + plm_max_ttl m \<and>
       (case pcp_ttl_seconds params of Some t \<Rightarrow> expires_at \<le> now + uint t * nanos_per_sec | None \<Rightarrow> True))"
proof -
  obtain cred m' where inv: "ctx_authenticated_transport context" "trimmed (ctx_principal_id context) \<noteq> None"
    "ctx_peer_cert_sha256 context \<noteq> None" "\<not> list_all (\<lambda>b. b = 0) (ctx_exporter context)" "st' = Some m'"
    and run: "issue_credentials E P now g (trim (pcp_audience params)) (requested_scopes (pcp_scope params)) (pcp_ttl_seconds params)
       (ctx_exporter context) (pcp_application_name params) m = (Inr cred, m')"
    and out: "pco_username out = cred_username cred" "pco_expires_at out = Some (cred_expires_at cred)"
    using assms(7) by (rule handler_inv)
  show ?thesis using inv out issue_bounded [OF assms(1-6) run] by auto
qed

section \<open>Aborted transactions\<close>

lemma transaction_step:
  assumes "transaction_laws P base aborted" "pg_execute P s t = (q, t')"
  shows "base t' = base t" "\<not> is_ok q \<Longrightarrow> aborted t'" "aborted t \<Longrightarrow> \<not> is_ok q \<and> aborted t'"
  using assms unfolding transaction_laws_def by blast+

lemma execute_all_base:
  assumes "transaction_laws P base aborted"
  shows "execute_all P ss t = (q, t') \<Longrightarrow> base t' = base t"
proof (induction ss arbitrary: t)
  case (Cons s ss)
  obtain r u where "pg_execute P s t = (r, u)" by fastforce
  with Cons transaction_step(1) [OF assms this] show ?case by (cases r) (auto simp: sbind_def)
qed (simp add: sret_def)

lemma grant_roles_base:
  assumes "transaction_laws P base aborted"
  shows "base (grant_roles P u rs t) = base t"
proof (induction rs arbitrary: t)
  case (Cons r rs)
  obtain q t' where q: "pg_execute P (grant_role_sql r u) t = (q, t')" by fastforce
  then show ?case using Cons transaction_step(1) [OF assms q] by simp
qed simp

lemma grant_roles_aborted:
  assumes "transaction_laws P base aborted"
    and "aborted t \<or> (\<exists>r\<in>set rs. \<forall>t. \<not> is_ok (fst (pg_execute P (grant_role_sql r u) t)))"
  shows "aborted (grant_roles P u rs t)"
  using assms(2)
proof (induction rs arbitrary: t)
  case (Cons r rs)
  obtain q t' where q: "pg_execute P (grant_role_sql r u) t = (q, t')" by fastforce
  have a: "aborted t \<Longrightarrow> aborted t'" "\<not> is_ok q \<Longrightarrow> aborted t'" using transaction_step [OF assms(1) q] by blast+
  have "aborted t' \<or> (\<exists>r\<in>set rs. \<forall>t. \<not> is_ok (fst (pg_execute P (grant_role_sql r u) t)))"
    using Cons.prems a q by (metis fst_conv set_ConsD)
  then show ?case using Cons.IH q by simp
qed simp

lemma create_role_aborts:
  assumes laws: "transaction_laws P base aborted" and order: "\<And>xs. set (hash_order P xs) = set xs"
    and role: "role \<in> set (granted_roles m req)"
      "\<forall>t. \<not> is_ok (fst (pg_execute P (grant_role_sql role (rp_username req)) t))"
    and app: "Option.bind (rp_application_name req) sanitize_application_name = None"
    and run: "create_role E P m req d = (Inr (), d')"
  shows "d' = d"
proof -
  obtain tx tx' where tx: "pg_begin P d = Inr tx" "create_role_body E P m req tx = (Inr (), tx')" and c: "pg_commit P tx' = (Inr (), d')"
    using run by (auto simp: create_role_def split: sum.splits prod.splits)
  then obtain t1 t2 t3 where t: "pg_execute P (create_sql (rp_username req) (rp_password req) (to_rfc3339 E (rp_valid_until req))) tx = (Inr (), t1)"
    "(case database_name_from_url P (rp_target_url req) of
        Some db_name \<Rightarrow> pg_execute P (grant_connect_sql db_name (rp_username req)) | None \<Rightarrow> sret ()) t1 = (Inr (), t2)"
    "execute_all P (runtime_schema_grant_statements (rp_username req)) t2 = (Inr (), t3)"
    "tx' = grant_roles P (rp_username req) (hash_order P (granted_roles m req)) t3"
    unfolding create_role_body_def by (auto simp: sbind_Inr_iff app sret_iff)
  have "base t2 = base t1"
    using t(2) transaction_step(1) [OF laws] by (auto simp: sret_iff split: option.splits)
  then have "base tx' = d"
    using t(4) grant_roles_base [OF laws] execute_all_base [OF laws t(3)] transaction_step(1) [OF laws t(1)] laws tx(1)
    by (simp add: transaction_laws_def)
  moreover have "aborted tx'" unfolding t(4) by (rule grant_roles_aborted [OF laws]) (use role order in blast)
  ultimately show ?thesis using c laws unfolding transaction_laws_def by fastforce
qed

text \<open>C21 (leases without a role).  A request names a scope for which the grant always fails, because no such role
  exists or the manager may not grant it, and no application name.  When the call returns credentials, they are recorded
  as a lease, and yet the database is as it was before: PostgreSQL aborted the transaction at the failed grant, the code
  only logs that failure, and the commit that follows rolls back the role that was just created.\<close>

theorem failed_grant_loses_role:
  assumes "transaction_laws P base aborted" "\<And>xs. set (hash_order P xs) = set xs"
    and "role \<in> set scopes" "\<And>u t. \<not> is_ok (fst (pg_execute P (grant_role_sql role u) t))"
    and "issue_credentials E P now g audience scopes requested exporter None m = (Inr cred, m')"
  shows "plm_pool m' = plm_pool m \<and> map_of (plm_issued m') (cred_username cred) = Some (cred_expires_at cred)"
proof -
  obtain url d where c: "create_role E P m \<lparr> rp_username = cred_username cred, rp_password = cred_password cred,
       rp_valid_until = cred_expires_at cred, rp_target_url = url,
       rp_audience = audience, rp_scopes = scopes, rp_application_name = None \<rparr> (plm_pool m) = (Inr (), d)"
    and m': "m' = m\<lparr> plm_pool := d, plm_issued := map_insert (cred_username cred) (cred_expires_at cred) (plm_issued m) \<rparr>"
    using assms(5) by (rule issue_inv) blast
  have "d = plm_pool m"
    by (rule create_role_aborts [OF assms(1,2) _ _ _ c, where role = role]) (use assms(3,4) in \<open>auto simp: granted_roles_def\<close>)
  then show ?thesis by (simp add: m' map_insert_def update_conv')
qed

section \<open>Cleanup\<close>

definition overdue :: "instant \<Rightarrow> instant \<Rightarrow> bool" where
  "overdue now expiry \<longleftrightarrow> expiry + 60 * nanos_per_sec < now"

lemma expired_users_eq:
  assumes "chrono_arith E" "\<forall>(u, e) \<in> set xs. representable (e + 60 * nanos_per_sec)"
  shows "expired_users E now xs = Inr (map fst (filter (\<lambda>(u, e). overdue now e) xs))"
  using assms(2) by (induction xs) (use assms(1) in \<open>auto simp: chrono_arith_def overdue_def\<close>)

lemma drop_roles_failed: "\<forall>s d. snd (pg_run P s d) = d \<Longrightarrow> drop_roles P us d = d"
  by (induction us arbitrary: d) auto

lemma filter_overdue:
  "distinct (map fst xs) \<Longrightarrow>
    filter (\<lambda>(u, _). u \<notin> set (map fst (filter (\<lambda>(u, e). overdue now e) xs))) xs = filter (\<lambda>(u, e). \<not> overdue now e) xs"
  by (rule filter_cong) (auto simp: image_iff dest: eq_key_imp_eq_value)

text \<open>The whole run of a cleanup pass: it always returns, drops a role for every overdue entry and keeps the others.\<close>

lemma cleanup_run:
  assumes "chrono_arith E" "leases_ok m" "\<forall>(u, e) \<in> set (plm_issued m). representable (e + 60 * nanos_per_sec)"
  obtains m' us where "cleanup_expired_leases E P now m = (Inr (), m')" "plm_issued m' = filter (\<lambda>(u, e). \<not> overdue now e) (plm_issued m)"
    "us = map fst (filter (\<lambda>(u, e). overdue now e) (plm_issued m))"
    "plm_pool m' = (if us = [] then plm_pool m else drop_roles P (hash_order P us) (plm_pool m))"
proof -
  define us where "us = map fst (filter (\<lambda>(u, e). overdue now e) (plm_issued m))"
  have d: "distinct (map fst (plm_issued m))" using assms(2) by (simp add: leases_ok_def)
  have keep: "us = [] \<Longrightarrow> plm_issued m = filter (\<lambda>(u, e). \<not> overdue now e) (plm_issued m)"
    by (rule filter_True [symmetric]) (auto simp: us_def filter_empty_conv)
  show thesis
  proof (cases "us = []")
    case True
    then have "cleanup_expired_leases E P now m = (Inr (), m)"
      using expired_users_eq [OF assms(1,3), of now]
      by (simp add: cleanup_expired_leases_def us_def sret_def)
    then show thesis using that [of m us] keep True by (simp add: us_def [symmetric])
  next
    case False
    then have "cleanup_expired_leases E P now m = (Inr (), m\<lparr> plm_pool := drop_roles P (hash_order P us) (plm_pool m),
        plm_issued := filter (\<lambda>(u, _). u \<notin> set us) (plm_issued m) \<rparr>)"
      using expired_users_eq [OF assms(1,3), of now] by (simp add: cleanup_expired_leases_def us_def [symmetric])
    moreover have "filter (\<lambda>(u, _). u \<notin> set us) (plm_issued m) = filter (\<lambda>(u, e). \<not> overdue now e) (plm_issued m)"
      unfolding us_def by (rule filter_overdue [OF d])
    ultimately show thesis by (elim that [OF _ _ us_def]) (simp_all add: False)
  qed
qed

text \<open>Cleanup forgets failed drops.  When every \<open>DROP ROLE\<close> of a pass fails and leaves the database as it is, the
  pass still succeeds and removes exactly the overdue leases from the table: their roles stay in the database and no later
  pass tries them again.\<close>

lemma cleanup_forgets_failed_drops:
  assumes "chrono_arith E" "leases_ok m" "\<forall>(u, e) \<in> set (plm_issued m). representable (e + 60 * nanos_per_sec)"
    and "\<forall>s d. snd (pg_run P s d) = d"
  shows "\<exists>m'. cleanup_expired_leases E P now m = (Inr (), m') \<and> plm_pool m' = plm_pool m \<and>
    plm_issued m' = filter (\<lambda>(u, e). \<not> overdue now e) (plm_issued m)"
proof -
  obtain m' us where "cleanup_expired_leases E P now m = (Inr (), m')" "plm_issued m' = filter (\<lambda>(u, e). \<not> overdue now e) (plm_issued m)"
    "us = map fst (filter (\<lambda>(u, e). overdue now e) (plm_issued m))"
    "plm_pool m' = (if us = [] then plm_pool m else drop_roles P (hash_order P us) (plm_pool m))"
    using assms(1-3) by (rule cleanup_run)
  then show ?thesis using drop_roles_failed [OF assms(4)] by auto
qed

section \<open>A concrete database\<close>

text \<open>A server that keeps the list of committed statements; a role called \<open>ghost\<close> does not exist, and dropping a role
  fails.\<close>

definition sample_hex :: "bytes \<Rightarrow> string" where
  "sample_hex bs = concat (map (\<lambda>_. ''0f'') bs)"

definition sample_execute :: "string \<Rightarrow> (string list \<times> string list \<times> bool, anyhow, unit) effect" where
  "sample_execute s t =
     (case t of (committed, pending, aborted) \<Rightarrow>
        if aborted \<or> starts_with (''GRANT '' @ quote_identifier ''ghost'') s
        then (Inl ''error'', (committed, pending, True)) else (Inr (), (committed, pending @ [s], False)))"

definition sample_pg :: "(string list, string list \<times> string list \<times> bool, string) pg_ext" where
  "sample_pg = \<lparr>
     pg_connect = (\<lambda>_ _. Inr []), pg_begin = (\<lambda>d. Inr (d, [], False)), pg_execute = sample_execute,
     pg_commit = (\<lambda>(committed, pending, aborted). (Inr (), if aborted then committed else committed @ pending)),
     pg_rollback = fst, pg_run = (\<lambda>s d. (Inl ''role is in use'', d)),
     url_parse = Inr, url_path = (\<lambda>u. u), url_set_username = (\<lambda>_ u. Some u), url_set_password = (\<lambda>_ u. Some u),
     url_append_pair = (\<lambda>_ _ u. u), url_to_string = (\<lambda>u. u), hex_of = sample_hex,
     sample_alphanumeric = (\<lambda>_ n. replicate n CHR ''a''), hash_order = (\<lambda>xs. xs) \<rparr>"

definition sample_manager :: "(string list, string) PostgresLeaseManager" where
  "sample_manager = \<lparr>
     plm_pool = [], plm_base_url = ''/'', plm_default_roles = [], plm_audience_urls = [], plm_audience_roles = [],
     plm_ca_certificate_pem = None, plm_server_cert_fingerprint = None, plm_default_ttl = 900 * nanos_per_sec,
     plm_max_ttl = 3600 * nanos_per_sec, plm_cleanup_interval_seconds = 300, plm_issued = [] \<rparr>"

abbreviation sample_user :: string where
  "sample_user \<equiv> ''db_0f0f0f0f0f0f0f0f''"

lemma sample_pg_laws:
  "hex_laws sample_pg" "transaction_laws sample_pg fst (\<lambda>(_, _, aborted). aborted)"
  "set (hash_order sample_pg xs) = set xs" "\<not> is_ok (fst (pg_execute sample_pg (grant_role_sql ''ghost'' u) t))"
  "snd (pg_run sample_pg s d) = d"
proof -
  have "length (sample_hex b) = 2 * length b \<and> list_all hex_digit (sample_hex b)" for b
    by (induction b) (auto simp: sample_hex_def hex_digit_def code_in_def)
  then show "hex_laws sample_pg" by (simp add: hex_laws_def sample_pg_def)
  show "transaction_laws sample_pg fst (\<lambda>(_, _, aborted). aborted)"
    by (auto simp: transaction_laws_def sample_pg_def sample_execute_def split: if_splits)
  show "\<not> is_ok (fst (pg_execute sample_pg (grant_role_sql ''ghost'' u) t))"
    by (cases t) (simp add: sample_pg_def sample_execute_def grant_role_sql_def starts_with_def quote_identifier_def)
qed (simp_all add: sample_pg_def)

lemma sample_ttl: "compute_ttl sample_ext sample_manager (Some 60) = Inr (60 * nanos_per_sec)"
  using sample_ext_laws by (simp add: compute_ttl_def duration_seconds_def sample_manager_def chrono_arith_def max_duration_secs_def
      sample_ext_def)

lemma sample_lease_expiry: "checked_add sample_ext 0 (60 * nanos_per_sec) = Some (60 * nanos_per_sec)"
  using sample_ext_laws by (simp add: chrono_arith_def representable_def chrono_min_secs_def chrono_max_secs_def)

lemma sample_username: "generate_username sample_pg g ''db'' = Inr sample_user"
  by (simp add: generate_username_def sanitize_identifier_def is_ascii_alphanumeric_def is_ascii_digit_def is_ascii_upper_def
      is_ascii_lower_def code_in_def to_ascii_lowercase_def ascii_lower_def Let_def sample_pg_def sample_hex_def fill_def upt_rec)

lemma sample_step: "\<not> starts_with (''GRANT '' @ quote_identifier ''ghost'') s \<Longrightarrow>
    pg_execute sample_pg s (d, p, False) = (Inr (), (d, p @ [s], False))"
  by (simp add: sample_pg_def sample_execute_def)

lemma sample_create_role:
  assumes "rp_target_url req = ''/''" "rp_application_name req = None"
  shows "\<exists>d. create_role sample_ext sample_pg sample_manager req [] = (Inr (), d)"
proof -
  have name: "database_name_from_url sample_pg ''/'' = None"
    by (simp add: database_name_from_url_def sample_pg_def trim_start_char_def)
  have "fst (create_role_body sample_ext sample_pg sample_manager req ([], [], False)) = Inr ()"
    by (simp add: create_role_body_def assms name sbind_step(1) sample_step starts_with_def quote_identifier_def create_sql_def
        runtime_schema_grant_statements_def LEASE_USAGE_SCHEMAS_def LEASE_RW_SCHEMAS_def Let_def sret_def)
  then show ?thesis by (auto simp: create_role_def sample_pg_def split: prod.splits sum.splits)
qed

lemma sample_issue:
  obtains cred m' where "issue_credentials sample_ext sample_pg 0 g ''db'' scopes (Some 60) [1, 2] None sample_manager = (Inr cred, m')"
    "cred_username cred = sample_user" "cred_expires_at cred = 60 * nanos_per_sec"
proof -
  define req where "req = \<lparr> rp_username = sample_user, rp_password = replicate 48 CHR ''a'',
       rp_valid_until = 60 * nanos_per_sec, rp_target_url = ''/'',
       rp_audience = ''db'', rp_scopes = scopes, rp_application_name = None \<rparr>"
  obtain d where d: "create_role sample_ext sample_pg sample_manager req [] = (Inr (), d)"
    using sample_create_role [of req] by (auto simp: req_def)
  have fields: "plm_base_url sample_manager = ''/''" "plm_audience_urls sample_manager = []" "plm_pool sample_manager = []"
    "sample_alphanumeric sample_pg h 48 = replicate 48 CHR ''a''" "url_set_username sample_pg a u = Some u"
    "url_set_password sample_pg a u = Some u" for h a u
    by (simp_all add: sample_manager_def sample_pg_def)
  have "smap_err Fail (szoom plm_pool (\<lambda>d m. m\<lparr> plm_pool := d \<rparr>) (create_role sample_ext sample_pg sample_manager req)) sample_manager
      = (Inr (), sample_manager\<lparr> plm_pool := d \<rparr>)" using d by (simp add: effect_simps fields)
  then show thesis
    using sample_ttl sample_lease_expiry sample_username that
    by (simp add: issue_credentials_def Let_def fields sbind_step(1) req_def sret_def)
qed

lemma sample_leases_ok: "leases_ok sample_manager"
  by (simp add: leases_ok_def sample_manager_def)

definition sample_lease_request :: PostgresCredentialParams where
  "sample_lease_request = \<lparr> pcp_audience = ''db'', pcp_scope = [], pcp_ttl_seconds = Some 60, pcp_application_name = None \<rparr>"

lemma sample_handler:
  obtains out st' where "issue_postgres_credentials_impl sample_ext sample_pg 0 g sample_context sample_lease_request (Some sample_manager)
    = (Inr out, st')"
proof -
  obtain cred m' where run: "issue_credentials sample_ext sample_pg 0 g ''db'' [] (Some 60) [1, 2] None sample_manager = (Inr cred, m')"
    by (rule sample_issue)
  have "trim ''db'' = ''db''" by (rule trim_printable) (simp add: printable_def)
  moreover have "requested_scopes [] = []" by (simp add: requested_scopes_def trimmed_items_def)
  moreover have "ctx_exporter sample_context = [1, 2]" by (simp add: sample_context_def from_tls_exporter_def)
  ultimately show thesis using run that
    by (simp add: issue_postgres_credentials_impl_def sample_lease_request_def sample_context_facts sbind_step(1) Let_def
        on_manager_def sret_def)
qed

theorem lease_bounded_witness:
  "\<exists>out m'. issue_postgres_credentials_impl sample_ext sample_pg 0 (\<lambda>_. 0) sample_context sample_lease_request (Some sample_manager)
       = (Inr out, Some m') \<and>
     (\<exists>t. pco_expires_at out = Some t \<and> nanos_per_sec \<le> t \<and> t \<le> 60 * nanos_per_sec) \<and> role_name (pco_username out) \<and> leases_ok m'"
proof -
  obtain out st' where run: "issue_postgres_credentials_impl sample_ext sample_pg 0 (\<lambda>_. 0) sample_context sample_lease_request
      (Some sample_manager) = (Inr out, st')"
    by (rule sample_handler)
  have "plm_max_ttl sample_manager = 3600 * nanos_per_sec" by (simp add: sample_manager_def)
  then show ?thesis
    using lease_bounded [OF sample_ext_laws(7) sample_pg_laws(1) sample_leases_ok _ _ _ run, of 3600] run
    by (auto simp: max_duration_secs_def sample_lease_request_def)
qed

theorem failed_grant_loses_role_witness:
  "\<exists>cred m'. issue_credentials sample_ext sample_pg 0 (\<lambda>_. 0) ''db'' [''ghost''] (Some 60) [1, 2] None sample_manager = (Inr cred, m') \<and>
     plm_pool m' = [] \<and> map_of (plm_issued m') sample_user = Some (60 * nanos_per_sec)"
proof -
  obtain cred m' where run: "issue_credentials sample_ext sample_pg 0 (\<lambda>_. 0) ''db'' [''ghost''] (Some 60) [1, 2] None sample_manager = (Inr cred, m')"
    and "cred_username cred = sample_user" "cred_expires_at cred = 60 * nanos_per_sec"
    by (rule sample_issue)
  moreover have "plm_pool sample_manager = []" by (simp add: sample_manager_def)
  ultimately show ?thesis
    using failed_grant_loses_role [OF sample_pg_laws(2,3) _ sample_pg_laws(4) run] by auto
qed

lemma cleanup_forgets_failed_drops_witness:
  "\<exists>m'. cleanup_expired_leases sample_ext sample_pg (90 * nanos_per_sec)
       (sample_manager\<lparr> plm_pool := [''CREATE ROLE''], plm_issued := [(sample_user, 20 * nanos_per_sec)] \<rparr>) = (Inr (), m') \<and>
     plm_pool m' = [''CREATE ROLE''] \<and> plm_issued m' = []"
  using cleanup_forgets_failed_drops [OF sample_ext_laws(7), where P = sample_pg and now = "90 * nanos_per_sec" and
      m = "sample_manager\<lparr> plm_pool := [''CREATE ROLE''], plm_issued := [(sample_user, 20 * nanos_per_sec)] \<rparr>"]
  by (simp add: sample_pg_laws leases_ok_def role_name_def role_char_def is_ascii_digit_def is_ascii_lower_def code_in_def
      overdue_def representable_def chrono_min_secs_def chrono_max_secs_def)

end
