(* ===== verification/Grpc.thy ===== *)
theory Grpc
  imports Custody Leases
begin

text \<open>
  The gRPC service (\<open>secret_broker_server_impl.rs\<close>): each method takes the caller's context from the request, converts
  the message (\<open>proto/secret_broker.proto\<close>), calls its handler and converts the outcome or the error.

  The context is the one attached to the connection, absent when there is none.  The state is the broker state with its
  Postgres lease manager and security module.  The text of a \<open>Debug\<close> rendering is not modelled: a status keeps the error
  it was built from.  A protobuf double is given by its decimal text, \<open>None\<close> when it is not finite.
\<close>

section \<open>Status and state\<close>

datatype Code = Invalid_Argument | Not_Found | Failed_Precondition | Unauthenticated | Permission_Denied | Status_Unavailable | Internal

datatype status_message = Text string | DebugService ServiceError | DebugAnyhow anyhow

record Status =
  st_code :: Code
  st_message :: status_message

abbreviation status :: "Code \<Rightarrow> string \<Rightarrow> Status" where
  "status c s \<equiv> \<lparr> st_code = c, st_message = Text s \<rparr>"

record ('d, 'u) SecretBrokerState =
  gs_broker :: BrokerState
  gs_postgres :: "('d, 'u) PostgresLeaseManager option"
  gs_hsm :: "HardwareSecurityModule option"

type_synonym ('d, 'u, 'a) rpc = "(('d, 'u) SecretBrokerState, Status stop, 'a) effect"

fun svc_service_err :: "ServiceError \<Rightarrow> Status" where
  "svc_service_err (Unavailable message) = status Status_Unavailable message"
| "svc_service_err err = status
     (case err of
        InvalidBase64 \<Rightarrow> Invalid_Argument | Serialization _ \<Rightarrow> Invalid_Argument | InvalidHandle \<Rightarrow> Invalid_Argument
      | InvalidTtl \<Rightarrow> Invalid_Argument | InvalidAttenuation _ \<Rightarrow> Invalid_Argument
      | HandleNotFound \<Rightarrow> Not_Found
      | ExpiredHandle \<Rightarrow> Failed_Precondition | RevokedHandle \<Rightarrow> Failed_Precondition | MissingLineage _ \<Rightarrow> Failed_Precondition
      | UnauthenticatedTransport \<Rightarrow> Unauthenticated | AuthenticatedPrincipalRequired \<Rightarrow> Unauthenticated
      | SignatureInvalid \<Rightarrow> Permission_Denied | ExporterBindingMismatch \<Rightarrow> Permission_Denied
      | RedeemTokenInvalid \<Rightarrow> Permission_Denied | RedeemTokenExpired \<Rightarrow> Permission_Denied
      | RedeemTokenUsed \<Rightarrow> Permission_Denied | PrincipalMismatch \<Rightarrow> Permission_Denied | PeerCertMismatch \<Rightarrow> Permission_Denied
      | AttestationMismatch \<Rightarrow> Permission_Denied | UnauthorizedDischargePrincipal \<Rightarrow> Permission_Denied
      | _ \<Rightarrow> Internal) (service_error_text err)"

definition svc_err :: "ServiceError \<Rightarrow> Status" where
  "svc_err e = \<lparr> st_code = Internal, st_message = DebugService e \<rparr>"

definition svc_anyhow_err :: "anyhow \<Rightarrow> Status" where
  "svc_anyhow_err e = \<lparr> st_code = Internal, st_message = DebugAnyhow e \<rparr>"

text \<open>Calls of a handler with \<open>map_err(svc_service_err)\<close> or \<open>map_err(svc_err)\<close>, and of the crypto service.\<close>

abbreviation on_broker :: "(BrokerState, 'e, 'a) effect \<Rightarrow> (('d, 'u) SecretBrokerState, 'e, 'a) effect" where
  "on_broker \<equiv> szoom gs_broker (\<lambda>b s. s\<lparr> gs_broker := b \<rparr>)"

definition call_svc :: "'a handler \<Rightarrow> ('d, 'u, 'a) rpc" where
  "call_svc m = smap_err (map_stop svc_service_err) (on_broker m)"

definition call_debug :: "'a handler \<Rightarrow> ('d, 'u, 'a) rpc" where
  "call_debug m = smap_err (map_stop svc_err) (on_broker m)"

definition call_anyhow :: "(BrokerState, anyhow stop, 'a) effect \<Rightarrow> ('d, 'u, 'a) rpc" where
  "call_anyhow m = smap_err (map_stop svc_anyhow_err) (on_broker m)"

definition call_crypto :: "nat \<Rightarrow> (rng \<Rightarrow> (nat \<Rightarrow> instant) \<Rightarrow> 'a svc) \<Rightarrow> ('d, 'u, 'a) rpc" where
  "call_crypto n f = call_anyhow
     (sbind fork_rng (\<lambda>g. sbind (read_clock n) (\<lambda>clock. szoom br_crypto (\<lambda>c b. b\<lparr> br_crypto := c \<rparr>) (f g clock))))"

abbreviation check_rpc :: "bool \<Rightarrow> Code \<Rightarrow> string \<Rightarrow> ('d, 'u, unit) rpc" where
  "check_rpc b c s \<equiv> slift (ensure b (Fail (status c s)))"

abbreviation ok_rpc :: "Code \<Rightarrow> string \<Rightarrow> 'a option \<Rightarrow> ('d, 'u, 'a) rpc" where
  "ok_rpc c s v \<equiv> slift (ok_or (Fail (status c s)) v)"

definition broker_context :: "BrokerClientContext option \<Rightarrow> ('d, 'u, BrokerClientContext) rpc" where
  "broker_context ext = ok_rpc Failed_Precondition ''secret-broker requests require authenticated live mTLS connection context'' ext"

section \<open>Conversions\<close>

definition empty_to_none :: "string \<Rightarrow> string option" where
  "empty_to_none v = (if trim v = [] then None else Some (trim v))"

text \<open>\<open>if v > 0 { Some(v) } else { None }\<close> and \<open>if s.is_empty() { None } else { Some(s) }\<close>.\<close>

definition positive :: "'w :: len word \<Rightarrow> 'w word option" where
  "positive v = (if v > 0 then Some v else None)"

definition nonempty :: "string \<Rightarrow> string option" where
  "nonempty s = (if s = [] then None else Some s)"

record Timestamp =
  ts_seconds :: int
  ts_nanos :: int

definition chrono_to_timestamp :: "'z ext_scheme \<Rightarrow> instant \<Rightarrow> Timestamp" where
  "chrono_to_timestamp E dt = \<lparr> ts_seconds = timestamp E dt, ts_nanos = dt mod nanos_per_sec \<rparr>"

definition parse_crypto_algorithm :: "string \<Rightarrow> Status stop + EncryptionAlgorithm" where
  "parse_crypto_algorithm v =
     (let t = trim v in
      if t = [] \<or> t = ''aes-256-gcm'' then Inr Aes256Gcm
      else if t = ''chacha20-poly1305'' then Inr ChaCha20Poly1305
      else if t = ''xchacha20-poly1305'' then Inr XChaCha20Poly1305
      else if t = ''kyber768'' then Inr Kyber768
      else Inl (Fail (status Invalid_Argument (''unsupported algorithm: '' @ t))))"

definition default_customer_id :: "string \<Rightarrow> string" where
  "default_customer_id v = (if trim v = [] then ''default'' else trim v)"

datatype prost_value =
  NullValue
| NumberValue "string option"
| StringValue string
| BoolValue bool
| StructValue "(string \<times> prost_value) list"
| ListValue "prost_value list"
| NoKind

primrec prost_value_to_json :: "prost_value \<Rightarrow> json" where
  "prost_value_to_json NullValue = JNull"
| "prost_value_to_json (NumberValue n) = (case n of Some t \<Rightarrow> JFloat t | None \<Rightarrow> JNull)"
| "prost_value_to_json (StringValue s) = JString s"
| "prost_value_to_json (BoolValue b) = JBool b"
| "prost_value_to_json (StructValue fs) = JObject (map (map_prod id prost_value_to_json) fs)"
| "prost_value_to_json (ListValue vs) = JArray (map prost_value_to_json vs)"
| "prost_value_to_json NoKind = JNull"

definition prost_struct_to_json :: "(string \<times> prost_value) list \<Rightarrow> json" where
  "prost_struct_to_json fs = JObject (map (map_prod id prost_value_to_json) fs)"

record ThresholdShare =
  ths_x :: "32 word"
  ths_y :: bytes

definition proto_share :: "Share \<Rightarrow> ThresholdShare" where
  "proto_share s = \<lparr> ths_x = ucast (share_x s), ths_y = share_y s \<rparr>"

definition from_proto_share :: "string \<Rightarrow> string \<Rightarrow> ThresholdShare \<Rightarrow> Status stop + Share" where
  "from_proto_share bad_x bad_y s =
     rbind (ensure (\<not> (ths_x s = 0 \<or> ths_x s > 255)) (Fail (status Invalid_Argument bad_x))) (\<lambda>_.
     rbind (ensure (length (ths_y s) = SHARE_LENGTH) (Fail (status Invalid_Argument bad_y))) (\<lambda>_.
     Inr \<lparr> share_x = ucast (ths_x s), share_y = ths_y s \<rparr>))"

section \<open>Messages\<close>

record WrapSecretV2Message =
  pw_plaintext :: bytes
  pw_customer_id :: string
  pw_metadata :: "(string \<times> prost_value) list option"
  pw_lifecycle :: "32 word"
  pw_initial_lease_seconds :: "64 word"
  pw_label :: string
  pw_tenant_id :: string
  pw_provider :: string
  pw_circuit_id :: string
  pw_node_id :: string
  pw_unwrap_principal_id :: string
  pw_ttl_seconds :: "64 word"

record WrapSecretResponse =
  pwr_handle :: string
  pwr_created_at :: Timestamp
  pwr_expires_at :: "Timestamp option"
  pwr_redeem_token :: bytes
  pwr_redeem_token_expires_at :: "Timestamp option"

record MintAeadKeyV2Message =
  pm_ttl_seconds :: "64 word"
  pm_label :: string
  pm_tenant_id :: string
  pm_provider :: string
  pm_threshold :: "32 word"
  pm_num_shares :: "32 word"
  pm_lifecycle :: "32 word"
  pm_initial_lease_seconds :: "64 word"
  pm_custodian_ids :: "string list"
  pm_unwrap_principal_id :: string

record MintAeadKeyV2Response =
  pmr_key :: bytes
  pmr_handle :: string
  pmr_expires_at :: "Timestamp option"
  pmr_redeem_token :: bytes
  pmr_redeem_shares :: "ThresholdShare list"
  pmr_redeem_token_expires_at :: "Timestamp option"
  pmr_threshold :: "32 word"
  pmr_num_shares :: "32 word"

record UnwrapSecretV2Message =
  pu_handle :: string
  pu_redeem_token :: bytes
  pu_redeem_shares :: "ThresholdShare list"
  pu_tenant_id :: string
  pu_provider :: string
  pu_circuit_id :: string
  pu_node_id :: string
  pu_discharges :: "string list"

record RotateSecretMessage =
  pr_old_handle :: string
  pr_new_plaintext :: bytes
  pr_customer_id :: string
  pr_metadata :: "(string \<times> prost_value) list option"
  pr_ttl_seconds :: "64 word"
  pr_lifecycle :: "32 word"
  pr_rotation_reason :: string
  pr_threshold :: "32 word"
  pr_num_shares :: "32 word"

record RotateSecretReply =
  prr_new_handle :: string
  prr_created_at :: Timestamp
  prr_expires_at :: "Timestamp option"
  prr_redeem_token :: bytes
  prr_redeem_token_expires_at :: "Timestamp option"
  prr_old_revoked :: bool
  prr_new_shares :: "ThresholdShare list"

section \<open>Wrapping, minting, unwrapping\<close>

definition wrap_request :: "WrapSecretV2Message \<Rightarrow> WrapV2Request" where
  "wrap_request req = \<lparr>
     wrp_plaintext = pw_plaintext req, wrp_customer_id = empty_to_none (pw_customer_id req),
     wrp_metadata = map_option prost_struct_to_json (pw_metadata req), wrp_lifecycle = from_proto_i32 (pw_lifecycle req),
     wrp_ttl_seconds = positive (pw_ttl_seconds req), wrp_initial_lease_seconds = positive (pw_initial_lease_seconds req),
     wrp_label = empty_to_none (pw_label req), wrp_tenant_id = empty_to_none (pw_tenant_id req),
     wrp_provider = empty_to_none (pw_provider req), wrp_circuit_id = empty_to_none (pw_circuit_id req),
     wrp_node_id = empty_to_none (pw_node_id req), wrp_unwrap_principal_id = empty_to_none (pw_unwrap_principal_id req) \<rparr>"

definition rpc_wrap_secret_v2 ::
  "'z crypto_ext_scheme \<Rightarrow> BrokerClientContext option \<Rightarrow> WrapSecretV2Message \<Rightarrow> ('d, 'u, WrapSecretResponse) rpc" where
  "rpc_wrap_secret_v2 E ext req =
     sbind (broker_context ext) (\<lambda>context.
     sbind (on_broker utc_now) (\<lambda>now.
     sbind (call_svc (wrap_secret_v2_impl E context (wrap_request req))) (\<lambda>outcome.
     sbind (ok_rpc Internal ''redeem token base64 decode'' (b64_decode E (wro_redeem_token outcome))) (\<lambda>redeem_token.
     sret \<lparr> pwr_handle = wro_handle outcome, pwr_created_at = chrono_to_timestamp E now,
            pwr_expires_at = map_option (chrono_to_timestamp E) (wro_expires_at outcome), pwr_redeem_token = redeem_token,
            pwr_redeem_token_expires_at = map_option (chrono_to_timestamp E) (wro_redeem_token_expires_at outcome) \<rparr>))))"

definition rpc_delete_secret :: "'z log_ext_scheme \<Rightarrow> BrokerClientContext option \<Rightarrow> string \<Rightarrow> ('d, 'u, unit) rpc" where
  "rpc_delete_secret E ext handle =
     sbind (broker_context ext) (\<lambda>context.
     sbind (call_debug (delete_secret_impl E context handle)) (\<lambda>_. sret ()))"

text \<open>A count of the wire format: zero is absent, and it must fit a byte.\<close>

definition byte_count :: "string \<Rightarrow> 32 word \<Rightarrow> Status stop + byte option" where
  "byte_count msg v =
     (if v = 0 then Inr None
      else if v \<le> 255 then Inr (Some (ucast v))
      else Inl (Fail (status Invalid_Argument msg)))"

definition mint_request :: "MintAeadKeyV2Message \<Rightarrow> byte option \<Rightarrow> byte option \<Rightarrow> MintV2Request" where
  "mint_request req threshold num_shares = \<lparr>
     mnt_ttl_seconds = positive (pm_ttl_seconds req), mnt_label = empty_to_none (pm_label req),
     mnt_tenant_id = empty_to_none (pm_tenant_id req), mnt_provider = empty_to_none (pm_provider req),
     mnt_threshold = threshold, mnt_num_shares = num_shares, mnt_lifecycle = from_proto_i32 (pm_lifecycle req),
     mnt_initial_lease_seconds = positive (pm_initial_lease_seconds req), mnt_custodian_ids = pm_custodian_ids req,
     mnt_unwrap_principal_id = empty_to_none (pm_unwrap_principal_id req) \<rparr>"

definition mint_redeem ::
  "'z broker_ext_scheme \<Rightarrow> 32 word \<Rightarrow> string \<Rightarrow> Status stop + bytes \<times> ThresholdShare list" where
  "mint_redeem E effective_threshold redeem_token =
     (if effective_threshold > 1 then
        if redeem_token = [] then Inr ([], [])
        else rbind (map_err (\<lambda>_. Fail (status Internal ''share decode'')) (shares_from_json E redeem_token)) (\<lambda>shares.
          Inr ([], map proto_share shares))
      else rbind (ok_or (Fail (status Internal ''redeem token base64 decode'')) (b64_decode E redeem_token)) (\<lambda>token.
        Inr (token, [])))"

definition rpc_mint_aead_key_v2 ::
  "'z broker_ext_scheme \<Rightarrow> ('f :: field, 'g) curve \<Rightarrow> (nat \<Rightarrow> 'f) \<Rightarrow> BrokerClientContext option \<Rightarrow> MintAeadKeyV2Message
    \<Rightarrow> ('d, 'u, MintAeadKeyV2Response) rpc" where
  "rpc_mint_aead_key_v2 E C rnd ext req =
     sbind (broker_context ext) (\<lambda>context.
     sbind (slift (byte_count ''threshold must be <= 255'' (pm_threshold req))) (\<lambda>threshold.
     sbind (slift (byte_count ''num_shares must be <= 255'' (pm_num_shares req))) (\<lambda>num_shares.
     let effective_threshold = ucast (unwrap_or threshold 1) :: 32 word; effective_num_shares = ucast (unwrap_or num_shares 1) :: 32 word in
     sbind (call_svc (mint_aead_key_v2_impl E C rnd context (mint_request req threshold num_shares))) (\<lambda>result.
     sbind (ok_rpc Internal ''key base64 decode'' (b64_decode E (mnr_key result))) (\<lambda>key_bytes.
     sbind (slift (mint_redeem E effective_threshold (mnr_redeem_token result))) (\<lambda>(redeem_token, redeem_shares).
     sret \<lparr> pmr_key = key_bytes, pmr_handle = mnr_handle result,
            pmr_expires_at = map_option (chrono_to_timestamp E) (mnr_expires_at result),
            pmr_redeem_token = redeem_token, pmr_redeem_shares = redeem_shares,
            pmr_redeem_token_expires_at = map_option (chrono_to_timestamp E) (mnr_redeem_token_expires_at result),
            pmr_threshold = effective_threshold, pmr_num_shares = effective_num_shares \<rparr>))))))"

definition unwrap_redeem :: "'z broker_ext_scheme \<Rightarrow> UnwrapSecretV2Message \<Rightarrow> Status stop + string" where
  "unwrap_redeem E req =
     (if pu_redeem_shares req \<noteq> [] then
        rbind (collect_results (map (from_proto_share ''share x must be in 1..=255'' ''share y must be exactly 32 bytes'')
          (pu_redeem_shares req))) (\<lambda>shares.
        map_err (\<lambda>_. Fail (status Internal ''share encode'')) (shares_to_json E shares))
      else if pu_redeem_token req \<noteq> [] then Inr (b64_encode E (pu_redeem_token req))
      else Inl (Fail (status Invalid_Argument ''either redeem_token or redeem_shares must be provided'')))"

text \<open>A discharge that does not parse is dropped.\<close>

definition parsed_discharges :: "'z ext_scheme \<Rightarrow> string list \<Rightarrow> DischargeMacaroon list" where
  "parsed_discharges E tokens =
     List.map_filter (\<lambda>t. case discharge_deserialize E t of Inr d \<Rightarrow> Some d | Inl _ \<Rightarrow> None) tokens"

definition rpc_unwrap_secret_v2 ::
  "'z broker_ext_scheme \<Rightarrow> ('f :: field, 'g :: ab_group_add) curve \<Rightarrow> BrokerClientContext option \<Rightarrow> UnwrapSecretV2Message
    \<Rightarrow> ('d, 'u, bytes) rpc" where
  "rpc_unwrap_secret_v2 E C ext req =
     sbind (broker_context ext) (\<lambda>context.
     sbind (slift (unwrap_redeem E req)) (\<lambda>redeem_token.
     sbind (call_svc (unwrap_secret_v2_impl E C context \<lparr>
         unw_handle = pu_handle req, unw_redeem_token = redeem_token, unw_tenant_id = empty_to_none (pu_tenant_id req),
         unw_provider = empty_to_none (pu_provider req), unw_circuit_id = empty_to_none (pu_circuit_id req),
         unw_node_id = empty_to_none (pu_node_id req), unw_discharges = parsed_discharges E (pu_discharges req) \<rparr>)) (\<lambda>resp.
     ok_rpc Internal ''base64 decode'' (b64_decode E resp))))"

section \<open>Handles and leases\<close>

text \<open>The conversion of the attenuation message, whose texts and number are absent when empty or zero.\<close>

record AttenuateHandleV2Message =
  pa_handle :: string
  pa_tenant_id :: string
  pa_provider :: string
  pa_circuit_id :: string
  pa_node_id :: string
  pa_action :: string
  pa_max_uses :: "32 word"
  pa_third_party :: "ThirdPartyCaveatRequest option"

definition attenuate_request :: "AttenuateHandleV2Message \<Rightarrow> AttenuateV2Request" where
  "attenuate_request req = \<lparr>
     att_handle = pa_handle req, att_tenant_id = empty_to_none (pa_tenant_id req), att_provider = empty_to_none (pa_provider req),
     att_circuit_id = empty_to_none (pa_circuit_id req), att_node_id = empty_to_none (pa_node_id req),
     att_action = empty_to_none (pa_action req), att_max_uses = positive (pa_max_uses req), att_third_party = pa_third_party req \<rparr>"

definition rpc_attenuate_handle_v2 ::
  "'z crypto_ext_scheme \<Rightarrow> BrokerClientContext option \<Rightarrow> AttenuateHandleV2Message \<Rightarrow> ('d, 'u, string \<times> string) rpc" where
  "rpc_attenuate_handle_v2 E ext req =
     sbind (broker_context ext) (\<lambda>context.
     sbind (call_debug (attenuate_handle_v2_impl E context (attenuate_request req))) (\<lambda>(handle, caveat_id).
     sret (handle, unwrap_or caveat_id [])))"

record PostgresCredentialsMessage =
  pp_audience :: string
  pp_scope :: "string list"
  pp_ttl_seconds :: "64 word"
  pp_application_name :: string

record PostgresCredentialsReply =
  ppr_database_url :: string
  ppr_username :: string
  ppr_password :: string
  ppr_expires_at :: "Timestamp option"
  ppr_ca_certificate_pem :: string
  ppr_server_cert_fingerprint :: string

definition rpc_issue_postgres_credentials ::
  "'z ext_scheme \<Rightarrow> ('d, 't, 'u) pg_ext \<Rightarrow> BrokerClientContext option \<Rightarrow> PostgresCredentialsMessage
    \<Rightarrow> ('d, 'u, PostgresCredentialsReply) rpc" where
  "rpc_issue_postgres_credentials E P ext req =
     sbind (broker_context ext) (\<lambda>context.
     sbind (on_broker utc_now) (\<lambda>now.
     sbind (on_broker fork_rng) (\<lambda>g.
     sbind (smap_err (map_stop svc_service_err) (szoom gs_postgres (\<lambda>p s. s\<lparr> gs_postgres := p \<rparr>)
       (issue_postgres_credentials_impl E P now g context \<lparr> pcp_audience = pp_audience req, pcp_scope = pp_scope req,
          pcp_ttl_seconds = positive (pp_ttl_seconds req), pcp_application_name = empty_to_none (pp_application_name req) \<rparr>))) (\<lambda>result.
     sret \<lparr> ppr_database_url = pco_database_url result, ppr_username = pco_username result, ppr_password = pco_password result,
            ppr_expires_at = map_option (chrono_to_timestamp E) (pco_expires_at result),
            ppr_ca_certificate_pem = unwrap_or (pco_ca_certificate_pem result) [],
            ppr_server_cert_fingerprint = unwrap_or (pco_server_cert_fingerprint result) [] \<rparr>))))"

definition rpc_renew_lease ::
  "'z log_ext_scheme \<Rightarrow> BrokerClientContext option \<Rightarrow> RenewLeaseRequest \<Rightarrow> ('d, 'u, Timestamp \<times> 32 word) rpc" where
  "rpc_renew_lease E ext req =
     sbind (broker_context ext) (\<lambda>context.
     sbind (call_svc (renew_lease_impl E context req)) (\<lambda>result.
     sret (chrono_to_timestamp E (ren_lease_expires_at result), ren_renewal_count result)))"

definition rpc_revoke_secret ::
  "'z log_ext_scheme \<Rightarrow> BrokerClientContext option \<Rightarrow> string \<Rightarrow> string \<Rightarrow> ('d, 'u, bool \<times> Timestamp option) rpc" where
  "rpc_revoke_secret E ext handle reason =
     sbind (broker_context ext) (\<lambda>context.
     sbind (call_svc (revoke_secret_impl E context \<lparr> rvk_handle = handle, rvk_reason = nonempty reason \<rparr>)) (\<lambda>result.
     sret (rvk_revoked result, map_option (chrono_to_timestamp E) (rvk_revoked_at result))))"

text \<open>Here \<open>threshold as u8\<close> keeps the low byte of the number, and the redeem token is returned as the bytes of its text.\<close>

definition rotate_request :: "RotateSecretMessage \<Rightarrow> RotateSecretRequest" where
  "rotate_request req = \<lparr>
     rot_old_handle = pr_old_handle req, rot_new_plaintext = pr_new_plaintext req, rot_customer_id = nonempty (pr_customer_id req),
     rot_metadata = map_option prost_struct_to_json (pr_metadata req), rot_ttl_seconds = positive (pr_ttl_seconds req),
     rot_rotation_reason = nonempty (pr_rotation_reason req), rot_lifecycle = from_proto_i32 (pr_lifecycle req),
     rot_threshold = (if pr_threshold req > 0 then Some (ucast (pr_threshold req)) else None),
     rot_num_shares = (if pr_num_shares req > 0 then Some (ucast (pr_num_shares req)) else None) \<rparr>"

definition rpc_rotate_secret ::
  "'z crypto_ext_scheme \<Rightarrow> ('f :: field, 'g) curve \<Rightarrow> (nat \<Rightarrow> 'f) \<Rightarrow> BrokerClientContext option \<Rightarrow> RotateSecretMessage
    \<Rightarrow> ('d, 'u, RotateSecretReply) rpc" where
  "rpc_rotate_secret E C rnd ext req =
     sbind (broker_context ext) (\<lambda>context.
     sbind (call_svc (rotate_secret_impl E C rnd context (rotate_request req))) (\<lambda>result.
     sret \<lparr> prr_new_handle = ror_new_handle result, prr_created_at = chrono_to_timestamp E (ror_created_at result),
            prr_expires_at = map_option (chrono_to_timestamp E) (ror_expires_at result),
            prr_redeem_token = as_bytes (ror_redeem_token result),
            prr_redeem_token_expires_at = map_option (chrono_to_timestamp E) (ror_redeem_token_expires_at result),
            prr_old_revoked = ror_old_revoked result, prr_new_shares = map proto_share (ror_new_shares result) \<rparr>))"

definition rpc_mint_discharge ::
  "'z log_ext_scheme \<Rightarrow> BrokerClientContext option \<Rightarrow> MintDischargeRequest \<Rightarrow> ('d, 'u, string) rpc" where
  "rpc_mint_discharge E ext req =
     sbind (broker_context ext) (\<lambda>context. call_svc (mint_discharge_impl E context req))"

section \<open>Shares\<close>

record ClaimShareReply =
  pcl_share :: ThresholdShare
  pcl_commitments :: "bytes list"
  pcl_previously_claimed :: bool

definition rpc_claim_share ::
  "'z log_ext_scheme \<Rightarrow> BrokerClientContext option \<Rightarrow> string \<Rightarrow> string \<Rightarrow> ('d, 'u, ClaimShareReply) rpc" where
  "rpc_claim_share E ext handle custodian_id =
     sbind (broker_context ext) (\<lambda>context.
     sbind (ok_rpc Permission_Denied ''ClaimShare requires an authenticated broker principal identity''
       (trimmed (ctx_principal_id context))) (\<lambda>authenticated_principal.
     sbind (check_rpc (\<not> (trim custodian_id \<noteq> [] \<and> trim custodian_id \<noteq> authenticated_principal)) Permission_Denied
       ''custodian_id must match the authenticated broker principal identity'') (\<lambda>_.
     sbind (call_anyhow (claim_share_impl E context handle authenticated_principal)) (\<lambda>result.
     sret \<lparr> pcl_share = \<lparr> ths_x = ucast (claim_x result), ths_y = claim_y result \<rparr>, pcl_commitments = claim_commitments result,
            pcl_previously_claimed = claim_previously_claimed result \<rparr>))))"

record DistributeShareMessage =
  pd_handle :: string
  pd_share_index :: "32 word"
  pd_share :: "ThresholdShare option"
  pd_custodian_id :: string

definition rpc_distribute_share ::
  "'z log_ext_scheme \<Rightarrow> BrokerClientContext option \<Rightarrow> DistributeShareMessage \<Rightarrow> ('d, 'u, bool \<times> string) rpc" where
  "rpc_distribute_share E ext req =
     sbind (broker_context ext) (\<lambda>context.
     sbind (ok_rpc Invalid_Argument ''share is required'' (pd_share req)) (\<lambda>wire.
     sbind (slift (from_proto_share ''share x must be 1..=255'' ''share y must be 32 bytes'' wire)) (\<lambda>share.
     call_anyhow (distribute_share_impl E context \<lparr> dst_handle = pd_handle req, dst_share_index = pd_share_index req,
       dst_share = share, dst_custodian_id = pd_custodian_id req \<rparr>))))"

record CombineSharesMessage =
  pc_handle :: string
  pc_shares :: "ThresholdShare list"
  pc_tenant_id :: string
  pc_provider :: string
  pc_custodian_ids :: "string list"

definition rpc_combine_shares ::
  "'z broker_ext_scheme \<Rightarrow> ('f :: field, 'g :: ab_group_add) curve \<Rightarrow> BrokerClientContext option \<Rightarrow> CombineSharesMessage
    \<Rightarrow> ('d, 'u, bytes) rpc" where
  "rpc_combine_shares E C ext req =
     sbind (broker_context ext) (\<lambda>context.
     sbind (slift (collect_results (map (from_proto_share ''share x must be 1..=255'' ''share y must be 32 bytes'') (pc_shares req)))) (\<lambda>shares.
     call_anyhow (combine_shares_impl E C context \<lparr> cmb_handle = pc_handle req, cmb_shares = shares,
       cmb_tenant_id = nonempty (pc_tenant_id req), cmb_provider = nonempty (pc_provider req),
       cmb_custodian_ids = pc_custodian_ids req \<rparr>)))"

section \<open>Crypto operations and the channel\<close>

record CryptoEncryptReply =
  pce_ciphertext :: bytes
  pce_key_id :: string
  pce_nonce :: bytes

definition rpc_crypto_encrypt ::
  "'z crypto_ext_scheme \<Rightarrow> BrokerClientContext option \<Rightarrow> string \<Rightarrow> bytes \<Rightarrow> string \<Rightarrow> string \<Rightarrow> ('d, 'u, CryptoEncryptReply) rpc" where
  "rpc_crypto_encrypt E ext key_id plaintext algorithm customer_id =
     sbind (broker_context ext) (\<lambda>_.
     sbind (slift (parse_crypto_algorithm algorithm)) (\<lambda>alg.
     sbind (call_crypto 3 (\<lambda>g clock. encrypt_data_with_key E g clock plaintext alg (empty_to_none key_id) (default_customer_id customer_id))) (\<lambda>result.
     sret \<lparr> pce_ciphertext = enc_ciphertext result, pce_key_id = unwrap_or (enc_key_id result) [], pce_nonce = enc_nonce result \<rparr>)))"

abbreviation required_key_id :: "string \<Rightarrow> ('d, 'u, unit) rpc" where
  "required_key_id key_id \<equiv> check_rpc (trim key_id \<noteq> []) Invalid_Argument ''key_id is required''"

definition rpc_crypto_decrypt ::
  "'z crypto_ext_scheme \<Rightarrow> BrokerClientContext option \<Rightarrow> string \<Rightarrow> bytes \<Rightarrow> string \<Rightarrow> string \<Rightarrow> ('d, 'u, bytes \<times> bool) rpc" where
  "rpc_crypto_decrypt E ext key_id ciphertext algorithm customer_id =
     sbind (broker_context ext) (\<lambda>_.
     sbind (required_key_id key_id) (\<lambda>_.
     sbind (slift (parse_crypto_algorithm algorithm)) (\<lambda>alg.
     sbind (call_crypto 2 (\<lambda>g clock. decrypt_data E g clock ciphertext alg (trim key_id) (default_customer_id customer_id))) (\<lambda>result.
     sret (dec_plaintext result, dec_verified result)))))"

definition rpc_crypto_sign :: "'z crypto_ext_scheme \<Rightarrow> BrokerClientContext option \<Rightarrow> string \<Rightarrow> bytes \<Rightarrow> ('d, 'u, bytes) rpc" where
  "rpc_crypto_sign E ext key_id data =
     sbind (broker_context ext) (\<lambda>_.
     sbind (required_key_id key_id) (\<lambda>_.
     call_crypto 2 (\<lambda>g clock. svc_sign_data E clock data (trim key_id))))"

definition rpc_crypto_verify ::
  "'z crypto_ext_scheme \<Rightarrow> BrokerClientContext option \<Rightarrow> string \<Rightarrow> bytes \<Rightarrow> bytes \<Rightarrow> ('d, 'u, bool) rpc" where
  "rpc_crypto_verify E ext key_id data signature =
     sbind (broker_context ext) (\<lambda>_.
     sbind (required_key_id key_id) (\<lambda>_.
     call_crypto 2 (\<lambda>g clock. svc_verify_signature E clock data signature (trim key_id))))"

definition rpc_crypto_keygen ::
  "'z crypto_ext_scheme \<Rightarrow> BrokerClientContext option \<Rightarrow> string \<Rightarrow> string \<Rightarrow> ('d, 'u, string \<times> bytes \<times> string) rpc" where
  "rpc_crypto_keygen E ext algorithm customer_id =
     sbind (broker_context ext) (\<lambda>_.
     sbind (check_rpc (trim algorithm \<noteq> []) Invalid_Argument ''algorithm is required'') (\<lambda>_.
     sbind (call_crypto 2 (\<lambda>g clock. svc_generate_key_pair E g clock (trim algorithm) (default_customer_id customer_id))) (\<lambda>keypair.
     sret (kp_key_id keypair, kp_public_key keypair, kp_algorithm keypair))))"

definition svc_generate_random_bytes :: "rng \<Rightarrow> nat \<Rightarrow> (HardwareSecurityModule option, anyhow, bytes) effect" where
  "svc_generate_random_bytes g n hsm =
     (case hsm of
        Some h \<Rightarrow> (case hsm_generate_random_bytes g n h of (r, h') \<Rightarrow> (r, Some h'))
      | None \<Rightarrow> (Inr (fill g n), None))"

definition rpc_crypto_random :: "BrokerClientContext option \<Rightarrow> 32 word \<Rightarrow> ('d, 'u, bytes \<times> 32 word) rpc" where
  "rpc_crypto_random ext len =
     sbind (broker_context ext) (\<lambda>_.
     sbind (on_broker fork_rng) (\<lambda>g.
     sbind (smap_err (\<lambda>e. Fail (svc_anyhow_err e)) (szoom gs_hsm (\<lambda>h s. s\<lparr> gs_hsm := h \<rparr>) (svc_generate_random_bytes g (unat len)))) (\<lambda>random.
     sret (random, len))))"

definition rpc_crypto_pubkey :: "BrokerClientContext option \<Rightarrow> string \<Rightarrow> ('d, 'u, string \<times> bytes) rpc" where
  "rpc_crypto_pubkey ext key_id =
     sbind (broker_context ext) (\<lambda>_.
     sbind (required_key_id key_id) (\<lambda>_.
     sbind (call_crypto 1 (\<lambda>g clock. svc_get_public_key (clock 0) (trim key_id))) (\<lambda>public_key.
     sret (trim key_id, public_key))))"

definition rpc_health_check :: "'z ext_scheme \<Rightarrow> ('d, 'u, string \<times> Timestamp) rpc" where
  "rpc_health_check E = sbind (on_broker utc_now) (\<lambda>now. sret (''ok'', chrono_to_timestamp E now))"

record DescribeChannelReply =
  pdc_session_id :: string
  pdc_tls_exporter :: bytes
  pdc_tls_exporter_hash :: bytes
  pdc_authenticated_transport :: bool
  pdc_principal_id :: string
  pdc_peer_cert_sha256 :: bytes
  pdc_attestation_digest :: bytes

definition rpc_describe_channel :: "'z ext_scheme \<Rightarrow> BrokerClientContext option \<Rightarrow> ('d, 'u, DescribeChannelReply) rpc" where
  "rpc_describe_channel E ext =
     sbind (broker_context ext) (\<lambda>context.
     sbind (ok_rpc Internal ''authenticated TLS context is missing session ID'' (ctx_session_id context)) (\<lambda>session_id.
     sret \<lparr> pdc_session_id = uuid_to_string E session_id, pdc_tls_exporter = ctx_exporter context,
            pdc_tls_exporter_hash = sha256 E (ctx_exporter context),
            pdc_authenticated_transport = ctx_authenticated_transport context,
            pdc_principal_id = unwrap_or (ctx_principal_id context) [],
            pdc_peer_cert_sha256 = unwrap_or (ctx_peer_cert_sha256 context) [],
            pdc_attestation_digest = unwrap_or (ctx_attestation_digest context) [] \<rparr>))"

end
