(* ===== verification/Progress.thy ===== *)
theory Progress
  imports Grpc
begin

text \<open>
  Every call returns.  The only outcome of the model that stands for waiting forever is \<open>Hang\<close>, which a lock of the key
  manager produces.  The lock discipline of the key manager (no guard is requested that conflicts with one already held)
  is a judgement \<open>calm\<close> with a rule for each construct, and \<open>returns\<close> carries it to the handlers and the service methods.
\<close>

named_theorems calm_intros "lock discipline of the key manager"
named_theorems returns_intros "calls that return"

section \<open>Lock discipline\<close>

text \<open>Read guards are held on locks of \<open>R\<close> only, and write guards on locks of \<open>W\<close> only.\<close>

definition held :: "KeyManager \<Rightarrow> km_lock set \<Rightarrow> km_lock set \<Rightarrow> bool" where
  "held s R W \<longleftrightarrow> (\<forall>l. l \<notin> R \<longrightarrow> km_readers s l = 0) \<and> (\<forall>l. km_writer s l \<longrightarrow> l \<in> W)"

definition calm :: "km_lock set \<Rightarrow> km_lock set \<Rightarrow> 'a km \<Rightarrow> bool" where
  "calm R W m \<longleftrightarrow> (\<forall>s q t. held s R W \<longrightarrow> m s = (q, t) \<longrightarrow>
     q \<noteq> Inl Hang \<and> km_readers t = km_readers s \<and> km_writer t = km_writer s)"

lemma calmD: "calm R W m \<Longrightarrow> held s R W \<Longrightarrow> m s = (q, t) \<Longrightarrow> q \<noteq> Inl Hang \<and> km_readers t = km_readers s \<and> km_writer t = km_writer s"
  by (auto simp: calm_def)

lemma calm_pure [calm_intros]:
  "calm R W (sret x)" "calm R W (sget f)" "calm R W (sfail (Fail e))" "q \<noteq> Inl Hang \<Longrightarrow> calm R W (slift q)"
  by (auto simp: calm_def effect_simps)

lemma calm_sbind [calm_intros]:
  assumes "calm R W m" "\<And>x. calm R W (f x)"
  shows "calm R W (sbind m f)"
proof (unfold calm_def, intro allI impI)
  fix s q t assume h: "held s R W" and run: "sbind m f s = (q, t)"
  obtain p u where m: "m s = (p, u)" by fastforce
  note step = calmD [OF assms(1) h m]
  then have "held u R W" using h by (simp add: held_def)
  then show "q \<noteq> Inl Hang \<and> km_readers t = km_readers s \<and> km_writer t = km_writer s"
    using run m step by (cases p) (auto simp: sbind_def dest: calmD [OF assms(2)])
qed

lemma calm_update [calm_intros]:
  assumes "\<And>s. fst (f s) \<noteq> Inl Hang" "\<And>s. km_readers (snd (f s)) = km_readers s" "\<And>s. km_writer (snd (f s)) = km_writer s"
  shows "calm R W f"
  unfolding calm_def using assms by (metis fst_conv snd_conv)

lemma calm_read [calm_intros]:
  assumes "calm (insert l R) W m" "l \<notin> W"
  shows "calm R W (with_read l m)"
proof (unfold calm_def, intro allI impI)
  fix s q t assume h: "held s R W" and run: "with_read l m s = (q, t)"
  define u where "u = s\<lparr> km_readers := (km_readers s)(l := km_readers s l + 1) \<rparr>"
  have "held u (insert l R) W" using h by (auto simp: held_def u_def)
  moreover obtain p v where m: "m u = (p, v)" by fastforce
  ultimately have p: "p \<noteq> Inl Hang" "km_readers v = km_readers u" "km_writer v = km_writer u" using calmD [OF assms(1)] by blast+
  have "\<not> km_writer s l" using h assms(2) by (auto simp: held_def)
  then have "(q, t) = (p, v\<lparr> km_readers := (km_readers v)(l := km_readers v l - 1) \<rparr>)"
    using run m p(1) unfolding u_def by (auto simp: with_read_def split: sum.splits stop.splits)
  then show "q \<noteq> Inl Hang \<and> km_readers t = km_readers s \<and> km_writer t = km_writer s"
    using p by (simp add: u_def)
qed

lemma calm_write [calm_intros]:
  assumes "calm R (insert l W) m" "l \<notin> R" "l \<notin> W"
  shows "calm R W (with_write l m)"
proof (unfold calm_def, intro allI impI)
  fix s q t assume h: "held s R W" and run: "with_write l m s = (q, t)"
  define u where "u = s\<lparr> km_writer := (km_writer s)(l := True) \<rparr>"
  have "held u R (insert l W)" using h by (auto simp: held_def u_def)
  moreover obtain p v where m: "m u = (p, v)" by fastforce
  ultimately have p: "p \<noteq> Inl Hang" "km_readers v = km_readers u" "km_writer v = km_writer u" using calmD [OF assms(1)] by blast+
  have free: "\<not> km_writer s l" "km_readers s l = 0" using h assms(2,3) by (auto simp: held_def)
  then have "(q, t) = (p, v\<lparr> km_writer := (km_writer v)(l := False) \<rparr>)"
    using run m p(1) unfolding u_def by (auto simp: with_write_def Let_def split: sum.splits stop.splits)
  then show "q \<noteq> Inl Hang \<and> km_readers t = km_readers s \<and> km_writer t = km_writer s"
    using p free by (auto simp: u_def fun_eq_iff)
qed

lemma calm_branches [calm_intros]:
  "calm R W m \<Longrightarrow> calm R W m' \<Longrightarrow> calm R W (if c then m else m')"
  "(\<And>y. calm R W (f y)) \<Longrightarrow> calm R W m \<Longrightarrow> calm R W (case x of None \<Rightarrow> m | Some y \<Rightarrow> f y)"
  "(\<And>y z. calm R W (g y z)) \<Longrightarrow> calm R W (case p of (y, z) \<Rightarrow> g y z)"
  by (auto split: option.split prod.split)

text \<open>Results that cannot be \<open>Hang\<close>.\<close>

lemma no_hang [simp]:
  "map_err Fail r \<noteq> Inl Hang" "map_err (\<lambda>e. Fail (f e)) r \<noteq> Inl Hang" "ok_or Panic v \<noteq> Inl Hang" "ok_or (Fail e) v \<noteq> Inl Hang" "ensure b (Fail e) \<noteq> Inl Hang" "ensure b Panic \<noteq> Inl Hang"
  by (cases r; cases v; simp add: ensure_def)+

lemma key_results_no_hang [simp]:
  "encrypt_private_key E g master k \<noteq> Inl Hang" "decrypt_private_key E master k \<noteq> Inl Hang" "calculate_expiry E c now \<noteq> Inl Hang"
  by (auto simp: encrypt_private_key_def decrypt_private_key_def calculate_expiry_def Let_def rbind_Inl_iff result_simps split: if_splits)

lemma calm_usage [calm_intros]: "Key_metadata \<notin> R \<Longrightarrow> Key_metadata \<notin> W \<Longrightarrow> calm R W (update_key_usage now i)"
  unfolding update_key_usage_def by (intro calm_intros) auto

lemma calm_keys:
  "calm {} {} (generate_key_pair E g now now' a c)" "calm {} {} (sign_data E now now' d i)"
  "calm {} {} (km_verify_signature E now now' d sig i)" "calm {} {} (get_public_key now i)"
  unfolding generate_key_pair_def check_key_limits_def insert_key_def sign_data_def km_verify_signature_def get_public_key_def Let_def
  by (intro calm_intros; simp add: ensure_def)+

section \<open>Calls that return\<close>

text \<open>A call that starts with every lock of the key manager free ends, by a value, an error or a panic, with every lock
  free again.  \<open>get\<close> finds the key manager in the state.\<close>

definition returns :: "('s \<Rightarrow> KeyManager) \<Rightarrow> ('s, 'e stop, 'a) effect \<Rightarrow> bool" where
  "returns get m \<longleftrightarrow> (\<forall>s q t. unlocked (get s) \<longrightarrow> m s = (q, t) \<longrightarrow> q \<noteq> Inl Hang \<and> unlocked (get t))"

abbreviation broker_keys :: "BrokerState \<Rightarrow> KeyManager" where
  "broker_keys b \<equiv> svc_keys (br_crypto b)"

abbreviation state_keys :: "('d, 'u) SecretBrokerState \<Rightarrow> KeyManager" where
  "state_keys s \<equiv> broker_keys (gs_broker s)"

lemma returnsD: "returns get m \<Longrightarrow> unlocked (get s) \<Longrightarrow> m s = (q, t) \<Longrightarrow> q \<noteq> Inl Hang \<and> unlocked (get t)"
  by (auto simp: returns_def)

lemma calm_returns:
  assumes "calm {} {} m"
  shows "returns (\<lambda>k. k) m"
proof -
  have "held s {} {} \<longleftrightarrow> unlocked s" for s by (auto simp: held_def unlocked_def)
  then show ?thesis using assms unfolding returns_def calm_def unlocked_def by metis
qed

lemma returns_pure [returns_intros]:
  "returns get (sret x)" "returns get (sget f)" "returns get (sfail (Fail e))" "q \<noteq> Inl Hang \<Longrightarrow> returns get (slift q)"
  by (auto simp: returns_def effect_simps)

lemma returns_sbind [returns_intros]:
  assumes "returns get m" "\<And>x. returns get (f x)"
  shows "returns get (sbind m f)"
proof (unfold returns_def, intro allI impI)
  fix s q t assume free: "unlocked (get s)" and run: "sbind m f s = (q, t)"
  obtain p u where m: "m s = (p, u)" by fastforce
  then show "q \<noteq> Inl Hang \<and> unlocked (get t)"
    using run returnsD [OF assms(1) free m] by (cases p) (auto simp: sbind_def dest: returnsD [OF assms(2)])
qed

lemma returns_branches [returns_intros]:
  "returns get m \<Longrightarrow> returns get m' \<Longrightarrow> returns get (if c then m else m')"
  "(\<And>y. returns get (f y)) \<Longrightarrow> returns get m \<Longrightarrow> returns get (case x of None \<Rightarrow> m | Some y \<Rightarrow> f y)"
  "(\<And>y z. returns get (g y z)) \<Longrightarrow> returns get (case p of (y, z) \<Rightarrow> g y z)"
  "(\<And>y. returns get (f y)) \<Longrightarrow> (\<And>y. returns get (h y)) \<Longrightarrow> returns get (case r of Inl y \<Rightarrow> h y | Inr y \<Rightarrow> f y)"
  by (auto split: option.split prod.split sum.split)

lemma map_stop_Hang [simp]: "map_stop f e = Hang \<longleftrightarrow> e = Hang" "Hang = map_stop f e \<longleftrightarrow> e = Hang"
  by (cases e; auto)+

lemma returns_map_stop [returns_intros]: "returns get m \<Longrightarrow> returns get (smap_err (map_stop f) m)"
  unfolding returns_def smap_err_def
proof (intro allI impI)
  fix s q t assume r: "\<forall>s q t. unlocked (get s) \<longrightarrow> m s = (q, t) \<longrightarrow> q \<noteq> Inl Hang \<and> unlocked (get t)" and free: "unlocked (get s)"
    and run: "(case m s of (r, t) \<Rightarrow> (map_err (map_stop f) r, t)) = (q, t)"
  obtain p u where m: "m s = (p, u)" by fastforce
  then have "p \<noteq> Inl Hang \<and> unlocked (get u)" using r free by blast
  then show "q \<noteq> Inl Hang \<and> unlocked (get t)" using run m by (cases p) auto
qed

text \<open>An effect that does not touch the key manager and cannot hang.\<close>

lemma returns_frame:
  assumes "\<And>s q t. m s = (q, t) \<Longrightarrow> q \<noteq> Inl Hang \<and> get t = get s"
  shows "returns get m"
  unfolding returns_def using assms by metis

lemma returns_sources [returns_intros]:
  "returns broker_keys utc_now" "returns broker_keys (split_rng n)" "returns broker_keys fork_rng" "returns broker_keys (read_clock n)"
  by (auto simp: utc_now_def split_rng_def fork_rng_def read_clock_def intro!: returns_frame)

lemma returns_draw [returns_intros]: "returns broker_keys (draw n)" "returns broker_keys (new_uuid E)"
  unfolding draw_def new_uuid_def by (intro returns_intros)+

lemma returns_on_store [returns_intros]: "returns broker_keys (on_store f)"
  unfolding on_store_def
  by (intro returns_intros returns_frame) (auto simp: smap_err_def szoom_def map_err_Inl_iff split: prod.splits)

lemma returns_record [returns_intros]: "returns broker_keys (record_transparency E ev)"
  by (rule returns_frame) (auto simp: record_transparency_def split: option.splits)

lemma returns_store_calls [returns_intros]:
  "returns broker_keys (store_load E h)" "returns broker_keys (load_existing E h)" "returns broker_keys (store_revoke E h reason)"
  "returns broker_keys (log_event E context mk)" "returns broker_keys (handle_identifier E' raw)"
  unfolding store_load_def load_existing_def store_revoke_def log_event_def handle_identifier_def
  by (intro returns_intros; simp)+

lemma returns_with_context [returns_intros]:
  assumes "returns broker_keys m"
  shows "returns broker_keys (with_context msg m)"
proof -
  have "with_context msg m = smap_err (map_stop (\<lambda>_. msg)) m"
    by (simp add: with_context_def) (rule arg_cong [of _ _ "\<lambda>f. smap_err f m"], auto simp: fun_eq_iff split: stop.splits)
  then show ?thesis using assms returns_map_stop by metis
qed

text \<open>Calls of the crypto service.\<close>

lemma returns_keys:
  assumes "calm {} {} m"
  shows "returns broker_keys (szoom br_crypto (\<lambda>c b. b\<lparr> br_crypto := c \<rparr>) (on_key_manager m))"
  using returnsD [OF calm_returns [OF assms]] by (auto simp: returns_def szoom_def split: prod.splits)

lemma returns_service [returns_intros]:
  "returns broker_keys (szoom br_crypto (\<lambda>c b. b\<lparr> br_crypto := c \<rparr>) (on_engine m))"
  "returns broker_keys (szoom br_crypto (\<lambda>c b. b\<lparr> br_crypto := c \<rparr>) (on_quantum m'))"
  by (rule returns_frame, auto simp: szoom_def smap_err_def map_err_Inl_iff split: prod.splits)+

lemma returns_crypto [returns_intros]:
  "returns broker_keys (szoom br_crypto (\<lambda>c b. b\<lparr> br_crypto := c \<rparr>) (encrypt_pqc E g clock d i c x))"
  "returns broker_keys (szoom br_crypto (\<lambda>c b. b\<lparr> br_crypto := c \<rparr>) (decrypt_pqc E g now d k i c x))"
  "returns broker_keys (szoom br_crypto (\<lambda>c b. b\<lparr> br_crypto := c \<rparr>) (encrypt_data_with_key E g clock d a ki c))"
  "returns broker_keys (szoom br_crypto (\<lambda>c b. b\<lparr> br_crypto := c \<rparr>) (decrypt_data E g clock d a i c))"
  "returns broker_keys (szoom br_crypto (\<lambda>c b. b\<lparr> br_crypto := c \<rparr>) (svc_generate_key_pair E g clock al c))"
  "returns broker_keys (szoom br_crypto (\<lambda>c b. b\<lparr> br_crypto := c \<rparr>) (svc_sign_data E clock d i))"
  "returns broker_keys (szoom br_crypto (\<lambda>c b. b\<lparr> br_crypto := c \<rparr>) (svc_verify_signature E clock d sig i))"
  "returns broker_keys (szoom br_crypto (\<lambda>c b. b\<lparr> br_crypto := c \<rparr>) (svc_get_public_key now i))"
  unfolding encrypt_pqc_def decrypt_pqc_def encrypt_data_with_key_def decrypt_data_def Let_def
    svc_generate_key_pair_def svc_sign_data_def svc_verify_signature_def svc_get_public_key_def
  by (auto intro!: returns_service returns_keys calm_keys split: EncryptionAlgorithm.split)

lemma returns_on_crypto [returns_intros]:
  "returns broker_keys (szoom br_crypto (\<lambda>c b. b\<lparr> br_crypto := c \<rparr>) m) \<Longrightarrow> returns broker_keys (on_crypto m)"
  unfolding on_crypto_def by (rule returns_map_stop)

section \<open>Handlers\<close>

lemma service_results_no_hang [simp]:
  "enforce_ttl E m ttl now \<noteq> Inl Hang" "add_seconds E t secs \<noteq> Inl Hang" "assign_shares cids shares \<noteq> Inl Hang"
  by (auto simp: enforce_ttl_def add_seconds_def assign_shares_def Let_def rbind_Inl_iff result_simps split: option.splits if_splits)

lemma returns_persist [returns_intros]: "returns broker_keys (persist_secret_v2_with_lifecycle E context input)"
  unfolding persist_secret_v2_with_lifecycle_def Let_def
  by (intro returns_intros; simp add: rbind_Inl_iff split: option.splits)

lemma returns_issue [returns_intros]:
  "returns broker_keys (wrap_secret_v2_impl E context req)" "returns broker_keys (split_redeem_token E C rnd h tok k n)"
  unfolding wrap_secret_v2_impl_def split_redeem_token_def Let_def by (intro returns_intros; simp)+

lemma returns_mint [returns_intros]:
  "returns broker_keys (mint_redeem_token E C rnd req out k n)" "returns broker_keys (mint_aead_key_v2_impl E C rnd context req)"
  "returns broker_keys (rotate_secret_impl E C rnd context rot)"
  unfolding mint_redeem_token_def mint_aead_key_v2_impl_def rotate_secret_impl_def Let_def by (intro returns_intros; simp)+

lemma returns_manage [returns_intros]:
  "returns broker_keys (delete_secret_impl E context handle)" "returns broker_keys (renew_lease_impl E context ren)"
  "returns broker_keys (revoke_secret_impl E context rvk)" "returns broker_keys (mint_discharge_impl E context mdr)"
  unfolding delete_secret_impl_def renew_lease_impl_def revoke_secret_impl_def mint_discharge_impl_def Let_def
  by (intro returns_intros; simp)+

lemma returns_attenuate [returns_intros]: "returns broker_keys (attenuate_handle_v2_impl E context att)"
  unfolding attenuate_handle_v2_impl_def attenuate_third_party_def Let_def by (intro returns_intros; simp)

lemma returns_custody [returns_intros]:
  "returns broker_keys (check_custody E context h)" "returns broker_keys (claim_share_impl E context handle cid)"
  "returns broker_keys (distribute_share_impl E context dst)"
  unfolding check_custody_def claim_share_impl_def distribute_share_impl_def by (intro returns_intros; simp)+

lemma returns_unwrap [returns_intros]:
  "returns broker_keys (unwrap_secret_v2_impl E C context p)" "returns broker_keys (combine_shares_impl E C context cmb)"
  unfolding unwrap_secret_v2_impl_def combine_shares_impl_def Let_def by (intro returns_intros; simp)+

section \<open>Service methods\<close>

lemma returns_on_broker: "returns broker_keys m \<Longrightarrow> returns state_keys (on_broker m)"
  by (auto simp: returns_def szoom_def split: prod.splits)

lemma returns_calls [returns_intros]:
  "returns broker_keys m \<Longrightarrow> returns state_keys (on_broker m)" "returns broker_keys m1 \<Longrightarrow> returns state_keys (call_svc m1)"
  "returns broker_keys m1 \<Longrightarrow> returns state_keys (call_debug m1)" "returns broker_keys m2 \<Longrightarrow> returns state_keys (call_anyhow m2)"
  unfolding call_svc_def call_debug_def call_anyhow_def by (intro returns_map_stop returns_on_broker; assumption)+

lemma returns_call_crypto [returns_intros]:
  "(\<And>g clock. returns broker_keys (szoom br_crypto (\<lambda>c b. b\<lparr> br_crypto := c \<rparr>) (f g clock))) \<Longrightarrow> returns state_keys (call_crypto n f)"
  unfolding call_crypto_def by (intro returns_intros)

text \<open>The lease manager does not touch the key manager; its own outcomes are the question, so any constant stands for the
  locks.\<close>

lemma returns_fail: "returns (\<lambda>_. k) (smap_err Fail m)" "returns (\<lambda>_. k) (\<lambda>s. (Inr x, f s))"
  by (rule returns_frame, auto simp: smap_err_def map_err_Inl_iff split: prod.splits)+

lemma lease_results_no_hang [simp]: "compute_ttl E m t \<noteq> Inl Hang" "generate_username P g a \<noteq> Inl Hang"
  by (auto simp: compute_ttl_def duration_seconds_def generate_username_def Let_def rbind_Inl_iff result_simps)

lemma returns_issue_credentials: "returns (\<lambda>_. k) (issue_credentials E P now g audience scopes ttl exporter app)"
  unfolding issue_credentials_def Let_def by (intro returns_intros returns_fail; simp)

lemma returns_on_manager [returns_intros]:
  assumes "returns (\<lambda>_. k) m"
  shows "returns (\<lambda>_. k) (on_manager m)"
proof (unfold returns_def, intro allI impI)
  fix s q t assume k: "unlocked k" and run: "on_manager m s = (q, t)"
  then show "q \<noteq> Inl Hang \<and> unlocked k"
    by (auto simp: on_manager_def map_err_Inl_iff split: option.splits prod.splits dest: returnsD [OF assms])
qed

lemma returns_postgres [returns_intros]:
  "returns state_keys (smap_err (map_stop svc_service_err) (szoom gs_postgres (\<lambda>p s. s\<lparr> gs_postgres := p \<rparr>)
     (issue_postgres_credentials_impl E P now g context params)))"
proof (rule returns_map_stop)
  have "returns (\<lambda>_. k) (issue_postgres_credentials_impl E P now g context params)" for k
    unfolding issue_postgres_credentials_impl_def Let_def by (intro returns_intros returns_issue_credentials; simp)
  then show "returns state_keys (szoom gs_postgres (\<lambda>p s. s\<lparr> gs_postgres := p \<rparr>) (issue_postgres_credentials_impl E P now g context params))"
    by (auto simp: returns_def szoom_def split: prod.splits)
qed

lemma from_share_no_hang [simp]: "from_proto_share bad_x bad_y s \<noteq> Inl Hang"
  by (auto simp: from_proto_share_def rbind_Inl_iff result_simps)

lemma from_shares_no_hang [simp]: "collect_results (map (from_proto_share bad_x bad_y) ss) \<noteq> Inl Hang"
  by (induction ss) (auto simp: rbind_Inl_iff)

lemma rpc_results_no_hang [simp]:
  "parse_crypto_algorithm a \<noteq> Inl Hang" "byte_count msg v \<noteq> Inl Hang" "mint_redeem E k tok \<noteq> Inl Hang" "unwrap_redeem E u \<noteq> Inl Hang"
  by (auto simp: parse_crypto_algorithm_def byte_count_def mint_redeem_def unwrap_redeem_def Let_def rbind_Inl_iff result_simps split: if_splits)

lemma returns_random [returns_intros]:
  "returns state_keys (smap_err (\<lambda>e. Fail (svc_anyhow_err e)) (szoom gs_hsm (\<lambda>h s. s\<lparr> gs_hsm := h \<rparr>) (svc_generate_random_bytes g n)))"
  by (rule returns_frame) (auto simp: smap_err_def szoom_def map_err_Inl_iff split: prod.splits)


end
