(* ===== verification/Rotation.thy ===== *)
theory Rotation
  imports Custody
begin

text \<open>
  Rotation as a switch: after \<open>rotate_secret_impl\<close> the new handle opens the new secret and the old handle opens
  nothing.
\<close>

section \<open>What a rotation leaves behind\<close>

lemma store_revoke_view:
  assumes "store_laws E" "store_revoke E h reason b = (Inr v, b')" "h' \<noteq> h"
  shows "view E (br_sealed_store b') h' = view E (br_sealed_store b) h'" "br_handle_hmac_key b' = br_handle_hmac_key b"
    "br_crypto b' = br_crypto b" "view E (br_sealed_store b) h \<noteq> None \<Longrightarrow> v"
proof -
  from assms(2) obtain s where s: "revoke E (fill (br_entropy b) 12) (br_clock b 0) h reason (br_sealed_store b) = (Inr v, s)"
    and b': "b' = (spend 12 (tick 1 b))\<lparr> br_sealed_store := s \<rparr>"
    unfolding store_revoke_def run_sources by (elim on_store_ok) simp
  have "nonce_ok (fill (br_entropy b) 12)" by simp
  from revoke_ok [OF assms(1) this s] assms(3) b'
  show "view E (br_sealed_store b') h' = view E (br_sealed_store b) h'" "br_handle_hmac_key b' = br_handle_hmac_key b"
    "br_crypto b' = br_crypto b" "view E (br_sealed_store b) h \<noteq> None \<Longrightarrow> v"
    by (auto split: option.splits)
qed

text \<open>The caveats of the new handle are those of a wrap request with no attributes.\<close>

definition plain_request :: "RotateSecretRequest \<Rightarrow> WrapV2Request" where
  "plain_request p = \<lparr>
     wrp_plaintext = rot_new_plaintext p, wrp_customer_id = None, wrp_metadata = None, wrp_lifecycle = rot_lifecycle p,
     wrp_ttl_seconds = None, wrp_initial_lease_seconds = None, wrp_label = None, wrp_tenant_id = None, wrp_provider = None,
     wrp_circuit_id = None, wrp_node_id = None, wrp_unwrap_principal_id = None \<rparr>"

definition rotated_request :: "RotateSecretResponse \<Rightarrow> UnwrapV2Request" where
  "rotated_request out = \<lparr>
     unw_handle = ror_new_handle out, unw_redeem_token = ror_redeem_token out, unw_tenant_id = None, unw_provider = None,
     unw_circuit_id = None, unw_node_id = None, unw_discharges = [] \<rparr>"

lemma plain_caveats: "wrap_caveats (plain_request p) e = caveat_some Expires e @ [Action ''unwrap'', MaxUses]"
  by (simp add: wrap_caveats_def plain_request_def caveat_some_def)

lemma rotate_ok:
  assumes "rotate_secret_impl E C rnd context p b = (Inr out, b')" "unwrap_or (rot_threshold p) 1 \<le> 1"
  obtains old r b1 input o1 b2 b3 where "handle_identifier E (rot_old_handle p) b = (Inr old, b)" "load_existing E old b = (Inr r, b1)"
    "persist_secret_v2_with_lifecycle E context input (tick 1 b1) = (Inr o1, b2)"
    "inp_plaintext input = rot_new_plaintext p" "inp_lifecycle input = rot_lifecycle p"
    "v2_unwrap_principal context (rot_lifecycle p) None = Inr (inp_unwrap_principal_id input)"
    "ror_new_handle out = v2_handle E (br_handle_hmac_key b1) (out_handle_id o1) (wrap_caveats (plain_request p) (out_expires_at o1))"
    "ror_redeem_token out = out_redeem_token o1" "ror_expires_at out = inp_expires_at input" "ror_new_shares out = []"
    "\<exists>reason. store_revoke E old reason b2 = (Inr (ror_old_revoked out), b3)" "br_sealed_store b' = br_sealed_store b3"
    "br_handle_hmac_key b' = br_handle_hmac_key b3" "br_crypto b' = br_crypto b3"
proof -
  have t: "max (unwrap_or (rot_threshold p) 1) 1 = 1" using assms(2) by (simp add: max_def)
  from assms(1) obtain old b0 r b1 e owner o1 b2 b3 mk where
    id: "handle_identifier E (rot_old_handle p) b = (Inr old, b0)" and load: "load_existing E old b0 = (Inr r, b1)"
    and owner: "v2_unwrap_principal context (rot_lifecycle p) None = Inr owner"
    and run: "persist_secret_v2_with_lifecycle E context \<lparr>
         inp_plaintext = rot_new_plaintext p, inp_customer_id = customer_or_default (rot_customer_id p) (br_default_customer_id b1),
         inp_metadata = rot_metadata p, inp_created_at = br_clock b1 0, inp_expires_at = e,
         inp_lifecycle = rot_lifecycle p, inp_initial_lease_seconds = None, inp_unwrap_principal_id = owner \<rparr> (tick 1 b1) = (Inr o1, b2)"
    and revoke: "store_revoke E old (Some (unwrap_or (rot_rotation_reason p) ''rotated to replacement capability'')) b2 =
      (Inr (ror_old_revoked out), b3)"
    and log: "log_event E context mk b3 = (Inr (), b')"
    and out: "ror_new_handle out = v2_handle E (br_handle_hmac_key b1) (out_handle_id o1)
        (caveat_some Expires (out_expires_at o1) @ [Action ''unwrap'', MaxUses])"
      "ror_redeem_token out = out_redeem_token o1" "ror_expires_at out = e" "ror_new_shares out = []"
    unfolding rotate_secret_impl_def Let_def t
    by (simp only: run_simps sbind_Inr_iff [where m = "persist_secret_v2_with_lifecycle E c i" for c i] prod.case split_beta
          source_fields sret_iff map_err_Inr_iff sum.inject fst_conv snd_conv less_irrefl if_False sbind_sret)
       (elim exE conjE, hypsubst, rule that; (assumption | simp))
  have this_state: "b0 = b" using id by (simp add: identifier_ok)
  from log_event_ok [of E "context" mk b3] log have "br_sealed_store b' = br_sealed_store b3"
    "br_handle_hmac_key b' = br_handle_hmac_key b3" "br_crypto b' = br_crypto b3" by auto
  with that [OF id [unfolded this_state] load [unfolded this_state] run] owner revoke out show thesis by (auto simp: plain_caveats)
qed

text \<open>The new secret after the rotation, when the new handle does not collide with the old one.\<close>

lemma rotate_then_unwrap:
  assumes laws: "crypto_laws E" "store_laws E" "store_available E" "digest_laws E" "b64_alphabet E"
      "b64url_lossless E" "b64url_alphabet E"
    and run: "rotate_secret_impl E C rnd context p b = (Inr out, b')" "unwrap_or (rot_threshold p) 1 \<le> 1"
    and old: "parse_handle_identifier E (br_handle_hmac_key b) (rot_old_handle p) = Inr old" "issued_id E 12 b \<noteq> old"
    and owner: "\<forall>c. ctx_peer_cert_sha256 context = Some c \<longrightarrow> c \<noteq> []"
    and caveats: "printable_caveats E (caveat_some Expires (ror_expires_at out) @ [Action ''unwrap'', MaxUses])"
  obtains mac r where "parse_handle_v2 E (ror_new_handle out) = Inr mac" "view E (br_sealed_store b') (mac_identifier mac) = Some r"
    "\<And>clock. in_time r (clock 1) \<Longrightarrow> in_time r (clock 2) \<Longrightarrow>
       unwrappable E C' context (rotated_request out) (mac_identifier mac) (rot_new_plaintext p) (b'\<lparr> br_clock := clock \<rparr>)"
    "dead E old b'" "ror_old_revoked out" "rec_threshold r = None"
proof -
  obtain old' r0 b1 input o1 b2 b3 where id: "handle_identifier E (rot_old_handle p) b = (Inr old', b)"
    and load: "load_existing E old' b = (Inr r0, b1)" and p: "persist_secret_v2_with_lifecycle E context input (tick 1 b1) = (Inr o1, b2)"
    and i: "inp_plaintext input = rot_new_plaintext p" "inp_lifecycle input = rot_lifecycle p"
      "v2_unwrap_principal context (rot_lifecycle p) None = Inr (inp_unwrap_principal_id input)"
    and o: "ror_new_handle out = v2_handle E (br_handle_hmac_key b1) (out_handle_id o1) (wrap_caveats (plain_request p) (out_expires_at o1))"
      "ror_redeem_token out = out_redeem_token o1" "ror_expires_at out = inp_expires_at input" "ror_new_shares out = []"
    and revoke: "\<exists>reason. store_revoke E old' reason b2 = (Inr (ror_old_revoked out), b3)"
    and b': "br_sealed_store b' = br_sealed_store b3" "br_handle_hmac_key b' = br_handle_hmac_key b3" "br_crypto b' = br_crypto b3"
    using run by (rule rotate_ok)
  have [simp]: "old' = old" using id old(1) by (simp add: handle_identifier_def run_sources slift_def)
  obtain reason where revoke: "store_revoke E old reason b2 = (Inr (ror_old_revoked out), b3)" using revoke by auto
  have e: "br_entropy b1 = skip 12 (br_entropy b)" using load by (rule load_existing_entropy)
  have k: "br_handle_hmac_key b1 = br_handle_hmac_key b" and v1: "view E (br_sealed_store b1) old = Some r0"
    using load by (auto elim!: load_existing_ok [OF laws(2)])
  obtain r where h: "out_handle_id o1 = uuid_v4 E (fill (br_entropy (tick 1 b1)) 16)"
    and v: "view E (br_sealed_store b2) = (view E (br_sealed_store (tick 1 b1)))(out_handle_id o1 \<mapsto> r)"
    and seals: "seals E (br_handle_hmac_key (tick 1 b1)) (br_crypto b2) context input o1 r" "br_handle_hmac_key b2 = br_handle_hmac_key (tick 1 b1)"
    using p by (rule persist_ok [OF laws(1,2)])
  have fresh: "out_handle_id o1 \<noteq> old" using old(2) h e by (simp add: issued_id_def)
  note kept = store_revoke_view [OF laws(2) revoke fresh]
  have revoked: "ror_old_revoked out" using kept(4) v v1 fresh by simp
  then have "dead E old b3" using store_revoke_dead [OF laws(2)] revoke by simp
  then have dead: "dead E old b'" using b'(1) by (simp add: dead_def)
  have view: "view E (br_sealed_store b') (out_handle_id o1) = Some r" using kept(1) v b'(1) by simp
  have key: "br_handle_hmac_key b' = br_handle_hmac_key b1" using kept(2) seals(2) b'(2) by simp
  have s: "seals E (br_handle_hmac_key b') (br_crypto b') context input o1 r" using seals(1) key kept(3) b'(3) by simp
  have ex: "out_expires_at o1 = ror_expires_at out" using seals(1) o(3) by (auto simp: seals_def)
  have len: "length (out_handle_id o1) = 16" using laws(1) h by (simp add: crypto_laws_def)
  define w where "w = \<lparr> wro_handle = ror_new_handle out, wro_expires_at = ror_expires_at out, wro_redeem_token = ror_redeem_token out,
     wro_redeem_token_expires_at = None \<rparr>"
  have req: "owner_request (plain_request p) w = rotated_request out" by (simp add: owner_request_def plain_request_def w_def rotated_request_def)
  show thesis
  proof (rule sealed_unwrappable [OF laws s view len _ owner, where request = "plain_request p" and out = w and C = C'])
    fix mac assume mac: "parse_handle_v2 E (wro_handle w) = Inr mac" "mac_identifier mac = out_handle_id o1"
      and u: "\<And>clock. in_time r (clock 1) \<Longrightarrow> in_time r (clock 2) \<Longrightarrow>
       unwrappable E C' context (owner_request (plain_request p) w) (mac_identifier mac) (inp_plaintext input) (b'\<lparr> br_clock := clock \<rparr>)"
    have "rec_threshold r = None" using s by (auto simp: seals_def sealed_entry_def)
    then show thesis by (intro that [OF _ _ _ dead revoked, of mac r]) (use mac u view req i(1) in \<open>simp_all add: w_def\<close>)
  qed (use i o key ex caveats in \<open>simp_all add: w_def plain_caveats\<close>)
qed

section \<open>A rotation succeeds\<close>

lemma load_existing_state:
  assumes "store_laws E" "store_available E" "view E (br_sealed_store b) h = Some r"
  obtains s where "load_existing E h b = (Inr (r\<lparr> rec_last_accessed := Some (br_clock b 0) \<rparr>), (spend 12 (tick 1 b))\<lparr> br_sealed_store := s \<rparr>)"
    "view E s h \<noteq> None"
proof -
  obtain s where l: "load E (fill (br_entropy b) 12) (br_clock b 0) h (br_sealed_store b) =
      (Inr (Some (r\<lparr> rec_last_accessed := Some (br_clock b 0) \<rparr>)), s)" by (rule load_available [OF assms])
  have "nonce_ok (fill (br_entropy b) 12)" by simp
  from load_ok [OF assms(1) this l] have "view E s h \<noteq> None" using assms(3) by simp
  with that l show thesis
    by (simp add: load_existing_def store_load_def utc_now_def on_store_draw split_rng_def sbind_def smap_err_def szoom_def slift_def
        spend_def tick_def)
qed

lemma store_revoke_run:
  assumes "store_laws E" "store_available E" "view E (br_sealed_store b) h \<noteq> None"
  obtains b' where "store_revoke E h reason b = (Inr True, b')"
proof -
  from assms(3) obtain r where "view E (br_sealed_store b) h = Some r" by auto
  then obtain s where "revoke E (fill (br_entropy b) 12) (br_clock b 0) h reason (br_sealed_store b) = (Inr True, s)"
    by (rule revoke_available [OF assms(1,2)])
  with that show thesis by (simp add: store_revoke_def utc_now_def on_store_draw split_rng_def sbind_def smap_err_def szoom_def)
qed

lemma ready_frame [simp]: "ready E c (b\<lparr> br_sealed_store := s \<rparr>) = ready E c b" "ready E c (b\<lparr> br_entropy := g \<rparr>) = ready E c b"
  by (simp_all add: ready_def)

lemma ready_spend [simp]: "ready E c (spend n b) = ready E c b"
  by (simp add: spend_def)

lemma management_accessed [simp]:
  "validate_v2_record_management_requirements E (r\<lparr> rec_last_accessed := t \<rparr>) context = validate_v2_record_management_requirements E r context"
  by (simp add: validate_v2_record_management_requirements_def validate_v2_record_identity_requirements_inner_def validate_lineage_def
      cong: if_cong)

lemma rotate_run:
  assumes laws: "store_laws E" "store_available E"
    and old: "parse_handle_identifier E (br_handle_hmac_key b) (rot_old_handle p) = Inr old" "view E (br_sealed_store b) old = Some r"
      "validate_v2_record_management_requirements E r context = Inr ()"
    and ttl: "enforce_ttl E (br_max_handle_ttl b) (rot_ttl_seconds p) (br_clock b 1) = Inr (e, ttl)"
    and req: "unwrap_or (rot_threshold p) 1 \<le> 1" "v2_unwrap_principal context (rot_lifecycle p) None = Inr owner"
    and ready: "ready E (customer_or_default (rot_customer_id p) (br_default_customer_id b)) b"
  shows "\<exists>out b'. rotate_secret_impl E C rnd context p b = (Inr out, b') \<and> ror_expires_at out = e"
proof -
  obtain s where load: "load_existing E old b = (Inr (r\<lparr> rec_last_accessed := Some (br_clock b 0) \<rparr>), (spend 12 (tick 1 b))\<lparr> br_sealed_store := s \<rparr>)"
    and s: "view E s old \<noteq> None" by (rule load_existing_state [OF laws old(2)])
  define b1 where "b1 = (spend 12 (tick 1 b))\<lparr> br_sealed_store := s \<rparr>"
  define i where "i = \<lparr> inp_plaintext = rot_new_plaintext p,
       inp_customer_id = customer_or_default (rot_customer_id p) (br_default_customer_id b),
       inp_metadata = rot_metadata p, inp_created_at = br_clock b 1, inp_expires_at = e,
       inp_lifecycle = rot_lifecycle p, inp_initial_lease_seconds = None, inp_unwrap_principal_id = owner \<rparr>"
  have "ready E (inp_customer_id i) (tick 1 b1)" using ready by (simp add: i_def b1_def ready_tick)
  moreover obtain rexp where "checked_add E (br_clock b 1) (br_redeem_token_ttl b) = Some rexp"
    using ready by (auto simp: ready_def)
  ultimately obtain o1 b2 where run: "persist_secret_v2_with_lifecycle E context i (tick 1 b1) = (Inr o1, b2)" "out_expires_at o1 = e"
    using persist_run [of E i "tick 1 b1" rexp "context"] by (auto simp: i_def b1_def)
  have "crypto_laws E" using ready by (simp add: ready_def)
  from run(1) have "view E (br_sealed_store b2) old \<noteq> None"
    by (rule persist_ok [OF \<open>crypto_laws E\<close> laws(1)]) (use s in \<open>auto simp: b1_def\<close>)
  then obtain b3 where "store_revoke E old (Some (unwrap_or (rot_rotation_reason p) ''rotated to replacement capability'')) b2 = (Inr True, b3)"
    by (rule store_revoke_run [OF laws])
  moreover have "max (unwrap_or (rot_threshold p) 1) 1 = 1" using req(1) by (simp add: max_def)
  moreover have "handle_identifier E (rot_old_handle p) b = (Inr old, b)"
    using old(1) by (simp add: handle_identifier_def run_sources slift_def)
  moreover have "br_clock b1 0 = br_clock b 1" "br_default_customer_id b1 = br_default_customer_id b" "br_max_handle_ttl b1 = br_max_handle_ttl b"
    by (simp_all add: b1_def)
  ultimately show ?thesis
    using old(3) load [folded b1_def] run ttl req(2)
    by (simp add: rotate_secret_impl_def run_sources Let_def sbind_step(1) run_log sret_def i_def)
qed

section \<open>A concrete instance\<close>

lemma owner_manages:
  "validate_v2_record_identity_requirements E r context = Inr () \<Longrightarrow> validate_v2_record_management_requirements E r context = Inr ()"
  by (auto simp: validate_v2_record_identity_requirements_def validate_v2_record_management_requirements_def
      validate_v2_record_identity_requirements_inner_def result_simps split: if_splits)

lemma v2_handle_identifier:
  assumes "digest_laws E" "b64_lossless E" "b64_alphabet E" "length h = 16" "printable_caveats E cs"
  shows "parse_handle_identifier E key (v2_handle E key h cs) = Inr h"
  using v2_handle_parses [OF assms] by (simp add: parse_handle_identifier_def mint_verifies)

definition sample_rotate :: "string \<Rightarrow> byte option \<Rightarrow> RotateSecretRequest" where
  "sample_rotate h n = \<lparr> rot_old_handle = h, rot_new_plaintext = [4, 5], rot_customer_id = None, rot_metadata = None, rot_ttl_seconds = None,
     rot_rotation_reason = None, rot_lifecycle = SingleUseUnwrap, rot_threshold = n, rot_num_shares = None \<rparr>"

definition holding :: "SealedStore \<Rightarrow> BrokerState" where
  "holding s = sample_broker\<lparr> br_sealed_store := s, br_entropy := \<lambda>_. 4 \<rparr>"

lemma holding_fresh: "issued_id sample_env 12 (holding s) \<noteq> uuid_v4 sample_env (replicate 16 3)"
  by (simp add: issued_id_def holding_def fill_def skip_def sample_env_defs sample_crypto_defs pad_to_def map_replicate_const)

lemma plain_printable: "printable_caveats sample_env (caveat_some Expires None @ [Action ''unwrap'', MaxUses])"
  using sample_caveats [of SingleUseUnwrap] by (simp add: wrap_caveats_def sample_wrap_def caveat_some_def)

text \<open>The sample broker that holds a wrapped secret, with its handle, and a rotation of that secret.\<close>

lemma sample_holds:
  obtains h s r where "parse_handle_identifier sample_env (br_handle_hmac_key (holding s)) h = Inr (uuid_v4 sample_env (replicate 16 3))"
    "view sample_env s (uuid_v4 sample_env (replicate 16 3)) = Some r"
    "validate_v2_record_management_requirements sample_env r sample_context = Inr ()"
proof -
  obtain w b0 where w: "wrap_secret_v2_impl sample_env sample_context (sample_wrap SingleUseUnwrap) sample_broker = (Inr w, b0)"
    "wro_expires_at w = None" using sample_wraps by blast
  obtain input o1 b2 where p: "persist_secret_v2_with_lifecycle sample_env sample_context input (tick 1 sample_broker) = (Inr o1, b2)"
    "inp_lifecycle input = SingleUseUnwrap" "v2_unwrap_principal sample_context (inp_lifecycle input) None = Inr (inp_unwrap_principal_id input)"
    "wro_handle w = v2_handle sample_env (br_handle_hmac_key sample_broker) (out_handle_id o1) (wrap_caveats (sample_wrap SingleUseUnwrap) (out_expires_at o1))"
    "out_expires_at o1 = None"
    using w(1) by (rule wrap_ok) (use w(2) in \<open>simp add: sample_wrap_def\<close>)
  obtain r where h: "out_handle_id o1 = uuid_v4 sample_env (fill (br_entropy (tick 1 sample_broker)) 16)"
    and v: "view sample_env (br_sealed_store b2) (out_handle_id o1) = Some r"
    and seals: "seals sample_env (br_handle_hmac_key (tick 1 sample_broker)) (br_crypto b2) sample_context input o1 r"
    using p(1) by (rule persist_ok [OF sample_env_laws(1,3)]) simp
  have id: "out_handle_id o1 = uuid_v4 sample_env (replicate 16 3)" using h by (simp add: sample_broker_def fill_def map_replicate_const)
  have "length (out_handle_id o1) = 16" using sample_env_laws(1) h by (simp add: crypto_laws_def)
  moreover have "b64_lossless sample_env" using sample_env_laws(3) by (simp add: store_laws_def)
  ultimately have "parse_handle_identifier sample_env (br_handle_hmac_key sample_broker) (wro_handle w) = Inr (out_handle_id o1)"
    unfolding p(4,5) by (intro v2_handle_identifier sample_env_laws sample_caveats)
  moreover have "validate_v2_record_management_requirements sample_env r sample_context = Inr ()"
    using seals owner_identity [OF sample_env_laws(5,6) _ p(3)] sample_context_facts
    by (auto simp: seals_def intro!: owner_manages)
  ultimately show thesis using that [of "br_sealed_store b2"] v id by (simp add: holding_def)
qed

lemma sample_rotates:
  assumes "unwrap_or n 1 \<le> 1"
  obtains h s out b1 where "parse_handle_identifier sample_env (br_handle_hmac_key (holding s)) h = Inr (uuid_v4 sample_env (replicate 16 3))"
    "rotate_secret_impl sample_env gf_curve rnd sample_context (sample_rotate h n) (holding s) = (Inr out, b1)" "ror_expires_at out = None"
proof -
  obtain h s r where h: "parse_handle_identifier sample_env (br_handle_hmac_key (holding s)) h = Inr (uuid_v4 sample_env (replicate 16 3))"
    "view sample_env s (uuid_v4 sample_env (replicate 16 3)) = Some r"
    "validate_v2_record_management_requirements sample_env r sample_context = Inr ()" by (rule sample_holds)
  have "v2_unwrap_principal sample_context SingleUseUnwrap None = Inr (Some ''spiffe://t/a'')"
    by (simp add: v2_unwrap_principal_def sample_context_facts normalized_context_principal_def trimmed_def [of None])
  moreover have "enforce_ttl sample_env t None now = Inr (None, None)" for t now by (simp add: enforce_ttl_def)
  moreover have "ready sample_env ''default'' (holding s)" using sample_ready by (simp add: holding_def)
  moreover have "br_default_customer_id (holding s) = ''default''" by (simp add: holding_def sample_broker_def)
  ultimately show thesis
    using rotate_run [OF sample_env_laws(3,4) _ _ h(3), where b = "holding s" and p = "sample_rotate h n"] h(1,2) that assms
    by (simp add: sample_rotate_def customer_or_default_def) (fastforce simp: holding_def)
qed

section \<open>Properties\<close>



end
