(* ===== verification/Wire.thy ===== *)
theory Wire
  imports Grpc Rotation
begin

text \<open>
  Secrets over the wire: what a client that follows the protocol gets from the service methods, when it sends back the
  handle and the redeem token of a reply unchanged.
\<close>

section \<open>Calls of handlers\<close>

lemma broker_context_iff [effect_simps]: "broker_context ext s = (Inr c, t) \<longleftrightarrow> ext = Some c \<and> s = t"
  by (auto simp: broker_context_def effect_simps result_simps)

lemma call_svc_iff [effect_simps]:
  "call_svc m s = (Inr x, t) \<longleftrightarrow> (\<exists>b. m (gs_broker s) = (Inr x, b) \<and> t = s\<lparr> gs_broker := b \<rparr>)"
  by (auto simp: call_svc_def effect_simps)

lemma empty_to_none_trimmed: "empty_to_none s = normalize_optional_string s"
  by (simp add: empty_to_none_def normalize_optional_string_def Let_def)

lemma empty_to_none_normal [simp]: "Option.bind (empty_to_none s) normalize_optional_string = empty_to_none s"
  by (simp add: empty_to_none_trimmed normalize_optional_string_def Let_def trim_idem)

section \<open>The round trip\<close>

text \<open>The message with which the caller that wrapped a secret asks for it back.\<close>

definition return_message :: "WrapSecretV2Message \<Rightarrow> WrapSecretResponse \<Rightarrow> UnwrapSecretV2Message" where
  "return_message req resp = \<lparr>
     pu_handle = pwr_handle resp, pu_redeem_token = pwr_redeem_token resp, pu_redeem_shares = [], pu_tenant_id = pw_tenant_id req,
     pu_provider = pw_provider req, pu_circuit_id = pw_circuit_id req, pu_node_id = pw_node_id req, pu_discharges = [] \<rparr>"

text \<open>The redeem token of a wrapped secret is the Base64 text of a digest.\<close>

lemma wrap_token:
  assumes "crypto_laws E" "store_laws E" "digest_laws E" "wrap_secret_v2_impl E context request b = (Inr out, b1)"
  obtains t where "t \<noteq> []" "wro_redeem_token out = b64_encode E t"
proof -
  from assms(4) obtain input o1 b2 where p: "persist_secret_v2_with_lifecycle E context input (tick 1 b) = (Inr o1, b2)"
    and o: "wro_redeem_token out = out_redeem_token o1" by (rule wrap_ok)
  from p obtain r where "seals E (br_handle_hmac_key (tick 1 b)) (br_crypto b2) context input o1 r"
    by (rule persist_ok [OF assms(1,2)])
  then obtain binding nonce where
    "out_redeem_token o1 = b64_encode E (compute_redeem_token E (br_handle_hmac_key (tick 1 b)) (out_handle_id o1) binding nonce)"
    unfolding seals_def by (elim exE conjE) (rule that)
  moreover have "length (compute_redeem_token E k h bd n) = 32" for k h bd n
    using assms(3) by (simp add: compute_redeem_token_def digest_laws_def hmac_32_def)
  then have "compute_redeem_token E k h bd n \<noteq> []" for k h bd n by (metis list.size(3) zero_neq_numeral)
  ultimately show thesis using that [of "compute_redeem_token E _ _ _ _"] o by metis
qed

lemma rpc_wrap_ok:
  assumes "crypto_laws E" "store_laws E" "digest_laws E" "rpc_wrap_secret_v2 E (Some c) req s = (Inr resp, s1)"
  obtains out b b1 where "wrap_secret_v2_impl E c (wrap_request req) b = (Inr out, b1)" "gs_broker s1 = b1"
    "pwr_handle resp = wro_handle out" "pwr_redeem_token resp \<noteq> []" "b64_encode E (pwr_redeem_token resp) = wro_redeem_token out"
    "pwr_expires_at resp = map_option (chrono_to_timestamp E) (wro_expires_at out)"
proof -
  from assms(4) obtain s0 out b1 t where w: "wrap_secret_v2_impl E c (wrap_request req) (gs_broker s0) = (Inr out, b1)"
    and s1: "s1 = s0\<lparr> gs_broker := b1 \<rparr>" and t: "b64_decode E (wro_redeem_token out) = Some t"
    and resp: "pwr_handle resp = wro_handle out" "pwr_redeem_token resp = t"
      "pwr_expires_at resp = map_option (chrono_to_timestamp E) (wro_expires_at out)"
    unfolding rpc_wrap_secret_v2_def
    by (simp only: effect_simps result_simps sum.inject prod.inject) (elim exE conjE, fastforce)
  obtain t' where "t' \<noteq> []" "wro_redeem_token out = b64_encode E t'" using w by (rule wrap_token [OF assms(1-3)])
  moreover from this have "t = t'" using t assms(2) by (simp add: store_laws_def b64_lossless_def)
  ultimately show thesis using that [OF w] s1 resp by simp
qed

lemma rpc_wrap_run:
  assumes "wrap_secret_v2_impl E c (wrap_request req) (tick 1 (gs_broker s)) = (Inr out, b1)"
    and "b64_decode E (wro_redeem_token out) = Some t" "s1 = s\<lparr> gs_broker := b1 \<rparr>"
  shows "rpc_wrap_secret_v2 E (Some c) req s = (Inr \<lparr>
     pwr_handle = wro_handle out, pwr_created_at = chrono_to_timestamp E (br_clock (gs_broker s) 0),
     pwr_expires_at = map_option (chrono_to_timestamp E) (wro_expires_at out), pwr_redeem_token = t,
     pwr_redeem_token_expires_at = map_option (chrono_to_timestamp E) (wro_redeem_token_expires_at out) \<rparr>, s1)"
  using assms by (simp add: rpc_wrap_secret_v2_def sbind_def broker_context_def call_svc_def szoom_def smap_err_def slift_def sret_def
      utc_now_def tick_def)

lemma return_request:
  assumes "pwr_handle resp = wro_handle out" "b64_encode E (pwr_redeem_token resp) = wro_redeem_token out" "pwr_redeem_token resp \<noteq> []"
    and "unwrap_secret_v2_impl E C c (owner_request (wrap_request req) out) (gs_broker s) = (Inr (b64_encode E plain), b)"
    and "b64_lossless E"
  shows "rpc_unwrap_secret_v2 E C (Some c) (return_message req resp) s = (Inr plain, s\<lparr> gs_broker := b \<rparr>)"
proof -
  have "unwrap_redeem E (return_message req resp) = Inr (wro_redeem_token out)"
    using assms(2,3) by (simp add: unwrap_redeem_def return_message_def)
  moreover have "owner_request (wrap_request req) out = \<lparr>
      unw_handle = pwr_handle resp, unw_redeem_token = wro_redeem_token out, unw_tenant_id = empty_to_none (pw_tenant_id req),
      unw_provider = empty_to_none (pw_provider req), unw_circuit_id = empty_to_none (pw_circuit_id req),
      unw_node_id = empty_to_none (pw_node_id req), unw_discharges = [] \<rparr>"
    by (simp add: owner_request_def wrap_request_def Let_def assms(1))
  ultimately show ?thesis
    using assms(4,5) unfolding rpc_unwrap_secret_v2_def b64_lossless_def
    by (simp add: effect_simps result_simps return_message_def parsed_discharges_def)
qed

text \<open>The sample broker behind the service, and the message of its sample secret.\<close>

definition sample_service :: "BrokerState \<Rightarrow> (unit, unit) SecretBrokerState" where
  "sample_service b = \<lparr> gs_broker = b, gs_postgres = None, gs_hsm = None \<rparr>"

definition sample_message :: WrapSecretV2Message where
  "sample_message = \<lparr>
     pw_plaintext = [1, 2, 3], pw_customer_id = [], pw_metadata = None, pw_lifecycle = 0,
     pw_initial_lease_seconds = 0, pw_label = [], pw_tenant_id = [], pw_provider = [], pw_circuit_id = [], pw_node_id = [],
     pw_unwrap_principal_id = [], pw_ttl_seconds = 0 \<rparr>"

lemma sample_message_request: "wrap_request sample_message = sample_wrap SingleUseUnwrap"
  by (simp add: wrap_request_def sample_message_def sample_wrap_def empty_to_none_def positive_def from_proto_i32_def trim_printable)

lemma sample_wire:
  obtains resp s1 where "rpc_wrap_secret_v2 sample_env (Some sample_context) sample_message (sample_service sample_broker) = (Inr resp, s1)"
    "pwr_expires_at resp = None"
proof -
  obtain out b1 where w: "wrap_secret_v2_impl sample_env sample_context (sample_wrap SingleUseUnwrap) sample_broker = (Inr out, b1)"
    "wro_expires_at out = None" using sample_wraps by blast
  obtain t where "wro_redeem_token out = b64_encode sample_env t"
    by (rule wrap_token [OF sample_env_laws(1,3,5) w(1)])
  then have "b64_decode sample_env (wro_redeem_token out) = Some t"
    using sample_env_laws(3) by (simp add: store_laws_def b64_lossless_def)
  moreover have "tick 1 sample_broker = sample_broker" by (simp add: tick_def sample_broker_def)
  ultimately show thesis
    using that [OF rpc_wrap_run [of sample_env sample_context sample_message "sample_service sample_broker" out b1 t]] w
    by (simp add: sample_message_request sample_service_def)
qed



section \<open>Rotation over the wire\<close>

text \<open>Base64 text is longer than the bytes it stands for.\<close>

definition b64_grows :: "'z ext_scheme \<Rightarrow> bool" where
  "b64_grows E \<longleftrightarrow> (\<forall>b. b \<noteq> [] \<longrightarrow> length b < length (b64_encode E b))"

lemma rpc_rotate_ok:
  assumes "rpc_rotate_secret E C rnd (Some c) req s = (Inr reply, s1)"
  obtains out b1 where "rotate_secret_impl E C rnd c (rotate_request req) (gs_broker s) = (Inr out, b1)" "s1 = s\<lparr> gs_broker := b1 \<rparr>"
    "prr_new_handle reply = ror_new_handle out" "prr_redeem_token reply = as_bytes (ror_redeem_token out)"
    "prr_new_shares reply = map proto_share (ror_new_shares out)"
  using assms unfolding rpc_rotate_secret_def
  by (simp only: effect_simps result_simps sum.inject prod.inject) (elim exE conjE, fastforce)

lemma rpc_rotate_run:
  assumes "rotate_secret_impl E C rnd c (rotate_request req) (gs_broker s) = (Inr out, b1)"
  shows "rpc_rotate_secret E C rnd (Some c) req s = (Inr \<lparr>
     prr_new_handle = ror_new_handle out, prr_created_at = chrono_to_timestamp E (ror_created_at out),
     prr_expires_at = map_option (chrono_to_timestamp E) (ror_expires_at out), prr_redeem_token = as_bytes (ror_redeem_token out),
     prr_redeem_token_expires_at = map_option (chrono_to_timestamp E) (ror_redeem_token_expires_at out),
     prr_old_revoked = ror_old_revoked out, prr_new_shares = map proto_share (ror_new_shares out) \<rparr>, s\<lparr> gs_broker := b1 \<rparr>)"
  using assms by (simp add: rpc_rotate_secret_def sbind_def broker_context_def call_svc_def szoom_def smap_err_def slift_def sret_def)

lemma low_byte_single: "(ucast (pr_threshold req) :: byte) \<le> 1 \<Longrightarrow> unwrap_or (rot_threshold (rotate_request req)) 1 \<le> 1"
  by (simp add: rotate_request_def unwrap_or_def)

lemma rotated_token_text:
  assumes "crypto_laws E" "store_laws E" "digest_laws E" "b64_grows E" "(ucast (pr_threshold req) :: byte) \<le> 1"
    and "rpc_rotate_secret E C rnd (Some c) req s = (Inr reply, s1)"
  shows "32 < length (prr_redeem_token reply)"
proof -
  from assms(6) obtain out b1 where r: "rotate_secret_impl E C rnd c (rotate_request req) (gs_broker s) = (Inr out, b1)"
    and t: "prr_redeem_token reply = as_bytes (ror_redeem_token out)" by (rule rpc_rotate_ok)
  obtain input b0 o1 b2 where p: "persist_secret_v2_with_lifecycle E c input b0 = (Inr o1, b2)" and o: "ror_redeem_token out = out_redeem_token o1"
    using r low_byte_single [OF assms(5)] by (rule rotate_ok)
  from p obtain rec where "seals E (br_handle_hmac_key b0) (br_crypto b2) c input o1 rec" by (rule persist_ok [OF assms(1,2)])
  then obtain bd n where "out_redeem_token o1 = b64_encode E (compute_redeem_token E (br_handle_hmac_key b0) (out_handle_id o1) bd n)"
    unfolding seals_def by (elim exE conjE) (rule that)
  moreover have "length (compute_redeem_token E k h d n) = 32" for k h d n
    using assms(3) by (simp add: compute_redeem_token_def digest_laws_def hmac_32_def)
  ultimately show ?thesis
    using assms(4) t o unfolding b64_grows_def by (metis length_as_bytes list.size(3) zero_neq_numeral)
qed

text \<open>The rotation of the sample secret over the service, for every threshold whose low byte is 1.\<close>

definition sample_rotation :: "string \<Rightarrow> 32 word \<Rightarrow> RotateSecretMessage" where
  "sample_rotation h n = \<lparr> pr_old_handle = h, pr_new_plaintext = [4, 5], pr_customer_id = [], pr_metadata = None, pr_ttl_seconds = 0,
     pr_lifecycle = 0, pr_rotation_reason = [], pr_threshold = n, pr_num_shares = 0 \<rparr>"

lemma sample_rotation_request:
  "0 < n \<Longrightarrow> rotate_request (sample_rotation h n) = sample_rotate h (Some (ucast n))"
  by (simp add: rotate_request_def sample_rotation_def sample_rotate_def nonempty_def positive_def from_proto_i32_def)

lemma sample_rotates_wire:
  assumes "0 < n" "(ucast n :: byte) \<le> 1"
  obtains h s reply s1 mac r where
    "rpc_rotate_secret sample_env gf_curve (\<lambda>_. 0) (Some sample_context) (sample_rotation h n) (sample_service (holding s)) = (Inr reply, s1)"
    "parse_handle_v2 sample_env (prr_new_handle reply) = Inr mac" "view sample_env (br_sealed_store (gs_broker s1)) (mac_identifier mac) = Some r"
    "rec_threshold r = None"
proof -
  obtain h s out b1 where h: "parse_handle_identifier sample_env (br_handle_hmac_key (holding s)) h = Inr (uuid_v4 sample_env (replicate 16 3))"
    and run: "rotate_secret_impl sample_env gf_curve (\<lambda>_. 0) sample_context (sample_rotate h (Some (ucast n))) (holding s) = (Inr out, b1)"
      "ror_expires_at out = None"
    by (rule sample_rotates [of "Some (ucast n)"]) (simp add: unwrap_or_def assms(2))
  have req: "unwrap_or (rot_threshold (sample_rotate h (Some (ucast n)))) 1 \<le> 1"
    "rot_old_handle (sample_rotate h (Some (ucast n))) = h" by (simp_all add: sample_rotate_def unwrap_or_def assms(2))
  obtain mac r where new: "parse_handle_v2 sample_env (ror_new_handle out) = Inr mac"
    "view sample_env (br_sealed_store b1) (mac_identifier mac) = Some r" "rec_threshold r = None"
    by (rule rotate_then_unwrap [OF sample_env_laws(1,3-8) run(1) req(1), where C' = gf_curve, unfolded req(2) run(2), OF h holding_fresh _ plain_printable])
       (simp_all add: sample_context_facts)
  let ?s = "sample_service (holding s)"
  have "rotate_secret_impl sample_env gf_curve (\<lambda>_. 0) sample_context (rotate_request (sample_rotation h n)) (gs_broker ?s) = (Inr out, b1)"
    using run(1) by (simp add: sample_rotation_request [OF assms(1)] sample_service_def)
  from rpc_rotate_run [OF this] new that show thesis by fastforce
qed

lemma sample_b64_grows: "b64_grows sample_env"
proof -
  have "length (hex_encode b) = 2 * length b" for b by (induction b) (simp_all add: hex_encode_def)
  then show ?thesis by (simp add: b64_grows_def sample_env_fields)
qed

text \<open>C40 (the redeem token of a rotation must be decoded first).  The bytes that a rotation returns as the redeem token of
  the new secret are not the token: sent back unchanged, as the bytes of the other replies are, they unwrap no
  record that is not split into shares, in any later state of the service.\<close>

theorem rotated_token_rejected:
  assumes "crypto_laws E" "store_laws E" "digest_laws E" "b64_grows E" "(ucast (pr_threshold req) :: byte) \<le> 1"
    and "rpc_rotate_secret E C rnd (Some c) req s = (Inr reply, s1)"
    and "pu_redeem_token msg = prr_redeem_token reply" "pu_redeem_shares msg = []"
    and "\<forall>mac r. parse_handle_v2 E (pu_handle msg) = Inr mac \<longrightarrow> view E (br_sealed_store (gs_broker u)) (mac_identifier mac) = Some r \<longrightarrow>
      record_threshold r \<le> 1"
  shows "\<exists>e u'. rpc_unwrap_secret_v2 E C' ext msg u = (Inl e, u')"
proof (cases "rpc_unwrap_secret_v2 E C' ext msg u")
  case (Pair q u')
  have long: "32 < length (pu_redeem_token msg)" using rotated_token_text [OF assms(1-6)] assms(7) by simp
  then have red: "unwrap_redeem E msg = Inr (b64_encode E (pu_redeem_token msg))" using assms(8) by (auto simp: unwrap_redeem_def)
  show ?thesis
  proof (cases q)
    case (Inr plain)
    with Pair have "rpc_unwrap_secret_v2 E C' ext msg u = (Inr plain, u')" by simp
    then obtain ctx p out b where run: "unwrap_secret_v2_impl E C' ctx p (gs_broker u) = (Inr out, b)"
      and h: "unw_handle p = pu_handle msg" "unw_redeem_token p = b64_encode E (pu_redeem_token msg)"
      unfolding rpc_unwrap_secret_v2_def red
      by (simp only: effect_simps result_simps sum.inject prod.inject) (elim exE conjE, hypsubst, rule that, assumption, simp_all)
    from run obtain mac r now where "parse_handle_v2 E (unw_handle p) = Inr mac" "view E (br_sealed_store (gs_broker u)) (mac_identifier mac) = Some r"
      and tok: "check_redeem_token E C' (br_handle_hmac_key (gs_broker u)) (mac_identifier mac) r ctx now (unw_redeem_token p) = Inr ()"
      by (elim unwrap_ok [OF assms(2)]) blast
    then have "(1 < record_threshold r) = False" using assms(9) h(1) by (simp add: not_less)
    moreover have "b64_decode E (b64_encode E d) = Some d" for d using assms(2) by (simp add: store_laws_def b64_lossless_def)
    ultimately have "\<exists>k h d n. compute_redeem_token E k h d n = pu_redeem_token msg"
      using tok h(2) by (auto simp: check_redeem_token_def provided_redeem_token_def canonical_token_def expected_redeem_token_def
          result_simps Let_def)
    then have "length (pu_redeem_token msg) = 32" using assms(3) unfolding compute_redeem_token_def digest_laws_def hmac_32_def by metis
    with long show ?thesis by simp
  qed (use Pair in blast)
qed

theorem rotated_token_rejected_witness:
  "\<exists>h s reply s1 e u'. rpc_rotate_secret sample_env gf_curve (\<lambda>_. 0) (Some sample_context) (sample_rotation h 1) (sample_service (holding s)) =
       (Inr reply, s1) \<and>
     rpc_unwrap_secret_v2 sample_env gf_curve (Some sample_context) \<lparr> pu_handle = prr_new_handle reply, pu_redeem_token = prr_redeem_token reply,
       pu_redeem_shares = [], pu_tenant_id = [], pu_provider = [], pu_circuit_id = [], pu_node_id = [], pu_discharges = [] \<rparr> s1 = (Inl e, u')"
proof -
  obtain h s reply s1 mac r where
    run: "rpc_rotate_secret sample_env gf_curve (\<lambda>_. 0) (Some sample_context) (sample_rotation h 1) (sample_service (holding s)) = (Inr reply, s1)"
    and new: "parse_handle_v2 sample_env (prr_new_handle reply) = Inr mac" "view sample_env (br_sealed_store (gs_broker s1)) (mac_identifier mac) = Some r"
      "rec_threshold r = None" by (rule sample_rotates_wire [of 1]) simp_all
  have "(ucast (pr_threshold (sample_rotation h 1)) :: byte) \<le> 1" by (simp add: sample_rotation_def)
  then have "\<exists>e u'. rpc_unwrap_secret_v2 sample_env gf_curve (Some sample_context) \<lparr> pu_handle = prr_new_handle reply,
      pu_redeem_token = prr_redeem_token reply, pu_redeem_shares = [], pu_tenant_id = [], pu_provider = [], pu_circuit_id = [], pu_node_id = [],
      pu_discharges = [] \<rparr> s1 = (Inl e, u')"
    by (rule rotated_token_rejected [OF sample_env_laws(1,3,5) sample_b64_grows _ run]) (use new in \<open>simp_all add: unwrap_or_def\<close>)
  with run show ?thesis by blast
qed

text \<open>Large thresholds of a rotation are reduced.  A rotation keeps only the low byte of the threshold it is asked for.
  When that byte is 0 or 1, whatever the number, the reply has no shares and a redeem token that opens the secret alone.\<close>

lemma rotate_threshold_wraps:
  assumes "rpc_rotate_secret E C rnd (Some c) req s = (Inr reply, s1)" "unat (pr_threshold req) mod 256 \<le> 1"
  shows "prr_new_shares reply = []"
proof -
  have "unat (ucast (pr_threshold req) :: byte) \<le> 1" using assms(2) by (simp add: unsigned_ucast_eq take_bit_eq_mod)
  then have "(ucast (pr_threshold req) :: byte) \<le> 1" by (simp add: word_le_nat_alt)
  then have single: "unwrap_or (rot_threshold (rotate_request req)) 1 \<le> 1" by (rule low_byte_single)
  from assms(1) obtain out b1 where run: "rotate_secret_impl E C rnd c (rotate_request req) (gs_broker s) = (Inr out, b1)"
    and shares: "prr_new_shares reply = map proto_share (ror_new_shares out)" by (rule rpc_rotate_ok)
  from run single have "ror_new_shares out = []" by (rule rotate_ok)
  with shares show ?thesis by simp
qed

lemma rotate_threshold_wraps_witness:
  "\<exists>h s reply s1. rpc_rotate_secret sample_env gf_curve (\<lambda>_. 0) (Some sample_context) (sample_rotation h 257) (sample_service (holding s)) =
     (Inr reply, s1) \<and> prr_new_shares reply = []"
proof -
  obtain h s reply s1 where
    run: "rpc_rotate_secret sample_env gf_curve (\<lambda>_. 0) (Some sample_context) (sample_rotation h 257) (sample_service (holding s)) = (Inr reply, s1)"
    by (rule sample_rotates_wire [of 257]) (simp_all add: word_le_nat_alt)
  have "unat (pr_threshold (sample_rotation h 257)) mod 256 \<le> 1" by (simp add: sample_rotation_def)
  from rotate_threshold_wraps [OF run this] run show ?thesis by blast
qed

end
