(* ===== verification/Store_Refinement.thy ===== *)
theory Store_Refinement
  imports Sealed_Store
begin

text \<open>
  The sealed store as a map.  Every operation of the store, on sealed bytes in a key-value tree, refines an operation on a
  plain map from handles to records: the abstraction is \<open>view\<close>, and the invariant is that every stored value can
  be opened and read.
\<close>

section \<open>The invariant\<close>

definition intact :: "'z store_ext_scheme \<Rightarrow> SealedStore \<Rightarrow> bool" where
  "intact E s \<longleftrightarrow> (\<forall>h d. store_tree s h = Some d \<longrightarrow> is_ok (unseal_record E (store_key s) d))"

lemma intact_view: "intact E s \<Longrightarrow> view E s h = None \<longleftrightarrow> store_tree s h = None"
  by (cases "store_tree s h") (fastforce simp: intact_def view_def is_ok_iff)+

lemma put_record_intact:
  assumes "store_laws E" "nonce_ok n" "put_record E w n h r s = (q, s')" "intact E s"
  shows "intact E s'"
proof (cases "rbind (seal_record E w (store_key s) n r) (tree_insert E (store_tree s) h)")
  case (Inr t)
  then obtain d where d: "seal_record E w (store_key s) n r = Inr d" and "tree_insert E (store_tree s) h d = Inr t"
    by (auto simp: result_simps)
  with store_lawsD(2) [OF assms(1)] have "t = (store_tree s)(h \<mapsto> d)" by blast
  with Inr assms(3,4) unseal_seal [OF assms(1,2) d] show ?thesis by (auto simp: put_record_def intact_def is_ok_iff split: if_splits)
qed (use assms(3,4) in \<open>auto simp: put_record_def\<close>)

lemma fetch_record_state: "fetch_record E h s = (q, s') \<Longrightarrow> s' = s"
  by (simp add: fetch_record_def)

lemma rmw_intact:
  assumes "store_laws E" "nonce_ok n" "intact E s" "\<And>t. snd (missing t) = t"
    and "sbind (fetch_record E h) (\<lambda>found. case found of None \<Rightarrow> missing
      | Some r \<Rightarrow> sbind (slift (f r)) (\<lambda>(x, r'). sbind (put_record E w n h r') (\<lambda>_. sret x))) s = (q, s')"
  shows "intact E s'"
proof -
  obtain p t where ft: "fetch_record E h s = (p, t)" by fastforce
  then have t: "t = s" by (rule fetch_record_state)
  consider "s' = s" | r' u where "put_record E w n h r' s = (u, s')"
    using ft t assms(4) [of s] assms(5)
    by (cases "missing s") (auto simp: sbind_def sret_def slift_def split: sum.splits option.splits prod.splits)
  then show ?thesis using put_record_intact [OF assms(1,2) _ assms(3)] assms(3) by cases blast+
qed

lemma modify_intact:
  assumes "store_laws E" "nonce_ok n" "modify_record E n h f s = (q, s')" "intact E s"
  shows "intact E s'"
  using rmw_intact [OF assms(1,2,4) _ assms(3) [unfolded modify_record_def]] by (simp add: sfail_def)

lemma delete_intact:
  assumes "store_laws E" "delete_op E h s = (q, s')" "intact E s"
  shows "intact E s'"
proof (cases "tree_remove E (store_tree s) h")
  case (Inr p)
  then have "s' = s \<or> s' = s\<lparr> store_tree := (store_tree s)(h := None) \<rparr>"
    using store_lawsD(3) [OF assms(1)] assms(2) by (cases p) (fastforce simp: delete_op_def)
  with assms(3) show ?thesis by (auto simp: intact_def split: if_splits)
qed (use assms(2,3) in \<open>auto simp: delete_op_def\<close>)

lemma store_step_intact:
  assumes "store_laws E" "store_step E c c'" "intact E (fst c)"
  shows "intact E (fst c')"
  using assms(2)
proof cases
  case (insert_step h used n r s q s')
  obtain p t where pt: "put_record E [] n h r s = (p, t)" by fastforce
  then have "t = s'" using insert_step by (cases p) (auto simp: insert_with_id_def sbind_def sret_def)
  with put_record_intact [OF assms(1) _ pt] insert_step assms(3) show ?thesis by simp
next
  case (load_step n now h s q s')
  with rmw_intact [OF assms(1), of n s "sret None"] assms(3) show ?thesis by (simp add: load_unfold sret_def)
next
  case (revoke_step n now h reason s q s')
  with rmw_intact [OF assms(1), of n s "sret False"] assms(3) show ?thesis by (simp add: revoke_unfold sret_def)
qed (use assms(1,3) in \<open>auto simp: modify_defs intro: modify_intact delete_intact\<close>)

section \<open>The abstract store\<close>

text \<open>The calls of the store with their arguments, and what they answer.\<close>

datatype store_call =
  Insert uuid StoredEnvelopeRecord
| Load instant uuid
| Delete uuid
| Threshold_Config uuid byte "string list"
| Caveat_Key uuid ThirdPartyCaveatKey
| Share_Assignments uuid "ShareAssignment list" "HeldShare list"
| Claim uuid string
| Redeem_Used uuid
| Renew instant uuid instant
| Revoke instant uuid "string option"

datatype store_reply = Handle uuid | Found "StoredEnvelopeRecord option" | Flag bool | Done | Claimed ClaimResult | Renewed StoredEnvelopeRecord

definition smap :: "('a \<Rightarrow> 'b) \<Rightarrow> ('s, 'e, 'a) effect \<Rightarrow> ('s, 'e, 'b) effect" where
  "smap g m = sbind m (\<lambda>x. sret (g x))"

lemma smap_iff [effect_simps]: "smap g m s = (Inr y, t) \<longleftrightarrow> (\<exists>x. m s = (Inr x, t) \<and> y = g x)"
  by (auto simp: smap_def effect_simps)

fun run_call :: "'z store_ext_scheme \<Rightarrow> bytes \<Rightarrow> store_call \<Rightarrow> (SealedStore, anyhow, store_reply) effect" where
  "run_call E n (Insert h r) = smap Handle (insert_with_id E n h r)"
| "run_call E n (Load now h) = smap Found (load E n now h)"
| "run_call E n (Delete h) = smap Flag (delete_op E h)"
| "run_call E n (Threshold_Config h k cs) = smap (\<lambda>_. Done) (update_threshold_config E n h k cs)"
| "run_call E n (Caveat_Key h e) = smap (\<lambda>_. Done) (append_third_party_caveat_key E n h e)"
| "run_call E n (Share_Assignments h as hs) = smap (\<lambda>_. Done) (update_share_assignments E n h as hs)"
| "run_call E n (Claim h cid) = smap Claimed (claim_custodian_share E n h cid)"
| "run_call E n (Redeem_Used h) = smap (\<lambda>_. Done) (mark_redeem_used E n h)"
| "run_call E n (Renew now h t) = smap Renewed (renew_lease E n now h t)"
| "run_call E n (Revoke now h reason) = smap Flag (revoke E n now h reason)"

text \<open>The same calls on a map.  A call on an unknown handle fails unless it is a lookup, a deletion or a revocation.\<close>

type_synonym records = "uuid \<rightharpoonup> StoredEnvelopeRecord"

definition amend :: "uuid \<Rightarrow> (StoredEnvelopeRecord \<Rightarrow> anyhow + store_reply \<times> StoredEnvelopeRecord) \<Rightarrow> records \<Rightarrow> (store_reply \<times> records) option" where
  "amend h f m = Option.bind (m h) (\<lambda>r. case f r of Inl _ \<Rightarrow> None | Inr (x, r') \<Rightarrow> Some (x, m(h \<mapsto> r')))"

fun spec_call :: "'z ext_scheme \<Rightarrow> store_call \<Rightarrow> records \<Rightarrow> (store_reply \<times> records) option" where
  "spec_call E (Insert h r) m = Some (Handle h, m(h \<mapsto> r))"
| "spec_call E (Load now h) m =
     (case m h of None \<Rightarrow> Some (Found None, m)
      | Some r \<Rightarrow> Some (Found (Some (r\<lparr> rec_last_accessed := Some now \<rparr>)), m(h \<mapsto> r\<lparr> rec_last_accessed := Some now \<rparr>)))"
| "spec_call E (Delete h) m = Some (Flag (m h \<noteq> None), m(h := None))"
| "spec_call E (Threshold_Config h k cs) m = amend h (\<lambda>r. Inr (Done, set_threshold k cs r)) m"
| "spec_call E (Caveat_Key h e) m = amend h (\<lambda>r. Inr (Done, add_caveat_key e r)) m"
| "spec_call E (Share_Assignments h as hs) m = amend h (\<lambda>r. Inr (Done, set_shares as hs r)) m"
| "spec_call E (Claim h cid) m = amend h (\<lambda>r. rbind (claim_record E cid r) (\<lambda>(x, r'). Inr (Claimed x, r'))) m"
| "spec_call E (Redeem_Used h) m = amend h (\<lambda>r. Inr (Done, consume_redeem r)) m"
| "spec_call E (Renew now h t) m = amend h (\<lambda>r. Inr (Renewed (extend_lease t now r), extend_lease t now r)) m"
| "spec_call E (Revoke now h reason) m =
     (case m h of None \<Rightarrow> Some (Flag False, m) | Some r \<Rightarrow> Some (Flag True, m(h \<mapsto> revoke_record reason now r)))"

section \<open>One call\<close>

lemma modify_refines:
  assumes "store_laws E" "nonce_ok n" "smap g (modify_record E n h f) s = (Inr y, s')"
    and "\<And>r. f' r = rbind (f r) (\<lambda>(x, r'). Inr (g x, r'))"
  shows "amend h f' (view E s) = Some (y, view E s')"
proof -
  from assms(3) obtain x where "modify_record E n h f s = (Inr x, s')" "y = g x" by (auto simp: effect_simps)
  with modify_ok [OF assms(1,2)] assms(4) show ?thesis by (fastforce simp: amend_def)
qed

lemma call_refines:
  assumes "store_laws E" "nonce_ok n" "intact E s" "run_call E n c s = (Inr y, s')"
  shows "spec_call E c (view E s) = Some (y, view E s')"
proof (cases c)
  case (Insert h r)
  with assms(4) show ?thesis by (auto simp: effect_simps dest!: insert_ok [OF assms(1,2)])
next
  case (Load now h)
  with assms(4) load_ok [OF assms(1,2)] show ?thesis by (fastforce simp: effect_simps split: option.splits)
next
  case (Delete h)
  with assms(4) obtain b where d: "delete_op E h s = (Inr b, s')" "y = Flag b" by (auto simp: effect_simps)
  with delete_op_cases [OF assms(1) d(1)] intact_view [OF assms(3), of h] Delete show ?thesis by auto
next
  case (Revoke now h reason)
  with assms(4) revoke_ok [OF assms(1,2)] show ?thesis by (fastforce simp: effect_simps split: option.splits)
qed (use assms(4) in \<open>auto simp: modify_defs Let_def intro!: modify_refines [OF assms(1,2)]\<close>)

text \<open>When no primitive fails, the store does everything its specification allows.\<close>

lemma fetch_missing:
  assumes "store_laws E" "store_available E" "intact E s" "view E s h = None"
  shows "fetch_record E h s = (Inr None, s)"
proof -
  obtain v where v: "tree_get E (store_tree s) h = Inr v" using assms(2) unfolding store_available_def is_ok_iff by blast
  moreover have "v = None" using store_lawsD(1) [OF assms(1) v] intact_view [OF assms(3)] assms(4) by simp
  ultimately show ?thesis by (simp add: fetch_record_def)
qed

lemma amend_available:
  assumes "store_laws E" "store_available E" "amend h f' (view E s) = Some (y, m)"
    and "\<And>r. f' r = rbind (f r) (\<lambda>(x, r'). Inr (g x, r'))"
  shows "\<exists>s'. smap g (modify_record E n h f) s = (Inr y, s')"
proof -
  from assms(3,4) obtain r x r' where "view E s h = Some r" "f r = Inr (x, r')" "y = g x"
    by (auto simp: amend_def result_simps split: Option.bind_splits sum.splits)
  moreover from this obtain s' where "modify_record E n h f s = (Inr x, s')" by (elim modify_available [OF assms(1,2)])
  ultimately show ?thesis by (auto simp: effect_simps)
qed

lemma delete_available:
  assumes "store_laws E" "store_available E"
  shows "\<exists>s'. delete_op E h s = (Inr (store_tree s h \<noteq> None), s')"
proof -
  obtain p where p: "tree_remove E (store_tree s) h = Inr p" using assms(2) unfolding store_available_def is_ok_iff by blast
  then obtain old t where r: "tree_remove E (store_tree s) h = Inr (old, t)" by (cases p) auto
  moreover have "tree_flush E t = Inr ()" using assms(2) by (simp add: store_available_def is_ok_iff)
  moreover have "old = store_tree s h" using store_lawsD(3) [OF assms(1) r] by simp
  ultimately show ?thesis by (simp add: delete_op_def)
qed

lemma call_available:
  assumes "store_laws E" "store_available E" "intact E s" "spec_call E c (view E s) = Some (y, m)"
  shows "\<exists>s'. run_call E n c s = (Inr y, s')"
proof (cases c)
  case (Insert h r)
  obtain s' where "insert_with_id E n h r s = (Inr h, s')" by (rule insert_available [OF assms(2)])
  with Insert assms(4) show ?thesis by (auto simp: effect_simps)
next
  case (Load now h)
  show ?thesis
  proof (cases "view E s h")
    case None
    with Load assms(4) fetch_missing [OF assms(1-3)] show ?thesis by (simp add: effect_simps load_def sbind_step sret_def)
  next
    case (Some r)
    then obtain s' where "load E n now h s = (Inr (Some (r\<lparr> rec_last_accessed := Some now \<rparr>)), s')" by (rule load_available [OF assms(1,2)])
    with Some Load assms(4) show ?thesis by (auto simp: effect_simps)
  qed
next
  case (Delete h)
  with assms(4) delete_available [OF assms(1,2), of h s] intact_view [OF assms(3), of h] show ?thesis by (auto simp: effect_simps)
next
  case (Revoke now h reason)
  show ?thesis
  proof (cases "view E s h")
    case None
    with Revoke assms(4) fetch_missing [OF assms(1-3)] show ?thesis by (auto simp: effect_simps revoke_def sbind_step sret_def)
  next
    case (Some r)
    then obtain s' where "revoke E n now h reason s = (Inr True, s')" by (rule revoke_available [OF assms(1,2)])
    with Some Revoke assms(4) show ?thesis by (auto simp: effect_simps)
  qed
qed (use assms(4) in \<open>simp_all add: modify_defs Let_def\<close>, (erule amend_available [OF assms(1,2)], simp)+)

section \<open>Sequences of calls\<close>

fun run_calls :: "'z store_ext_scheme \<Rightarrow> (bytes \<times> store_call) list \<Rightarrow> (SealedStore, anyhow, store_reply list) effect" where
  "run_calls E [] = sret []"
| "run_calls E ((n, c) # cs) = sbind (run_call E n c) (\<lambda>y. smap ((#) y) (run_calls E cs))"

fun spec_calls :: "'z ext_scheme \<Rightarrow> store_call list \<Rightarrow> records \<Rightarrow> (store_reply list \<times> records) option" where
  "spec_calls E [] m = Some ([], m)"
| "spec_calls E (c # cs) m =
     Option.bind (spec_call E c m) (\<lambda>(y, m1). map_option (\<lambda>(ys, m2). (y # ys, m2)) (spec_calls E cs m1))"

lemma smap_step: "smap g m s = (q, s') \<Longrightarrow> \<exists>p. m s = (p, s')"
  by (auto simp: smap_def sbind_def sret_def split: prod.splits sum.splits)

lemma run_call_intact:
  assumes "store_laws E" "nonce_ok n" "intact E s" "run_call E n c s = (q, s')"
  shows "intact E s'"
proof -
  have "\<exists>used. store_step E (s, {}) (s', used)"
    using assms(2,4) by (cases c) (simp_all, (drule smap_step, blast intro: store_step.intros)+)
  with store_step_intact [OF assms(1), of "(s, {})"] assms(3) show ?thesis by fastforce
qed

section \<open>A concrete instance\<close>

lemma sample_intact: "intact sample_store sample_sealed"
proof -
  let ?e = "\<lparr> store_tree = Map.empty, store_key = [7] \<rparr>"
  have "store_step sample_store (?e, {}) (sample_sealed, {sample_handle})"
    unfolding sample_sealed_def by (rule insert_step [OF _ _ prod.collapse [symmetric]]) simp_all
  from store_step_intact [OF sample_store_laws(1) this] show ?thesis by (simp add: intact_def)
qed

section \<open>Properties\<close>



text \<open>C24 (stored records stay readable).  Whatever calls are made on the store, with whatever outcome, a store in which every value
  can be opened and parsed stays one, and reading any handle succeeds when the tree can be read.\<close>

theorem store_stays_readable:
  assumes "store_laws E" "(store_step E)\<^sup>*\<^sup>* (s, used) (s', used')" "intact E s"
  shows "intact E s' \<and> (\<forall>h. is_ok (tree_get E (store_tree s') h) \<longrightarrow> (\<exists>f. fetch_record E h s' = (Inr f, s')))"
proof -
  have "intact E (fst (s', used'))"
    using assms(2) by (induction rule: rtranclp_induct) (auto simp: assms(3) intro: store_step_intact [OF assms(1)])
  moreover have "\<exists>f. fetch_record E h s' = (Inr f, s')" if "intact E s'" "tree_get E (store_tree s') h = Inr v" for h v
    using that store_lawsD(1) [OF assms(1) that(2)]
    by (cases "store_tree s' h") (fastforce simp: fetch_record_def intact_def is_ok_iff)+
  ultimately show ?thesis by (auto simp: is_ok_iff)
qed

theorem store_stays_readable_witness:
  "\<exists>s' f. delete_op sample_store sample_handle sample_sealed = (Inr True, s') \<and> intact sample_store s' \<and>
     fetch_record sample_store sample_handle s' = (Inr f, s')"
proof -
  obtain s' where d: "delete_op sample_store sample_handle sample_sealed = (Inr True, s')"
    using delete_available [OF sample_store_laws, of sample_handle sample_sealed] intact_view [OF sample_intact, of sample_handle]
    by (auto simp: view_sample_sealed)
  then have "(store_step sample_store)\<^sup>*\<^sup>* (sample_sealed, {}) (s', {})" by (blast intro: store_step.intros)
  moreover have "is_ok (tree_get sample_store (store_tree s') sample_handle)" using sample_store_laws(2) by (simp add: store_available_def)
  ultimately show ?thesis using store_stays_readable [OF sample_store_laws(1) _ sample_intact] d by blast
qed

end
