(* ===== verification/Spec2Isabelle.thy ===== *)
theory Spec2Isabelle
  imports Races Client_Policy Progress Wire Store_Refinement
begin

text \<open>
  \<^bold>\<open>The secret broker.\<close>  The repository is a service that seals secrets, hands out bearer
  handles for them and releases a secret to an authenticated workload that presents a valid handle.

  \<^bold>\<open>Theories.\<close>
  \<^item> \<open>Prelude\<close>, \<open>Rust_Std\<close>, \<open>Externals\<close>: results and effects, the Rust standard library functions the
    code uses, and the third-party crates as parameters.
  \<^item> \<open>Macaroon\<close>: \<open>secret_broker_impl/macaroon_caveats.rs\<close>.
  \<^item> \<open>Interpolation\<close>, \<open>Threshold\<close>: \<open>secret_broker_impl/threshold.rs\<close>.
  \<^item> \<open>Codec\<close>, \<open>Sealed_Store\<close>: \<open>secret_broker_impl/sealed_store.rs\<close>.
\<close>

end
